(* ===== verification/Prelude.thy ===== *)
theory Prelude
  imports Main "HOL-Library.Char_ord" "HOL-Library.List_Lexorder" "HOL-Library.Multiset"
    "HOL-Library.Word"
begin

text \<open>
  The prelude of the development: Go's error values and \<^verbatim>\<open>errors.Join\<close> /
  \<^verbatim>\<open>errors.Is\<close>, the generic "validate every element, reject a repeated key" loop that
  six packages of the repository write out by hand, the byte-string helpers of package
  \<^verbatim>\<open>strings\<close> that the code calls, sorting by a key, and two interfaces (locales) that
  several components implement: a cell that is written once (\<^verbatim>\<open>sync.Once\<close> and its
  hand-made variants) and a registry that sorts what it validated.
\<close>

named_theorems err_simps \<open>how errors.Join and errors.Is compute\<close>
named_theorems str_simps \<open>how the string helpers compute\<close>

section \<open>Error values\<close>

text \<open>
  A Go \<^verbatim>\<open>error\<close> that is not nil.  \<open>Errorf fmt args\<close> is the value made by
  \<^verbatim>\<open>errors.New\<close> (no arguments) and \<^verbatim>\<open>fmt.Errorf\<close>; an argument is the text
  of a \<^verbatim>\<open>%s\<close>/\<^verbatim>\<open>%q\<close> verb, the number of a \<^verbatim>\<open>%d\<close> verb, an error shown
  by \<^verbatim>\<open>%v\<close> (which is not unwrapped) or an error wrapped by \<^verbatim>\<open>%w\<close>.
  \<open>Joined\<close> is the value of \<^verbatim>\<open>errors.Join\<close>.  The rendered text is not modelled;
  a sentinel variable of the source is the \<open>Errorf\<close> value it is initialised with.
\<close>

datatype goerr = Errorf string "garg list" | Joined "goerr list"
  and garg = AStr string | AInt int | AShown goerr | AWrap goerr

type_synonym error = "goerr option"

abbreviation err_new :: "string \<Rightarrow> goerr" where
  "err_new msg \<equiv> Errorf msg []"

abbreviation err_wrap :: "string \<Rightarrow> goerr \<Rightarrow> goerr" where
  "err_wrap fmt e \<equiv> Errorf fmt [AWrap e]"

text \<open>\<^verbatim>\<open>errors.Is\<close>: the error itself or anything it wraps, transitively.\<close>

fun errors_is :: "goerr \<Rightarrow> goerr \<Rightarrow> bool"
  and arg_is :: "garg \<Rightarrow> goerr \<Rightarrow> bool" where
  "errors_is (Errorf fmt args) t \<longleftrightarrow> Errorf fmt args = t \<or> (\<exists>a \<in> set args. arg_is a t)"
| "errors_is (Joined es) t \<longleftrightarrow> Joined es = t \<or> (\<exists>e \<in> set es. errors_is e t)"
| "arg_is (AStr s) t \<longleftrightarrow> False"
| "arg_is (AInt i) t \<longleftrightarrow> False"
| "arg_is (AShown e) t \<longleftrightarrow> False"
| "arg_is (AWrap e) t \<longleftrightarrow> errors_is e t"

lemma errors_is_refl [simp]: "errors_is e e"
  by (cases e) auto

lemma errors_is_wrap [err_simps]:
  "errors_is (err_wrap fmt e) t \<longleftrightarrow> err_wrap fmt e = t \<or> errors_is e t"
  by simp

lemma errors_is_joined [err_simps]:
  "errors_is (Joined es) t \<longleftrightarrow> Joined es = t \<or> (\<exists>e \<in> set es. errors_is e t)"
  by simp

text \<open>The error tree a result carries: \<open>None\<close> (nil) carries nothing.\<close>

definition error_is :: "error \<Rightarrow> goerr \<Rightarrow> bool" where
  "error_is e t = (case e of None \<Rightarrow> False | Some x \<Rightarrow> errors_is x t)"

lemma error_is_simps [simp]:
  "error_is None t = False"
  "error_is (Some e) t = errors_is e t"
  by (simp_all add: error_is_def)

text \<open>\<^verbatim>\<open>errors.Join\<close> drops nil errors and is nil when nothing is left.\<close>

definition errors_join :: "error list \<Rightarrow> error" where
  "errors_join es = (case List.map_filter id es of [] \<Rightarrow> None | xs \<Rightarrow> Some (Joined xs))"

lemma map_filter_id_Nil: "List.map_filter id es = [] \<longleftrightarrow> (\<forall>e \<in> set es. e = None)"
  by (induction es) (auto simp: List.map_filter_def)

lemma set_map_filter_id: "x \<in> set (List.map_filter id es) \<longleftrightarrow> Some x \<in> set es"
  by (induction es) (auto simp: List.map_filter_def)

lemma errors_join_None [err_simps]: "errors_join es = None \<longleftrightarrow> (\<forall>e \<in> set es. e = None)"
  using map_filter_id_Nil [of es] by (auto simp: errors_join_def split: list.splits)

lemma errors_join_is:
  assumes "e \<in> set es" and "error_is e t"
  shows "error_is (errors_join es) t"
proof -
  from assms(2) obtain x where x: "e = Some x" and t: "errors_is x t"
    by (cases e) auto
  from assms(1) x have mem: "x \<in> set (List.map_filter id es)"
    by (simp add: set_map_filter_id)
  then have "errors_join es = Some (Joined (List.map_filter id es))"
    by (auto simp: errors_join_def split: list.splits)
  with mem t show ?thesis by auto
qed

lemma errors_join_nil_simps [simp]:
  "errors_join [] = None"
  "errors_join [None, e] = errors_join [e]"
  "errors_join [None] = None"
  by (simp_all add: errors_join_def List.map_filter_def)

lemma errors_join_Some: "Some x \<in> set es \<Longrightarrow> errors_join es \<noteq> None"
  by (auto simp: err_simps)

section \<open>The validation loop with a seen-set\<close>

text \<open>
  \<^verbatim>\<open>for _, x := range xs { if bad(x) { return err }; if seen[key(x)] { return dup };
  seen[key(x)] = {} }\<close>: the first error in source order, or nil.
\<close>

fun scan :: "('a \<Rightarrow> error) \<Rightarrow> ('a \<Rightarrow> 'k) \<Rightarrow> ('a \<Rightarrow> goerr) \<Rightarrow> 'k set \<Rightarrow> 'a list \<Rightarrow> error" where
  "scan bad key dup seen [] = None"
| "scan bad key dup seen (x # xs) =
     (case bad x of
        Some e \<Rightarrow> Some e
      | None \<Rightarrow> if key x \<in> seen then Some (dup x)
                else scan bad key dup (insert (key x) seen) xs)"

lemma scan_None:
  "scan bad key dup seen xs = None \<longleftrightarrow>
     (\<forall>x \<in> set xs. bad x = None) \<and> distinct (map key xs) \<and> key ` set xs \<inter> seen = {}"
  by (induction xs arbitrary: seen) (auto split: option.splits)

lemma scan_empty_None:
  "scan bad key dup {} xs = None \<longleftrightarrow> (\<forall>x \<in> set xs. bad x = None) \<and> distinct (map key xs)"
  by (simp add: scan_None)

lemma scan_mset_None:
  assumes "mset xs = mset ys"
  shows "scan bad key dup {} xs = None \<longleftrightarrow> scan bad key dup {} ys = None"
proof -
  have "set xs = set ys" using assms by (rule mset_eq_setD)
  moreover have "mset (map key xs) = mset (map key ys)" using assms by simp
  then have "distinct (map key xs) \<longleftrightarrow> distinct (map key ys)"
    by (rule mset_eq_imp_distinct_iff)
  ultimately show ?thesis by (simp add: scan_empty_None)
qed

section \<open>Byte strings\<close>

definition has_prefix :: "string \<Rightarrow> string \<Rightarrow> bool" where
  "has_prefix s p \<longleftrightarrow> take (length p) s = p"

definition trim_suffix :: "string \<Rightarrow> string \<Rightarrow> string" where
  "trim_suffix s q =
     (if length q \<le> length s \<and> drop (length s - length q) s = q
      then take (length s - length q) s else s)"

definition contains_any :: "string \<Rightarrow> string \<Rightarrow> bool" where
  "contains_any s cs \<longleftrightarrow> list_ex (\<lambda>c. c \<in> set cs) s"

definition trim_right :: "string \<Rightarrow> string \<Rightarrow> string" where
  "trim_right s cs = rev (dropWhile (\<lambda>c. c \<in> set cs) (rev s))"

definition trim_both :: "string \<Rightarrow> string \<Rightarrow> string" where
  "trim_both s cs = trim_right (dropWhile (\<lambda>c. c \<in> set cs) s) cs"

lemma has_prefix_iff: "has_prefix s p \<longleftrightarrow> (\<exists>r. s = p @ r)"
proof
  assume "has_prefix s p"
  then have "p @ drop (length p) s = s"
    by (simp add: has_prefix_def append_eq_conv_conj)
  then show "\<exists>r. s = p @ r" by metis
qed (auto simp: has_prefix_def)

lemma has_prefix_append [simp]: "has_prefix (p @ r) p"
  by (simp add: has_prefix_def)

lemma has_prefix_Nil [simp]: "has_prefix s []"
  by (simp add: has_prefix_def)

lemma trim_suffix_append [simp]: "trim_suffix (s @ q) q = s"
  by (simp add: trim_suffix_def)

lemma trim_suffix_other: "\<nexists>r. s = r @ q \<Longrightarrow> trim_suffix s q = s"
  unfolding trim_suffix_def by (auto dest: sym) (metis append_take_drop_id)

lemma contains_any_iff: "contains_any s cs \<longleftrightarrow> set s \<inter> set cs \<noteq> {}"
  by (auto simp: contains_any_def list_ex_iff)

lemma trim_both_id: "set s \<inter> set cs = {} \<Longrightarrow> trim_both s cs = s"
proof -
  assume disj: "set s \<inter> set cs = {}"
  then have "dropWhile (\<lambda>c. c \<in> set cs) s = s"
    by (intro dropWhile_eq_self_iff [THEN iffD2]) (cases s, simp, simp)
  moreover have "rev s = [] \<or> hd (rev s) \<notin> set cs"
    using disj by (cases s rule: rev_cases) auto
  then have "dropWhile (\<lambda>c. c \<in> set cs) (rev s) = rev s"
    by (simp add: dropWhile_eq_self_iff)
  ultimately show ?thesis by (simp add: trim_both_def trim_right_def)
qed

lemma trim_right_last: "trim_right s cs = [] \<or> last (trim_right s cs) \<notin> set cs"
  by (metis (no_types, lifting) hd_dropWhile last_rev rev_is_Nil_conv trim_right_def)

lemma trim_right_id: "s = [] \<or> last s \<notin> set cs \<Longrightarrow> trim_right s cs = s"
  by (cases s rule: rev_cases) (auto simp: trim_right_def)

text \<open>Decimal digits, as \<^verbatim>\<open>%d\<close> and \<^verbatim>\<open>strconv.FormatUint(n, 10)\<close> print them.\<close>

fun dec :: "nat \<Rightarrow> string" where
  "dec n = (if n < 10 then [char_of (48 + n)] else dec (n div 10) @ [char_of (48 + n mod 10)])"

declare dec.simps [simp del]

lemma dec_nonempty [simp]: "dec n \<noteq> []"
  by (subst dec.simps) simp

lemma dec_digit: "n < 10 \<Longrightarrow> dec n = [char_of (48 + n)]"
  by (subst dec.simps) simp

lemma digit_inj: "m < (10::nat) \<Longrightarrow> n < 10 \<Longrightarrow> (char_of (48 + m) :: char) = char_of (48 + n) \<Longrightarrow> m = n"
  by (simp add: char_of_eq_iff take_bit_eq_mod)

lemma dec_step: "\<not> n < 10 \<Longrightarrow> dec n = dec (n div 10) @ [char_of (48 + n mod 10)]"
  by (subst dec.simps) simp

lemma dec_inj: "dec m = dec n \<Longrightarrow> m = n"
proof (induction m arbitrary: n rule: less_induct)
  case (less m)
  show ?case
  proof (cases "m < 10")
    case True
    with less.prems show ?thesis
      by (cases "n < 10") (auto simp: dec_digit dec_step dest: digit_inj sym)
  next
    case m: False
    show ?thesis
    proof (cases "n < 10")
      case True
      with less.prems m show ?thesis by (simp add: dec_digit dec_step)
    next
      case n: False
      with less.prems m have "dec (m div 10) = dec (n div 10)"
        and last: "(char_of (48 + m mod 10) :: char) = char_of (48 + n mod 10)"
        by (simp_all add: dec_step)
      then have "m div 10 = n div 10"
        using m by (intro less.IH) auto
      moreover have "m mod 10 = n mod 10"
        using last by (intro digit_inj) auto
      ultimately show ?thesis by (metis div_mult_mod_eq)
    qed
  qed
qed

text \<open>\<^verbatim>\<open>hex.EncodeToString\<close>.\<close>

definition hex_digit :: "nat \<Rightarrow> char" where
  "hex_digit n = (if n < 10 then char_of (48 + n) else char_of (87 + n))"

definition hex_encode :: "string \<Rightarrow> string" where
  "hex_encode s = concat (map (\<lambda>c. [hex_digit (of_char c div 16), hex_digit (of_char c mod 16)]) s)"

lemma hex_encode_simps [simp]:
  "hex_encode [] = []"
  "hex_encode (c # s) = hex_digit (of_char c div 16) # hex_digit (of_char c mod 16) # hex_encode s"
  by (simp_all add: hex_encode_def)

lemma hex_encode_nonempty: "hex_encode s = [] \<longleftrightarrow> s = []"
  by (cases s) simp_all

section \<open>Sorting by a key\<close>

text \<open>
  \<^verbatim>\<open>slices.SortFunc\<close> and \<^verbatim>\<open>sort.Strings\<close> are modelled by the library's
  \<open>sort_key\<close>.  Go's sort is not stable, so the model agrees with it where the keys
  are pairwise different or equal keys mean equal elements; then the sorted permutation
  is unique, which is the next lemma.
\<close>

lemma sorted_key_unique:
  assumes "mset xs = mset ys" and "sorted (map key xs)" and "sorted (map key ys)"
    and "distinct (map key xs)"
  shows "xs = ys"
proof -
  have "mset (map key xs) = mset (map key ys)"
    using assms(1) by simp
  then have "sort (map key ys) = map key xs"
    using assms(2) by (rule properties_for_sort)
  then have keys: "map key xs = map key ys"
    using assms(3) by (simp add: sorted_sort_id)
  have "set ys = set xs"
    using assms(1) by (intro mset_eq_setD) simp
  moreover have "inj_on key (set xs)"
    using assms(4) by (simp add: distinct_map)
  ultimately have "inj_on key (set xs \<union> set ys)" by simp
  with keys show ?thesis by (rule map_inj_on)
qed

lemma sort_key_perm:
  assumes "mset xs = mset ys" and "distinct (map key xs)"
  shows "sort_key key xs = sort_key key ys"
proof (rule sorted_key_unique [where key = key])
  show "mset (sort_key key xs) = mset (sort_key key ys)" using assms(1) by simp
  have "mset (map key (sort_key key xs)) = mset (map key xs)" by simp
  then have "distinct (map key (sort_key key xs)) \<longleftrightarrow> distinct (map key xs)"
    by (rule mset_eq_imp_distinct_iff)
  then show "distinct (map key (sort_key key xs))" using assms(2) by simp
qed simp_all

lemma sort_perm: "mset xs = mset ys \<Longrightarrow> sort xs = sort ys"
  by (rule properties_for_sort) simp_all

section \<open>Contexts\<close>

text \<open>
  A \<^verbatim>\<open>context.Context\<close> is reduced to its deadline (\<open>None\<close>: no deadline), in
  nanoseconds on the process clock; \<^verbatim>\<open>context.WithTimeout\<close> taken at time \<open>now\<close>
  can only bring a deadline forward.
\<close>

type_synonym context_deadline = "int option"

definition with_timeout :: "int \<Rightarrow> context_deadline \<Rightarrow> int \<Rightarrow> context_deadline" where
  "with_timeout now ctx d =
     (case ctx of None \<Rightarrow> Some (now + d) | Some t \<Rightarrow> Some (min t (now + d)))"

abbreviation background :: context_deadline where
  "background \<equiv> None"

lemma with_timeout_le: "with_timeout now ctx d = Some t \<Longrightarrow> t \<le> now + d"
  by (auto simp: with_timeout_def split: option.splits)

lemma with_timeout_background [simp]: "with_timeout now None d = Some (now + d)"
  by (simp add: with_timeout_def)

section \<open>Interface: a cell that is written once\<close>

text \<open>
  \<open>put x s\<close> offers the value \<open>x\<close>, \<open>got s\<close> is what the cell holds, \<open>norm\<close>
  is what the cell makes of the offered value.  The contract: the first offer wins and
  later ones change nothing.
\<close>

locale write_once =
  fixes put :: "'x \<Rightarrow> 's \<Rightarrow> 's"
    and got :: "'s \<Rightarrow> 'v option"
    and norm :: "'x \<Rightarrow> 'v"
    and invar :: "'s \<Rightarrow> bool"
  assumes put_first: "invar s \<Longrightarrow> got s = None \<Longrightarrow> got (put x s) = Some (norm x)"
    and put_later: "invar s \<Longrightarrow> got s = Some v \<Longrightarrow> got (put x s) = Some v"
    and put_invar: "invar s \<Longrightarrow> invar (put x s)"
begin

lemma later_puts: "invar s \<Longrightarrow> got s = Some v \<Longrightarrow> got (fold put xs s) = Some v"
  by (induction xs arbitrary: s) (auto simp: put_later put_invar)

lemma puts_invar: "invar s \<Longrightarrow> invar (fold put xs s)"
  by (induction xs arbitrary: s) (auto simp: put_invar)

lemma first_put_wins: "invar s \<Longrightarrow> got s = None \<Longrightarrow> got (fold put (x # xs) s) = Some (norm x)"
  by (simp add: later_puts put_first put_invar)

lemma puts_result:
  "invar s \<Longrightarrow> got s = None \<Longrightarrow>
   got (fold put xs s) = (case xs of [] \<Rightarrow> None | x # _ \<Rightarrow> Some (norm x))"
  by (cases xs) (simp_all add: later_puts put_first put_invar)

end

section \<open>Interface: a registry that validates and sorts\<close>

text \<open>
  \<open>build xs\<close> is the constructor of a registry over the members of an unordered Fx
  value group.  The contract: what it returns is a rearrangement of the input, in
  increasing order of a key that no two members share, and whether it refuses does not
  depend on the order in which the group was supplied.
\<close>

locale sorted_registry =
  fixes build :: "'a list \<Rightarrow> goerr + 'a list"
    and key :: "'a \<Rightarrow> 'k::linorder"
  assumes build_perm: "build xs = Inr ys \<Longrightarrow> mset ys = mset xs"
    and build_sorted: "build xs = Inr ys \<Longrightarrow> sorted (map key ys)"
    and build_distinct: "build xs = Inr ys \<Longrightarrow> distinct (map key ys)"
    and build_accepts: "mset xs = mset xs' \<Longrightarrow> build xs = Inr ys \<Longrightarrow> \<exists>zs. build xs' = Inr zs"
begin

lemma build_order_independent:
  assumes "mset xs = mset xs'" and "build xs = Inr ys"
  shows "build xs' = Inr ys"
proof -
  from assms obtain zs where zs: "build xs' = Inr zs"
    using build_accepts by blast
  have "ys = zs"
  proof (rule sorted_key_unique [where key = key])
    show "mset ys = mset zs"
      using build_perm [OF assms(2)] build_perm [OF zs] assms(1) by simp
  qed (use build_sorted build_distinct assms(2) zs in auto)
  with zs show ?thesis by simp
qed

lemma build_unique_key:
  assumes "build xs = Inr ys" and "x \<in> set xs" and "y \<in> set xs" and "key x = key y"
  shows "x = y"
proof -
  have "set ys = set xs" using build_perm [OF assms(1)] by (rule mset_eq_setD)
  moreover have "inj_on key (set ys)"
    using build_distinct [OF assms(1)] by (simp add: distinct_map)
  ultimately show ?thesis using assms(2-4) by (auto dest: inj_onD)
qed

end

end
