(* ===== verification/Process.thy ===== *)
theory Process
  imports Prelude
begin

text \<open>
  The two process-wide cells every other package shares: \<^verbatim>\<open>bootstrap.Admission\<close>
  (\<^verbatim>\<open>src/bootstrap/admission.go\<close>), the flag that says whether normal work may be
  accepted, and \<^verbatim>\<open>process.Controller\<close> (\<^verbatim>\<open>src/process/process.go\<close>), which
  records the first stop request of the process.  The controller implements the
  \<open>write_once\<close> interface of the prelude.
\<close>

section \<open>Admission\<close>

record admission =
  adm_open :: bool

definition NewAdmission :: admission where
  "NewAdmission = \<lparr>adm_open = False\<rparr>"

definition Admission_Open :: "admission \<Rightarrow> admission" where
  "Admission_Open a = a\<lparr>adm_open := True\<rparr>"

definition Admission_Close :: "admission \<Rightarrow> admission" where
  "Admission_Close a = a\<lparr>adm_open := False\<rparr>"

definition Admission_IsOpen :: "admission \<Rightarrow> bool" where
  "Admission_IsOpen a = adm_open a"

lemma admission_simps [simp]:
  "\<not> Admission_IsOpen NewAdmission"
  "Admission_IsOpen (Admission_Open a)"
  "\<not> Admission_IsOpen (Admission_Close a)"
  "Admission_Open (Admission_Open a) = Admission_Open a"
  "Admission_Close (Admission_Close a) = Admission_Close a"
  by (simp_all add: NewAdmission_def Admission_Open_def Admission_Close_def Admission_IsOpen_def)

section \<open>The stop controller\<close>

text \<open>A \<^verbatim>\<open>StopReason\<close> is a Go string; the source names four of them.\<close>

type_synonym stop_reason = string

definition StopReasonContextCancelled :: stop_reason where
  "StopReasonContextCancelled = ''context_cancelled''"
definition StopReasonRequested :: stop_reason where
  "StopReasonRequested = ''requested''"
definition StopReasonRuntimeFailure :: stop_reason where
  "StopReasonRuntimeFailure = ''runtime_failure''"
definition StopReasonStartupFailure :: stop_reason where
  "StopReasonStartupFailure = ''startup_failure''"

lemmas stop_reason_defs = StopReasonContextCancelled_def StopReasonRequested_def
  StopReasonRuntimeFailure_def StopReasonStartupFailure_def

record request =
  rq_reason :: stop_reason
  rq_err :: error
  rq_restart :: bool

text \<open>
  \<open>ctl_once\<close> is the state of the \<^verbatim>\<open>sync.Once\<close>, \<open>ctl_done\<close> says whether the
  \<^verbatim>\<open>done\<close> channel is closed.  The zero request is what \<^verbatim>\<open>Request()\<close> returns
  before any stop request.
\<close>

record controller =
  ctl_once :: bool
  ctl_done :: bool
  ctl_request :: request

definition NewController :: controller where
  "NewController = \<lparr>ctl_once = False, ctl_done = False,
     ctl_request = \<lparr>rq_reason = '''', rq_err = None, rq_restart = False\<rparr>\<rparr>"

definition default_reason :: "request \<Rightarrow> request" where
  "default_reason r =
     (if rq_reason r = '''' then
        (if rq_err r \<noteq> None then r\<lparr>rq_reason := StopReasonRuntimeFailure\<rparr>
         else r\<lparr>rq_reason := StopReasonRequested\<rparr>)
      else r)"

definition RequestStop :: "controller \<Rightarrow> request \<Rightarrow> controller \<times> bool" where
  "RequestStop c r =
     (if ctl_once c then (c, False)
      else (c\<lparr>ctl_once := True, ctl_request := default_reason r, ctl_done := True\<rparr>, True))"

definition err_external_restart :: goerr where
  "err_external_restart = err_new ''external restart required''"

definition RequestExternalRestart :: "controller \<Rightarrow> error \<Rightarrow> controller \<times> bool" where
  "RequestExternalRestart c reason =
     (let reason' = (if reason = None then Some err_external_restart else reason)
      in RequestStop c \<lparr>rq_reason = StopReasonRequested, rq_err = reason', rq_restart = True\<rparr>)"

definition Controller_Done :: "controller \<Rightarrow> bool" where
  "Controller_Done c = ctl_done c"

definition Controller_Request :: "controller \<Rightarrow> request" where
  "Controller_Request c = ctl_request c"

text \<open>What a waiter on \<^verbatim>\<open>Done()\<close> sees: nothing, or the recorded request.\<close>

definition stop_seen :: "controller \<Rightarrow> request option" where
  "stop_seen c = (if Controller_Done c then Some (Controller_Request c) else None)"

definition controller_ok :: "controller \<Rightarrow> bool" where
  "controller_ok c \<longleftrightarrow> ctl_once c = ctl_done c"

lemma controller_ok_new [simp]: "controller_ok NewController"
  by (simp add: controller_ok_def NewController_def)

lemma stop_seen_new [simp]: "stop_seen NewController = None"
  by (simp add: stop_seen_def NewController_def Controller_Done_def)

lemma default_reason_nonempty: "rq_reason (default_reason r) \<noteq> ''''"
  by (simp add: default_reason_def stop_reason_defs)

lemma RequestStop_ok: "controller_ok c \<Longrightarrow> controller_ok (fst (RequestStop c r))"
  by (simp add: controller_ok_def RequestStop_def)

interpretation stop_cell: write_once "\<lambda>r c. fst (RequestStop c r)" stop_seen default_reason controller_ok
proof unfold_locales
qed (auto simp: controller_ok_def RequestStop_def stop_seen_def Controller_Done_def
       Controller_Request_def split: if_splits)

lemma RequestStop_accepts: "controller_ok c \<Longrightarrow> snd (RequestStop c r) \<longleftrightarrow> stop_seen c = None"
  by (simp add: controller_ok_def RequestStop_def stop_seen_def Controller_Done_def)

definition stop_after :: "request list \<Rightarrow> controller" where
  "stop_after rs = fold (\<lambda>r c. fst (RequestStop c r)) rs NewController"

lemma stop_after_ok: "controller_ok (stop_after rs)"
  unfolding stop_after_def by (rule stop_cell.puts_invar) simp

lemma stop_seen_after:
  "stop_seen (stop_after rs) = (case rs of [] \<Rightarrow> None | r # _ \<Rightarrow> Some (default_reason r))"
  unfolding stop_after_def by (rule stop_cell.puts_result) simp_all

section \<open>Properties\<close>

text \<open>
  whatever sequence of stop requests reaches the controller, the recorded request is
  the first one, with its reason filled in (so never empty), and only a request that
  finds no earlier one is accepted.
\<close>

theorem controller_first_request_wins:
  "stop_seen (stop_after rs) = (case rs of [] \<Rightarrow> None | r # _ \<Rightarrow> Some (default_reason r))
   \<and> snd (RequestStop (stop_after rs) q) = (rs = [])
   \<and> rq_reason (default_reason q) \<noteq> ''''"
  by (cases rs) (simp_all add: stop_seen_after RequestStop_accepts stop_after_ok default_reason_nonempty)

end
