(* ===== verification/Health.thy ===== *)
theory Health
  imports Process "HOL-Library.Product_Lexorder"
begin

text \<open>
  Health checks, \<^verbatim>\<open>src/health/health.go\<close>: the registry validates and sorts its checks,
  a request runs the checks of one kind concurrently under their own time limits and
  folds their results, in whatever order they arrive, into one report; readiness also
  depends on the admission flag, and the HTTP handler turns the report into a status code.
\<close>

section \<open>Data\<close>

text \<open>\<^verbatim>\<open>Kind\<close> and \<^verbatim>\<open>Status\<close> are \<^verbatim>\<open>uint8\<close>; any value can be written into them.\<close>

type_synonym kind = "8 word"
type_synonym status = "8 word"

definition Liveness :: kind where "Liveness = 1"
definition Readiness :: kind where "Readiness = 2"
definition StatusPass :: status where "StatusPass = 1"
definition StatusWarn :: status where "StatusWarn = 2"
definition StatusFail :: status where "StatusFail = 3"

lemmas kind_defs = Liveness_def Readiness_def
lemmas status_defs = StatusPass_def StatusWarn_def StatusFail_def

definition DefaultTimeout :: int where
  "DefaultTimeout = 5 * 1000000000"

record result =
  hr_status :: status
  hr_detail :: string
  hr_err :: error

text \<open>What the goroutine of a check observes first: the result, or the end of the context.\<close>

datatype check_race = CheckReturned result | CheckTimedOut goerr

record check =
  hc_name :: string
  hc_kind :: kind
  hc_timeout :: int
  hc_run :: "(context_deadline \<Rightarrow> check_race) option"

record check_result =
  cr_name :: string
  cr_status :: string
  cr_detail :: string

record report =
  rp_version :: string
  rp_status :: string
  rp_checks :: "check_result list"

record registry =
  rg_checks :: "check list"
  rg_admission :: admission

definition statusName :: "status \<Rightarrow> string" where
  "statusName s =
     (if s = StatusPass then ''pass'' else if s = StatusWarn then ''warn'' else ''fail'')"

section \<open>The registry\<close>

definition check_error :: "check \<Rightarrow> error" where
  "check_error c =
     (if hc_name c = '''' \<or> hc_run c = None
        then Some (err_new ''health check requires a name and runner'')
      else if hc_kind c \<noteq> Liveness \<and> hc_kind c \<noteq> Readiness
        then Some (err_new ''health check has an invalid kind'')
      else if hc_timeout c < 0
        then Some (err_new ''health check timeout is negative'')
      else None)"

text \<open>\<^verbatim>\<open>fmt.Sprintf("%d:%s", check.Kind, check.Name)\<close>\<close>

definition check_key :: "check \<Rightarrow> string" where
  "check_key c = dec (unat (hc_kind c)) @ '':'' @ hc_name c"

definition check_duplicate :: "check \<Rightarrow> goerr" where
  "check_duplicate c = err_new ''health check is registered more than once''"

definition check_order :: "check \<Rightarrow> string \<times> kind" where
  "check_order c = (hc_name c, hc_kind c)"

definition health_New :: "check list \<Rightarrow> admission \<Rightarrow> goerr + registry" where
  "health_New cs adm =
     (case scan check_error check_key check_duplicate {} cs of
        Some e \<Rightarrow> Inl e
      | None \<Rightarrow> Inr \<lparr>rg_checks = sort_key check_order cs, rg_admission = adm\<rparr>)"

section \<open>Running the checks\<close>

definition check_timeout :: "check \<Rightarrow> int" where
  "check_timeout c = (if hc_timeout c = 0 then DefaultTimeout else hc_timeout c)"

definition check_outcome :: "int \<Rightarrow> context_deadline \<Rightarrow> check \<Rightarrow> result" where
  "check_outcome now ctx c =
     (case hc_run c of
        None \<Rightarrow> \<lparr>hr_status = StatusFail, hr_detail = '''',
                  hr_err = Some (err_new ''invalid memory address or nil pointer dereference'')\<rparr>
      | Some run \<Rightarrow>
          (case run (with_timeout now ctx (check_timeout c)) of
             CheckReturned r \<Rightarrow> r
           | CheckTimedOut e \<Rightarrow> \<lparr>hr_status = StatusFail, hr_detail = '''', hr_err = Some e\<rparr>))"

definition selected_checks :: "registry \<Rightarrow> kind \<Rightarrow> check list" where
  "selected_checks reg k = filter (\<lambda>c. hc_kind c = k) (rg_checks reg)"

definition effective_status :: "result \<Rightarrow> status" where
  "effective_status r =
     (if hr_status r = 0 then (if hr_err r \<noteq> None then StatusFail else StatusPass) else hr_status r)"

text \<open>\<open>etext\<close> renders an error (\<^verbatim>\<open>err.Error()\<close>).\<close>

definition result_detail :: "(goerr \<Rightarrow> string) \<Rightarrow> bool \<Rightarrow> result \<Rightarrow> string" where
  "result_detail etext reveal r =
     (if reveal then
        (if hr_detail r = '''' then (case hr_err r of None \<Rightarrow> '''' | Some e \<Rightarrow> etext e)
         else hr_detail r)
      else '''')"

definition make_result :: "(goerr \<Rightarrow> string) \<Rightarrow> bool \<Rightarrow> check \<Rightarrow> result \<Rightarrow> check_result" where
  "make_result etext reveal c r =
     \<lparr>cr_name = hc_name c, cr_status = statusName (effective_status r),
      cr_detail = result_detail etext reveal r\<rparr>"

definition report_step ::
    "(goerr \<Rightarrow> string) \<Rightarrow> bool \<Rightarrow> check list \<Rightarrow> nat \<times> result
     \<Rightarrow> check_result list \<times> status \<Rightarrow> check_result list \<times> status" where
  "report_step etext reveal sel out acc =
     (let (i, r) = out; (results, overall) = acc; st = effective_status r
      in (results[i := make_result etext reveal (sel ! i) r],
          if st > overall then st else overall))"

definition empty_result :: check_result where
  "empty_result = \<lparr>cr_name = '''', cr_status = '''', cr_detail = ''''\<rparr>"

text \<open>
  \<open>arrivals\<close> lists the outcomes in the order the collecting loop receives them, each
  with the index of its check.
\<close>

definition Registry_Check ::
    "(goerr \<Rightarrow> string) \<Rightarrow> registry \<Rightarrow> kind \<Rightarrow> bool \<Rightarrow> (nat \<times> result) list \<Rightarrow> report" where
  "Registry_Check etext reg k reveal arrivals =
     (let sel = selected_checks reg k;
          (results, overall) =
            fold (report_step etext reveal sel) arrivals
                 (replicate (length sel) empty_result, StatusPass);
          overall' = (if k = Readiness \<and> \<not> Admission_IsOpen (rg_admission reg)
                      then StatusFail else overall)
      in \<lparr>rp_version = ''v1'', rp_status = statusName overall', rp_checks = results\<rparr>)"

definition check_arrivals ::
    "int \<Rightarrow> context_deadline \<Rightarrow> registry \<Rightarrow> kind \<Rightarrow> (nat \<times> result) list \<Rightarrow> bool" where
  "check_arrivals now ctx reg k arrivals \<longleftrightarrow>
     mset arrivals = mset (enumerate 0 (map (check_outcome now ctx) (selected_checks reg k)))"

text \<open>The handler: the status code it writes and the report it encodes as the body.\<close>

definition health_Handler ::
    "(goerr \<Rightarrow> string) \<Rightarrow> registry \<Rightarrow> kind \<Rightarrow> bool \<Rightarrow> (nat \<times> result) list \<Rightarrow> nat \<times> report" where
  "health_Handler etext reg k reveal arrivals =
     (let report = Registry_Check etext reg k reveal arrivals
      in (if rp_status report = ''fail'' then 503 else 200, report))"

section \<open>Lemmas on the registry\<close>

lemma check_error_None:
  "check_error c = None \<longleftrightarrow>
     hc_name c \<noteq> '''' \<and> hc_run c \<noteq> None \<and> hc_kind c \<in> {Liveness, Readiness} \<and> 0 \<le> hc_timeout c"
  by (auto simp: check_error_def)

lemma check_key_inj:
  assumes "check_error c = None" and "check_error d = None"
  shows "check_key c = check_key d \<longleftrightarrow> check_order c = check_order d"
proof -
  have "hc_kind c \<in> {1, 2}" and "hc_kind d \<in> {1, 2}"
    using assms by (simp_all add: check_error_None kind_defs)
  then show ?thesis
    by (auto simp: check_key_def check_order_def dec_digit)
qed

lemma check_keys_distinct:
  assumes "\<forall>c \<in> set cs. check_error c = None"
  shows "distinct (map check_key cs) \<longleftrightarrow> distinct (map check_order cs)"
proof -
  have "inj_on check_key (set cs) \<longleftrightarrow> inj_on check_order (set cs)"
    using assms by (auto simp: inj_on_def check_key_inj)
  then show ?thesis by (simp add: distinct_map)
qed

definition registry_build :: "check list \<Rightarrow> goerr + check list" where
  "registry_build cs = map_sum id rg_checks (health_New cs NewAdmission)"

lemma registry_build_eq:
  "registry_build cs = Inr ys \<longleftrightarrow>
     scan check_error check_key check_duplicate {} cs = None \<and> ys = sort_key check_order cs"
  by (auto simp: registry_build_def health_New_def split: option.splits)

lemma health_New_build:
  "health_New cs adm = Inr reg \<longleftrightarrow>
     registry_build cs = Inr (rg_checks reg) \<and> reg = \<lparr>rg_checks = rg_checks reg, rg_admission = adm\<rparr>"
  by (cases reg) (auto simp: registry_build_eq health_New_def split: option.splits)

interpretation checks: sorted_registry registry_build check_order
proof unfold_locales
  fix xs xs' ys :: "check list"
  assume "mset xs = mset xs'" and "registry_build xs = Inr ys"
  then show "\<exists>zs. registry_build xs' = Inr zs"
    by (auto simp: registry_build_eq dest!: scan_mset_None)
next
  fix xs ys :: "check list"
  assume ok: "registry_build xs = Inr ys"
  then show perm: "mset ys = mset xs" and "sorted (map check_order ys)"
    by (auto simp: registry_build_eq)
  have "\<forall>c \<in> set xs. check_error c = None" and "distinct (map check_key xs)"
    using ok by (auto simp: registry_build_eq scan_empty_None)
  then have "distinct (map check_order xs)"
    by (simp add: check_keys_distinct)
  moreover have "mset (map check_order ys) = mset (map check_order xs)"
    using perm by simp
  ultimately show "distinct (map check_order ys)"
    using mset_eq_imp_distinct_iff by blast
qed

section \<open>Lemmas on the report\<close>

lemma fst_report_fold:
  "fst (fold (report_step etext reveal sel) outs acc) =
   fold (\<lambda>(i, r) rs. rs[i := make_result etext reveal (sel ! i) r]) outs (fst acc)"
  by (induction outs arbitrary: acc) (auto simp: report_step_def Let_def split: prod.splits)

lemma snd_report_fold:
  "snd (fold (report_step etext reveal sel) outs acc) =
   fold max (map (effective_status \<circ> snd) outs) (snd acc)"
proof (induction outs arbitrary: acc)
  case (Cons out outs)
  have "snd (report_step etext reveal sel out acc) = max (effective_status (snd out)) (snd acc)"
    by (cases out; cases acc) (auto simp: report_step_def max_def Let_def)
  with Cons show ?case by simp
qed simp

lemma fold_updates_length [simp]:
  "length (fold (\<lambda>(i, r) rs. rs[i := f i r]) outs xs) = length xs"
  by (induction outs arbitrary: xs) auto

lemma fold_updates_notin:
  "i \<notin> fst ` set outs \<Longrightarrow> fold (\<lambda>(i, r) rs. rs[i := f i r]) outs xs ! i = xs ! i"
  by (induction outs arbitrary: xs) (auto split: prod.splits)

lemma fold_updates_nth:
  assumes "distinct (map fst outs)" and "(i, r) \<in> set outs" and "i < length xs"
  shows "fold (\<lambda>(i, r) rs. rs[i := f i r]) outs xs ! i = f i r"
  using assms
proof (induction outs arbitrary: xs)
  case (Cons out outs)
  show ?case
  proof (cases "out = (i, r)")
    case True
    with Cons.prems(1) have "i \<notin> fst ` set outs" by auto
    with True Cons.prems(3) show ?thesis by (simp add: fold_updates_notin)
  next
    case False
    with Cons show ?thesis by (cases out) auto
  qed
qed simp

lemma fold_updates_map:
  assumes "mset outs = mset (enumerate 0 rs)" and "length xs = length rs"
  shows "fold (\<lambda>(i, r) ys. ys[i := f i r]) outs xs = map (\<lambda>(i, r). f i r) (enumerate 0 rs)"
proof (rule nth_equalityI)
  fix i
  assume "i < length (fold (\<lambda>(i, r) ys. ys[i := f i r]) outs xs)"
  with assms(2) have i: "i < length rs" by simp
  have "mset (map fst outs) = mset (map fst (enumerate 0 rs))"
    using assms(1) by (metis mset_map)
  then have "distinct (map fst outs) \<longleftrightarrow> distinct (map fst (enumerate 0 rs))"
    by (rule mset_eq_imp_distinct_iff)
  moreover have "(i, rs ! i) \<in> set outs"
    using mset_eq_setD [OF assms(1)] i by (force simp: in_set_enumerate_eq)
  ultimately show "fold (\<lambda>(i, r) ys. ys[i := f i r]) outs xs ! i
      = map (\<lambda>(i, r). f i r) (enumerate 0 rs) ! i"
    using i assms(2) by (simp add: fold_updates_nth nth_enumerate_eq)
qed (use assms in simp)

text \<open>The report as a function of the checks alone: what every arrival order must produce.\<close>

definition overall_status :: "int \<Rightarrow> context_deadline \<Rightarrow> registry \<Rightarrow> kind \<Rightarrow> status" where
  "overall_status now ctx reg k =
     (if k = Readiness \<and> \<not> Admission_IsOpen (rg_admission reg) then StatusFail
      else fold max (map (effective_status \<circ> check_outcome now ctx) (selected_checks reg k)) StatusPass)"

definition health_report ::
    "(goerr \<Rightarrow> string) \<Rightarrow> int \<Rightarrow> context_deadline \<Rightarrow> registry \<Rightarrow> kind \<Rightarrow> bool \<Rightarrow> report" where
  "health_report etext now ctx reg k reveal =
     \<lparr>rp_version = ''v1'', rp_status = statusName (overall_status now ctx reg k),
      rp_checks = map (\<lambda>c. make_result etext reveal c (check_outcome now ctx c)) (selected_checks reg k)\<rparr>"

lemma fold_max_mset:
  fixes a :: "'a::linorder"
  assumes "mset xs = mset ys"
  shows "fold max xs a = fold max ys a"
  using mset_eq_setD [OF assms] by (simp flip: Max.set_eq_fold)

lemma fold_max_le:
  fixes a :: "'a::linorder"
  shows "fold max xs a \<le> b \<longleftrightarrow> a \<le> b \<and> (\<forall>x \<in> set xs. x \<le> b)"
  by (induction xs arbitrary: a) auto

lemma status_of_name: "statusName s = ''fail'' \<longleftrightarrow> s \<noteq> StatusPass \<and> s \<noteq> StatusWarn"
  by (simp add: statusName_def)

lemma effective_nonzero: "effective_status r \<noteq> 0"
  by (simp add: effective_status_def status_defs)

lemma small_status: "s \<noteq> 0 \<Longrightarrow> s \<le> StatusWarn \<longleftrightarrow> s = StatusPass \<or> s = StatusWarn"
proof -
  assume "s \<noteq> 0"
  then have "unat s \<noteq> 0" by (simp add: unat_eq_0)
  then have "unat s \<le> 2 \<longleftrightarrow> unat s = 1 \<or> unat s = 2" by auto
  then show ?thesis
    by (simp add: status_defs word_le_nat_alt word_unat_eq_iff)
qed

lemma Registry_Check_report:
  assumes "check_arrivals now ctx reg k arrivals"
  shows "Registry_Check etext reg k reveal arrivals = health_report etext now ctx reg k reveal"
proof -
  let ?sel = "selected_checks reg k" and ?rs = "map (check_outcome now ctx) (selected_checks reg k)"
  let ?init = "(replicate (length ?sel) empty_result, StatusPass)"
  let ?acc = "fold (report_step etext reveal ?sel) arrivals ?init"
  have arr: "mset arrivals = mset (enumerate 0 ?rs)"
    using assms by (simp add: check_arrivals_def)
  have "mset (map snd arrivals) = mset ?rs"
    using arg_cong [OF arr, of "image_mset snd"] by (simp flip: mset_map)
  then have "image_mset effective_status (mset (map snd arrivals)) = image_mset effective_status (mset ?rs)"
    by simp
  then have "mset (map (effective_status \<circ> snd) arrivals)
      = mset (map (effective_status \<circ> check_outcome now ctx) ?sel)"
    by (simp add: multiset.map_comp comp_def)
  then have overall: "snd ?acc = fold max (map (effective_status \<circ> check_outcome now ctx) ?sel) StatusPass"
    by (simp add: snd_report_fold fold_max_mset)
  have "fst ?acc = map (\<lambda>(i, r). make_result etext reveal (?sel ! i) r) (enumerate 0 ?rs)"
    using arr by (simp only: fst_report_fold fst_conv) (rule fold_updates_map, simp_all)
  also have "\<dots> = map (\<lambda>c. make_result etext reveal c (check_outcome now ctx c)) ?sel"
    by (rule nth_equalityI) (simp_all add: nth_enumerate_eq)
  finally show ?thesis
    using overall
    by (cases "?acc") (simp add: Registry_Check_def health_report_def overall_status_def Let_def)
qed

lemma overall_fail:
  "statusName (overall_status now ctx reg k) = ''fail'' \<longleftrightarrow>
     (k = Readiness \<and> \<not> Admission_IsOpen (rg_admission reg)) \<or>
     (\<exists>c \<in> set (selected_checks reg k).
        effective_status (check_outcome now ctx c) \<notin> {StatusPass, StatusWarn})"
proof -
  let ?m = "fold max (map (effective_status \<circ> check_outcome now ctx) (selected_checks reg k)) StatusPass"
  have "StatusPass \<le> ?m" using fold_max_le [of _ _ ?m] by blast
  then have "?m \<noteq> 0" by (auto simp: StatusPass_def)
  then have "statusName ?m = ''fail'' \<longleftrightarrow> \<not> ?m \<le> StatusWarn"
    by (simp add: status_of_name small_status)
  also have "\<dots> \<longleftrightarrow> (\<exists>c \<in> set (selected_checks reg k).
      effective_status (check_outcome now ctx c) \<notin> {StatusPass, StatusWarn})"
    by (auto simp: fold_max_le small_status [OF effective_nonzero])
       (auto simp: status_defs)
  finally show ?thesis
    by (auto simp: overall_status_def) (simp_all add: statusName_def status_defs)
qed

section \<open>Properties\<close>

text \<open>
  the registry accepts a group of checks exactly when each is named, has a runner, a
  known kind and a timeout that is not negative, and no two share kind and name; what it
  holds is the group in the order of (name, kind), whatever order the group came in.
\<close>

theorem health_registry_order_independent:
  assumes "mset cs = mset cs'"
  shows "((\<exists>reg. health_New cs adm = Inr reg) \<longleftrightarrow>
           (\<forall>c \<in> set cs. hc_name c \<noteq> '''' \<and> hc_run c \<noteq> None
              \<and> hc_kind c \<in> {Liveness, Readiness} \<and> 0 \<le> hc_timeout c)
           \<and> distinct (map (\<lambda>c. (hc_name c, hc_kind c)) cs))
         \<and> (\<forall>reg. health_New cs adm = Inr reg \<longrightarrow>
              health_New cs' adm = Inr reg \<and> mset (rg_checks reg) = mset cs
              \<and> sorted (map (\<lambda>c. (hc_name c, hc_kind c)) (rg_checks reg)))"
proof (intro conjI allI impI)
  have "(\<exists>reg. health_New cs adm = Inr reg) \<longleftrightarrow> scan check_error check_key check_duplicate {} cs = None"
    by (auto simp: health_New_def split: option.splits)
  then show "(\<exists>reg. health_New cs adm = Inr reg) \<longleftrightarrow>
           (\<forall>c \<in> set cs. hc_name c \<noteq> '''' \<and> hc_run c \<noteq> None
              \<and> hc_kind c \<in> {Liveness, Readiness} \<and> 0 \<le> hc_timeout c)
           \<and> distinct (map (\<lambda>c. (hc_name c, hc_kind c)) cs)"
    using check_keys_distinct [of cs]
    by (auto simp: scan_empty_None check_error_None check_order_def cong: map_cong)
next
  fix reg
  assume "health_New cs adm = Inr reg"
  then have reg: "registry_build cs = Inr (rg_checks reg)"
      "reg = \<lparr>rg_checks = rg_checks reg, rg_admission = adm\<rparr>"
    by (simp_all add: health_New_build)
  show "health_New cs' adm = Inr reg"
    using reg checks.build_order_independent [OF assms reg(1)] by (simp add: health_New_build)
  show "mset (rg_checks reg) = mset cs"
    using reg(1) by (rule checks.build_perm)
  show "sorted (map (\<lambda>c. (hc_name c, hc_kind c)) (rg_checks reg))"
    using checks.build_sorted [OF reg(1)] by (simp add: check_order_def [abs_def])
qed

text \<open>
  C8: the report does not depend on the order in which the concurrent checks finish: for
  every arrival order it lists the selected checks in registry order with their own
  outcome, and without \<^verbatim>\<open>revealDetails\<close> no detail text leaves the registry.
\<close>

theorem health_report_deterministic:
  assumes "check_arrivals now ctx reg k arrivals"
  shows "Registry_Check etext reg k reveal arrivals = health_report etext now ctx reg k reveal
         \<and> (\<forall>r \<in> set (rp_checks (Registry_Check etext reg k False arrivals)). cr_detail r = '''')"
  using assms
  by (auto simp: Registry_Check_report health_report_def make_result_def result_detail_def)

text \<open>
  the handler answers 503 exactly when a selected check neither passed nor warned or,
  for readiness only, the application is not admitting work; otherwise it answers 200.
\<close>

lemma health_status:
  assumes "check_arrivals now ctx reg k arrivals"
  shows "fst (health_Handler etext reg k reveal arrivals) =
           (if (k = Readiness \<and> \<not> Admission_IsOpen (rg_admission reg)) \<or>
               (\<exists>c \<in> set (rg_checks reg). hc_kind c = k \<and>
                  effective_status (check_outcome now ctx c) \<notin> {StatusPass, StatusWarn})
            then 503 else 200)"
proof -
  have "rp_status (Registry_Check etext reg k reveal arrivals) = statusName (overall_status now ctx reg k)"
    using assms by (simp add: Registry_Check_report health_report_def)
  then show ?thesis
    by (simp add: health_Handler_def Let_def overall_fail) (auto simp: selected_checks_def)
qed

definition ex_checks :: "check list" where
  "ex_checks =
     [\<lparr>hc_name = ''scheduler'', hc_kind = 2, hc_timeout = 0,
       hc_run = Some (\<lambda>_. CheckReturned \<lparr>hr_status = 0, hr_detail = ''ok'', hr_err = None\<rparr>)\<rparr>,
      \<lparr>hc_name = ''database'', hc_kind = 2, hc_timeout = 7,
       hc_run = Some (\<lambda>_. CheckTimedOut (err_new ''deadline''))\<rparr>]"

definition ex_registry :: registry where
  "ex_registry = \<lparr>rg_checks = rev ex_checks, rg_admission = Admission_Open NewAdmission\<rparr>"

definition ex_check_arrivals :: "(nat \<times> result) list" where
  "ex_check_arrivals =
     [(1, \<lparr>hr_status = 0, hr_detail = ''ok'', hr_err = None\<rparr>),
      (0, \<lparr>hr_status = 3, hr_detail = '''', hr_err = Some (err_new ''deadline'')\<rparr>)]"

lemma ex_arrivals_ok: "check_arrivals 0 None ex_registry Readiness ex_check_arrivals"
  by (simp add: check_arrivals_def ex_registry_def ex_checks_def ex_check_arrivals_def
      selected_checks_def check_outcome_def Readiness_def StatusFail_def)

theorem health_registry_order_independent_witness:
  "health_New (rev ex_checks) NewAdmission = health_New ex_checks NewAdmission
   \<and> health_New ex_checks NewAdmission \<noteq> Inl (err_new ''health check requires a name and runner'')"
proof -
  have eval: "health_New ex_checks NewAdmission =
      Inr \<lparr>rg_checks = rev ex_checks, rg_admission = NewAdmission\<rparr>"
    by (simp add: health_New_def ex_checks_def check_error_def check_key_def check_order_def
        kind_defs dec_digit)
  have "mset ex_checks = mset (rev ex_checks)" by simp
  from health_registry_order_independent [OF this, of NewAdmission] eval show ?thesis by simp
qed

theorem health_report_deterministic_witness:
  "rp_checks (Registry_Check (\<lambda>_. ''e'') ex_registry Readiness True ex_check_arrivals) =
     [\<lparr>cr_name = ''database'', cr_status = ''fail'', cr_detail = ''e''\<rparr>,
      \<lparr>cr_name = ''scheduler'', cr_status = ''pass'', cr_detail = ''ok''\<rparr>]"
  using health_report_deterministic [OF ex_arrivals_ok, of "\<lambda>_. ''e''" True]
  by (simp add: health_report_def ex_registry_def ex_checks_def selected_checks_def check_outcome_def
      make_result_def result_detail_def effective_status_def statusName_def status_defs Readiness_def)

end
