(* ===== verification/Server_Config.thy ===== *)
theory Server_Config
  imports Prelude
begin

text \<open>
  The HTTP server configuration shared by the fixed and the managed server:
  \<^verbatim>\<open>ServerConfig\<close>, its validation (\<^verbatim>\<open>src/http/server.go\<close>) and the
  normalisation the generation manager applies first (\<^verbatim>\<open>src/http/manager.go\<close>).
  \<^verbatim>\<open>net.SplitHostPort\<close> is modelled as the Go library writes it; loading PEM
  material (\<^verbatim>\<open>tls.X509KeyPair\<close>) is a parameter.
\<close>

section \<open>Requests, responses, TLS material\<close>

record http_request =
  hq_method :: string
  hq_path :: string
  hq_header :: "string \<Rightarrow> string"

record http_response =
  hs_status :: nat
  hs_header :: "string \<Rightarrow> string"
  hs_body :: string

type_synonym handler = "http_request \<Rightarrow> http_response"

definition NotFoundHandler :: handler where
  "NotFoundHandler r =
     \<lparr>hs_status = 404, hs_header = (\<lambda>k. if k = ''Content-Type'' then ''text/plain; charset=utf-8'' else ''''),
      hs_body = ''404 page not found''\<rparr>"

text \<open>
  A private key is known by the public key its \<^verbatim>\<open>Public()\<close> method returns, if it has
  that method.  A certificate is its chain of DER blocks, leaf first.
\<close>

record private_key =
  pk_public :: "string option"

record certificate =
  ct_chain :: "string list"
  ct_key :: "private_key option"

record tls_config =
  tc_min_version :: nat
  tc_certificates :: "certificate list"
  tc_get_certificate :: bool

type_synonym protocol = string

definition ProtocolHTTP :: protocol where "ProtocolHTTP = ''http''"
definition ProtocolHTTPS :: protocol where "ProtocolHTTPS = ''https''"

lemmas protocol_defs = ProtocolHTTP_def ProtocolHTTPS_def

text \<open>
  A nil slice of PEM bytes is \<open>None\<close>.  A runtime factory is an opaque number; what
  calling it does belongs to the environment of the manager.
\<close>

record server_config =
  sc_address :: string
  sc_read_header_timeout :: int
  sc_idle_timeout :: int
  sc_max_header_bytes :: int
  sc_protocol :: protocol
  sc_handler :: "handler option"
  sc_tls :: "tls_config option"
  sc_certificate_pem :: "string option"
  sc_private_key_pem :: "string option"
  sc_certificate :: "certificate option"
  sc_probe_server_name :: string
  sc_probe_path :: string
  sc_probe_identity :: string
  sc_probe_timeout :: int
  sc_drain_timeout :: int
  sc_max_draining :: int
  sc_force_close_hijacked :: bool
  sc_factory :: "nat option"

definition zero_config :: server_config where
  "zero_config = \<lparr>sc_address = '''', sc_read_header_timeout = 0, sc_idle_timeout = 0,
     sc_max_header_bytes = 0, sc_protocol = '''', sc_handler = None, sc_tls = None,
     sc_certificate_pem = None, sc_private_key_pem = None, sc_certificate = None,
     sc_probe_server_name = '''', sc_probe_path = '''', sc_probe_identity = '''',
     sc_probe_timeout = 0, sc_drain_timeout = 0, sc_max_draining = 0,
     sc_force_close_hijacked = False, sc_factory = None\<rparr>"

section \<open>Splitting an address\<close>

fun index_byte :: "string \<Rightarrow> char \<Rightarrow> nat option" where
  "index_byte [] c = None"
| "index_byte (x # xs) c = (if x = c then Some 0 else map_option Suc (index_byte xs c))"

definition last_index_byte :: "string \<Rightarrow> char \<Rightarrow> nat option" where
  "last_index_byte s c = map_option (\<lambda>i. length s - 1 - i) (index_byte (rev s) c)"

definition addr_error :: "string \<Rightarrow> string \<Rightarrow> goerr" where
  "addr_error addr why = Errorf ''address %s: %s'' [AStr addr, AStr why]"

text \<open>
  \<^verbatim>\<open>net.SplitHostPort\<close>: \<open>i\<close> is the last colon, \<open>j\<close> and \<open>k\<close> where a bracket may
  no longer appear.
\<close>

definition split_checked :: "string \<Rightarrow> string \<Rightarrow> nat \<Rightarrow> nat \<Rightarrow> nat \<Rightarrow> goerr + string \<times> string" where
  "split_checked hp host i j k =
     (if index_byte (drop j hp) (CHR ''['') \<noteq> None
        then Inl (addr_error hp ''unexpected '[' in address'')
      else if index_byte (drop k hp) (CHR '']'') \<noteq> None
        then Inl (addr_error hp ''unexpected ']' in address'')
      else Inr (host, drop (i + 1) hp))"

definition SplitHostPort :: "string \<Rightarrow> goerr + string \<times> string" where
  "SplitHostPort hp =
     (case last_index_byte hp (CHR '':'') of
        None \<Rightarrow> Inl (addr_error hp ''missing port in address'')
      | Some i \<Rightarrow>
          (if hd hp = CHR ''['' then
             (case index_byte hp (CHR '']'') of
                None \<Rightarrow> Inl (addr_error hp ''missing ']' in address'')
              | Some e \<Rightarrow>
                  (if e + 1 = length hp then Inl (addr_error hp ''missing port in address'')
                   else if e + 1 = i then split_checked hp (take (e - 1) (drop 1 hp)) i 1 (e + 1)
                   else if hp ! (e + 1) = CHR '':'' then Inl (addr_error hp ''too many colons in address'')
                   else Inl (addr_error hp ''missing port in address'')))
           else
             (let host = take i hp
              in if index_byte host (CHR '':'') \<noteq> None
                 then Inl (addr_error hp ''too many colons in address'')
                 else split_checked hp host i 0 0)))"

text \<open>\<^verbatim>\<open>host, _, _ := net.SplitHostPort(addr)\<close>: the empty string when splitting fails.\<close>

definition host_of :: "string \<Rightarrow> string" where
  "host_of addr = (case SplitHostPort addr of Inl _ \<Rightarrow> '''' | Inr (h, _) \<Rightarrow> h)"

section \<open>Validation\<close>

definition validateBasicServerConfig :: "server_config \<Rightarrow> error" where
  "validateBasicServerConfig c =
     (if sc_address c = '''' then Some (err_new ''HTTP address is empty'')
      else (case SplitHostPort (sc_address c) of
              Inl e \<Rightarrow> Some (err_wrap ''invalid HTTP address: %w'' e)
            | Inr _ \<Rightarrow>
                (if sc_read_header_timeout c < 0 \<or> sc_idle_timeout c < 0 \<or> sc_max_header_bytes c < 0
                 then Some (err_new ''HTTP limits must not be negative'')
                 else None)))"

definition pem_empty :: "string option \<Rightarrow> bool" where
  "pem_empty b = (case b of None \<Rightarrow> True | Some s \<Rightarrow> s = '''')"

definition effective_protocol :: "server_config \<Rightarrow> protocol" where
  "effective_protocol c = (if sc_protocol c = '''' then ProtocolHTTP else sc_protocol c)"

definition certificate_incomplete :: "certificate option \<Rightarrow> bool" where
  "certificate_incomplete c =
     (case c of None \<Rightarrow> False | Some cert \<Rightarrow> ct_chain cert = [] \<or> ct_key cert = None)"

definition ServerConfig_Validate :: "server_config \<Rightarrow> error" where
  "ServerConfig_Validate c =
     (case validateBasicServerConfig c of
        Some e \<Rightarrow> Some e
      | None \<Rightarrow>
          (let protocol = effective_protocol c in
           if protocol \<noteq> ProtocolHTTP \<and> protocol \<noteq> ProtocolHTTPS
             then Some (Errorf ''unsupported HTTP protocol %q'' [AStr protocol])
           else if sc_probe_path c \<noteq> '''' \<and>
                (\<not> has_prefix (sc_probe_path c) ''/'' \<or> contains_any (sc_probe_path c) ''?#'')
             then Some (err_new ''HTTP probe path must be an absolute path'')
           else if sc_probe_timeout c < 0 \<or> sc_drain_timeout c < 0 \<or> sc_max_draining c < 0
             then Some (err_new ''HTTP transition limits must not be negative'')
           else if protocol = ProtocolHTTPS then
             (if certificate_incomplete (sc_certificate c)
                then Some (err_new ''HTTPS certificate is incomplete'')
              else if sc_certificate c = None \<and> sc_tls c = None \<and>
                   (pem_empty (sc_certificate_pem c) \<or> pem_empty (sc_private_key_pem c))
                then Some (err_new ''HTTPS requires certificate material'')
              else None)
           else if sc_certificate c \<noteq> None \<or> sc_tls c \<noteq> None \<or>
                \<not> pem_empty (sc_certificate_pem c) \<or> \<not> pem_empty (sc_private_key_pem c)
             then Some (err_new ''TLS material supplied for HTTP protocol'')
           else None))"

section \<open>Normalisation\<close>

definition second :: int where "second = 1000000000"

definition default_probe_server_name :: "string \<Rightarrow> string" where
  "default_probe_server_name addr =
     (let host = host_of addr;
          host' = (if host = '''' \<or> host = ''0.0.0.0'' \<or> host = ''::'' \<or> host = ''[::''
                   then ''localhost'' else host)
      in trim_both host' ''[]'')"

definition with_defaults :: "server_config \<Rightarrow> server_config" where
  "with_defaults c =
     c\<lparr>sc_protocol := (if sc_protocol c = '''' then ProtocolHTTP else sc_protocol c),
       sc_probe_path := (if sc_probe_path c = '''' then ''/health/ready'' else sc_probe_path c),
       sc_probe_identity := (if sc_probe_identity c = '''' then ''hanami'' else sc_probe_identity c),
       sc_probe_timeout := (if sc_probe_timeout c = 0 then 3 * second else sc_probe_timeout c),
       sc_drain_timeout := (if sc_drain_timeout c = 0 then 10 * second else sc_drain_timeout c),
       sc_max_draining := (if sc_max_draining c = 0 then 2 else sc_max_draining c),
       sc_probe_server_name :=
         (if sc_probe_server_name c = '''' then default_probe_server_name (sc_address c)
          else sc_probe_server_name c),
       sc_handler := (case sc_handler c of None \<Rightarrow> Some NotFoundHandler | Some h \<Rightarrow> Some h)\<rparr>"

type_synonym x509_pair = "string option \<Rightarrow> string option \<Rightarrow> goerr + certificate"

definition load_pem :: "x509_pair \<Rightarrow> server_config \<Rightarrow> goerr + server_config" where
  "load_pem x509 c =
     (if sc_certificate_pem c \<noteq> None \<or> sc_private_key_pem c \<noteq> None then
        (case x509 (sc_certificate_pem c) (sc_private_key_pem c) of
           Inl e \<Rightarrow> Inl (err_wrap ''load TLS certificate: %w'' e)
         | Inr cert \<Rightarrow> Inr (c\<lparr>sc_certificate := Some cert\<rparr>))
      else Inr c)"

definition tls_has_no_certificate :: "server_config \<Rightarrow> bool" where
  "tls_has_no_certificate c =
     (sc_certificate c = None \<and>
      (case sc_tls c of None \<Rightarrow> False
       | Some t \<Rightarrow> tc_certificates t = [] \<and> \<not> tc_get_certificate t))"

definition ServerConfig_normalized :: "x509_pair \<Rightarrow> server_config \<Rightarrow> goerr + server_config" where
  "ServerConfig_normalized x509 config =
     (case load_pem x509 (with_defaults config) of
        Inl e \<Rightarrow> Inl e
      | Inr c \<Rightarrow>
          (case ServerConfig_Validate c of
             Some e \<Rightarrow> Inl e
           | None \<Rightarrow>
               (if sc_protocol c = ProtocolHTTPS \<and> tls_has_no_certificate c
                then Inl (err_new ''TLS config has no certificate'')
                else Inr c)))"

section \<open>Lemmas on addresses\<close>

lemma index_byte_None: "index_byte s c = None \<longleftrightarrow> c \<notin> set s"
  by (induction s) auto

lemma split_host_no_brackets:
  "split_checked hp host i j k = Inr (h, p) \<Longrightarrow>
   CHR ''['' \<notin> set (drop j hp) \<and> CHR '']'' \<notin> set (drop k hp) \<and> h = host"
  by (auto simp: split_checked_def index_byte_None split: if_splits)

lemma index_byte_take: "index_byte s c = Some e \<Longrightarrow> c \<notin> set (take e s)"
  by (induction s arbitrary: e) (auto split: if_splits)

lemma host_no_brackets: "SplitHostPort a = Inr (h, p) \<Longrightarrow> set h \<inter> set ''[]'' = {}"
proof -
  assume split: "SplitHostPort a = Inr (h, p)"
  then obtain i where i: "last_index_byte a (CHR '':'') = Some i"
    by (auto simp: SplitHostPort_def split: option.splits)
  show ?thesis
  proof (cases "hd a = CHR ''[''")
    case True
    with split i obtain e where e: "index_byte a (CHR '']'') = Some e"
      and h: "split_checked a (take (e - 1) (drop 1 a)) i 1 (e + 1) = Inr (h, p)"
      by (auto simp: SplitHostPort_def split: option.splits if_splits)
    have "CHR ''['' \<notin> set (drop 1 a)" and heq: "h = take (e - 1) (drop 1 a)"
      using split_host_no_brackets [OF h] by auto
    then have "CHR ''['' \<notin> set h" by (auto dest: in_set_takeD)
    moreover have "h = drop 1 (take e a)"
      unfolding heq by (cases e) (simp_all add: take_drop)
    then have "CHR '']'' \<notin> set h"
      using index_byte_take [OF e] by (auto dest: in_set_dropD)
    ultimately show ?thesis by auto
  next
    case False
    with split i have h: "split_checked a (take i a) i 0 0 = Inr (h, p)"
      by (auto simp: SplitHostPort_def Let_def split: if_splits)
    show ?thesis
      using split_host_no_brackets [OF h] by (auto dest: in_set_takeD)
  qed
qed

lemma host_of_no_brackets: "set (host_of a) \<inter> set ''[]'' = {}"
proof (cases "SplitHostPort a")
  case (Inr hp)
  then show ?thesis using host_no_brackets by (cases hp) (simp add: host_of_def)
qed (simp add: host_of_def)

lemma default_probe_server_name_nonempty: "default_probe_server_name a \<noteq> ''''"
proof -
  let ?h = "host_of a"
  let ?h' = "if ?h = '''' \<or> ?h = ''0.0.0.0'' \<or> ?h = ''::'' \<or> ?h = ''[::'' then ''localhost'' else ?h"
  have "set ?h' \<inter> set ''[]'' = {}"
    using host_of_no_brackets [of a] by simp
  then have "trim_both ?h' ''[]'' = ?h'" by (rule trim_both_id)
  then show ?thesis by (simp add: default_probe_server_name_def Let_def)
qed

text \<open>Splitting inverts the two ways of writing an address.\<close>

lemma index_byte_append: "c \<notin> set s \<Longrightarrow> index_byte (s @ c # r) c = Some (length s)"
  by (induction s) auto

lemma last_index_byte_append: "c \<notin> set r \<Longrightarrow> last_index_byte (s @ c # r) c = Some (length s)"
  by (simp add: last_index_byte_def index_byte_append)

lemma SplitHostPort_plain:
  assumes "set h \<inter> set '':[]'' = {}" and "set p \<inter> set '':[]'' = {}"
  shows "SplitHostPort (h @ '':'' @ p) = Inr (h, p)"
proof -
  have "hd (h @ '':'' @ p) \<noteq> CHR ''[''" using assms by (cases h) auto
  then show ?thesis
    using assms by (auto simp: SplitHostPort_def last_index_byte_append split_checked_def index_byte_None)
qed

section \<open>Lemmas on normalisation\<close>

lemma with_defaults_idem: "with_defaults (with_defaults c) = with_defaults c"
  by (simp add: with_defaults_def default_probe_server_name_nonempty protocol_defs second_def
      split: option.splits)

lemma with_defaults_certificate:
  "with_defaults (c\<lparr>sc_certificate := x\<rparr>) = (with_defaults c)\<lparr>sc_certificate := x\<rparr>"
  by (simp add: with_defaults_def)

lemma load_pem_with_defaults:
  "load_pem x509 (with_defaults c) = Inr d \<Longrightarrow> with_defaults d = d \<and> load_pem x509 d = Inr d"
  by (auto simp: load_pem_def with_defaults_certificate with_defaults_idem split: if_splits sum.splits)

lemma with_defaults_nonempty:
  "sc_protocol (with_defaults c) \<noteq> ''''"
  "sc_probe_path (with_defaults c) \<noteq> ''''"
  "sc_probe_identity (with_defaults c) \<noteq> ''''"
  "sc_probe_server_name (with_defaults c) \<noteq> ''''"
  "sc_probe_timeout (with_defaults c) \<noteq> 0"
  "sc_drain_timeout (with_defaults c) \<noteq> 0"
  "sc_max_draining (with_defaults c) \<noteq> 0"
  "sc_handler (with_defaults c) \<noteq> None"
  by (simp_all add: with_defaults_def protocol_defs default_probe_server_name_nonempty second_def
      split: option.splits)

lemma normalized_cases:
  assumes "ServerConfig_normalized x509 c = Inr d"
  obtains "load_pem x509 (with_defaults c) = Inr d" and "ServerConfig_Validate d = None"
    and "\<not> (sc_protocol d = ProtocolHTTPS \<and> tls_has_no_certificate d)"
  using assms by (auto simp: ServerConfig_normalized_def split: sum.splits option.splits if_splits)

lemma normalized_fixpoint:
  "ServerConfig_normalized x509 c = Inr d \<Longrightarrow> with_defaults d = d"
  by (blast elim: normalized_cases dest: load_pem_with_defaults)

lemma Validate_transition_limits:
  "ServerConfig_Validate c = None \<Longrightarrow>
     0 \<le> sc_probe_timeout c \<and> 0 \<le> sc_drain_timeout c \<and> 0 \<le> sc_max_draining c"
  by (auto simp: ServerConfig_Validate_def Let_def split: option.splits if_splits)

section \<open>Properties\<close>

text \<open>
  C14: a configuration that normalisation accepts is valid, has every default filled in
  with strictly positive time and draining limits, and is a fixed point: normalising it
  again (as \<^verbatim>\<open>Start\<close> does with the manager's own configuration) returns it unchanged.
\<close>

theorem normalized_valid_and_idempotent:
  assumes "ServerConfig_normalized x509 c = Inr d"
  shows "ServerConfig_Validate d = None
         \<and> ServerConfig_normalized x509 d = Inr d
         \<and> sc_protocol d \<in> {ProtocolHTTP, ProtocolHTTPS}
         \<and> sc_probe_path d \<noteq> '''' \<and> sc_probe_identity d \<noteq> '''' \<and> sc_probe_server_name d \<noteq> ''''
         \<and> 0 < sc_probe_timeout d \<and> 0 < sc_drain_timeout d \<and> 0 < sc_max_draining d
         \<and> sc_handler d \<noteq> None"
proof -
  have fixpt: "with_defaults d = d" using assms by (rule normalized_fixpoint)
  note filled = with_defaults_nonempty [of d, unfolded fixpt]
  from assms have valid: "ServerConfig_Validate d = None"
    and load: "load_pem x509 (with_defaults c) = Inr d"
    and tls: "\<not> (sc_protocol d = ProtocolHTTPS \<and> tls_has_no_certificate d)"
    by (auto elim: normalized_cases)
  have "ServerConfig_normalized x509 d = Inr d"
    using load_pem_with_defaults [OF load] valid tls fixpt by (auto simp: ServerConfig_normalized_def)
  moreover have "sc_protocol d \<in> {ProtocolHTTP, ProtocolHTTPS}"
    using valid filled(1)
    by (auto simp: ServerConfig_Validate_def effective_protocol_def Let_def split: option.splits if_splits)
  ultimately show ?thesis
    using valid filled Validate_transition_limits [OF valid] by simp
qed

text \<open>
  validation never lets TLS material through for the plain protocol, nor an HTTPS
  configuration without material; any other protocol is refused, and an accepted address
  can be split into host and port.
\<close>

theorem validate_tls_material:
  assumes "ServerConfig_Validate c = None"
  shows "(\<exists>h p. SplitHostPort (sc_address c) = Inr (h, p))
         \<and> effective_protocol c \<in> {ProtocolHTTP, ProtocolHTTPS}
         \<and> (effective_protocol c = ProtocolHTTP \<longrightarrow>
              sc_certificate c = None \<and> sc_tls c = None
              \<and> pem_empty (sc_certificate_pem c) \<and> pem_empty (sc_private_key_pem c))
         \<and> (effective_protocol c = ProtocolHTTPS \<longrightarrow>
              (sc_certificate c \<noteq> None \<and> \<not> certificate_incomplete (sc_certificate c))
              \<or> sc_tls c \<noteq> None
              \<or> \<not> pem_empty (sc_certificate_pem c) \<and> \<not> pem_empty (sc_private_key_pem c))"
  using assms
  by (auto simp: ServerConfig_Validate_def validateBasicServerConfig_def Let_def protocol_defs
      split: option.splits if_splits sum.splits)

definition ex_http :: server_config where
  "ex_http = zero_config\<lparr>sc_address := ''127.0.0.1:8081''\<rparr>"

lemma ex_address: "SplitHostPort ''127.0.0.1:8081'' = Inr (''127.0.0.1'', ''8081'')"
  by code_simp

lemma ex_http_valid: "ServerConfig_Validate ex_http = None"
  by (simp add: ServerConfig_Validate_def validateBasicServerConfig_def ex_http_def zero_config_def
      ex_address effective_protocol_def protocol_defs pem_empty_def)

lemma ex_http_normalized: "ServerConfig_normalized x509 ex_http = Inr (with_defaults ex_http)"
  by (simp add: ServerConfig_normalized_def load_pem_def with_defaults_def ex_http_def zero_config_def
      ServerConfig_Validate_def validateBasicServerConfig_def ex_address effective_protocol_def
      protocol_defs pem_empty_def second_def has_prefix_def contains_any_def)

theorem normalized_valid_and_idempotent_witness:
  "ServerConfig_normalized (\<lambda>_ _. Inl (err_new ''no pem'')) ex_http = Inr (with_defaults ex_http)
   \<and> ServerConfig_normalized (\<lambda>_ _. Inl (err_new ''no pem'')) (with_defaults ex_http)
       = Inr (with_defaults ex_http)"
  using normalized_valid_and_idempotent [OF ex_http_normalized] ex_http_normalized by blast

theorem validate_tls_material_witness:
  "ServerConfig_Validate ex_http = None \<and> sc_certificate ex_http = None"
proof -
  note ok = ex_http_valid
  have "effective_protocol ex_http = ProtocolHTTP"
    by (simp add: effective_protocol_def ex_http_def zero_config_def)
  then show ?thesis using ok validate_tls_material [OF ok] by simp
qed

end
