(* ===== verification/Fixed_Server.thy ===== *)
theory Fixed_Server
  imports Server_Config Process
begin

text \<open>
  The fixed HTTP server, \<^verbatim>\<open>src/http/server.go\<close>: construction, the admission handler in
  front of the application handler, start, the goroutine that serves and reports how
  serving ended, and stop.  The operating system's listener and the native server's
  \<^verbatim>\<open>Serve\<close>, \<^verbatim>\<open>Shutdown\<close> and \<^verbatim>\<open>Close\<close> are parameters.
\<close>

section \<open>The admission handler\<close>

definition unavailable_response :: http_response where
  "unavailable_response =
     \<lparr>hs_status = 503,
      hs_header = (\<lambda>k. if k = ''Content-Type'' then ''application/json'' else ''''),
      hs_body = ''{\"status\":\"unavailable\"}''\<rparr>"

definition admissionHandler :: "admission \<Rightarrow> handler \<Rightarrow> handler" where
  "admissionHandler adm next r =
     (if Admission_IsOpen adm \<or> hq_path r = ''/health/live'' \<or> hq_path r = ''/health/ready''
      then next r else unavailable_response)"

section \<open>State\<close>

text \<open>
  \<open>fs_handler\<close> is the application handler the admission handler guards; the admission is
  the shared cell, so the served handler is recomputed from its current value.
  \<open>fs_buffered\<close> and \<open>fs_done_closed\<close> are the channel \<^verbatim>\<open>done\<close>, of capacity one.
\<close>

record fixed_server =
  fs_addr :: string
  fs_handler :: handler
  fs_read_header_timeout :: int
  fs_idle_timeout :: int
  fs_max_header_bytes :: int
  fs_listener :: "string option"
  fs_buffered :: "error option"
  fs_done_closed :: bool

text \<open>The process-wide cells the server shares with the rest of the application.\<close>

record shared =
  sh_admission :: admission
  sh_controller :: controller

definition NewFixedServer :: "server_config \<Rightarrow> handler option \<Rightarrow> goerr + fixed_server" where
  "NewFixedServer c h =
     (case ServerConfig_Validate c of
        Some e \<Rightarrow> Inl e
      | None \<Rightarrow>
          (case h of
             None \<Rightarrow> Inl (err_new ''HTTP handler is nil'')
           | Some handler \<Rightarrow>
               Inr \<lparr>fs_addr = sc_address c, fs_handler = handler,
                    fs_read_header_timeout = sc_read_header_timeout c,
                    fs_idle_timeout = sc_idle_timeout c,
                    fs_max_header_bytes = sc_max_header_bytes c,
                    fs_listener = None, fs_buffered = None, fs_done_closed = False\<rparr>))"

definition fixed_served :: "shared \<Rightarrow> fixed_server \<Rightarrow> handler" where
  "fixed_served sh s = admissionHandler (sh_admission sh) (fs_handler s)"

section \<open>Start, the serving goroutine, stop\<close>

text \<open>\<open>listen\<close> is the operating system: it fails or returns the bound address.\<close>

definition FixedServer_Start ::
    "(string \<Rightarrow> goerr + string) \<Rightarrow> fixed_server \<Rightarrow> fixed_server \<times> error" where
  "FixedServer_Start listen s =
     (case listen (fs_addr s) of
        Inl e \<Rightarrow> (s, Some (Errorf ''listen on %s: %w'' [AStr (fs_addr s), AWrap e]))
      | Inr bound \<Rightarrow> (s\<lparr>fs_listener := Some bound\<rparr>, None))"

definition ErrServerClosed :: goerr where
  "ErrServerClosed = err_new ''http: Server closed''"

definition drop_server_closed :: "error \<Rightarrow> error" where
  "drop_server_closed e = (if error_is e ErrServerClosed then None else e)"

definition serve_loop_request :: "goerr \<Rightarrow> request" where
  "serve_loop_request e =
     \<lparr>rq_reason = StopReasonRuntimeFailure, rq_err = Some (err_wrap ''HTTP serve loop: %w'' e),
      rq_restart = False\<rparr>"

text \<open>The end of the goroutine, when \<^verbatim>\<open>Serve\<close> has returned \<open>err\<close>.\<close>

definition serve_returns :: "error \<Rightarrow> fixed_server \<Rightarrow> shared \<Rightarrow> fixed_server \<times> shared" where
  "serve_returns err s sh =
     (let err' = drop_server_closed err;
          s' = s\<lparr>fs_buffered := Some err', fs_done_closed := True\<rparr>
      in case err' of
           None \<Rightarrow> (s', sh)
         | Some e \<Rightarrow>
             (s', sh\<lparr>sh_admission := Admission_Close (sh_admission sh),
                     sh_controller := fst (RequestStop (sh_controller sh) (serve_loop_request e))\<rparr>))"

text \<open>
  A receive from \<^verbatim>\<open>done\<close>: the buffered value first, nil once the channel is closed,
  and nothing (the receiver waits) before.
\<close>

definition receive_done :: "fixed_server \<Rightarrow> (error \<times> fixed_server) option" where
  "receive_done s =
     (case fs_buffered s of
        Some e \<Rightarrow> Some (e, s\<lparr>fs_buffered := None\<rparr>)
      | None \<Rightarrow> if fs_done_closed s then Some (None, s) else None)"

text \<open>
  \<^verbatim>\<open>Stop\<close>.  \<open>shutdown\<close> and \<open>close\<close> are what the native server returns; \<open>at_wait\<close> is
  the server as the \<^verbatim>\<open>select\<close> finds it (the goroutine may have finished meanwhile);
  \<open>ctx_err\<close> is the error of the context if it has ended, and \<open>pick_ctx\<close> the choice of
  the \<^verbatim>\<open>select\<close> when both are ready.  \<open>None\<close>: nothing is ready and \<^verbatim>\<open>Stop\<close> waits.
\<close>

definition FixedServer_Stop ::
    "error \<Rightarrow> error \<Rightarrow> error \<Rightarrow> bool \<Rightarrow> fixed_server \<Rightarrow> shared
     \<Rightarrow> (fixed_server \<times> shared \<times> error) option" where
  "FixedServer_Stop shutdown close ctx_err pick_ctx at_wait sh =
     (let sh' = sh\<lparr>sh_admission := Admission_Close (sh_admission sh)\<rparr>;
          shutdownErr = (if shutdown \<noteq> None then errors_join [shutdown, close] else shutdown)
      in case (receive_done at_wait, ctx_err) of
           (None, None) \<Rightarrow> None
         | (None, Some e) \<Rightarrow> Some (at_wait, sh', errors_join [shutdownErr, Some e])
         | (Some (serveErr, s'), None) \<Rightarrow> Some (s', sh', errors_join [shutdownErr, serveErr])
         | (Some (serveErr, s'), Some e) \<Rightarrow>
             (if pick_ctx then Some (at_wait, sh', errors_join [shutdownErr, Some e])
              else Some (s', sh', errors_join [shutdownErr, serveErr])))"

definition FixedServer_Address :: "fixed_server \<Rightarrow> string" where
  "FixedServer_Address s = (case fs_listener s of None \<Rightarrow> fs_addr s | Some a \<Rightarrow> a)"

section \<open>Lemmas\<close>

lemma serve_returns_done: "receive_done (fst (serve_returns err s sh)) \<noteq> None"
  by (simp add: serve_returns_def receive_done_def Let_def split: option.splits)

lemma serve_returns_value:
  "receive_done (fst (serve_returns err s sh)) =
     Some (drop_server_closed err, (fst (serve_returns err s sh))\<lparr>fs_buffered := None\<rparr>)"
  by (simp add: serve_returns_def receive_done_def Let_def split: option.splits)

section \<open>Properties\<close>

text \<open>
  when the serving loop of the fixed server ends with a real error, admission closes,
  so every path but the two health paths answers 503, a stop with a runtime failure
  wrapping that error is on record (unless an earlier request already was), and a later
  \<^verbatim>\<open>Stop\<close> whose context has not ended returns, with that error inside.
\<close>

theorem serve_failure_is_supervised:
  assumes "serve_returns (Some e) s sh = (s', sh')" and "\<not> errors_is e ErrServerClosed"
    and "controller_ok (sh_controller sh)"
  shows "\<not> Admission_IsOpen (sh_admission sh')
         \<and> (hq_path r \<notin> {''/health/live'', ''/health/ready''} \<longrightarrow> hs_status (fixed_served sh' s' r) = 503)
         \<and> stop_seen (sh_controller sh') =
             Some (case stop_seen (sh_controller sh) of None \<Rightarrow> serve_loop_request e | Some q \<Rightarrow> q)
         \<and> (\<exists>s2 sh2 err. FixedServer_Stop shutdown close None pick s' sh' = Some (s2, sh2, err)
              \<and> error_is err e)"
proof -
  have s': "s' = fst (serve_returns (Some e) s sh)" and drop: "drop_server_closed (Some e) = Some e"
    using assms(1,2) by (simp_all add: drop_server_closed_def)
  have sh': "sh' = sh\<lparr>sh_admission := Admission_Close (sh_admission sh),
      sh_controller := fst (RequestStop (sh_controller sh) (serve_loop_request e))\<rparr>"
    using assms(1) drop by (auto simp: serve_returns_def Let_def)
  have norm: "default_reason (serve_loop_request e) = serve_loop_request e"
    by (simp add: default_reason_def serve_loop_request_def stop_reason_defs)
  have stop: "stop_seen (sh_controller sh') =
      Some (case stop_seen (sh_controller sh) of None \<Rightarrow> serve_loop_request e | Some q \<Rightarrow> q)"
    using assms(3) stop_cell.put_first stop_cell.put_later
    by (cases "stop_seen (sh_controller sh)") (simp_all add: sh' norm)
  have rcv: "receive_done s' = Some (Some e, s'\<lparr>fs_buffered := None\<rparr>)"
    unfolding s' serve_returns_value drop ..
  have "error_is (errors_join [x, Some e]) e" for x
    by (rule errors_join_is [of "Some e"]) simp_all
  with rcv have "\<exists>s2 sh2 err. FixedServer_Stop shutdown close None pick s' sh' = Some (s2, sh2, err)
      \<and> error_is err e"
    by (auto simp: FixedServer_Stop_def Let_def)
  with stop show ?thesis
    by (auto simp: sh' fixed_served_def admissionHandler_def unavailable_response_def)
qed

text \<open>
  the fixed server is built from the address, the limits and the handler alone: two
  accepted configurations that differ only in protocol and TLS material give the same
  server, so an HTTPS configuration is accepted and served in clear text.
\<close>

theorem fixed_server_ignores_tls:
  assumes "ServerConfig_Validate c = None" and "ServerConfig_Validate d = None"
    and "sc_address d = sc_address c" and "sc_read_header_timeout d = sc_read_header_timeout c"
    and "sc_idle_timeout d = sc_idle_timeout c" and "sc_max_header_bytes d = sc_max_header_bytes c"
  shows "NewFixedServer d h = NewFixedServer c h"
  using assms by (simp add: NewFixedServer_def split: option.splits)

definition ex_certificate :: certificate where
  "ex_certificate = \<lparr>ct_chain = [''leaf''], ct_key = Some \<lparr>pk_public = Some ''key''\<rparr>\<rparr>"

definition ex_https :: server_config where
  "ex_https = ex_http\<lparr>sc_protocol := ''https'', sc_certificate := Some ex_certificate\<rparr>"

lemma ex_https_valid: "ServerConfig_Validate ex_https = None"
  by (simp add: ServerConfig_Validate_def validateBasicServerConfig_def ex_https_def ex_http_def
      zero_config_def ex_address effective_protocol_def protocol_defs certificate_incomplete_def
      ex_certificate_def)

theorem fixed_server_ignores_tls_witness:
  "NewFixedServer ex_https (Some NotFoundHandler) = NewFixedServer ex_http (Some NotFoundHandler)
   \<and> effective_protocol ex_https = ProtocolHTTPS
   \<and> NewFixedServer ex_http (Some NotFoundHandler) \<noteq> Inl ErrServerClosed"
proof -
  have same: "sc_address ex_https = sc_address ex_http"
    "sc_read_header_timeout ex_https = sc_read_header_timeout ex_http"
    "sc_idle_timeout ex_https = sc_idle_timeout ex_http"
    "sc_max_header_bytes ex_https = sc_max_header_bytes ex_http"
    and https: "effective_protocol ex_https = ProtocolHTTPS"
    by (simp_all add: ex_https_def effective_protocol_def protocol_defs)
  have "NewFixedServer ex_http (Some NotFoundHandler) \<noteq> Inl ErrServerClosed"
    by (simp add: NewFixedServer_def ex_http_valid)
  with https fixed_server_ignores_tls [OF ex_http_valid ex_https_valid same, of "Some NotFoundHandler"]
  show ?thesis by blast
qed

definition ex_fixed :: fixed_server where
  "ex_fixed = \<lparr>fs_addr = ''127.0.0.1:8081'', fs_handler = NotFoundHandler,
     fs_read_header_timeout = 0, fs_idle_timeout = 0, fs_max_header_bytes = 0,
     fs_listener = Some ''127.0.0.1:8081'', fs_buffered = None, fs_done_closed = False\<rparr>"

definition ex_shared :: shared where
  "ex_shared = \<lparr>sh_admission = Admission_Open NewAdmission, sh_controller = NewController\<rparr>"

theorem serve_failure_is_supervised_witness:
  "stop_seen (sh_controller (snd (serve_returns (Some (err_new ''accept'')) ex_fixed ex_shared)))
     = Some (serve_loop_request (err_new ''accept''))"
proof -
  obtain s' sh' where run: "serve_returns (Some (err_new ''accept'')) ex_fixed ex_shared = (s', sh')"
    by (cases "serve_returns (Some (err_new ''accept'')) ex_fixed ex_shared")
  have "\<not> errors_is (err_new ''accept'') ErrServerClosed" by (simp add: ErrServerClosed_def)
  moreover have "controller_ok (sh_controller ex_shared)" by (simp add: ex_shared_def)
  ultimately show ?thesis
    using serve_failure_is_supervised [OF run] run by (simp add: ex_shared_def)
qed

end
