(* ===== verification/Manager.thy ===== *)
theory Manager
  imports Fixed_Server
begin

text \<open>
  The managed HTTP generations, \<^verbatim>\<open>src/http/manager.go\<close>: the gate in front of every
  generation, the manager's state, preparing, starting and probing a candidate,
  promotion, draining, certificate rotation and shutdown.  Generations are shared by
  pointer between the active slot and the candidate and draining sets, so they live in
  an explicit store.  The operating system, the TLS and X.509 libraries and the runtimes
  are the environment \<open>mgr_env\<close>.
\<close>

section \<open>The generation gate\<close>

record gate =
  gt_path :: string
  gt_identity :: string
  gt_token :: string
  gt_has_admission :: bool
  gt_admitted :: bool

record probe_response =
  pb_status :: nat
  pb_identity :: string
  pb_body :: string

definition newGenerationGate :: "string \<Rightarrow> string \<Rightarrow> string \<Rightarrow> bool \<Rightarrow> gate" where
  "newGenerationGate path identity token has_admission =
     \<lparr>gt_path = path, gt_identity = identity, gt_token = token,
      gt_has_admission = has_admission, gt_admitted = False\<rparr>"

text \<open>A nil gate is \<open>None\<close>; \<open>adm\<close> is the current value of the admission the gate points to.\<close>

definition Gate_Admitted :: "admission \<Rightarrow> gate option \<Rightarrow> bool" where
  "Gate_Admitted adm g =
     (case g of None \<Rightarrow> False
      | Some g \<Rightarrow> if \<not> gt_admitted g then False
                  else \<not> gt_has_admission g \<or> Admission_IsOpen adm)"

definition setAdmitted :: "bool \<Rightarrow> gate \<Rightarrow> gate" where
  "setAdmitted value g = g\<lparr>gt_admitted := value\<rparr>"

definition Gate_Probe :: "gate option \<Rightarrow> string \<Rightarrow> string \<Rightarrow> string \<Rightarrow> probe_response option" where
  "Gate_Probe g method path token =
     (case g of None \<Rightarrow> None
      | Some g \<Rightarrow>
          if method \<noteq> ''GET'' \<or> path \<noteq> gt_path g \<or> token \<noteq> gt_token g then None
          else Some \<lparr>pb_status = 200, pb_identity = gt_identity g, pb_body = gt_identity g\<rparr>)"

definition Gate_Wrap :: "admission \<Rightarrow> gate option \<Rightarrow> handler option \<Rightarrow> handler" where
  "Gate_Wrap adm g next r =
     (let next' = (case next of None \<Rightarrow> NotFoundHandler | Some h \<Rightarrow> h) in
      case Gate_Probe g (hq_method r) (hq_path r) (hq_header r ''X-Hanami-Probe'') of
        Some resp \<Rightarrow>
          \<lparr>hs_status = pb_status resp,
           hs_header = (\<lambda>k. if k = ''X-Hanami-Probe-Identity'' then pb_identity resp else ''''),
           hs_body = pb_body resp\<rparr>
      | None \<Rightarrow> if \<not> Gate_Admitted adm g then unavailable_response else next' r)"

section \<open>State\<close>

text \<open>
  \<^verbatim>\<open>newProbeToken\<close>, on the 24 bytes the random reader answers: a request that carries no
  probe header has the empty string in its place, which is no token.
\<close>

definition newProbeToken :: "goerr + string \<Rightarrow> goerr + string" where
  "newProbeToken random = map_sum id hex_encode random"

lemma probe_needs_header:
  assumes "newProbeToken (Inr bytes) = Inr (gt_token g)" and "length bytes = 24"
  shows "length (gt_token g) = 48" and "Gate_Probe (Some g) method path '''' = None"
proof -
  have "length (hex_encode bs) = 2 * length bs" for bs by (induction bs) simp_all
  from this [of bytes] show len: "length (gt_token g) = 48" using assms by (simp add: newProbeToken_def)
  then have "gt_token g \<noteq> ''''" by auto
  then show "Gate_Probe (Some g) method path '''' = None" by (simp add: Gate_Probe_def)
qed

text \<open>
  \<open>gn_handler\<close> is the handler the gate wraps for the native server (\<open>None\<close> with a custom
  runtime); \<open>gn_serve_done\<close> is the channel of capacity one the serving goroutine sends its
  result on, once; \<open>gn_hijacked\<close> are the hijacked connections.
\<close>

record generation =
  gn_id :: string
  gn_config :: server_config
  gn_address :: string
  gn_tls :: "tls_config option"
  gn_gate :: gate
  gn_handler :: "handler option"
  gn_promoted :: bool
  gn_certificate :: "certificate option"
  gn_hijacked :: "nat list"
  gn_closed :: bool
  gn_serve_done :: "error option"

datatype mgr_event =
    MListen string
  | MListenerClosed string
  | MServe nat
  | MProbe nat
  | MPromote nat
  | MShutdown nat
  | MRuntimeClose nat

text \<open>
  \<open>mg_gens\<close> is the store, \<open>mg_next\<close> its next free address; \<open>mg_counter\<close> is Go's
  \<^verbatim>\<open>generation uint64\<close>; \<open>mg_log\<close> records the effects outside the manager.
\<close>

record manager =
  mg_config :: server_config
  mg_handler :: "handler option"
  mg_shared :: shared
  mg_token :: string
  mg_counter :: "64 word"
  mg_next :: nat
  mg_gens :: "nat \<Rightarrow> generation option"
  mg_active :: "nat option"
  mg_candidates :: "nat set"
  mg_draining :: "nat set"
  mg_closed :: bool
  mg_log :: "mgr_event list"

record probe_request =
  pr_scheme :: string
  pr_host :: string
  pr_path :: string
  pr_token :: string
  pr_roots :: "string list option"
  pr_server_name :: string
  pr_follow_redirects :: bool

text \<open>
  The environment of one call: listening, loading and parsing X.509 material, marshalling
  a public key, the custom runtime factories, the caller's \<^verbatim>\<open>ctx.Err()\<close> before the
  candidate is prepared and after it was probed, the transport of the probe, what the
  runtime of a generation returns from \<^verbatim>\<open>Shutdown\<close> and \<^verbatim>\<open>Close\<close>, and the result its serving
  loop delivers before the context of the join ends (\<open>None\<close>: none does).
\<close>

record mgr_env =
  en_listen :: "string \<Rightarrow> goerr + string"
  en_x509 :: x509_pair
  en_parse_leaf :: "string \<Rightarrow> goerr + string"
  en_marshal_key :: "string \<Rightarrow> goerr + string"
  en_factory :: "nat \<Rightarrow> server_config \<Rightarrow> goerr + bool"
  en_ctx_before :: error
  en_ctx_after :: error
  en_transport :: "probe_request \<Rightarrow> goerr + http_response"
  en_shutdown :: "nat \<Rightarrow> error"
  en_close :: "nat \<Rightarrow> error"
  en_joined :: "nat \<Rightarrow> error option"

definition ReplaceRejected :: string where "ReplaceRejected = ''rejected''"
definition ReplaceApplied :: string where "ReplaceApplied = ''applied''"
definition ReplaceAppliedWithDrainFailure :: string where
  "ReplaceAppliedWithDrainFailure = ''applied_with_drain_failure''"

lemmas replace_state_defs = ReplaceRejected_def ReplaceApplied_def ReplaceAppliedWithDrainFailure_def

record replace_request =
  rp_server :: server_config
  rp_config :: server_config
  rp_handler :: "handler option"

record replace_result =
  rs_generation :: string
  rs_state :: string

definition rejected :: replace_result where
  "rejected = \<lparr>rs_generation = '''', rs_state = ReplaceRejected\<rparr>"

definition log_event :: "mgr_event \<Rightarrow> manager \<Rightarrow> manager" where
  "log_event e m = m\<lparr>mg_log := mg_log m @ [e]\<rparr>"

definition update_gen :: "nat \<Rightarrow> (generation \<Rightarrow> generation) \<Rightarrow> manager \<Rightarrow> manager" where
  "update_gen p f m = m\<lparr>mg_gens := (mg_gens m)(p := map_option f (mg_gens m p))\<rparr>"

abbreviation gen :: "manager \<Rightarrow> nat \<Rightarrow> generation" where
  "gen m p \<equiv> the (mg_gens m p)"

section \<open>Construction\<close>

text \<open>
  The typed path of \<^verbatim>\<open>NewManager\<close>, \<^verbatim>\<open>ManagerConfig\<close> (and a plain configuration with the
  two pointers absent).  \<open>token\<close> is the result of drawing the probe token.
\<close>

definition NewManager ::
    "x509_pair \<Rightarrow> goerr + string \<Rightarrow> server_config \<Rightarrow> admission option \<Rightarrow> controller option
     \<Rightarrow> goerr + manager" where
  "NewManager x509 token cfg adm ctl =
     (let cfg1 = cfg\<lparr>sc_handler := (case sc_handler cfg of None \<Rightarrow> Some NotFoundHandler | Some h \<Rightarrow> Some h)\<rparr>
      in case ServerConfig_normalized x509 cfg1 of
           Inl e \<Rightarrow> Inl e
         | Inr cfg2 \<Rightarrow>
             (case token of
                Inl e \<Rightarrow> Inl (err_wrap ''create probe identity: %w'' e)
              | Inr t \<Rightarrow>
                  Inr \<lparr>mg_config = cfg2, mg_handler = sc_handler cfg2,
                       mg_shared = \<lparr>sh_admission = (case adm of None \<Rightarrow> Admission_Open NewAdmission | Some a \<Rightarrow> a),
                                    sh_controller = (case ctl of None \<Rightarrow> NewController | Some c \<Rightarrow> c)\<rparr>,
                       mg_token = t, mg_counter = 0, mg_next = 0, mg_gens = (\<lambda>_. None),
                       mg_active = None, mg_candidates = {}, mg_draining = {}, mg_closed = False,
                       mg_log = []\<rparr>))"

definition configFor :: "mgr_env \<Rightarrow> manager \<Rightarrow> replace_request \<Rightarrow> goerr + server_config" where
  "configFor env m req =
     (let cfg = (if sc_address (rp_config req) = '''' then mg_config m else rp_config req);
          cfg = (if sc_address (rp_server req) \<noteq> '''' then rp_server req else cfg);
          cfg = (case rp_handler req of None \<Rightarrow> cfg | Some h \<Rightarrow> cfg\<lparr>sc_handler := Some h\<rparr>);
          cfg = (if sc_handler cfg = None then cfg\<lparr>sc_handler := mg_handler m\<rparr> else cfg)
      in ServerConfig_normalized (en_x509 env) cfg)"

definition certificateFingerprint :: "server_config \<Rightarrow> string" where
  "certificateFingerprint c =
     (case sc_certificate c of None \<Rightarrow> ''''
      | Some cert \<Rightarrow> (case ct_chain cert of [] \<Rightarrow> '''' | leaf # _ \<Rightarrow> hex_encode leaf))"

definition equivalentConfig :: "server_config \<Rightarrow> server_config \<Rightarrow> bool" where
  "equivalentConfig a b \<longleftrightarrow>
     \<not> (sc_address a \<noteq> sc_address b \<or> sc_protocol a \<noteq> sc_protocol b
        \<or> sc_read_header_timeout a \<noteq> sc_read_header_timeout b
        \<or> sc_idle_timeout a \<noteq> sc_idle_timeout b
        \<or> sc_max_header_bytes a \<noteq> sc_max_header_bytes b
        \<or> sc_probe_path a \<noteq> sc_probe_path b
        \<or> sc_probe_identity a \<noteq> sc_probe_identity b
        \<or> sc_probe_server_name a \<noteq> sc_probe_server_name b)
     \<and> certificateFingerprint a = certificateFingerprint b"

section \<open>Preparing, starting and probing a candidate\<close>

definition VersionTLS12 :: nat where "VersionTLS12 = 771"

text \<open>The TLS configuration of the listener and the certificate stored in the generation.\<close>

definition makeTLSConfig :: "mgr_env \<Rightarrow> server_config \<Rightarrow> goerr + tls_config \<times> certificate option" where
  "makeTLSConfig env cfg =
     (let base = (case sc_tls cfg of
                    None \<Rightarrow> \<lparr>tc_min_version = VersionTLS12, tc_certificates = [], tc_get_certificate = False\<rparr>
                  | Some t \<Rightarrow> if tc_min_version t < VersionTLS12 then t\<lparr>tc_min_version := VersionTLS12\<rparr> else t)
      in case sc_certificate cfg of
           Some cert \<Rightarrow>
             (case ct_chain cert of
                [] \<Rightarrow> Inl (err_new ''TLS certificate is empty'')
              | leaf # _ \<Rightarrow>
                  (case en_parse_leaf env leaf of
                     Inl e \<Rightarrow> Inl (err_wrap ''parse TLS certificate: %w'' e)
                   | Inr _ \<Rightarrow> Inr (base\<lparr>tc_certificates := [], tc_get_certificate := True\<rparr>, Some cert)))
         | None \<Rightarrow>
             (if tc_certificates base = [] \<and> \<not> tc_get_certificate base
              then Inl (err_new ''TLS config has no certificate'')
              else Inr (base, None)))"

text \<open>
  The candidate's record once listener, identity, TLS and runtime are settled.  Note that
  the gate wraps \<^verbatim>\<open>m.handler\<close>, as the code does.
\<close>

definition candidate_generation ::
    "manager \<Rightarrow> server_config \<Rightarrow> string \<Rightarrow> (tls_config \<times> certificate option) option \<Rightarrow> generation" where
  "candidate_generation m cfg bound tls =
     \<lparr>gn_id = dec (unat (mg_counter m)), gn_config = cfg, gn_address = bound,
      gn_tls = map_option fst tls,
      gn_gate = newGenerationGate (sc_probe_path cfg) (sc_probe_identity cfg) (mg_token m) True,
      gn_handler = (if sc_factory cfg = None then mg_handler m else None),
      gn_promoted = False,
      gn_certificate = (case tls of None \<Rightarrow> None | Some (_, c) \<Rightarrow> c),
      gn_hijacked = [], gn_closed = False, gn_serve_done = None\<rparr>"

definition prepareGeneration :: "mgr_env \<Rightarrow> manager \<Rightarrow> server_config \<Rightarrow> manager \<times> (goerr + nat)" where
  "prepareGeneration env m cfg =
     (case en_listen env (sc_address cfg) of
        Inl e \<Rightarrow> (m, Inl (Errorf ''listen on %s: %w'' [AStr (sc_address cfg), AWrap e]))
      | Inr bound \<Rightarrow>
          (let m1 = (log_event (MListen bound) m)\<lparr>mg_counter := mg_counter m + 1\<rparr>;
               failed = log_event (MListenerClosed bound) m1
           in case (if sc_protocol cfg = ProtocolHTTPS then map_sum id Some (makeTLSConfig env cfg) else Inr None) of
                Inl e \<Rightarrow> (failed, Inl e)
              | Inr tls \<Rightarrow>
                  (case (case sc_factory cfg of None \<Rightarrow> Inr True | Some f \<Rightarrow> en_factory env f cfg) of
                     Inl e \<Rightarrow> (failed, Inl (err_wrap ''create HTTP runtime: %w'' e))
                   | Inr False \<Rightarrow> (failed, Inl (err_new ''HTTP runtime factory returned nil runtime''))
                   | Inr True \<Rightarrow>
                       (m1\<lparr>mg_next := mg_next m + 1,
                           mg_gens := (mg_gens m)(mg_next m \<mapsto> candidate_generation m1 cfg bound tls)\<rparr>,
                        Inr (mg_next m)))))"

text \<open>\<^verbatim>\<open>startGeneration\<close> starts the serving goroutine and returns nil.\<close>

definition startGeneration :: "nat \<Rightarrow> manager \<Rightarrow> manager \<times> error" where
  "startGeneration p m = (log_event (MServe p) m, None)"

text \<open>The end of the serving goroutine of generation \<open>p\<close>: \<^verbatim>\<open>Serve\<close> has returned \<open>err\<close>.\<close>

definition generation_serve_returns :: "nat \<Rightarrow> error \<Rightarrow> manager \<Rightarrow> manager" where
  "generation_serve_returns p err m =
     (let err' = drop_server_closed err;
          m1 = update_gen p (\<lambda>g. g\<lparr>gn_serve_done := Some err'\<rparr>) m
      in case err' of
           None \<Rightarrow> m1
         | Some e \<Rightarrow>
             if gn_promoted (gen m p) then
               m1\<lparr>mg_shared := \<lparr>sh_admission = Admission_Close (sh_admission (mg_shared m)),
                    sh_controller = fst (RequestStop (sh_controller (mg_shared m)) (serve_loop_request e))\<rparr>\<rparr>
             else m1)"

definition probe_path :: "string \<Rightarrow> string" where
  "probe_path path = (if has_prefix path ''/'' then path else ''/'' @ path)"

definition probe_request_for :: "manager \<Rightarrow> generation \<Rightarrow> string list option \<Rightarrow> probe_request" where
  "probe_request_for m g roots =
     \<lparr>pr_scheme = sc_protocol (gn_config g), pr_host = gn_address g,
      pr_path = probe_path (sc_probe_path (gn_config g)), pr_token = mg_token m,
      pr_roots = roots,
      pr_server_name = (if roots = None then '''' else sc_probe_server_name (gn_config g)),
      pr_follow_redirects = False\<rparr>"

text \<open>The certificate pool of the probe: none for HTTP, the leaf alone (or nothing) for HTTPS.\<close>

definition probe_roots :: "mgr_env \<Rightarrow> generation \<Rightarrow> goerr + string list option" where
  "probe_roots env g =
     (if sc_protocol (gn_config g) = ProtocolHTTPS then
        (case sc_certificate (gn_config g) of
           None \<Rightarrow> Inr (Some [])
         | Some cert \<Rightarrow>
             (case en_parse_leaf env (hd (ct_chain cert)) of
                Inl e \<Rightarrow> Inl e
              | Inr _ \<Rightarrow> Inr (Some [hd (ct_chain cert)])))
      else Inr None)"

definition probe_verdict :: "generation \<Rightarrow> http_response \<Rightarrow> error" where
  "probe_verdict g resp =
     (if hs_status resp \<noteq> 200
        then Some (Errorf ''candidate probe returned HTTP %s'' [AInt (int (hs_status resp))])
      else if hs_header resp ''X-Hanami-Probe-Identity'' \<noteq> sc_probe_identity (gn_config g)
           \<or> take 4096 (hs_body resp) \<noteq> sc_probe_identity (gn_config g)
        then Some (err_new ''candidate probe identity mismatch'')
      else None)"

definition probe :: "mgr_env \<Rightarrow> manager \<Rightarrow> nat \<Rightarrow> manager \<times> error" where
  "probe env m p =
     (let g = gen m p in
      case probe_roots env g of
        Inl e \<Rightarrow> (m, Some e)
      | Inr roots \<Rightarrow>
          (log_event (MProbe p) m,
           case en_transport env (probe_request_for m g roots) of
             Inl e \<Rightarrow> Some (err_wrap ''probe candidate: %w'' e)
           | Inr resp \<Rightarrow> probe_verdict g resp))"

section \<open>Replace\<close>

text \<open>Promotion, under the manager's lock: the linearization point.\<close>

definition promote :: "nat \<Rightarrow> server_config \<Rightarrow> manager \<Rightarrow> manager" where
  "promote p cfg m =
     (let m1 = (case mg_active m of None \<Rightarrow> m
                | Some old \<Rightarrow> update_gen old (\<lambda>g. g\<lparr>gn_gate := setAdmitted False (gn_gate g)\<rparr>) m);
          m2 = update_gen p (\<lambda>g. g\<lparr>gn_promoted := True, gn_gate := setAdmitted True (gn_gate g)\<rparr>) m1
      in (log_event (MPromote p) m2)
           \<lparr>mg_active := Some p, mg_candidates := mg_candidates m - {p},
            mg_config := cfg, mg_handler := sc_handler cfg,
            mg_draining := (case mg_active m of None \<Rightarrow> mg_draining m | Some old \<Rightarrow> insert old (mg_draining m))\<rparr>)"

text \<open>
  What is left to do when \<^verbatim>\<open>Replace\<close> gives up the lock: return, close the rejected
  candidate and return the error, or drain the old generation.
\<close>

datatype locked = LReturn replace_result error | LReject nat goerr | LDrain nat nat

text \<open>
  The section of \<^verbatim>\<open>Replace\<close> under the lock, in three parts, since a serving loop can end
  between them: up to the start of the candidate, its probe, and the commit.  The first
  part ends with a result or with the candidate and its configuration.
\<close>

definition drop_candidate :: "nat \<Rightarrow> manager \<Rightarrow> manager" where
  "drop_candidate p m = m\<lparr>mg_candidates := mg_candidates m - {p}\<rparr>"

definition replace_admit ::
    "mgr_env \<Rightarrow> manager \<Rightarrow> replace_request \<Rightarrow> manager \<times> (locked + nat \<times> server_config)" where
  "replace_admit env m req =
     (if mg_closed m then (m, Inl (LReturn rejected (Some (err_new ''HTTP manager is closed''))))
      else (case configFor env m req of
        Inl e \<Rightarrow> (m, Inl (LReturn rejected (Some e)))
      | Inr cfg \<Rightarrow>
          (if mg_active m \<noteq> None \<and> equivalentConfig (gn_config (gen m (the (mg_active m)))) cfg
             then (m, Inl (LReturn \<lparr>rs_generation = gn_id (gen m (the (mg_active m))),
                                    rs_state = ReplaceApplied\<rparr> None))
           else if int (card (mg_draining m)) \<ge> sc_max_draining cfg \<and> mg_active m \<noteq> None
             then (m, Inl (LReturn rejected (Some (err_new ''draining generation limit reached''))))
           else (case en_ctx_before env of
             Some e \<Rightarrow> (m, Inl (LReturn rejected (Some e)))
           | None \<Rightarrow>
               (case prepareGeneration env m cfg of
                  (m1, Inl e) \<Rightarrow> (m1, Inl (LReturn rejected (Some e)))
                | (m1, Inr p) \<Rightarrow>
                    (case startGeneration p (m1\<lparr>mg_candidates := insert p (mg_candidates m1)\<rparr>) of
                       (m2, Some e) \<Rightarrow> (drop_candidate p m2, Inl (LReject p e))
                     | (m2, None) \<Rightarrow> (m2, Inr (p, cfg))))))))"

definition replace_commit :: "mgr_env \<Rightarrow> manager \<Rightarrow> nat \<Rightarrow> server_config \<Rightarrow> manager \<times> locked" where
  "replace_commit env m p cfg =
     (case en_ctx_after env of
        Some e \<Rightarrow> (drop_candidate p m, LReject p e)
      | None \<Rightarrow>
          (promote p cfg m,
           (case mg_active m of
              None \<Rightarrow> LReturn \<lparr>rs_generation = gn_id (gen m p), rs_state = ReplaceApplied\<rparr> None
            | Some old \<Rightarrow> LDrain old p)))"

definition replace_decide :: "mgr_env \<Rightarrow> manager \<Rightarrow> nat \<Rightarrow> server_config \<Rightarrow> manager \<times> locked" where
  "replace_decide env m p cfg =
     (case probe env m p of
        (m1, Some e) \<Rightarrow> (drop_candidate p m1, LReject p e)
      | (m1, None) \<Rightarrow> replace_commit env m1 p cfg)"

definition replace_locked :: "mgr_env \<Rightarrow> manager \<Rightarrow> replace_request \<Rightarrow> manager \<times> locked" where
  "replace_locked env m req =
     (case replace_admit env m req of
        (m1, Inl left) \<Rightarrow> (m1, left)
      | (m1, Inr (p, cfg)) \<Rightarrow> replace_decide env m1 p cfg)"

definition ErrDeadline :: goerr where
  "ErrDeadline = err_new ''context deadline exceeded''"

definition close_hijacked :: "bool \<Rightarrow> generation \<Rightarrow> generation" where
  "close_hijacked force g = (if force then g\<lparr>gn_hijacked := []\<rparr> else g)"

text \<open>\<^verbatim>\<open>Shutdown\<close> of the runtime and, if that fails, \<^verbatim>\<open>Close\<close>: the joined error and the log.\<close>

definition shutdown_runtime :: "mgr_env \<Rightarrow> nat \<Rightarrow> manager \<Rightarrow> manager \<times> error" where
  "shutdown_runtime env p m =
     (case en_shutdown env p of
        None \<Rightarrow> (log_event (MShutdown p) m, None)
      | Some e \<Rightarrow> (log_event (MRuntimeClose p) (log_event (MShutdown p) m),
                   errors_join [Some e, en_close env p]))"

text \<open>
  \<^verbatim>\<open>drainGeneration\<close> works under its own time limit, so its wait always ends: with the
  result of the serving loop or with the deadline.
\<close>

definition drainGeneration :: "mgr_env \<Rightarrow> nat \<Rightarrow> bool \<Rightarrow> manager \<Rightarrow> manager \<times> error" where
  "drainGeneration env p force m =
     (let (m1, err) = shutdown_runtime env p m;
          m2 = (if en_shutdown env p \<noteq> None then update_gen p (close_hijacked force) m1 else m1)
      in case en_joined env p of
           Some serveErr \<Rightarrow>
             (update_gen p (\<lambda>g. g\<lparr>gn_closed := True\<rparr>) m2, errors_join [err, serveErr])
         | None \<Rightarrow>
             (update_gen p (\<lambda>g. (close_hijacked force g)\<lparr>gn_closed := True\<rparr>) m2,
              errors_join [err, Some ErrDeadline]))"

text \<open>
  \<^verbatim>\<open>generation.close(ctx, force)\<close>; \<open>ctx_end\<close> is the error the context ends with, \<open>None\<close>
  for one that never does.  The result is \<open>None\<close> when the wait never ends.
\<close>

definition generation_close ::
    "mgr_env \<Rightarrow> error \<Rightarrow> nat \<Rightarrow> bool \<Rightarrow> manager \<Rightarrow> (manager \<times> error) option" where
  "generation_close env ctx_end p force m =
     (if gn_closed (gen m p) then Some (m, None)
      else
        (let (m1, err) = shutdown_runtime env p (update_gen p (\<lambda>g. g\<lparr>gn_closed := True\<rparr>) m);
             m2 = update_gen p (close_hijacked force) m1
         in case en_joined env p of
              Some serveErr \<Rightarrow> Some (m2, errors_join [err, serveErr])
            | None \<Rightarrow> (case ctx_end of None \<Rightarrow> None | Some e \<Rightarrow> Some (m2, errors_join [err, Some e]))))"

text \<open>\<open>None\<close>: the call waits forever for the serving loop of a rejected candidate.\<close>

definition Replace ::
    "mgr_env \<Rightarrow> manager \<Rightarrow> replace_request \<Rightarrow> (manager \<times> replace_result \<times> error) option" where
  "Replace env m req =
     (case replace_locked env m req of
        (m1, LReturn res err) \<Rightarrow> Some (m1, res, err)
      | (m1, LReject p e) \<Rightarrow>
          (case generation_close env None p (sc_force_close_hijacked (gn_config (gen m1 p))) m1 of
             None \<Rightarrow> None
           | Some (m2, _) \<Rightarrow> Some (m2, rejected, Some e))
      | (m1, LDrain old p) \<Rightarrow>
          (case drainGeneration env old (sc_force_close_hijacked (mg_config m1)) m1 of
             (m2, drainErr) \<Rightarrow>
               Some (m2\<lparr>mg_draining := mg_draining m2 - {old}\<rparr>,
                     \<lparr>rs_generation = gn_id (gen m1 p),
                      rs_state = (if drainErr \<noteq> None then ReplaceAppliedWithDrainFailure else ReplaceApplied)\<rparr>,
                     drainErr)))"

section \<open>Rotation, inspection, shutdown\<close>

definition publicKeysEqual :: "mgr_env \<Rightarrow> string \<Rightarrow> string \<Rightarrow> bool" where
  "publicKeysEqual env a b =
     (case en_marshal_key env a of Inl _ \<Rightarrow> False
      | Inr da \<Rightarrow> (case en_marshal_key env b of Inl _ \<Rightarrow> False | Inr db \<Rightarrow> da = db))"

definition RotateCertificate :: "mgr_env \<Rightarrow> certificate \<Rightarrow> manager \<Rightarrow> manager \<times> error" where
  "RotateCertificate env cert m =
     (case mg_active m of
        None \<Rightarrow> (m, Some (err_new ''no active TLS generation''))
      | Some p \<Rightarrow>
          (if sc_protocol (gn_config (gen m p)) \<noteq> ProtocolHTTPS
             then (m, Some (err_new ''no active TLS generation''))
           else (case (ct_chain cert, ct_key cert) of
              (leaf # _, Some key) \<Rightarrow>
                (case en_parse_leaf env leaf of
                   Inl e \<Rightarrow> (m, Some (err_wrap ''parse TLS certificate: %w'' e))
                 | Inr leaf_key \<Rightarrow>
                     (case pk_public key of
                        None \<Rightarrow> (m, Some (err_new ''TLS private key has no public key''))
                      | Some pub \<Rightarrow>
                          (if \<not> publicKeysEqual env leaf_key pub
                             then (m, Some (err_new ''TLS certificate and private key do not match''))
                           else
                             ((update_gen p (\<lambda>g. g\<lparr>gn_certificate := Some cert,
                                  gn_config := (gn_config g)\<lparr>sc_certificate := Some cert\<rparr>\<rparr>) m)
                                \<lparr>mg_config := (mg_config m)\<lparr>sc_certificate := Some cert\<rparr>\<rparr>, None))))
            | _ \<Rightarrow> (m, Some (err_new ''TLS certificate is incomplete'')))))"

definition RotateTLSCertificate ::
    "mgr_env \<Rightarrow> string option \<Rightarrow> string option \<Rightarrow> manager \<Rightarrow> manager \<times> error" where
  "RotateTLSCertificate env certPEM keyPEM m =
     (case en_x509 env certPEM keyPEM of
        Inl e \<Rightarrow> (m, Some (err_wrap ''load TLS certificate: %w'' e))
      | Inr cert \<Rightarrow> RotateCertificate env cert m)"

record server_state =
  ss_generation :: string
  ss_address :: string
  ss_protocol :: protocol
  ss_active :: bool
  ss_serving :: bool
  ss_tls :: bool
  ss_fingerprint :: string
  ss_candidates :: nat
  ss_draining :: nat

definition Current :: "manager \<Rightarrow> server_state" where
  "Current m =
     (case mg_active m of
        None \<Rightarrow> \<lparr>ss_generation = '''', ss_address = '''', ss_protocol = '''', ss_active = False,
                 ss_serving = False, ss_tls = False, ss_fingerprint = '''',
                 ss_candidates = card (mg_candidates m), ss_draining = card (mg_draining m)\<rparr>
      | Some p \<Rightarrow>
          (let g = gen m p in
           \<lparr>ss_generation = gn_id g, ss_address = gn_address g, ss_protocol = sc_protocol (gn_config g),
            ss_active = True, ss_serving = \<not> gn_closed g,
            ss_tls = (sc_protocol (gn_config g) = ProtocolHTTPS),
            ss_fingerprint = certificateFingerprint (gn_config g),
            ss_candidates = card (mg_candidates m), ss_draining = card (mg_draining m)\<rparr>))"

definition Manager_Address :: "manager \<Rightarrow> string" where
  "Manager_Address m =
     (if ss_address (Current m) \<noteq> '''' then ss_address (Current m) else sc_address (mg_config m))"

text \<open>
  The part of \<^verbatim>\<open>Shutdown\<close> under the lock: the manager afterwards and the generations to
  close.  \<open>cands\<close> and \<open>drains\<close> are the orders in which Go iterates over the two maps.
\<close>

definition iterates :: "nat list \<Rightarrow> nat set \<Rightarrow> bool" where
  "iterates ps S \<longleftrightarrow> distinct ps \<and> set ps = S"

definition shutdown_locked :: "nat list \<Rightarrow> nat list \<Rightarrow> manager \<Rightarrow> manager \<times> nat list" where
  "shutdown_locked cands drains m =
     (m\<lparr>mg_closed := True,
        mg_shared := (mg_shared m)\<lparr>sh_admission := Admission_Close (sh_admission (mg_shared m))\<rparr>,
        mg_active := None, mg_candidates := {}, mg_draining := {}\<rparr>,
      cands @ drains @ (case mg_active m of None \<Rightarrow> [] | Some p \<Rightarrow> [p]))"

fun close_all :: "mgr_env \<Rightarrow> error \<Rightarrow> nat list \<Rightarrow> error \<Rightarrow> manager \<Rightarrow> (manager \<times> error) option" where
  "close_all env ctx_end [] result m = Some (m, result)"
| "close_all env ctx_end (p # ps) result m =
     (case generation_close env ctx_end p (sc_force_close_hijacked (gn_config (gen m p))) m of
        None \<Rightarrow> None
      | Some (m', err) \<Rightarrow>
          close_all env ctx_end ps (if err \<noteq> None then errors_join [result, err] else result) m')"

definition Manager_Shutdown ::
    "mgr_env \<Rightarrow> error \<Rightarrow> nat list \<Rightarrow> nat list \<Rightarrow> manager \<Rightarrow> (manager \<times> error) option" where
  "Manager_Shutdown env ctx_end cands drains m =
     (if mg_closed m then Some (m, None)
      else (case shutdown_locked cands drains m of (m', all) \<Rightarrow> close_all env ctx_end all None m'))"

definition Manager_Start :: "mgr_env \<Rightarrow> manager \<Rightarrow> (manager \<times> error) option" where
  "Manager_Start env m =
     (case Replace env m \<lparr>rp_server = zero_config, rp_config = mg_config m, rp_handler = None\<rparr> of
        None \<Rightarrow> None
      | Some (m', _, err) \<Rightarrow> Some (m', err))"

section \<open>Forwarders\<close>

text \<open>
  \<^verbatim>\<open>generationHandler\<close> wraps the handler of the manager; \<^verbatim>\<open>Server\<close> is the native server of the
  active generation, which one with a custom runtime does not have (\<open>Some p\<close> stands for the server
  of the generation at \<open>p\<close>).
\<close>

definition generationHandler :: "manager \<Rightarrow> generation \<Rightarrow> handler" where
  "generationHandler m g = Gate_Wrap (sh_admission (mg_shared m)) (Some (gn_gate g)) (mg_handler m)"

definition Manager_Stop ::
    "mgr_env \<Rightarrow> error \<Rightarrow> nat list \<Rightarrow> nat list \<Rightarrow> manager \<Rightarrow> (manager \<times> error) option" where
  "Manager_Stop env ctx_end cands drains m = Manager_Shutdown env ctx_end cands drains m"

definition Manager_Server :: "manager \<Rightarrow> nat option" where
  "Manager_Server m =
     (case mg_active m of
        None \<Rightarrow> None
      | Some p \<Rightarrow> (if sc_factory (gn_config (gen m p)) = None then Some p else None))"

end
