(* ===== verification/Manager_Machine.thy ===== *)
theory Manager_Machine
  imports Manager
begin

text \<open>
  The generation manager as a transition system: what every operation does to the
  manager's state, a step relation in which serving loops, drains, rotations and
  shutdowns interleave with the phases of a replacement, and the invariant of its
  reachable states.
\<close>

section \<open>What the operations change\<close>

lemma update_gen_fields [simp]:
  "mg_config (update_gen p f m) = mg_config m"
  "mg_handler (update_gen p f m) = mg_handler m"
  "mg_shared (update_gen p f m) = mg_shared m"
  "mg_token (update_gen p f m) = mg_token m"
  "mg_counter (update_gen p f m) = mg_counter m"
  "mg_next (update_gen p f m) = mg_next m"
  "mg_active (update_gen p f m) = mg_active m"
  "mg_candidates (update_gen p f m) = mg_candidates m"
  "mg_draining (update_gen p f m) = mg_draining m"
  "mg_closed (update_gen p f m) = mg_closed m"
  "mg_log (update_gen p f m) = mg_log m"
  "mg_gens (update_gen p f m) q = (if q = p then map_option f (mg_gens m p) else mg_gens m q)"
  by (simp_all add: update_gen_def)

lemma log_event_fields [simp]:
  "mg_config (log_event e m) = mg_config m"
  "mg_handler (log_event e m) = mg_handler m"
  "mg_shared (log_event e m) = mg_shared m"
  "mg_token (log_event e m) = mg_token m"
  "mg_counter (log_event e m) = mg_counter m"
  "mg_next (log_event e m) = mg_next m"
  "mg_gens (log_event e m) = mg_gens m"
  "mg_active (log_event e m) = mg_active m"
  "mg_candidates (log_event e m) = mg_candidates m"
  "mg_draining (log_event e m) = mg_draining m"
  "mg_closed (log_event e m) = mg_closed m"
  by (simp_all add: log_event_def)

lemma drop_candidate_fields [simp]:
  "mg_config (drop_candidate p m) = mg_config m"
  "mg_handler (drop_candidate p m) = mg_handler m"
  "mg_shared (drop_candidate p m) = mg_shared m"
  "mg_token (drop_candidate p m) = mg_token m"
  "mg_next (drop_candidate p m) = mg_next m"
  "mg_gens (drop_candidate p m) = mg_gens m"
  "mg_active (drop_candidate p m) = mg_active m"
  "mg_candidates (drop_candidate p m) = mg_candidates m - {p}"
  "mg_draining (drop_candidate p m) = mg_draining m"
  "mg_closed (drop_candidate p m) = mg_closed m"
  by (simp_all add: drop_candidate_def)

lemma promote_fields [simp]:
  "mg_config (promote p cfg m) = cfg"
  "mg_handler (promote p cfg m) = sc_handler cfg"
  "mg_shared (promote p cfg m) = mg_shared m"
  "mg_token (promote p cfg m) = mg_token m"
  "mg_next (promote p cfg m) = mg_next m"
  "mg_active (promote p cfg m) = Some p"
  "mg_candidates (promote p cfg m) = mg_candidates m - {p}"
  "mg_closed (promote p cfg m) = mg_closed m"
  "mg_draining (promote p cfg m) =
     (case mg_active m of None \<Rightarrow> mg_draining m | Some old \<Rightarrow> insert old (mg_draining m))"
  by (simp_all add: promote_def Let_def split: option.splits)

definition admit_gen :: "generation \<Rightarrow> generation" where
  "admit_gen g = g\<lparr>gn_promoted := True, gn_gate := setAdmitted True (gn_gate g)\<rparr>"

definition retire_gen :: "generation \<Rightarrow> generation" where
  "retire_gen g = g\<lparr>gn_gate := setAdmitted False (gn_gate g)\<rparr>"

lemma promote_gens:
  "mg_active m \<noteq> Some p \<Longrightarrow> mg_gens (promote p cfg m) q =
     (if q = p then map_option admit_gen (mg_gens m p)
      else if mg_active m = Some q then map_option retire_gen (mg_gens m q) else mg_gens m q)"
  by (auto simp: promote_def Let_def admit_gen_def [abs_def] retire_gen_def [abs_def] split: option.splits)

lemma gen_step_fields [simp]:
  "gn_id (admit_gen g) = gn_id g" "gn_id (retire_gen g) = gn_id g"
  "gn_config (admit_gen g) = gn_config g" "gn_config (retire_gen g) = gn_config g"
  "gn_handler (admit_gen g) = gn_handler g" "gn_handler (retire_gen g) = gn_handler g"
  "gn_promoted (admit_gen g)" "gn_promoted (retire_gen g) = gn_promoted g"
  "gt_admitted (gn_gate (admit_gen g))" "\<not> gt_admitted (gn_gate (retire_gen g))"
  "gn_serve_done (admit_gen g) = gn_serve_done g" "gn_serve_done (retire_gen g) = gn_serve_done g"
  "gn_closed (admit_gen g) = gn_closed g"
  "gn_address (admit_gen g) = gn_address g" "gn_address (retire_gen g) = gn_address g"
  "gt_token (gn_gate (admit_gen g)) = gt_token (gn_gate g)"
  "gt_token (gn_gate (retire_gen g)) = gt_token (gn_gate g)"
  "gt_path (gn_gate (admit_gen g)) = gt_path (gn_gate g)"
  "gt_path (gn_gate (retire_gen g)) = gt_path (gn_gate g)"
  "gt_identity (gn_gate (admit_gen g)) = gt_identity (gn_gate g)"
  "gt_identity (gn_gate (retire_gen g)) = gt_identity (gn_gate g)"
  "gt_has_admission (gn_gate (admit_gen g)) = gt_has_admission (gn_gate g)"
  "gt_has_admission (gn_gate (retire_gen g)) = gt_has_admission (gn_gate g)"
  by (simp_all add: admit_gen_def retire_gen_def setAdmitted_def)

text \<open>Nothing but the store's unused part, the counters and the log differs.\<close>

definition unchanged :: "manager \<Rightarrow> manager \<Rightarrow> bool" where
  "unchanged m m' \<longleftrightarrow>
     mg_config m' = mg_config m \<and> mg_handler m' = mg_handler m \<and> mg_shared m' = mg_shared m
     \<and> mg_token m' = mg_token m \<and> mg_active m' = mg_active m \<and> mg_candidates m' = mg_candidates m
     \<and> mg_draining m' = mg_draining m \<and> mg_closed m' = mg_closed m
     \<and> (\<forall>q g. mg_gens m q = Some g \<longrightarrow> mg_gens m' q = Some g)"

lemma unchanged_refl [simp]: "unchanged m m"
  by (simp add: unchanged_def)

lemma prepareGeneration_failed:
  "prepareGeneration env m cfg = (m1, Inl e) \<Longrightarrow>
   unchanged m m1 \<and> mg_gens m1 = mg_gens m \<and> mg_next m1 = mg_next m"
  by (auto simp: prepareGeneration_def unchanged_def Let_def split: sum.splits option.splits if_splits bool.splits)

lemma prepareGeneration_prepared:
  assumes "prepareGeneration env m cfg = (m1, Inr p)"
  obtains g where "p = mg_next m" and "mg_next m1 = mg_next m + 1"
    and "mg_gens m1 = (mg_gens m)(p \<mapsto> g)"
    and "mg_config m1 = mg_config m" and "mg_handler m1 = mg_handler m" and "mg_shared m1 = mg_shared m"
    and "mg_token m1 = mg_token m" and "mg_active m1 = mg_active m"
    and "mg_candidates m1 = mg_candidates m" and "mg_draining m1 = mg_draining m"
    and "mg_closed m1 = mg_closed m"
    and "\<exists>bound tls. g = candidate_generation (m1\<lparr>mg_gens := mg_gens m\<rparr>) cfg bound tls
           \<and> en_listen env (sc_address cfg) = Inr bound
           \<and> (sc_protocol cfg \<noteq> ProtocolHTTPS \<longrightarrow> tls = None)"
  using assms
  by (fastforce simp: prepareGeneration_def candidate_generation_def Let_def
      split: sum.splits option.splits if_splits bool.splits)

lemma probe_fields:
  "probe env m p = (m1, r) \<Longrightarrow> m1 = m \<or> m1 = log_event (MProbe p) m"
  by (auto simp: probe_def Let_def split: sum.splits)

lemma generation_close_fields:
  "generation_close env c p force m = Some (m', e) \<Longrightarrow>
     mg_config m' = mg_config m \<and> mg_handler m' = mg_handler m \<and> mg_shared m' = mg_shared m
     \<and> mg_token m' = mg_token m \<and> mg_active m' = mg_active m \<and> mg_candidates m' = mg_candidates m
     \<and> mg_draining m' = mg_draining m \<and> mg_closed m' = mg_closed m \<and> mg_next m' = mg_next m
     \<and> (\<forall>q. q \<noteq> p \<longrightarrow> mg_gens m' q = mg_gens m q)"
  by (auto simp: generation_close_def shutdown_runtime_def Let_def split: if_splits option.splits)

lemma drainGeneration_fields:
  "drainGeneration env p force m = (m', e) \<Longrightarrow>
     mg_config m' = mg_config m \<and> mg_handler m' = mg_handler m \<and> mg_shared m' = mg_shared m
     \<and> (\<forall>q. q \<noteq> p \<longrightarrow> mg_gens m' q = mg_gens m q)"
  by (auto simp: drainGeneration_def shutdown_runtime_def Let_def split: if_splits option.splits)

section \<open>The step relation\<close>

text \<open>Who holds the manager's lock: nobody, or a \<^verbatim>\<open>Replace\<close> with its candidate.\<close>

datatype phase = Free | Probing nat server_config | Probed nat server_config

fun held :: "phase \<Rightarrow> nat option" where
  "held Free = None"
| "held (Probing p cfg) = Some p"
| "held (Probed p cfg) = Some p"

definition set_admission :: "admission \<Rightarrow> manager \<Rightarrow> manager" where
  "set_admission a m = m\<lparr>mg_shared := (mg_shared m)\<lparr>sh_admission := a\<rparr>\<rparr>"

definition other_stop :: "request \<Rightarrow> manager \<Rightarrow> manager" where
  "other_stop r m = m\<lparr>mg_shared := (mg_shared m)\<lparr>
     sh_controller := fst (RequestStop (sh_controller (mg_shared m)) r)\<rparr>\<rparr>"

text \<open>
  The steps.  Serving loops end, drains and the closing of rejected candidates go on, and
  the rest of the application opens or closes admission and requests stops, in any phase;
  what takes the lock needs it to be free.  Every step may have its own environment.
\<close>

inductive mstep :: "manager \<times> phase \<Rightarrow> manager \<times> phase \<Rightarrow> bool" where
  refused: "replace_admit env m req = (m', Inl left) \<Longrightarrow> mstep (m, Free) (m', Free)"
| started: "replace_admit env m req = (m', Inr (p, cfg)) \<Longrightarrow> mstep (m, Free) (m', Probing p cfg)"
| probe_failed: "probe env m p = (m', Some e) \<Longrightarrow> mstep (m, Probing p cfg) (drop_candidate p m', Free)"
| probe_passed: "probe env m p = (m', None) \<Longrightarrow> mstep (m, Probing p cfg) (m', Probed p cfg)"
| commit: "replace_commit env m p cfg = (m', left) \<Longrightarrow> mstep (m, Probed p cfg) (m', Free)"
| candidate_closed: "mg_active m \<noteq> Some p \<Longrightarrow> held ph \<noteq> Some p \<Longrightarrow>
    generation_close env ctx_end p force m = Some (m', err) \<Longrightarrow> mstep (m, ph) (m', ph)"
| drained: "p \<in> mg_draining m \<Longrightarrow> drainGeneration env p force m = (m', err) \<Longrightarrow> mstep (m, ph) (m', ph)"
| undrained: "p \<in> mg_draining m \<Longrightarrow> gn_closed (gen m p) \<Longrightarrow>
    mstep (m, Free) (m\<lparr>mg_draining := mg_draining m - {p}\<rparr>, Free)"
| serve_exit: "mg_gens m p = Some g \<Longrightarrow> gn_serve_done g = None \<Longrightarrow>
    mstep (m, ph) (generation_serve_returns p err m, ph)"
| rotated: "RotateCertificate env cert m = (m', err) \<Longrightarrow> mstep (m, Free) (m', Free)"
| shut: "\<not> mg_closed m \<Longrightarrow> iterates cands (mg_candidates m) \<Longrightarrow> iterates drains (mg_draining m) \<Longrightarrow>
    shutdown_locked cands drains m = (m', all) \<Longrightarrow> mstep (m, Free) (m', Free)"
| admission_moves: "mstep (m, ph) (set_admission a m, ph)"
| stop_requested: "mstep (m, ph) (other_stop r m, ph)"

text \<open>
  A manager is given a controller by \<^verbatim>\<open>process.NewController\<close>, on which stops may have been
  requested: one whose \<^verbatim>\<open>sync.Once\<close> is used exactly if its channel is closed.
\<close>

inductive reachable :: "manager \<times> phase \<Rightarrow> bool" where
  init: "NewManager x509 token cfg adm ctl = Inr m \<Longrightarrow> pred_option controller_ok ctl \<Longrightarrow> reachable (m, Free)"
| step: "reachable s \<Longrightarrow> mstep s t \<Longrightarrow> reachable t"

inductive_cases mstep_elim: "mstep s t"

lemma reachable_steps: "mstep\<^sup>*\<^sup>* s t \<Longrightarrow> reachable s \<Longrightarrow> reachable t"
  by (induction rule: rtranclp_induct) (auto intro: reachable.step)

section \<open>The invariant\<close>

definition gate_ok :: "string \<Rightarrow> generation \<Rightarrow> bool" where
  "gate_ok token g \<longleftrightarrow> gt_token (gn_gate g) = token \<and> gt_has_admission (gn_gate g)
     \<and> gt_path (gn_gate g) = sc_probe_path (gn_config g)
     \<and> gt_identity (gn_gate g) = sc_probe_identity (gn_config g)"

definition store_ok :: "manager \<Rightarrow> bool" where
  "store_ok m \<longleftrightarrow> (\<forall>q. mg_next m \<le> q \<longrightarrow> mg_gens m q = None)
     \<and> (\<forall>q g. mg_gens m q = Some g \<longrightarrow> gate_ok (mg_token m) g)"

definition active_ok :: "manager \<Rightarrow> bool" where
  "active_ok m \<longleftrightarrow>
     (\<forall>p. mg_active m = Some p \<longrightarrow> \<not> mg_closed m \<and> p \<notin> mg_draining m
        \<and> (\<exists>g. mg_gens m p = Some g \<and> gn_promoted g \<and> gt_admitted (gn_gate g)))"

definition admitted_ok :: "manager \<Rightarrow> bool" where
  "admitted_ok m \<longleftrightarrow>
     (\<forall>q g. mg_gens m q = Some g \<longrightarrow> gt_admitted (gn_gate g) \<longrightarrow> mg_active m = Some q \<or> mg_closed m)
     \<and> (\<forall>q r g h. mg_gens m q = Some g \<longrightarrow> mg_gens m r = Some h \<longrightarrow>
          gt_admitted (gn_gate g) \<longrightarrow> gt_admitted (gn_gate h) \<longrightarrow> q = r)"

definition draining_ok :: "manager \<Rightarrow> bool" where
  "draining_ok m \<longleftrightarrow> finite (mg_draining m)
     \<and> int (card (mg_draining m)) \<le> sc_max_draining (mg_config m)
     \<and> (mg_active m = None \<longrightarrow> mg_draining m = {})
     \<and> (\<forall>q \<in> mg_draining m. \<exists>g. mg_gens m q = Some g \<and> gn_promoted g \<and> \<not> gt_admitted (gn_gate g))"

definition candidate_ok :: "nat \<Rightarrow> server_config \<Rightarrow> manager \<Rightarrow> bool" where
  "candidate_ok p cfg m \<longleftrightarrow> mg_candidates m = {p} \<and> \<not> mg_closed m \<and> mg_active m \<noteq> Some p
     \<and> p \<notin> mg_draining m \<and> 0 < sc_max_draining cfg
     \<and> (mg_active m \<noteq> None \<longrightarrow> int (card (mg_draining m)) < sc_max_draining cfg)
     \<and> (\<exists>g. mg_gens m p = Some g \<and> \<not> gn_promoted g \<and> \<not> gt_admitted (gn_gate g))"

definition phase_ok :: "phase \<Rightarrow> manager \<Rightarrow> bool" where
  "phase_ok ph m \<longleftrightarrow>
     (case ph of Free \<Rightarrow> mg_candidates m = {}
      | Probing p cfg \<Rightarrow> candidate_ok p cfg m | Probed p cfg \<Rightarrow> candidate_ok p cfg m)"

definition mgr_inv :: "manager \<times> phase \<Rightarrow> bool" where
  "mgr_inv s \<longleftrightarrow> (case s of (m, ph) \<Rightarrow>
     store_ok m \<and> active_ok m \<and> admitted_ok m \<and> draining_ok m \<and> phase_ok ph m)"

lemmas inv_defs = store_ok_def active_ok_def admitted_ok_def draining_ok_def phase_ok_def
  candidate_ok_def gate_ok_def

lemma inv_init: "NewManager x509 token cfg adm ctl = Inr m \<Longrightarrow> mgr_inv (m, Free)"
proof -
  assume "NewManager x509 token cfg adm ctl = Inr m"
  then obtain c t where c: "ServerConfig_normalized x509 c = Inr (mg_config m)"
    and m: "mg_gens m = (\<lambda>_. None)" "mg_active m = None" "mg_candidates m = {}" "mg_draining m = {}"
    by (auto simp: NewManager_def Let_def split: sum.splits)
  have "ServerConfig_Validate (mg_config m) = None"
    using c by (rule normalized_cases)
  with m show ?thesis
    by (simp add: mgr_inv_def inv_defs Validate_transition_limits)
qed

text \<open>
  A change of the generations that keeps gate, promotion, probe path and probe identity,
  and of fields the invariant does not read, keeps the invariant.
\<close>

definition same_gen :: "generation \<Rightarrow> generation \<Rightarrow> bool" where
  "same_gen g h \<longleftrightarrow> gn_gate h = gn_gate g \<and> gn_promoted h = gn_promoted g
     \<and> sc_probe_path (gn_config h) = sc_probe_path (gn_config g)
     \<and> sc_probe_identity (gn_config h) = sc_probe_identity (gn_config g)"

definition same_state :: "manager \<Rightarrow> manager \<Rightarrow> bool" where
  "same_state m m' \<longleftrightarrow>
     sc_max_draining (mg_config m') = sc_max_draining (mg_config m)
     \<and> mg_token m' = mg_token m \<and> mg_next m' = mg_next m
     \<and> mg_active m' = mg_active m \<and> mg_candidates m' = mg_candidates m
     \<and> mg_draining m' = mg_draining m \<and> mg_closed m' = mg_closed m
     \<and> (\<forall>q. rel_option same_gen (mg_gens m q) (mg_gens m' q))"

lemma same_gen_refl [simp]: "same_gen g g"
  by (simp add: same_gen_def)

lemma same_gen_trans: "same_gen g h \<Longrightarrow> same_gen h k \<Longrightarrow> same_gen g k"
  by (simp add: same_gen_def)

lemma rel_same_gen_refl [simp]: "rel_option same_gen x x"
  by (cases x) simp_all

lemma rel_same_gen_trans:
  "rel_option same_gen x y \<Longrightarrow> rel_option same_gen y z \<Longrightarrow> rel_option same_gen x z"
  by (cases x; cases y; cases z) (auto intro: same_gen_trans)

lemma same_state_refl [simp]: "same_state m m"
  by (simp add: same_state_def)

lemma same_state_trans: "same_state m m1 \<Longrightarrow> same_state m1 m2 \<Longrightarrow> same_state m m2"
  unfolding same_state_def using rel_same_gen_trans by (metis (no_types, lifting))

lemma same_state_gens:
  assumes "same_state m m'"
  shows "mg_gens m' q = None \<longleftrightarrow> mg_gens m q = None"
    and "mg_gens m' q = Some h \<Longrightarrow> \<exists>g. mg_gens m q = Some g \<and> same_gen g h"
    and "mg_gens m q = Some g \<Longrightarrow> \<exists>h. mg_gens m' q = Some h \<and> same_gen g h"
  using assms [unfolded same_state_def] by (auto dest!: spec [of _ q] elim: option.rel_cases)

lemma inv_same_state:
  assumes same: "same_state m m'" and inv: "mgr_inv (m, ph)"
  shows "mgr_inv (m', ph)"
proof -
  note flds = same [unfolded same_state_def]
  note up = same_state_gens(2) [OF same] and down = same_state_gens(3) [OF same]
  have "store_ok m'"
    using inv flds by (auto simp: mgr_inv_def store_ok_def gate_ok_def same_gen_def
        same_state_gens(1) [OF same] dest!: up)
  moreover have "active_ok m'"
    using inv flds by (fastforce simp: mgr_inv_def active_ok_def same_gen_def dest: down)
  moreover have "admitted_ok m'"
    using inv flds by (fastforce simp: mgr_inv_def admitted_ok_def same_gen_def dest: up)
  moreover have "draining_ok m'"
    using inv flds by (fastforce simp: mgr_inv_def draining_ok_def same_gen_def dest: down)
  moreover have "phase_ok ph m'"
    using inv flds by (fastforce simp: mgr_inv_def phase_ok_def candidate_ok_def same_gen_def
        dest: down split: phase.splits)
  ultimately show ?thesis by (simp add: mgr_inv_def)
qed

lemma same_state_update:
  assumes "\<And>g. mg_gens m p = Some g \<Longrightarrow> same_gen g (f g)"
  shows "same_state m (update_gen p f m)"
  using assms by (auto simp: same_state_def option.rel_map) (cases "mg_gens m p"; simp)

section \<open>Every step keeps the invariant\<close>

lemma same_state_log [simp]: "same_state m (log_event e m)"
  by (simp add: same_state_def)

lemma same_state_runtime: "same_state m (fst (shutdown_runtime env p m))"
  by (auto simp: shutdown_runtime_def same_state_def split: option.splits)

lemma same_state_then: "same_state m n \<Longrightarrow> (\<And>g. same_gen g (f g)) \<Longrightarrow> same_state m (update_gen p f n)"
  using same_state_trans same_state_update by blast

lemma same_gen_ending [simp]:
  "same_gen g (close_hijacked force g)"
  "same_gen g (g\<lparr>gn_closed := True\<rparr>)"
  "same_gen g ((close_hijacked force g)\<lparr>gn_closed := True\<rparr>)"
  by (simp_all add: same_gen_def close_hijacked_def)

lemma same_state_close: "generation_close env c p force m = Some (m', e) \<Longrightarrow> same_state m m'"
  using same_state_trans [OF same_state_then [OF same_state_refl, of "\<lambda>g. g\<lparr>gn_closed := True\<rparr>"]
      same_state_runtime [of _ env p], of m p]
  by (auto simp: generation_close_def Let_def split: if_splits option.splits prod.splits
      intro!: same_state_then)

lemma same_state_drain: "drainGeneration env p force m = (m', e) \<Longrightarrow> same_state m m'"
  using same_state_runtime [of m env p]
  by (auto simp: drainGeneration_def Let_def split: option.splits prod.splits if_splits
      intro!: same_state_then)

lemma same_state_serve: "same_state m (generation_serve_returns p err m)"
proof -
  have "same_state m (update_gen p (\<lambda>g. g\<lparr>gn_serve_done := x\<rparr>) m)" for x
    by (rule same_state_update) (simp add: same_gen_def)
  then show ?thesis
    by (auto simp: generation_serve_returns_def Let_def same_state_def split: option.splits)
qed

lemma same_state_rotate: "RotateCertificate env cert m = (m', e) \<Longrightarrow> same_state m m'"
proof -
  have "same_state m (update_gen p (\<lambda>g. g\<lparr>gn_certificate := x,
          gn_config := (gn_config g)\<lparr>sc_certificate := x\<rparr>\<rparr>) m)" for p x
    by (rule same_state_update) (simp add: same_gen_def)
  then have "same_state m ((update_gen p (\<lambda>g. g\<lparr>gn_certificate := x,
          gn_config := (gn_config g)\<lparr>sc_certificate := x\<rparr>\<rparr>) m)
          \<lparr>mg_config := (mg_config m)\<lparr>sc_certificate := x\<rparr>\<rparr>)" for p x
    by (simp add: same_state_def)
  then show "RotateCertificate env cert m = (m', e) \<Longrightarrow> same_state m m'"
    by (auto simp: RotateCertificate_def split: option.splits if_splits list.splits sum.splits)
qed

lemma probe_same_state: "probe env m p = (m', r) \<Longrightarrow> same_state m m'"
  using probe_fields [of env m p m' r] by auto

lemma replace_admit_cases:
  assumes "replace_admit env m req = (m', r)"
  obtains
    (refused) e where "m' = m" "r = Inl (LReturn rejected (Some e))"
  | (equivalent) cfg p where "\<not> mg_closed m" "configFor env m req = Inr cfg" "mg_active m = Some p"
      "equivalentConfig (gn_config (gen m p)) cfg" "m' = m"
      "r = Inl (LReturn \<lparr>rs_generation = gn_id (gen m p), rs_state = ReplaceApplied\<rparr> None)"
  | (unprepared) cfg e where "\<not> mg_closed m" "configFor env m req = Inr cfg"
      "prepareGeneration env m cfg = (m', Inl e)" "r = Inl (LReturn rejected (Some e))"
  | (started) cfg m1 p where "\<not> mg_closed m" "configFor env m req = Inr cfg"
      "mg_active m = None \<or> int (card (mg_draining m)) < sc_max_draining cfg"
      "\<forall>q. mg_active m = Some q \<longrightarrow> \<not> equivalentConfig (gn_config (gen m q)) cfg"
      "en_ctx_before env = None" "prepareGeneration env m cfg = (m1, Inr p)"
      "m' = log_event (MServe p) (m1\<lparr>mg_candidates := insert p (mg_candidates m1)\<rparr>)" "r = Inr (p, cfg)"
proof -
  note run = assms [unfolded replace_admit_def startGeneration_def prod.case]
  show thesis
  proof (cases "mg_closed m")
    case True
    then show thesis using run by (intro refused) auto
  next
    case False
    note opn = this
    show thesis
    proof (cases "configFor env m req")
      case (Inl e)
      then show thesis using run opn by (intro refused) auto
    next
      case (Inr cfg)
      note run = run [unfolded Inr sum.case]
      let ?eq = "mg_active m \<noteq> None \<and> equivalentConfig (gn_config (gen m (the (mg_active m)))) cfg"
      let ?full = "sc_max_draining cfg \<le> int (card (mg_draining m)) \<and> mg_active m \<noteq> None"
      consider (eq) ?eq | (full) "\<not> ?eq" ?full | (ctx) e where "\<not> ?eq" "\<not> ?full" "en_ctx_before env = Some e"
        | (go) "\<not> ?eq" "\<not> ?full" "en_ctx_before env = None"
        by (cases "en_ctx_before env"; blast)
      then show thesis
      proof cases
        case eq
        then show thesis using run opn Inr by (intro equivalent [of cfg "the (mg_active m)"]) auto
      next
        case full
        then have "m' = m \<and> r = Inl (LReturn rejected (Some (err_new ''draining generation limit reached'')))"
          using run opn by (simp only: if_False if_True prod.inject) simp
        then show thesis by (intro refused) auto
      next
        case ctx
        then have "m' = m \<and> r = Inl (LReturn rejected (Some e))"
          using run opn by (simp only: if_False prod.inject option.case)
        then show thesis by (intro refused) auto
      next
        case go
        obtain m1 res where prep: "prepareGeneration env m cfg = (m1, res)" by fastforce
        then have out: "(case res of Inl e \<Rightarrow> (m1, Inl (LReturn rejected (Some e)))
            | Inr p \<Rightarrow> (log_event (MServe p) (m1\<lparr>mg_candidates := insert p (mg_candidates m1)\<rparr>), Inr (p, cfg)))
            = (m', r)"
          using run opn go by (simp only: if_False option.case) (simp split: sum.splits)
        show thesis
        proof (cases res)
          case (Inl e)
          then show thesis using out prep opn \<open>configFor env m req = Inr cfg\<close> by (intro unprepared) auto
        next
          case (Inr p)
          then show thesis
            using out prep opn go \<open>configFor env m req = Inr cfg\<close>
            by (intro started [of cfg m1 p]) auto
        qed
      qed
    qed
  qed
qed

lemma normalized_limits: "ServerConfig_normalized x509 c = Inr d \<Longrightarrow>
    0 < sc_probe_timeout d \<and> 0 < sc_drain_timeout d \<and> 0 < sc_max_draining d"
proof -
  assume norm: "ServerConfig_normalized x509 c = Inr d"
  then have "ServerConfig_Validate d = None" by (rule normalized_cases)
  from Validate_transition_limits [OF this] show ?thesis
    using with_defaults_nonempty [of d, unfolded normalized_fixpoint [OF norm]] by auto
qed

lemma configFor_normalized:
  "configFor env m req = Inr cfg \<Longrightarrow> \<exists>c. ServerConfig_normalized (en_x509 env) c = Inr cfg"
  by (auto simp: configFor_def Let_def)

lemma configFor_limits: "configFor env m req = Inr cfg \<Longrightarrow> 0 < sc_max_draining cfg"
  using configFor_normalized normalized_limits by blast

lemma inv_refused_or_started:
  assumes "replace_admit env m req = (m', r)" and inv: "mgr_inv (m, Free)"
  shows "mgr_inv (m', case r of Inl _ \<Rightarrow> Free | Inr (p, cfg) \<Rightarrow> Probing p cfg)"
  using assms(1)
proof (cases rule: replace_admit_cases)
  case (unprepared cfg e)
  then have "same_state m m'"
    using prepareGeneration_failed [of env m cfg m' e] by (auto simp: same_state_def unchanged_def)
  with unprepared(4) inv show ?thesis by (auto intro: inv_same_state)
next
  case (started cfg m1 p)
  from started(6) obtain g where g: "p = mg_next m" "mg_next m1 = mg_next m + 1"
    "mg_gens m1 = (mg_gens m)(p \<mapsto> g)" "mg_config m1 = mg_config m" "mg_token m1 = mg_token m"
    "mg_active m1 = mg_active m" "mg_candidates m1 = mg_candidates m"
    "mg_draining m1 = mg_draining m" "mg_closed m1 = mg_closed m"
    "\<exists>bound tls. g = candidate_generation (m1\<lparr>mg_gens := mg_gens m\<rparr>) cfg bound tls"
    by (blast elim: prepareGeneration_prepared)
  have gok: "gate_ok (mg_token m) g" "\<not> gn_promoted g" "\<not> gt_admitted (gn_gate g)"
    using g(5,10) by (auto simp: gate_ok_def candidate_generation_def newGenerationGate_def)
  have free: "mg_gens m p = None" using inv g(1) by (simp add: mgr_inv_def store_ok_def)
  have old: "store_ok m" "active_ok m" "admitted_ok m" "draining_ok m" "mg_candidates m = {}"
    using inv by (simp_all add: mgr_inv_def phase_ok_def)
  have pneq: "mg_active m \<noteq> Some p" "p \<notin> mg_draining m"
    using old free by (auto simp: active_ok_def draining_ok_def)
  have "store_ok m'" using old(1) g gok(1) started(7) by (auto simp: store_ok_def)
  moreover have "active_ok m'" using old(2) g pneq started(7) by (auto simp: active_ok_def)
  moreover have "admitted_ok m'" using old(3) g gok(3) started(7) by (auto simp: admitted_ok_def)
  moreover have "draining_ok m'" using old(4) g pneq started(7) by (auto simp: draining_ok_def)
  moreover have "candidate_ok p cfg m'"
    using old(5) g pneq gok started(1,3,7) configFor_limits [OF started(2)] by (auto simp: candidate_ok_def)
  ultimately show ?thesis using started(8) by (simp add: mgr_inv_def phase_ok_def)
qed (use inv in auto)

lemma inv_drop:
  assumes "candidate_ok p cfg m" and "mgr_inv (m, ph)"
  shows "mgr_inv (drop_candidate p m, Free)"
  using assms by (simp add: mgr_inv_def inv_defs)

lemma inv_promote:
  assumes inv: "mgr_inv (m, Probed p cfg)"
  shows "mgr_inv (promote p cfg m, Free)"
proof -
  have ok: "store_ok m" "active_ok m" "admitted_ok m" "draining_ok m" "candidate_ok p cfg m"
    using inv by (simp_all add: mgr_inv_def phase_ok_def)
  obtain g where g: "mg_gens m p = Some g" and neq: "mg_active m \<noteq> Some p"
    using ok(5) by (auto simp: candidate_ok_def)
  note gens = promote_gens [OF neq]
  have opn: "\<not> mg_closed m" using ok(5) by (simp add: candidate_ok_def)
  have "store_ok (promote p cfg m)"
    using ok(1) by (auto simp: store_ok_def gens gate_ok_def)
  moreover have "active_ok (promote p cfg m)"
    using ok(5) neq by (auto simp: active_ok_def gens candidate_ok_def split: option.splits)
  moreover have "admitted_ok (promote p cfg m)"
    using ok(3) opn by (fastforce simp: admitted_ok_def gens split: if_splits)
  moreover have "draining_ok (promote p cfg m)"
  proof (cases "mg_active m")
    case None
    then show ?thesis using ok(4,5) by (auto simp: draining_ok_def candidate_ok_def)
  next
    case (Some old)
    then obtain h where "mg_gens m old = Some h" "gn_promoted h" "old \<notin> mg_draining m"
      using ok(2) by (auto simp: active_ok_def)
    then show ?thesis using Some ok(4,5) neq
      by (auto simp: draining_ok_def candidate_ok_def gens)
  qed
  moreover have "phase_ok Free (promote p cfg m)"
    using ok(5) by (simp add: phase_ok_def candidate_ok_def)
  ultimately show ?thesis by (simp add: mgr_inv_def)
qed

lemma inv_commit:
  assumes "replace_commit env m p cfg = (m', left)" and inv: "mgr_inv (m, Probed p cfg)"
  shows "mgr_inv (m', Free)"
  using assms inv_promote [OF inv] inv_drop [of p cfg m "Probed p cfg"]
  by (auto simp: replace_commit_def mgr_inv_def phase_ok_def split: option.splits)

lemma inv_undrain:
  assumes inv: "mgr_inv (m, Free)"
  shows "mgr_inv (m\<lparr>mg_draining := mg_draining m - {p}\<rparr>, Free)"
proof -
  have "card (mg_draining m - {p}) \<le> card (mg_draining m)"
    using inv by (intro card_mono) (auto simp: mgr_inv_def draining_ok_def)
  then show ?thesis using inv by (auto simp: mgr_inv_def inv_defs)
qed

lemma inv_shut:
  assumes "shutdown_locked cands drains m = (m', all)" and inv: "mgr_inv (m, Free)"
  shows "mgr_inv (m', Free)"
  using assms by (auto simp: shutdown_locked_def mgr_inv_def inv_defs)

lemma inv_mstep: "mstep s t \<Longrightarrow> mgr_inv s \<Longrightarrow> mgr_inv t"
proof (induction rule: mstep.induct)
  case (refused env m req m' left)
  then show ?case using inv_refused_or_started by fastforce
next
  case (started env m req m' p cfg)
  then show ?case using inv_refused_or_started by fastforce
next
  case (probe_failed env m p m' e cfg)
  then have "mgr_inv (m', Probing p cfg)" using inv_same_state probe_same_state by blast
  then show ?case using inv_drop [of p cfg m' "Probing p cfg"] by (simp add: mgr_inv_def phase_ok_def)
next
  case (probe_passed env m p m' cfg)
  then have "mgr_inv (m', Probing p cfg)" using inv_same_state probe_same_state by blast
  then show ?case by (simp add: mgr_inv_def phase_ok_def)
next
  case (commit env m p cfg m' left)
  then show ?case using inv_commit by blast
next
  case (undrained p m)
  then show ?case using inv_undrain by blast
next
  case (shut m cands drains m' all)
  then show ?case using inv_shut by blast
next
  case (admission_moves m ph a)
  moreover have "same_state m (set_admission a m)" by (simp add: same_state_def set_admission_def)
  ultimately show ?case using inv_same_state by blast
next
  case (stop_requested m ph r)
  moreover have "same_state m (other_stop r m)" by (simp add: same_state_def other_stop_def)
  ultimately show ?case using inv_same_state by blast
qed (blast intro: inv_same_state same_state_close same_state_drain same_state_serve same_state_rotate)+

lemma reachable_inv: "reachable s \<Longrightarrow> mgr_inv s"
  by (induction rule: reachable.induct) (auto intro: inv_init inv_mstep)

lemma reachable_store: "reachable (m, ph) \<Longrightarrow> store_ok m"
  using reachable_inv [of "(m, ph)"] by (simp add: mgr_inv_def)

text \<open>The controller of a reachable manager is one that requests on a new one lead to.\<close>

lemma replace_admit_shared: "replace_admit env m req = (m', r) \<Longrightarrow> mg_shared m' = mg_shared m"
proof (erule replace_admit_cases, goal_cases)
  case (3 cfg e)
  then show ?case using prepareGeneration_failed [of env m cfg m' e] by (simp add: unchanged_def)
next
  case (4 cfg m1 p)
  then show ?case by (auto elim: prepareGeneration_prepared)
qed simp_all

lemma RotateCertificate_shared: "RotateCertificate env cert m = (m', e) \<Longrightarrow> mg_shared m' = mg_shared m"
  by (auto simp: RotateCertificate_def split: option.splits if_splits list.splits sum.splits)

lemma mstep_controller:
  "mstep s t \<Longrightarrow> controller_ok (sh_controller (mg_shared (fst s))) \<Longrightarrow> controller_ok (sh_controller (mg_shared (fst t)))"
proof (induction rule: mstep.induct)
  case (serve_exit m p g ph err)
  then show ?case
    by (auto simp: generation_serve_returns_def Let_def RequestStop_ok split: option.split)
next
  case (commit env m p cfg m' left)
  then show ?case by (auto simp: replace_commit_def split: option.splits)
qed (auto simp: set_admission_def other_stop_def shutdown_locked_def RequestStop_ok replace_admit_shared
    RotateCertificate_shared dest!: probe_fields generation_close_fields drainGeneration_fields)

lemma reachable_controller: "reachable s \<Longrightarrow> controller_ok (sh_controller (mg_shared (fst s)))"
proof (induction rule: reachable.induct)
  case (init x509 token cfg adm ctl m)
  then show ?case by (auto simp: NewManager_def Let_def split: sum.splits option.splits)
next
  case (step s t)
  then show ?case using mstep_controller by blast
qed

text \<open>One \<^verbatim>\<open>Replace\<close> is a sequence of steps.\<close>

lemma replace_locked_steps:
  assumes "replace_locked env m req = (m', left)"
  shows "mstep\<^sup>*\<^sup>* (m, Free) (m', Free)"
proof -
  obtain m1 r where admit: "replace_admit env m req = (m1, r)" by fastforce
  show ?thesis
  proof (cases r)
    case (Inl l)
    then show ?thesis using admit assms mstep.refused by (fastforce simp: replace_locked_def)
  next
    case (Inr pc)
    obtain p cfg where pc: "pc = (p, cfg)" by fastforce
    obtain m2 e where probe: "probe env m1 p = (m2, e)" by fastforce
    have 1: "mstep (m, Free) (m1, Probing p cfg)" using admit Inr pc mstep.started by blast
    have dec: "replace_decide env m1 p cfg = (m', left)"
      using assms admit Inr pc by (simp add: replace_locked_def)
    show ?thesis
    proof (cases e)
      case None
      then have "mstep (m1, Probing p cfg) (m2, Probed p cfg)" using probe mstep.probe_passed by blast
      moreover have "mstep (m2, Probed p cfg) (m', Free)"
        using dec probe None mstep.commit by (fastforce simp: replace_decide_def)
      ultimately show ?thesis using 1 by (meson r_into_rtranclp rtranclp.rtrancl_into_rtrancl)
    next
      case (Some x)
      then have "mstep (m1, Probing p cfg) (m', Free)"
        using dec probe mstep.probe_failed by (fastforce simp: replace_decide_def)
      then show ?thesis using 1 by (meson r_into_rtranclp rtranclp.rtrancl_into_rtrancl)
    qed
  qed
qed

end
