(* ===== verification/Manager_Props.thy ===== *)
theory Manager_Props
  imports Manager_Machine
begin

text \<open>
  The properties of the generation manager: the invariant of its reachable states, what a
  replacement does when it is rejected, applied or a no-op, what the gate and the probe
  let through, certificate rotation and shutdown, and two ways in which a replacement
  goes wrong.
\<close>

section \<open>What ending a generation does\<close>

text \<open>
  The calls on the runtime of a generation that is ended, the error they give, and the error
  of draining, stated apart from the code.
\<close>

definition runtime_calls :: "mgr_env \<Rightarrow> nat \<Rightarrow> mgr_event list" where
  "runtime_calls env p = MShutdown p # (if en_shutdown env p = None then [] else [MRuntimeClose p])"

definition runtime_error :: "mgr_env \<Rightarrow> nat \<Rightarrow> error" where
  "runtime_error env p = (case en_shutdown env p of None \<Rightarrow> None | Some e \<Rightarrow> errors_join [Some e, en_close env p])"

definition drain_error :: "mgr_env \<Rightarrow> nat \<Rightarrow> error" where
  "drain_error env p =
     errors_join [runtime_error env p, case en_joined env p of Some e \<Rightarrow> e | None \<Rightarrow> Some ErrDeadline]"

definition drained_gen :: "mgr_env \<Rightarrow> bool \<Rightarrow> nat \<Rightarrow> generation \<Rightarrow> generation" where
  "drained_gen env force p g =
     g\<lparr>gn_hijacked := (if force \<and> (en_shutdown env p \<noteq> None \<or> en_joined env p = None) then [] else gn_hijacked g),
       gn_closed := True\<rparr>"

text \<open>What can go wrong when a generation is ended, given the error of the context of the wait.\<close>

inductive ending_cause :: "mgr_env \<Rightarrow> error \<Rightarrow> nat \<Rightarrow> goerr \<Rightarrow> bool" for env ctx_err p where
  shutdown_fails: "en_shutdown env p = Some e \<Longrightarrow> ending_cause env ctx_err p e"
| close_fails: "en_shutdown env p \<noteq> None \<Longrightarrow> en_close env p = Some e \<Longrightarrow> ending_cause env ctx_err p e"
| serve_failed: "en_joined env p = Some (Some e) \<Longrightarrow> ending_cause env ctx_err p e"
| not_joined: "en_joined env p = None \<Longrightarrow> ctx_err = Some e \<Longrightarrow> ending_cause env ctx_err p e"

lemma shutdown_runtime_exact:
  "shutdown_runtime env p m = (m\<lparr>mg_log := mg_log m @ runtime_calls env p\<rparr>, runtime_error env p)"
  by (simp add: shutdown_runtime_def runtime_calls_def runtime_error_def log_event_def split: option.split)

lemma ending_cause_is:
  assumes "ending_cause env ctx_err p e" and "errors_is e t"
  shows "error_is (errors_join [runtime_error env p, case en_joined env p of Some e \<Rightarrow> e | None \<Rightarrow> ctx_err]) t"
    (is "error_is (errors_join ?es) t")
proof -
  have "error_is (runtime_error env p) t \<or> error_is (case en_joined env p of Some e \<Rightarrow> e | None \<Rightarrow> ctx_err) t"
    using assms
  proof cases
    case shutdown_fails
    with assms(2) errors_join_is [of "Some e" "[Some e, en_close env p]" t] show ?thesis
      by (simp add: runtime_error_def)
  next
    case close_fails
    with assms(2) errors_join_is [of "Some e" "[en_shutdown env p, Some e]" t] show ?thesis
      by (auto simp: runtime_error_def)
  qed (use assms(2) in simp_all)
  then show ?thesis using errors_join_is [of _ ?es t] by auto
qed

lemma drain_error_None: "drain_error env p = None \<longleftrightarrow> en_shutdown env p = None \<and> en_joined env p = Some None"
  by (auto simp: drain_error_def runtime_error_def err_simps split: option.splits)

lemma drainGeneration_exact:
  assumes "drainGeneration env p force m = (m', err)"
  shows "mg_log m' = mg_log m @ runtime_calls env p" and "err = drain_error env p"
    and "mg_gens m' p = map_option (drained_gen env force p) (mg_gens m p)"
  using assms
  by (auto simp: drainGeneration_def shutdown_runtime_exact Let_def drain_error_def drained_gen_def
      close_hijacked_def update_gen_def option.map_comp comp_def split: option.splits if_splits
      intro!: map_option_cong)

lemma promote_log [simp]: "mg_log (promote p cfg m) = mg_log m @ [MPromote p]"
  by (simp add: promote_def log_event_def update_gen_def Let_def split: option.split)

lemma prepareGeneration_log:
  "prepareGeneration env m cfg = (m1, Inr p) \<Longrightarrow> mg_log m1 = mg_log m @ [MListen (gn_address (gen m1 p))]"
  by (auto simp: prepareGeneration_def candidate_generation_def log_event_def Let_def
      split: sum.splits option.splits if_splits bool.splits)

lemma probe_log: "probe env m p = (m1, None) \<Longrightarrow> mg_log m1 = mg_log m @ [MProbe p]"
  by (auto simp: probe_def log_event_def Let_def split: sum.splits)

section \<open>Replace, case by case\<close>

lemma Replace_cases:
  assumes inv: "mgr_inv (m, Free)" and run: "Replace env m req = Some (m', res, err)"
  obtains
    (rejected) e where "res = rejected" "err = Some e" "unchanged m m'"
  | (equivalent) cfg p where "\<not> mg_closed m" "configFor env m req = Inr cfg" "mg_active m = Some p"
      "equivalentConfig (gn_config (gen m p)) cfg" "m' = m" "err = None"
      "res = \<lparr>rs_generation = gn_id (gen m p), rs_state = ReplaceApplied\<rparr>"
  | (switched) cfg m1 p g h ma mb where "\<not> mg_closed m" "configFor env m req = Inr cfg"
      "prepareGeneration env m cfg = (m1, Inr p)" "mg_gens m1 p = Some g" "mg_gens m p = None"
      "mgr_inv (m', Free)" "mg_active m' = Some p" "mg_gens m' p = Some h"
      "gn_handler h = gn_handler g" "gn_id h = gn_id g" "gn_config h = gn_config g"
      "mg_config m' = cfg" "mg_handler m' = sc_handler cfg" "mg_draining m' = mg_draining m"
      "rs_generation res = gn_id g"
      "rs_state res = (if err = None then ReplaceApplied else ReplaceAppliedWithDrainFailure)"
      "probe env ma p = (mb, None)" "mg_gens ma p = Some g" "mg_token ma = mg_token m"
      "gn_address h = gn_address g"
      "mg_log m' = mg_log m @ [MListen (gn_address g), MServe p, MProbe p, MPromote p]
         @ (case mg_active m of None \<Rightarrow> [] | Some old \<Rightarrow> runtime_calls env old)"
      "err = (case mg_active m of None \<Rightarrow> None | Some old \<Rightarrow> drain_error env old)"
      "\<forall>old k. mg_active m = Some old \<longrightarrow> mg_gens m old = Some k \<longrightarrow>
         mg_gens m' old = Some (drained_gen env (sc_force_close_hijacked cfg) old (retire_gen k))"
proof -
  obtain ma r where admit: "replace_admit env m req = (ma, r)" by fastforce
  show thesis
    using admit
  proof (cases rule: replace_admit_cases)
    case (refused e)
    then show thesis using run admit by (intro rejected) (auto simp: Replace_def replace_locked_def)
  next
    case (equivalent cfg p)
    then show thesis using run admit
      by (intro that(2) [of cfg p]) (auto simp: Replace_def replace_locked_def)
  next
    case (unprepared cfg e)
    then show thesis using run admit prepareGeneration_failed
      by (intro rejected) (auto simp: Replace_def replace_locked_def)
  next
    case (started cfg m1 p)
    obtain mb pe where probe: "probe env ma p = (mb, pe)" by fastforce
    have "mgr_inv (ma, Probing p cfg)"
      using inv_refused_or_started [OF admit inv] started(8) by simp
    then have "mgr_inv (mb, Probing p cfg)"
      using probe probe_same_state inv_same_state by blast
    then have inv_b: "mgr_inv (mb, Probed p cfg)" by (simp add: mgr_inv_def phase_ok_def)
    from started(6) obtain g where g: "p = mg_next m" "mg_gens m1 = (mg_gens m)(p \<mapsto> g)"
      "mg_config m1 = mg_config m" "mg_handler m1 = mg_handler m" "mg_shared m1 = mg_shared m"
      "mg_token m1 = mg_token m" "mg_active m1 = mg_active m" "mg_candidates m1 = mg_candidates m"
      "mg_draining m1 = mg_draining m" "mg_closed m1 = mg_closed m"
      by (blast elim: prepareGeneration_prepared)
    have free: "mg_gens m p = None" using inv g(1) by (simp add: mgr_inv_def store_ok_def)
    have b: "mg_gens mb = (mg_gens m)(p \<mapsto> g)" "mg_active mb = mg_active m"
      "mg_draining mb = mg_draining m" "unchanged m (drop_candidate p mb)"
      using probe_fields [OF probe] started(7) g free inv
      by (auto simp: unchanged_def mgr_inv_def phase_ok_def)
    have locked: "replace_locked env m req = replace_decide env ma p cfg"
      using admit started(8) by (simp add: replace_locked_def)
    show thesis
    proof (cases "\<exists>e. replace_decide env ma p cfg = (drop_candidate p mb, LReject p e)")
      case True
      then obtain e m2 ce where close: "generation_close env None p
            (sc_force_close_hijacked (gn_config (gen (drop_candidate p mb) p))) (drop_candidate p mb)
          = Some (m2, ce)" and out: "m' = m2" "res = rejected" "err = Some e"
        using run locked by (auto simp: Replace_def split: option.splits)
      note flds = generation_close_fields [OF close]
      have "mg_gens m' q = Some k" if "mg_gens m q = Some k" for q k
        using that b(4) flds free out(1) by (cases "q = p") (auto simp: unchanged_def)
      then have "unchanged m m'"
        using b(4) flds out(1) by (simp add: unchanged_def)
      with out show thesis by (intro rejected) auto
    next
      case False
      let ?mp = "promote p cfg mb"
      have a: "mg_gens ma p = Some g" "mg_token ma = mg_token m" using started(7) g by auto
      have ok: "probe env ma p = (mb, None)"
        using False probe by (auto simp: replace_decide_def split: option.splits)
      have dec: "replace_decide env ma p cfg = (?mp,
          case mg_active m of None \<Rightarrow> LReturn \<lparr>rs_generation = gn_id g, rs_state = ReplaceApplied\<rparr> None
          | Some old \<Rightarrow> LDrain old p)"
        using False probe b(1,2)
        by (auto simp: replace_decide_def replace_commit_def split: option.splits)
      have invp: "mgr_inv (?mp, Free)" using inv_b by (rule inv_promote)
      have neq: "mg_active mb \<noteq> Some p" using inv_b by (simp add: mgr_inv_def phase_ok_def candidate_ok_def)
      have hp: "mg_gens ?mp p = Some (admit_gen g)" using promote_gens [OF neq] b(1) by simp
      have log: "mg_log ?mp = mg_log m @ [MListen (gn_address g), MServe p, MProbe p, MPromote p]"
        using probe_log [OF ok] prepareGeneration_log [OF started(6)] started(7) g(2) by (simp add: log_event_def)
      show thesis
      proof (cases "mg_active m")
        case None
        then show thesis
          using run locked dec invp hp started g free b a ok log
          by (intro switched [of cfg m1 p g "admit_gen g" ma mb]) (auto simp: Replace_def)
      next
        case (Some old)
        obtain m3 de where drain: "drainGeneration env old (sc_force_close_hijacked cfg) ?mp = (m3, de)"
          by fastforce
        have out: "m' = m3\<lparr>mg_draining := mg_draining m3 - {old}\<rparr>" "err = de"
          "res = \<lparr>rs_generation = gn_id g, rs_state =
              (if de \<noteq> None then ReplaceAppliedWithDrainFailure else ReplaceApplied)\<rparr>"
          using run locked dec Some drain hp by (auto simp: Replace_def)
        have s3: "same_state ?mp m3" using drain by (rule same_state_drain)
        have old: "old \<noteq> p" "old \<notin> mg_draining m"
          using neq b(2) Some inv by (auto simp: mgr_inv_def active_ok_def)
        have "mgr_inv (m', Free)"
          using inv_undrain [OF inv_same_state [OF s3 invp]] out(1) by simp
        moreover have "mg_draining m' = mg_draining m"
          using s3 out(1) b(2,3) Some old by (auto simp: same_state_def)
        moreover note exact = drainGeneration_exact [OF drain]
        have "mg_log m' = mg_log m @ [MListen (gn_address g), MServe p, MProbe p, MPromote p] @ runtime_calls env old"
          using exact(1) out(1) log by simp
        moreover have "mg_gens m' old = Some (drained_gen env (sc_force_close_hijacked cfg) old (retire_gen k))"
          if "mg_gens m old = Some k" for k
          using that exact(3) out(1) promote_gens [OF neq, of cfg old] b(1,2) Some old by simp
        ultimately show thesis
          using s3 out old drainGeneration_fields [OF drain] hp started g free b a ok exact(2) Some
          by (intro switched [of cfg m1 p g "admit_gen g" ma mb]) (auto simp: same_state_def)
      qed
    qed
  qed
qed

text \<open>A probe that passes was answered with 200 and the configured identity.\<close>

lemma probe_passed_response:
  assumes "probe env m p = (m', None)" and "mg_gens m p = Some g"
  shows "\<exists>pr resp. en_transport env pr = Inr resp \<and> pr_host pr = gn_address g
      \<and> pr_token pr = mg_token m \<and> hs_status resp = 200
      \<and> hs_header resp ''X-Hanami-Probe-Identity'' = sc_probe_identity (gn_config g)"
proof -
  obtain roots resp where "en_transport env (probe_request_for m g roots) = Inr resp"
    and "probe_verdict g resp = None"
    using assms by (auto simp: probe_def Let_def split: sum.splits)
  then show ?thesis
    by (intro exI [of _ "probe_request_for m g roots"])
      (auto simp: probe_verdict_def probe_request_for_def split: if_splits)
qed

section \<open>Shutdown\<close>

text \<open>
  A close that returns marks its generation closed, having shut its runtime down if it was not
  closed before, and reports what went wrong.
\<close>

definition close_calls :: "mgr_env \<Rightarrow> manager \<Rightarrow> nat \<Rightarrow> mgr_event list" where
  "close_calls env m p = (if gn_closed (gen m p) then [] else runtime_calls env p)"

lemma generation_close_returns:
  assumes "ctx_end \<noteq> None \<or> en_joined env p \<noteq> None" and "mg_gens m p \<noteq> None"
  obtains m' err where "generation_close env ctx_end p force m = Some (m', err)"
    and "gn_closed (gen m' p)" and "mg_gens m' p \<noteq> None" and "mg_log m' = mg_log m @ close_calls env m p"
    and "\<And>e t. \<not> gn_closed (gen m p) \<Longrightarrow> ending_cause env ctx_end p e \<Longrightarrow> errors_is e t \<Longrightarrow> error_is err t"
proof -
  obtain g where g: "mg_gens m p = Some g" using assms(2) by auto
  show thesis
  proof (cases "gn_closed g")
    case True
    then show thesis using g by (intro that [of m None]) (auto simp: generation_close_def close_calls_def)
  next
    case False
    let ?m1 = "update_gen p (\<lambda>g. g\<lparr>gn_closed := True\<rparr>) m"
    let ?m2 = "update_gen p (close_hijacked force) (?m1\<lparr>mg_log := mg_log m @ runtime_calls env p\<rparr>)"
    let ?err = "errors_join [runtime_error env p, case en_joined env p of Some e \<Rightarrow> e | None \<Rightarrow> ctx_end]"
    have "generation_close env ctx_end p force m = Some (?m2, ?err)"
      using False g assms(1) by (auto simp: generation_close_def shutdown_runtime_exact split: option.split)
    moreover have "gn_closed (gen ?m2 p)" and "mg_gens ?m2 p \<noteq> None"
      using g by (simp_all add: close_hijacked_def)
    moreover have "mg_log ?m2 = mg_log m @ close_calls env m p" using False g by (simp add: close_calls_def)
    ultimately show thesis using that ending_cause_is by blast
  qed
qed

lemma generation_close_keeps:
  assumes "generation_close env ctx_end p force m = Some (m', err)" and "q \<noteq> p"
  shows "mg_gens m' q = mg_gens m q"
  using generation_close_fields [OF assms(1)] assms(2) by simp

text \<open>Closing a list of generations closes each of them and keeps the rest of the manager.\<close>

lemma close_all_returns:
  assumes "\<And>p. p \<in> set ps \<Longrightarrow> ctx_end \<noteq> None \<or> en_joined env p \<noteq> None"
    and "\<And>p. p \<in> set ps \<Longrightarrow> mg_gens m p \<noteq> None" and "distinct ps"
  shows "\<exists>m' err. close_all env ctx_end ps result m = Some (m', err)
     \<and> mg_active m' = mg_active m \<and> mg_candidates m' = mg_candidates m \<and> mg_draining m' = mg_draining m
     \<and> mg_closed m' = mg_closed m \<and> mg_shared m' = mg_shared m
     \<and> (\<forall>p \<in> set ps. gn_closed (gen m' p)) \<and> (\<forall>q. q \<notin> set ps \<longrightarrow> mg_gens m' q = mg_gens m q)
     \<and> (\<forall>t. error_is result t \<longrightarrow> error_is err t)
     \<and> mg_log m' = mg_log m @ concat (map (close_calls env m) ps)
     \<and> (\<forall>p \<in> set ps. \<forall>e t. \<not> gn_closed (gen m p) \<longrightarrow> ending_cause env ctx_end p e \<longrightarrow>
          errors_is e t \<longrightarrow> error_is err t)"
  using assms
proof (induction ps arbitrary: result m)
  case (Cons p ps)
  have hd: "ctx_end \<noteq> None \<or> en_joined env p \<noteq> None" "mg_gens m p \<noteq> None"
    using Cons.prems(1) [of p] Cons.prems(2) [of p] by simp_all
  obtain m1 e1 where close: "generation_close env ctx_end p (sc_force_close_hijacked (gn_config (gen m p))) m
        = Some (m1, e1)"
    and closed: "gn_closed (gen m1 p)" and log: "mg_log m1 = mg_log m @ close_calls env m p"
    and err: "\<And>e t. \<not> gn_closed (gen m p) \<Longrightarrow> ending_cause env ctx_end p e \<Longrightarrow> errors_is e t \<Longrightarrow> error_is e1 t"
    by (rule generation_close_returns [OF hd, of "sc_force_close_hijacked (gn_config (gen m p))"]) blast
  note keep = generation_close_keeps [OF close] and flds = generation_close_fields [OF close]
  let ?res = "if e1 \<noteq> None then errors_join [result, e1] else result"
  have res: "error_is result t \<or> error_is e1 t \<Longrightarrow> error_is ?res t" for t
    using errors_join_is [of result "[result, e1]" t] errors_join_is [of e1 "[result, e1]" t] by auto
  have same: "mg_gens m1 q = mg_gens m q" if "q \<in> set ps" for q
    using keep [of q] that Cons.prems(3) by auto
  have calls: "map (close_calls env m1) ps = map (close_calls env m) ps"
    using same by (simp add: close_calls_def)
  obtain m' e' where IH: "close_all env ctx_end ps ?res m1 = Some (m', e')"
     "mg_active m' = mg_active m1" "mg_candidates m' = mg_candidates m1" "mg_draining m' = mg_draining m1"
     "mg_closed m' = mg_closed m1" "mg_shared m' = mg_shared m1"
     "\<forall>p \<in> set ps. gn_closed (gen m' p)" "\<forall>q. q \<notin> set ps \<longrightarrow> mg_gens m' q = mg_gens m1 q"
     "\<forall>t. error_is ?res t \<longrightarrow> error_is e' t"
     "mg_log m' = mg_log m1 @ concat (map (close_calls env m1) ps)"
     "\<forall>p \<in> set ps. \<forall>e t. \<not> gn_closed (gen m1 p) \<longrightarrow> ending_cause env ctx_end p e \<longrightarrow>
          errors_is e t \<longrightarrow> error_is e' t"
    using Cons.IH [of m1 ?res] Cons.prems same by auto
  have "gn_closed (gen m' p)" using IH(8) closed Cons.prems(3) by simp
  moreover have "\<forall>q. q \<notin> set (p # ps) \<longrightarrow> mg_gens m' q = mg_gens m q"
    using IH(8) keep by simp
  moreover have "\<forall>t. error_is result t \<longrightarrow> error_is e' t"
    using IH(9) res by blast
  moreover have "\<forall>e t. \<not> gn_closed (gen m p) \<longrightarrow> ending_cause env ctx_end p e \<longrightarrow>
      errors_is e t \<longrightarrow> error_is e' t"
    using IH(9) res err by blast
  moreover have "mg_log m' = mg_log m @ concat (map (close_calls env m) (p # ps))"
    using IH(10) log calls by simp
  ultimately show ?case
    using IH close flds same by (intro exI [of _ m'] exI [of _ e']) auto
qed simp

section \<open>Properties\<close>

text \<open>
  C15: in every reachable state of the manager, however serving loops, drains, rotations,
  replacements and shutdown interleave, at most one generation admits normal traffic and
  it is the active one (unless the manager is closed), the active generation has passed
  its promotion and is not draining, the number of draining generations respects the
  configured limit, and a closed manager has no active generation.
\<close>

theorem manager_invariant:
  assumes "reachable (m, ph)"
  shows "(\<forall>q r g h. mg_gens m q = Some g \<longrightarrow> mg_gens m r = Some h \<longrightarrow>
            gt_admitted (gn_gate g) \<longrightarrow> gt_admitted (gn_gate h) \<longrightarrow> q = r)
         \<and> (\<forall>q g. mg_gens m q = Some g \<longrightarrow> gt_admitted (gn_gate g) \<longrightarrow> mg_active m = Some q \<or> mg_closed m)
         \<and> (\<forall>p. mg_active m = Some p \<longrightarrow> p \<notin> mg_draining m \<and> p \<notin> mg_candidates m \<and> \<not> mg_closed m
              \<and> (\<exists>g. mg_gens m p = Some g \<and> gn_promoted g \<and> gt_admitted (gn_gate g)))
         \<and> int (card (mg_draining m)) \<le> sc_max_draining (mg_config m)
         \<and> card (mg_candidates m) \<le> 1"
proof -
  have "mgr_inv (m, ph)" using assms by (rule reachable_inv)
  then show ?thesis
    by (cases ph) (auto simp: mgr_inv_def inv_defs)
qed

text \<open>
  C16: a generation answers a request that does not carry the manager's private token with
  anything but 503 only if it is the active generation (or the manager was shut down) and
  the application admits work.
\<close>

theorem only_active_generation_serves:
  assumes "reachable (m, ph)" and "mg_gens m q = Some g"
    and "hq_header r ''X-Hanami-Probe'' \<noteq> mg_token m"
    and "Gate_Wrap (sh_admission (mg_shared m)) (Some (gn_gate g)) next r \<noteq> unavailable_response"
  shows "(mg_active m = Some q \<or> mg_closed m) \<and> Admission_IsOpen (sh_admission (mg_shared m))"
proof -
  have inv: "mgr_inv (m, ph)" using assms(1) by (rule reachable_inv)
  then have "gate_ok (mg_token m) g" using assms(2) by (simp add: mgr_inv_def store_ok_def)
  then have "gt_admitted (gn_gate g)" and "Admission_IsOpen (sh_admission (mg_shared m))"
    using assms(3,4) by (auto simp: Gate_Wrap_def Gate_Probe_def Gate_Admitted_def gate_ok_def Let_def
        split: if_splits)
  then show ?thesis using inv assms(2) by (auto simp: mgr_inv_def admitted_ok_def)
qed

text \<open>
  C17: a rejected replacement returns an error and changes nothing a caller or a client can
  see: configuration, handler, admission, stop request, active generation, draining and
  candidate sets and every existing generation (gate, certificate, connections) are as
  they were.
\<close>

theorem rejected_replace_changes_nothing:
  assumes "reachable (m, Free)" and "Replace env m req = Some (m', res, err)"
    and "rs_state res = ReplaceRejected"
  shows "err \<noteq> None \<and> unchanged m m'"
  using reachable_inv [OF assms(1)] assms(2)
proof (cases rule: Replace_cases)
  case (equivalent cfg p)
  then show ?thesis using assms(3) by (simp add: replace_state_defs)
next
  case (switched cfg m1 p g h ma mb)
  then show ?thesis using assms(3) by (simp add: replace_state_defs split: if_splits)
qed simp

text \<open>
  C18: a replacement that is not rejected either finds an equivalent configuration active
  and changes nothing, or has switched to a new generation that runs the requested
  configuration under the returned identity: its probe at its own address was answered
  with 200 and the configured identity, it is active and admitting, no other generation
  admits, the configuration is recorded and the draining set is as before.  The effects are
  exactly: listen, serve, probe, promote, and then the drain of the old generation, if there
  was one, by \<^verbatim>\<open>Shutdown\<close> of its runtime and, if that fails, \<^verbatim>\<open>Close\<close>; it is marked closed, its
  hijacked connections are closed if that is configured and the drain failed, every cause of
  a failed drain is found in the error, and an error is returned exactly when the drain failed.
\<close>

theorem applied_replace_switches:
  assumes "reachable (m, Free)" and "Replace env m req = Some (m', res, err)"
    and "rs_state res \<noteq> ReplaceRejected"
  shows "\<exists>cfg. configFor env m req = Inr cfg \<and>
     ((m' = m \<and> err = None \<and> rs_state res = ReplaceApplied \<and>
         (\<exists>p. mg_active m = Some p \<and> equivalentConfig (gn_config (gen m p)) cfg)) \<or>
      (\<exists>p h. mg_gens m p = None \<and> mg_active m' = Some p \<and> mg_gens m' p = Some h
         \<and> gn_id h = rs_generation res \<and> gn_config h = cfg \<and> mg_config m' = cfg
         \<and> gn_promoted h \<and> gt_admitted (gn_gate h)
         \<and> (\<exists>pr resp. en_transport env pr = Inr resp \<and> pr_host pr = gn_address h
              \<and> pr_token pr = mg_token m \<and> hs_status resp = 200
              \<and> hs_header resp ''X-Hanami-Probe-Identity'' = sc_probe_identity cfg)
         \<and> (\<forall>q k. q \<noteq> p \<longrightarrow> mg_gens m' q = Some k \<longrightarrow> \<not> gt_admitted (gn_gate k))
         \<and> mg_draining m' = mg_draining m
         \<and> rs_state res = (if err = None then ReplaceApplied else ReplaceAppliedWithDrainFailure)
         \<and> mg_log m' = mg_log m @ [MListen (gn_address h), MServe p, MProbe p, MPromote p]
             @ (case mg_active m of None \<Rightarrow> []
                | Some old \<Rightarrow> MShutdown old # (if en_shutdown env old = None then [] else [MRuntimeClose old]))
         \<and> (mg_active m = None \<longrightarrow> err = None)
         \<and> (\<forall>old k. mg_active m = Some old \<longrightarrow> mg_gens m old = Some k \<longrightarrow>
              (\<exists>k'. mg_gens m' old = Some k' \<and> gn_closed k'
                 \<and> gn_hijacked k' = (if sc_force_close_hijacked cfg
                        \<and> (en_shutdown env old \<noteq> None \<or> en_joined env old = None) then [] else gn_hijacked k))
              \<and> (err = None \<longleftrightarrow> en_shutdown env old = None \<and> en_joined env old = Some None)
              \<and> (\<forall>e t. ending_cause env (Some ErrDeadline) old e \<longrightarrow> errors_is e t \<longrightarrow> error_is err t))))"
  using reachable_inv [OF assms(1)] assms(2)
proof (cases rule: Replace_cases)
  case rejected
  then show ?thesis using assms(3) by (simp add: Manager.rejected_def)
next
  case (equivalent cfg p)
  then show ?thesis by auto
next
  case (switched cfg m1 p g h ma mb)
  have "gn_config g = cfg"
    using switched(3,4) by (elim prepareGeneration_prepared) (auto simp: candidate_generation_def)
  moreover have "gn_promoted h \<and> gt_admitted (gn_gate h)"
    using switched(6-8) by (auto simp: mgr_inv_def active_ok_def)
  moreover from this have "\<forall>q k. q \<noteq> p \<longrightarrow> mg_gens m' q = Some k \<longrightarrow> \<not> gt_admitted (gn_gate k)"
    using switched(6,8) by (auto simp: mgr_inv_def admitted_ok_def)
  moreover have "\<exists>pr resp. en_transport env pr = Inr resp \<and> pr_host pr = gn_address h
      \<and> pr_token pr = mg_token m \<and> hs_status resp = 200
      \<and> hs_header resp ''X-Hanami-Probe-Identity'' = sc_probe_identity (gn_config g)"
    using probe_passed_response [OF switched(17,18)] switched(19,20) by simp
  moreover have "mg_log m' = mg_log m @ [MListen (gn_address h), MServe p, MProbe p, MPromote p]
      @ (case mg_active m of None \<Rightarrow> []
         | Some old \<Rightarrow> MShutdown old # (if en_shutdown env old = None then [] else [MRuntimeClose old]))"
    unfolding runtime_calls_def [symmetric] by (simp add: switched(20,21))
  moreover have "mg_active m = None \<longrightarrow> err = None" by (simp add: switched(22))
  moreover have "(\<exists>k'. mg_gens m' old = Some k' \<and> gn_closed k'
        \<and> gn_hijacked k' = (if sc_force_close_hijacked cfg
               \<and> (en_shutdown env old \<noteq> None \<or> en_joined env old = None) then [] else gn_hijacked k))
      \<and> (err = None \<longleftrightarrow> en_shutdown env old = None \<and> en_joined env old = Some None)
      \<and> (\<forall>e t. ending_cause env (Some ErrDeadline) old e \<longrightarrow> errors_is e t \<longrightarrow> error_is err t)"
    if "mg_active m = Some old" and "mg_gens m old = Some k" for old k
    using that switched(22,23) ending_cause_is [of env "Some ErrDeadline" old]
    by (simp add: drain_error_None drained_gen_def retire_gen_def) (auto simp: drain_error_def)
  ultimately show ?thesis
    using switched(2,5,7,8,10,11,12,14,15,16)
    by (intro exI [of _ cfg] conjI disjI2 exI [of _ p] exI [of _ h]) simp_all
qed

text \<open>
  C21: the handler a new generation of the built-in runtime serves is the one the manager
  had before the replacement, not the one of the request: the requested handler is only
  recorded, for the replacement after this one.
\<close>

theorem replacement_serves_previous_handler:
  assumes "reachable (m, Free)" and "Replace env m req = Some (m', res, err)"
    and "mg_active m' = Some p" and "mg_active m \<noteq> Some p" and "configFor env m req = Inr cfg"
    and "sc_factory cfg = None"
  shows "gn_handler (gen m' p) = mg_handler m \<and> mg_handler m' = sc_handler cfg"
  using reachable_inv [OF assms(1)] assms(2)
proof (cases rule: Replace_cases)
  case (switched cfg' m1 p' g h ma mb)
  have "gn_handler g = mg_handler m"
    using switched(2,3,4) assms(5,6)
    by (elim prepareGeneration_prepared) (auto simp: candidate_generation_def)
  then show ?thesis using switched assms(3,5) by auto
qed (use assms(3,4) in \<open>auto simp: unchanged_def\<close>)

text \<open>
  a request that changes only the handler, the TLS configuration, the probe and drain
  time limits or the draining limit of the active generation is answered as applied, and
  nothing at all is changed.
\<close>

theorem unrecognised_change_is_noop:
  assumes "\<not> mg_closed m" and "mg_active m = Some p"
    and "configFor env m req = Inr ((gn_config (gen m p))
           \<lparr>sc_handler := h, sc_tls := t, sc_probe_timeout := pt, sc_drain_timeout := dt, sc_max_draining := n\<rparr>)"
  shows "Replace env m req =
     Some (m, \<lparr>rs_generation = gn_id (gen m p), rs_state = ReplaceApplied\<rparr>, None)"
  using assms
  by (simp add: Replace_def replace_locked_def replace_admit_def equivalentConfig_def certificateFingerprint_def)

text \<open>
  a candidate of the built-in runtime whose connections reach its own gate passes its
  probe before it is admitted and whatever the admission, exactly if the configured
  identity is at most 4096 bytes long (the probe reads no more); a longer identity, which
  validation accepts, can never be activated.
\<close>

theorem probe_through_closed_gate:
  assumes "reachable (m, ph)" and "mg_gens m p = Some g"
    and "ServerConfig_normalized x509 c = Inr (gn_config g)"
    and "probe_roots env g = Inr roots"
    and "\<And>pr. en_transport env pr =
           Inr (Gate_Wrap adm (Some (gn_gate g)) (gn_handler g)
                  \<lparr>hq_method = ''GET'', hq_path = pr_path pr,
                   hq_header = (\<lambda>k. if k = ''X-Hanami-Probe'' then pr_token pr else '''')\<rparr>)"
  shows "snd (probe env m p) = None \<longleftrightarrow> length (sc_probe_identity (gn_config g)) \<le> 4096"
proof -
  have ok: "gate_ok (mg_token m) g"
    using reachable_store [OF assms(1)] assms(2) by (simp add: store_ok_def)
  have "ServerConfig_Validate (gn_config g) = None"
    using assms(3) by (rule normalized_cases)
  moreover have "sc_probe_path (gn_config g) \<noteq> ''''"
    using with_defaults_nonempty(2) normalized_fixpoint [OF assms(3)] by metis
  ultimately have path: "probe_path (sc_probe_path (gn_config g)) = sc_probe_path (gn_config g)"
    by (auto simp: ServerConfig_Validate_def probe_path_def Let_def split: option.splits if_splits)
  have "take 4096 s = s \<longleftrightarrow> length s \<le> 4096" for s :: string
    by (metis length_take min_def nle_le take_all)
  then show ?thesis
    using assms(2,4,5) ok path
    by (auto simp: probe_def probe_verdict_def probe_request_for_def Gate_Wrap_def Gate_Probe_def gate_ok_def)
qed

text \<open>
  C20: when the serving loop of the active generation ends with a real error, admission
  closes, so that no generation serves a request without the private token any more, and
  a stop with a runtime failure that wraps the error is on record (unless another request
  came first).
\<close>

theorem active_serve_failure_is_supervised:
  assumes "reachable (m, ph)" and "mg_active m = Some p" and "\<not> errors_is e ErrServerClosed"
    and "m' = generation_serve_returns p (Some e) m"
  shows "\<not> Admission_IsOpen (sh_admission (mg_shared m'))
         \<and> stop_seen (sh_controller (mg_shared m')) =
             Some (case stop_seen (sh_controller (mg_shared m)) of None \<Rightarrow> serve_loop_request e | Some q \<Rightarrow> q)
         \<and> (\<forall>q g. mg_gens m' q = Some g \<longrightarrow> hq_header r ''X-Hanami-Probe'' \<noteq> mg_token m \<longrightarrow>
              Gate_Wrap (sh_admission (mg_shared m')) (Some (gn_gate g)) next r = unavailable_response)"
proof -
  have inv: "mgr_inv (m, ph)" using assms(1) by (rule reachable_inv)
  then have prom: "gn_promoted (gen m p)"
    using assms(2) by (auto simp: mgr_inv_def active_ok_def)
  have norm: "default_reason (serve_loop_request e) = serve_loop_request e"
    by (simp add: default_reason_def serve_loop_request_def stop_reason_defs)
  have m': "mg_shared m' = \<lparr>sh_admission = Admission_Close (sh_admission (mg_shared m)),
      sh_controller = fst (RequestStop (sh_controller (mg_shared m)) (serve_loop_request e))\<rparr>"
    using assms(3,4) prom by (simp add: generation_serve_returns_def drop_server_closed_def)
  have tok: "mg_token m' = mg_token m" and inv': "mgr_inv (m', ph)"
    using same_state_serve [of m p "Some e"] inv assms(4) inv_same_state by (auto simp: same_state_def)
  have "stop_seen (sh_controller (mg_shared m')) =
      Some (case stop_seen (sh_controller (mg_shared m)) of None \<Rightarrow> serve_loop_request e | Some q \<Rightarrow> q)"
    using reachable_controller [OF assms(1)] stop_cell.put_first stop_cell.put_later
    by (cases "stop_seen (sh_controller (mg_shared m))") (simp_all add: m' norm)
  then show ?thesis
    using inv' tok by (auto simp: m' Gate_Wrap_def Gate_Probe_def Gate_Admitted_def Let_def
        mgr_inv_def store_ok_def gate_ok_def)
qed

text \<open>
  an HTTPS configuration that carries its certificate only in \<^verbatim>\<open>TLSConfig\<close> is valid but
  can never become active: the probe trusts an empty pool of roots, so where the TLS
  library refuses to verify a server against no roots every such replacement leaves the
  active generation as it was.
\<close>

theorem tls_config_only_never_activates:
  assumes "reachable (m, Free)" and "Replace env m req = Some (m', res, err)"
    and "configFor env m req = Inr cfg" and "sc_protocol cfg = ProtocolHTTPS" and "sc_certificate cfg = None"
    and "\<And>pr. pr_roots pr = Some [] \<Longrightarrow> \<exists>e. en_transport env pr = Inl e"
  shows "mg_active m' = mg_active m"
  using reachable_inv [OF assms(1)] assms(2)
proof (cases rule: Replace_cases)
  case (switched cfg' m1 p g h ma mb)
  have "gn_config g = cfg"
    using switched(2,3,4) assms(3) by (elim prepareGeneration_prepared) (auto simp: candidate_generation_def)
  then have "probe_roots env g = Inr (Some [])"
    using assms(4,5) by (simp add: probe_roots_def)
  moreover have "\<exists>e. en_transport env (probe_request_for ma g (Some [])) = Inl e"
    by (rule assms(6)) (simp add: probe_request_for_def)
  ultimately show ?thesis
    using switched(17,18) by (auto simp: probe_def)
qed (simp_all add: unchanged_def)

text \<open>
  C24: rotation succeeds exactly if an HTTPS generation is active, the offered certificate
  is complete, its leaf parses and the leaf's key is the public key of the private key;
  then the certificate is stored where the active generation's handshakes read it and both
  recorded configurations name it, and nothing else changes.  Otherwise nothing changes.
\<close>

theorem rotation_publishes_matching_certificate:
  "(snd (RotateCertificate env cert m) = None \<longleftrightarrow>
      (\<exists>p leaf chain key leaf_key pub der.
         mg_active m = Some p \<and> sc_protocol (gn_config (gen m p)) = ProtocolHTTPS
         \<and> ct_chain cert = leaf # chain \<and> ct_key cert = Some key
         \<and> en_parse_leaf env leaf = Inr leaf_key \<and> pk_public key = Some pub
         \<and> en_marshal_key env leaf_key = Inr der \<and> en_marshal_key env pub = Inr der))
   \<and> fst (RotateCertificate env cert m) =
       (if snd (RotateCertificate env cert m) = None
        then (update_gen (the (mg_active m)) (\<lambda>g. g\<lparr>gn_certificate := Some cert,
                 gn_config := (gn_config g)\<lparr>sc_certificate := Some cert\<rparr>\<rparr>) m)
               \<lparr>mg_config := (mg_config m)\<lparr>sc_certificate := Some cert\<rparr>\<rparr>
        else m)"
  by (cases "mg_active m"; cases "ct_chain cert"; cases "ct_key cert")
     (auto simp: RotateCertificate_def publicKeysEqual_def split: sum.splits option.splits if_splits)

text \<open>
  C19: where the context of the shutdown ends or every serving loop does, \<^verbatim>\<open>Shutdown\<close>
  returns; then the manager is closed, admission is closed, no generation is active, a
  candidate or draining.  Exactly the generations it owned that were not closed before have
  had their runtimes shut down, in the order of the two maps and then the active one, and
  closed as well where \<^verbatim>\<open>Shutdown\<close> of the runtime failed; every one is marked closed, and the
  errors of these calls, of the serving loops that were joined, and of the context for those
  that were not can be found in the result.  From then on every replacement is rejected and a
  second shutdown does nothing.
\<close>

theorem shutdown_closes_everything:
  assumes "reachable (m, Free)" and "\<not> mg_closed m"
    and "iterates cands (mg_candidates m)" and "iterates drains (mg_draining m)"
    and "\<And>p. ctx_end \<noteq> None \<or> en_joined env p \<noteq> None"
  shows "\<exists>m' err. Manager_Shutdown env ctx_end cands drains m = Some (m', err)
     \<and> mg_closed m' \<and> \<not> Admission_IsOpen (sh_admission (mg_shared m'))
     \<and> mg_active m' = None \<and> mg_candidates m' = {} \<and> mg_draining m' = {}
     \<and> mg_log m' = mg_log m @ concat (map (\<lambda>p. if gn_closed (gen m p) then []
            else MShutdown p # (if en_shutdown env p = None then [] else [MRuntimeClose p]))
          (cands @ drains @ (case mg_active m of None \<Rightarrow> [] | Some p \<Rightarrow> [p])))
     \<and> (\<forall>p. p \<in> mg_draining m \<or> mg_active m = Some p \<longrightarrow> gn_closed (gen m' p)
          \<and> (\<forall>e t. \<not> gn_closed (gen m p) \<longrightarrow> ending_cause env ctx_end p e \<longrightarrow> errors_is e t \<longrightarrow> error_is err t))
     \<and> Replace env' m' req = Some (m', rejected, Some (err_new ''HTTP manager is closed''))
     \<and> Manager_Shutdown env' ctx_end' cands' drains' m' = Some (m', None)"
proof -
  have inv: "mgr_inv (m, Free)" using assms(1) by (rule reachable_inv)
  obtain m0 ps where lk: "shutdown_locked cands drains m = (m0, ps)" by fastforce
  let ?active = "case mg_active m of None \<Rightarrow> [] | Some p \<Rightarrow> [p]"
  have ps: "ps = cands @ drains @ ?active" and cands: "cands = []"
    and m0: "mg_closed m0" "mg_active m0 = None" "mg_candidates m0 = {}" "mg_draining m0 = {}"
      "mg_gens m0 = mg_gens m" "\<not> Admission_IsOpen (sh_admission (mg_shared m0))" "mg_log m0 = mg_log m"
    using lk assms(3) inv by (auto simp: shutdown_locked_def iterates_def mgr_inv_def phase_ok_def)
  have set_ps: "set ps = mg_draining m \<union> set_option (mg_active m)" and "distinct ps"
    using ps cands assms(4) inv by (auto simp: iterates_def mgr_inv_def active_ok_def split: option.splits)
  moreover have "mg_gens m0 p \<noteq> None" if "p \<in> set ps" for p
    using that set_ps inv m0(5) by (auto simp: mgr_inv_def active_ok_def draining_ok_def)
  ultimately obtain m' err where all: "close_all env ctx_end ps None m0 = Some (m', err)"
     "mg_active m' = mg_active m0" "mg_candidates m' = mg_candidates m0" "mg_draining m' = mg_draining m0"
     "mg_closed m' = mg_closed m0" "mg_shared m' = mg_shared m0" "\<forall>p \<in> set ps. gn_closed (gen m' p)"
     "mg_log m' = mg_log m0 @ concat (map (close_calls env m0) ps)"
     "\<forall>p \<in> set ps. \<forall>e t. \<not> gn_closed (gen m0 p) \<longrightarrow> ending_cause env ctx_end p e \<longrightarrow>
          errors_is e t \<longrightarrow> error_is err t"
    using close_all_returns [of ps ctx_end env m0 None] assms(5) by auto
  have shut: "Manager_Shutdown env ctx_end cands drains m = Some (m', err)"
    using lk all(1) assms(2) by (simp add: Manager_Shutdown_def)
  have log: "mg_log m' = mg_log m @ concat (map (\<lambda>p. if gn_closed (gen m p) then []
      else MShutdown p # (if en_shutdown env p = None then [] else [MRuntimeClose p])) (cands @ drains @ ?active))"
    unfolding runtime_calls_def [symmetric] all(8) m0(7) ps by (simp add: close_calls_def [abs_def] m0(5))
  have owned: "\<forall>p. p \<in> mg_draining m \<or> mg_active m = Some p \<longrightarrow> gn_closed (gen m' p)
      \<and> (\<forall>e t. \<not> gn_closed (gen m p) \<longrightarrow> ending_cause env ctx_end p e \<longrightarrow> errors_is e t \<longrightarrow> error_is err t)"
    using all(7,9) set_ps m0(5) by auto
  have "mg_closed m'" using all(5) m0(1) by simp
  then have "Replace env' m' req = Some (m', rejected, Some (err_new ''HTTP manager is closed''))"
    and "Manager_Shutdown env' ctx_end' cands' drains' m' = Some (m', None)"
    by (simp_all add: Replace_def replace_locked_def replace_admit_def Manager_Shutdown_def)
  then show ?thesis
    using shut log owned all(2-6) m0 by (intro exI [of _ m'] exI [of _ err]) simp
qed

text \<open>
  C23: A serving loop that fails after its candidate passed the probe and before the promotion
  is lost.  In the window in which the candidate has been probed and \<^verbatim>\<open>Replace\<close> still holds the
  lock, the failure closes no admission and requests no stop; the commit then promotes the
  dead generation: it becomes active and admitting, is reported as serving, and the
  replacement goes on as an applied one.  What the same failure does after the promotion is
  the subject of \<open>active_serve_failure_is_supervised\<close>.
\<close>

theorem serve_failure_before_promotion_is_lost:
  assumes "reachable (m, Probed p cfg)" and "mg_gens m p = Some g" and "gn_serve_done g = None"
    and "\<not> errors_is e ErrServerClosed" and "en_ctx_after env = None"
    and "replace_commit env (generation_serve_returns p (Some e) m) p cfg = (m', left)"
  shows "reachable (m', Free) \<and> mg_active m' = Some p
     \<and> (\<exists>h. mg_gens m' p = Some h \<and> gn_serve_done h = Some (Some e) \<and> gt_admitted (gn_gate h))
     \<and> mg_shared m' = mg_shared m \<and> (ss_serving (Current m') \<longleftrightarrow> \<not> gn_closed g)
     \<and> left = (case mg_active m of None \<Rightarrow> LReturn \<lparr>rs_generation = gn_id g, rs_state = ReplaceApplied\<rparr> None
               | Some old \<Rightarrow> LDrain old p)"
proof -
  let ?d = "generation_serve_returns p (Some e) m"
  have "mgr_inv (m, Probed p cfg)" using assms(1) by (rule reachable_inv)
  then have cand: "\<not> gn_promoted g" "mg_active m \<noteq> Some p"
    using assms(2) by (simp_all add: mgr_inv_def phase_ok_def candidate_ok_def)
  have dead: "?d = update_gen p (\<lambda>g. g\<lparr>gn_serve_done := Some (Some e)\<rparr>) m"
    using cand(1) assms(2,4) by (simp add: generation_serve_returns_def drop_server_closed_def)
  have m': "m' = promote p cfg ?d"
    and left: "left = (case mg_active m of None \<Rightarrow> LReturn \<lparr>rs_generation = gn_id g, rs_state = ReplaceApplied\<rparr> None
               | Some old \<Rightarrow> LDrain old p)"
    using assms(2,5,6) by (auto simp: replace_commit_def dead split: option.splits)
  let ?h = "admit_gen (g\<lparr>gn_serve_done := Some (Some e)\<rparr>)"
  have gens: "mg_gens m' p = Some ?h"
    unfolding m' using promote_gens [of ?d p cfg p] cand(2) assms(2) by (simp add: dead)
  have active: "mg_active m' = Some p" and shared: "mg_shared m' = mg_shared m"
    by (simp_all add: m') (simp add: dead)
  have "mstep (m, Probed p cfg) (?d, Probed p cfg)" using assms(2,3) by (rule mstep.serve_exit)
  moreover have "mstep (?d, Probed p cfg) (m', Free)" using assms(6) by (rule mstep.commit)
  ultimately have "reachable (m', Free)" using assms(1) reachable.step by blast
  moreover have "ss_serving (Current m') \<longleftrightarrow> \<not> gn_closed g"
    using active gens by (simp add: Current_def Let_def)
  ultimately show ?thesis using active shared gens left by auto
qed

end
