(* ===== verification/Manager_Witness.thy ===== *)
theory Manager_Witness
  imports Manager_Props
begin

text \<open>
  Concrete runs of the generation manager: a manager created, started and given a second
  generation, at which the properties are applied, and the run in which the serving loop
  of a candidate ends between its probe and its promotion.
\<close>

section \<open>A concrete environment and the first generation\<close>

definition ex_menv :: mgr_env where
  "ex_menv =
     \<lparr>en_listen = Inr, en_x509 = (\<lambda>_ _. Inl (err_new ''no pem'')), en_parse_leaf = Inr,
      en_marshal_key = Inr, en_factory = (\<lambda>_ _. Inr True), en_ctx_before = None, en_ctx_after = None,
      en_transport = (\<lambda>_. Inr \<lparr>hs_status = 200,
         hs_header = (\<lambda>k. if k = ''X-Hanami-Probe-Identity'' then ''hanami'' else ''''), hs_body = ''hanami''\<rparr>),
      en_shutdown = (\<lambda>_. None), en_close = (\<lambda>_. None), en_joined = (\<lambda>_. Some None)\<rparr>"

definition ex_cfg :: server_config where
  "ex_cfg = with_defaults ex_http"

definition ex_cfg2 :: server_config where
  "ex_cfg2 = ex_cfg\<lparr>sc_address := ''127.0.0.1:8082'', sc_handler := Some (\<lambda>_. unavailable_response)\<rparr>"

definition ex_request :: "server_config \<Rightarrow> replace_request" where
  "ex_request c = \<lparr>rp_server = c, rp_config = zero_config, rp_handler = None\<rparr>"

lemma ex_address2: "SplitHostPort ''127.0.0.1:8082'' = Inr (''127.0.0.1'', ''8082'')"
  by code_simp

lemmas ex_config_simps = with_defaults_def ex_http_def zero_config_def ServerConfig_Validate_def
  validateBasicServerConfig_def ex_address ex_address2 effective_protocol_def protocol_defs pem_empty_def
  second_def has_prefix_def contains_any_def default_probe_server_name_def host_of_def

lemma ex_server_name: "trim_both ''127.0.0.1'' ''[]'' = ''127.0.0.1''"
  by (rule trim_both_id) simp

lemma ex_cfg_eq: "ex_cfg = zero_config
    \<lparr>sc_address := ''127.0.0.1:8081'', sc_protocol := ''http'', sc_probe_path := ''/health/ready'',
     sc_probe_identity := ''hanami'', sc_probe_timeout := 3000000000, sc_drain_timeout := 10000000000,
     sc_max_draining := 2, sc_probe_server_name := ''127.0.0.1'', sc_handler := Some NotFoundHandler\<rparr>"
  by (simp add: ex_cfg_def ex_config_simps ex_server_name)

lemma ex_normalized:
  "ServerConfig_normalized x509 ex_cfg = Inr ex_cfg"
  "ServerConfig_normalized x509 ex_cfg2 = Inr ex_cfg2"
  "ServerConfig_normalized x509 (ex_http\<lparr>sc_handler := Some NotFoundHandler\<rparr>) = Inr ex_cfg"
  by (simp_all add: ServerConfig_normalized_def load_pem_def ex_cfg2_def ex_cfg_eq ex_config_simps
      ex_server_name)

definition ex_m0 :: manager where
  "ex_m0 = \<lparr>mg_config = ex_cfg, mg_handler = Some NotFoundHandler,
     mg_shared = \<lparr>sh_admission = Admission_Open NewAdmission, sh_controller = NewController\<rparr>,
     mg_token = ''token'', mg_counter = 0, mg_next = 0, mg_gens = (\<lambda>_. None), mg_active = None,
     mg_candidates = {}, mg_draining = {}, mg_closed = False, mg_log = []\<rparr>"

lemma ex_new: "NewManager (\<lambda>_ _. Inl (err_new ''no pem'')) (Inr ''token'') ex_http None None = Inr ex_m0"
proof -
  have "sc_handler ex_http = None" by (simp add: ex_http_def zero_config_def)
  moreover have "sc_handler ex_cfg = Some NotFoundHandler" by (simp add: ex_cfg_eq)
  ultimately show ?thesis by (simp add: NewManager_def ex_normalized ex_m0_def)
qed

lemma ex_reach0: "reachable (ex_m0, Free)"
  by (rule reachable.init [OF ex_new]) simp

definition ex_gen :: generation where
  "ex_gen = \<lparr>gn_id = ''1'', gn_config = ex_cfg, gn_address = ''127.0.0.1:8081'', gn_tls = None,
     gn_gate = \<lparr>gt_path = ''/health/ready'', gt_identity = ''hanami'', gt_token = ''token'',
                gt_has_admission = True, gt_admitted = False\<rparr>,
     gn_handler = Some NotFoundHandler, gn_promoted = False, gn_certificate = None, gn_hijacked = [],
     gn_closed = False, gn_serve_done = None\<rparr>"

definition ex_started :: manager where
  "ex_started = ex_m0\<lparr>mg_counter := 1, mg_next := 1, mg_gens := [0 \<mapsto> ex_gen], mg_candidates := {0},
     mg_log := [MListen ''127.0.0.1:8081'', MServe 0]\<rparr>"

lemma ex_config_for:
  "mg_handler m = Some NotFoundHandler \<Longrightarrow> configFor ex_menv m (ex_request ex_cfg) = Inr ex_cfg"
  "configFor ex_menv m (ex_request ex_cfg2) = Inr ex_cfg2"
  by (simp_all add: configFor_def ex_request_def ex_normalized)
     (simp_all add: ex_cfg2_def ex_cfg_eq ex_normalized [unfolded ex_cfg2_def ex_cfg_eq] zero_config_def)

lemma ex_ids: "dec (Suc 0) = ''1''" "dec 2 = ''2''"
  by (code_simp, code_simp)

lemma ex_admit: "replace_admit ex_menv ex_m0 (ex_request ex_cfg) = (ex_started, Inr (0, ex_cfg))"
proof -
  have cfg: "configFor ex_menv ex_m0 (ex_request ex_cfg) = Inr ex_cfg"
    by (rule ex_config_for) (simp add: ex_m0_def)
  have "prepareGeneration ex_menv ex_m0 ex_cfg =
      (ex_started\<lparr>mg_candidates := {}, mg_log := [MListen ''127.0.0.1:8081'']\<rparr>, Inr 0)"
    by (simp add: prepareGeneration_def candidate_generation_def newGenerationGate_def ex_started_def
        ex_gen_def ex_m0_def ex_menv_def ex_cfg_eq zero_config_def protocol_defs log_event_def ex_ids)
  then show ?thesis
    using cfg by (simp add: replace_admit_def startGeneration_def ex_started_def ex_m0_def log_event_def
        ex_menv_def)
qed

text \<open>The probe passes and the candidate is promoted: the manager has its first generation.\<close>

definition ex_probed :: manager where
  "ex_probed = log_event (MProbe 0) ex_started"

lemma ex_probe: "probe ex_menv ex_started 0 = (ex_probed, None)"
  by (simp add: probe_def probe_roots_def probe_verdict_def ex_probed_def ex_started_def ex_gen_def
      ex_menv_def ex_cfg_eq protocol_defs zero_config_def)

definition ex_m1 :: manager where
  "ex_m1 = promote 0 ex_cfg ex_probed"

lemma ex_decide: "replace_commit ex_menv ex_probed 0 ex_cfg =
    (ex_m1, LReturn \<lparr>rs_generation = ''1'', rs_state = ReplaceApplied\<rparr> None)"
  by (simp add: replace_commit_def ex_m1_def ex_menv_def ex_probed_def ex_started_def ex_m0_def ex_gen_def)

lemma ex_replace1: "Replace ex_menv ex_m0 (ex_request ex_cfg) =
    Some (ex_m1, \<lparr>rs_generation = ''1'', rs_state = ReplaceApplied\<rparr>, None)"
  by (simp add: Replace_def replace_locked_def ex_admit replace_decide_def ex_probe ex_decide)

lemma promote_counter: "mg_counter (promote p cfg m) = mg_counter m"
  by (simp add: promote_def Let_def split: option.splits)

lemma ex_m1_fields:
  "mg_active ex_m1 = Some 0" "mg_gens ex_m1 = [0 \<mapsto> admit_gen ex_gen]" "mg_draining ex_m1 = {}"
  "mg_candidates ex_m1 = {}" "mg_closed ex_m1 = False" "mg_token ex_m1 = ''token''"
  "mg_handler ex_m1 = Some NotFoundHandler" "mg_shared ex_m1 = mg_shared ex_m0"
  "mg_counter ex_m1 = 1" "mg_next ex_m1 = 1" "mg_config ex_m1 = ex_cfg"
  by (auto simp: promote_counter ex_m1_def ex_probed_def ex_started_def ex_m0_def promote_gens ex_cfg_eq)

lemma ex_reach1: "reachable (ex_m1, Free)"
proof -
  have "mstep (ex_m0, Free) (ex_started, Probing 0 ex_cfg)" using ex_admit by (rule mstep.started)
  moreover have "mstep (ex_started, Probing 0 ex_cfg) (ex_probed, Probed 0 ex_cfg)"
    using ex_probe by (rule mstep.probe_passed)
  moreover have "mstep (ex_probed, Probed 0 ex_cfg) (ex_m1, Free)"
    using ex_decide by (rule mstep.commit)
  ultimately show ?thesis using ex_reach0 reachable.step by blast
qed

section \<open>The second generation\<close>

lemma ex_different: "\<not> equivalentConfig ex_cfg ex_cfg2"
  by (simp add: equivalentConfig_def ex_cfg2_def ex_cfg_eq)

definition ex_gen2 :: generation where
  "ex_gen2 = ex_gen\<lparr>gn_id := ''2'', gn_config := ex_cfg2, gn_address := ''127.0.0.1:8082''\<rparr>"

definition ex_started2 :: manager where
  "ex_started2 = log_event (MServe 1) ((log_event (MListen ''127.0.0.1:8082'') ex_m1)
     \<lparr>mg_counter := 2, mg_next := 2, mg_gens := [0 \<mapsto> admit_gen ex_gen, 1 \<mapsto> ex_gen2], mg_candidates := {1}\<rparr>)"

lemma ex_admit2: "replace_admit ex_menv ex_m1 (ex_request ex_cfg2) = (ex_started2, Inr (1, ex_cfg2))"
proof -
  have cfg: "gn_config ex_gen = ex_cfg" and ctx: "en_ctx_before ex_menv = None"
    by (simp_all add: ex_gen_def ex_menv_def)
  have prep: "prepareGeneration ex_menv ex_m1 ex_cfg2 =
      ((log_event (MListen ''127.0.0.1:8082'') ex_m1)
         \<lparr>mg_counter := 2, mg_next := 2, mg_gens := [0 \<mapsto> admit_gen ex_gen, 1 \<mapsto> ex_gen2]\<rparr>, Inr 1)"
    by (simp add: prepareGeneration_def candidate_generation_def newGenerationGate_def ex_m1_fields
        ex_gen2_def ex_gen_def ex_menv_def ex_cfg2_def ex_cfg_eq zero_config_def protocol_defs ex_ids)
  have "\<not> sc_max_draining ex_cfg2 \<le> int (card (mg_draining ex_m1))"
    by (simp add: ex_m1_fields ex_cfg2_def ex_cfg_eq)
  then show ?thesis
    unfolding replace_admit_def
    by (simp add: ex_config_for cfg ctx ex_different prep ex_m1_fields startGeneration_def ex_started2_def)
qed

definition ex_m2 :: manager where
  "ex_m2 = promote 1 ex_cfg2 (log_event (MProbe 1) ex_started2)"

lemma ex_started2_fields:
  "mg_active ex_started2 = Some 0" "mg_gens ex_started2 = [0 \<mapsto> admit_gen ex_gen, 1 \<mapsto> ex_gen2]"
  by (simp_all add: ex_started2_def ex_m1_fields)

lemma ex_locked2: "replace_locked ex_menv ex_m1 (ex_request ex_cfg2) = (ex_m2, LDrain 0 1)"
proof -
  have "probe ex_menv ex_started2 1 = (log_event (MProbe 1) ex_started2, None)"
    by (simp add: probe_def probe_roots_def probe_verdict_def ex_started2_fields ex_gen2_def ex_gen_def
        ex_menv_def ex_cfg2_def ex_cfg_eq protocol_defs zero_config_def)
  moreover have "en_ctx_after ex_menv = None" by (simp add: ex_menv_def)
  ultimately show ?thesis
    by (simp add: replace_locked_def ex_admit2 replace_decide_def replace_commit_def ex_started2_fields
        ex_m2_def)
qed

definition ex_drained :: manager where
  "ex_drained = fst (drainGeneration ex_menv 0 False ex_m2)"

definition ex_m3 :: manager where
  "ex_m3 = ex_drained\<lparr>mg_draining := mg_draining ex_drained - {0}\<rparr>"

lemma ex_replace2: "Replace ex_menv ex_m1 (ex_request ex_cfg2) =
    Some (ex_m3, \<lparr>rs_generation = ''2'', rs_state = ReplaceApplied\<rparr>, None)"
proof -
  have "snd (drainGeneration ex_menv 0 False ex_m2) = None"
    by (simp add: drainGeneration_def shutdown_runtime_def ex_menv_def)
  then have "drainGeneration ex_menv 0 False ex_m2 = (ex_drained, None)"
    by (simp add: ex_drained_def prod_eq_iff)
  moreover have "sc_force_close_hijacked ex_cfg2 = False" and "gn_id (gen ex_m2 1) = ''2''"
    by (simp_all add: ex_cfg2_def ex_cfg_eq zero_config_def ex_m2_def promote_gens ex_started2_fields ex_gen2_def)
  moreover have "mg_config ex_m2 = ex_cfg2" by (simp add: ex_m2_def)
  ultimately show ?thesis by (simp add: Replace_def ex_locked2 ex_m3_def)
qed

lemma ex_m3_active: "mg_active ex_m3 = Some 1"
proof -
  have "same_state ex_m2 ex_drained"
    unfolding ex_drained_def by (rule same_state_drain [of ex_menv 0 False _ _ "snd (drainGeneration ex_menv 0 False ex_m2)"]) simp
  then show ?thesis by (simp add: ex_m3_def same_state_def ex_m2_def)
qed

text \<open>The same environment with a candidate that cannot be reached.\<close>

definition ex_unreachable :: mgr_env where
  "ex_unreachable = ex_menv\<lparr>en_transport := (\<lambda>_. Inl (err_new ''connection refused''))\<rparr>"

lemma ex_replace_unreachable:
  "\<exists>m' e. Replace ex_unreachable ex_m0 (ex_request ex_cfg) = Some (m', rejected, Some e)"
proof -
  have "configFor ex_unreachable ex_m0 (ex_request ex_cfg) = Inr ex_cfg"
    using ex_config_for(1) [of ex_m0] by (simp add: configFor_def ex_unreachable_def ex_m0_def)
  moreover have "prepareGeneration ex_unreachable ex_m0 ex_cfg = prepareGeneration ex_menv ex_m0 ex_cfg"
  proof -
    have "en_listen ex_unreachable = en_listen ex_menv" "en_factory ex_unreachable = en_factory ex_menv"
      "makeTLSConfig ex_unreachable ex_cfg = makeTLSConfig ex_menv ex_cfg"
      by (simp_all add: ex_unreachable_def makeTLSConfig_def ex_cfg_eq zero_config_def)
    then show ?thesis by (simp only: prepareGeneration_def)
  qed
  moreover have "en_ctx_before ex_unreachable = None" "en_ctx_before ex_menv = None"
    by (simp_all add: ex_unreachable_def ex_menv_def)
  moreover have "mg_closed ex_m0 = False" "mg_active ex_m0 = None" "mg_handler ex_m0 = Some NotFoundHandler"
    by (simp_all add: ex_m0_def)
  ultimately have "replace_admit ex_unreachable ex_m0 (ex_request ex_cfg) = (ex_started, Inr (0, ex_cfg))"
    using ex_admit by (simp add: replace_admit_def ex_config_for)
  moreover have "snd (probe ex_unreachable ex_started 0) \<noteq> None"
    by (simp add: probe_def probe_roots_def ex_started_def ex_gen_def ex_cfg_eq protocol_defs
        zero_config_def ex_unreachable_def)
  then obtain mb e where "probe ex_unreachable ex_started 0 = (mb, Some e)"
    by (cases "probe ex_unreachable ex_started 0") auto
  moreover have "en_joined ex_unreachable 0 = Some None" "en_shutdown ex_unreachable 0 = None"
    by (simp_all add: ex_unreachable_def ex_menv_def)
  ultimately show ?thesis
    by (auto simp: Replace_def replace_locked_def replace_decide_def generation_close_def
        shutdown_runtime_def)
qed

section \<open>The properties at these runs\<close>

theorem manager_invariant_witness:
  "int (card (mg_draining ex_m1)) \<le> 2 \<and> (\<exists>g. mg_gens ex_m1 0 = Some g \<and> gt_admitted (gn_gate g))"
  using manager_invariant [OF ex_reach1]
  by (simp add: ex_m1_fields ex_cfg_eq)

theorem only_active_generation_serves_witness:
  "mg_active ex_m1 = Some 0 \<and> Admission_IsOpen (sh_admission (mg_shared ex_m1))"
proof -
  let ?r = "\<lparr>hq_method = ''GET'', hq_path = ''/notes'', hq_header = (\<lambda>_. '''')\<rparr>"
  have "Gate_Wrap (sh_admission (mg_shared ex_m1)) (Some (gn_gate (admit_gen ex_gen)))
      (Some NotFoundHandler) ?r \<noteq> unavailable_response"
    by (simp add: Gate_Wrap_def Gate_Probe_def Gate_Admitted_def ex_gen_def admit_gen_def setAdmitted_def
        ex_m1_fields ex_m0_def NotFoundHandler_def unavailable_response_def)
  from only_active_generation_serves [OF ex_reach1 _ _ this, of 0] show ?thesis
    by (simp add: ex_m1_fields)
qed

theorem rejected_replace_changes_nothing_witness:
  "\<exists>m' e. Replace ex_unreachable ex_m0 (ex_request ex_cfg) = Some (m', rejected, Some e)
     \<and> mg_active m' = None \<and> mg_candidates m' = {}"
proof -
  obtain m' e where run: "Replace ex_unreachable ex_m0 (ex_request ex_cfg) = Some (m', rejected, Some e)"
    using ex_replace_unreachable by blast
  from rejected_replace_changes_nothing [OF ex_reach0 run] have "unchanged ex_m0 m'"
    by (simp add: rejected_def)
  with run show ?thesis by (auto simp: unchanged_def ex_m0_def)
qed

theorem applied_replace_switches_witness:
  "mg_config ex_m3 = ex_cfg2 \<and> mg_draining ex_m3 = {} \<and> MShutdown 0 \<in> set (mg_log ex_m3)
   \<and> gn_closed (gen ex_m3 0)"
proof -
  have "rs_state \<lparr>rs_generation = ''2'', rs_state = ReplaceApplied\<rparr> \<noteq> ReplaceRejected"
    by (simp add: replace_state_defs)
  moreover have "ex_m3 \<noteq> ex_m1"
    using ex_m3_active ex_m1_fields(1) by auto
  ultimately show ?thesis
    using applied_replace_switches [OF ex_reach1 ex_replace2]
    by (auto simp: ex_config_for ex_m1_fields)
qed

theorem replacement_serves_previous_handler_witness:
  "gn_handler (gen ex_m3 1) = Some NotFoundHandler \<and> mg_handler ex_m3 = Some (\<lambda>_. unavailable_response)"
  using replacement_serves_previous_handler [OF ex_reach1 ex_replace2 ex_m3_active _ ex_config_for(2)]
  by (simp add: ex_m1_fields) (simp add: ex_cfg2_def ex_cfg_eq zero_config_def)

theorem unrecognised_change_is_noop_witness:
  "Replace ex_menv ex_m1 (ex_request (ex_cfg\<lparr>sc_handler := Some (\<lambda>_. unavailable_response)\<rparr>)) =
     Some (ex_m1, \<lparr>rs_generation = ''1'', rs_state = ReplaceApplied\<rparr>, None)"
proof -
  let ?c = "ex_cfg\<lparr>sc_handler := Some (\<lambda>_. unavailable_response)\<rparr>"
  have "ServerConfig_normalized (en_x509 ex_menv) ?c = Inr ?c"
    by (simp add: ServerConfig_normalized_def load_pem_def ex_cfg_eq ex_config_simps ex_server_name)
  then have "configFor ex_menv ex_m1 (ex_request ?c) = Inr ((gn_config (gen ex_m1 0))
      \<lparr>sc_handler := Some (\<lambda>_. unavailable_response), sc_tls := None, sc_probe_timeout := 3000000000,
       sc_drain_timeout := 10000000000, sc_max_draining := 2\<rparr>)"
    by (simp add: configFor_def ex_request_def ex_m1_fields ex_gen_def ex_cfg_eq zero_config_def)
  from unrecognised_change_is_noop [OF _ _ this] show ?thesis
    by (simp add: ex_m1_fields ex_gen_def)
qed

theorem probe_through_closed_gate_witness:
  "snd (probe (ex_menv\<lparr>en_transport := (\<lambda>pr. Inr (Gate_Wrap NewAdmission (Some (gn_gate ex_gen))
        (gn_handler ex_gen) \<lparr>hq_method = ''GET'', hq_path = pr_path pr,
          hq_header = (\<lambda>k. if k = ''X-Hanami-Probe'' then pr_token pr else '''')\<rparr>))\<rparr>)
      ex_started 0) = None"
proof -
  have "reachable (ex_started, Probing 0 ex_cfg)"
    using ex_reach0 mstep.started [OF ex_admit] by (rule reachable.step)
  moreover have "mg_gens ex_started 0 = Some ex_gen" by (simp add: ex_started_def)
  moreover have "ServerConfig_normalized (en_x509 ex_menv) (gn_config ex_gen) = Inr (gn_config ex_gen)"
    by (simp add: ex_gen_def ex_normalized)
  moreover have "probe_roots (ex_menv\<lparr>en_transport := t\<rparr>) ex_gen = Inr None" for t
    by (simp add: probe_roots_def ex_gen_def ex_cfg_eq protocol_defs)
  ultimately show ?thesis
    by (subst probe_through_closed_gate) (auto simp: ex_gen_def ex_cfg_eq)
qed

theorem active_serve_failure_is_supervised_witness:
  "stop_seen (sh_controller (mg_shared (generation_serve_returns 0 (Some (err_new ''accept'')) ex_m1))) =
     Some (serve_loop_request (err_new ''accept''))"
proof -
  have "\<not> errors_is (err_new ''accept'') ErrServerClosed" by (simp add: ErrServerClosed_def)
  then show ?thesis
    using active_serve_failure_is_supervised [OF ex_reach1 ex_m1_fields(1) _ refl]
    by (simp add: ex_m1_fields ex_m0_def)
qed

theorem shutdown_closes_everything_witness:
  "\<exists>m' err. Manager_Shutdown ex_menv None [] [] ex_m1 = Some (m', err) \<and> gn_closed (gen m' 0)
     \<and> mg_log m' = mg_log ex_m1 @ [MShutdown 0]
     \<and> Replace ex_menv m' (ex_request ex_cfg) = Some (m', rejected, Some (err_new ''HTTP manager is closed''))"
proof -
  have "\<not> mg_closed ex_m1" "iterates [] (mg_candidates ex_m1)" "iterates [] (mg_draining ex_m1)"
    "\<And>p. (None :: error) \<noteq> None \<or> en_joined ex_menv p \<noteq> None"
    by (simp_all add: ex_m1_fields iterates_def ex_menv_def)
  note closed = shutdown_closes_everything [OF ex_reach1 this, of ex_menv "ex_request ex_cfg"]
  have "\<not> gn_closed (gen ex_m1 0)" and "en_shutdown ex_menv 0 = None"
    by (simp_all add: ex_m1_fields ex_gen_def ex_menv_def)
  with closed ex_m1_fields(1) show ?thesis by force
qed

text \<open>An HTTPS configuration whose certificate is in \<^verbatim>\<open>TLSConfig\<close>, and a TLS library that verifies.\<close>

definition ex_tls_only :: server_config where
  "ex_tls_only = ex_cfg\<lparr>sc_protocol := ''https'',
     sc_tls := Some \<lparr>tc_min_version = VersionTLS12, tc_certificates = [ex_certificate], tc_get_certificate = False\<rparr>\<rparr>"

definition ex_verifying :: mgr_env where
  "ex_verifying = ex_menv\<lparr>en_transport := (\<lambda>pr.
     if pr_roots pr = Some [] then Inl (err_new ''x509: certificate signed by unknown authority'')
     else en_transport ex_menv pr)\<rparr>"

lemma ex_tls_only_config: "configFor ex_verifying ex_m0 (ex_request ex_tls_only) = Inr ex_tls_only"
  by (simp add: configFor_def ex_request_def ex_tls_only_def ServerConfig_normalized_def load_pem_def
      ex_cfg_eq ex_config_simps ex_server_name certificate_incomplete_def tls_has_no_certificate_def)

lemma ex_tls_only_returns:
  "\<exists>m' res err. Replace ex_verifying ex_m0 (ex_request ex_tls_only) = Some (m', res, err)"
proof -
  have "en_joined ex_verifying p = Some None" for p by (simp add: ex_verifying_def ex_menv_def)
  then show ?thesis
    by (auto simp: Replace_def generation_close_def shutdown_runtime_def drainGeneration_def Let_def
        split: prod.splits locked.splits option.splits)
qed

theorem tls_config_only_never_activates_witness:
  "\<exists>m' res err. Replace ex_verifying ex_m0 (ex_request ex_tls_only) = Some (m', res, err)
     \<and> mg_active m' = None"
proof -
  obtain m' res err where run: "Replace ex_verifying ex_m0 (ex_request ex_tls_only) = Some (m', res, err)"
    using ex_tls_only_returns by blast
  have "sc_protocol ex_tls_only = ProtocolHTTPS" "sc_certificate ex_tls_only = None"
    by (simp_all add: ex_tls_only_def ex_cfg_eq zero_config_def protocol_defs)
  moreover have "pr_roots pr = Some [] \<Longrightarrow> \<exists>e. en_transport ex_verifying pr = Inl e" for pr
    by (simp add: ex_verifying_def)
  ultimately have "mg_active m' = mg_active ex_m0"
    using tls_config_only_never_activates [OF ex_reach0 run ex_tls_only_config] by blast
  with run show ?thesis by (auto simp: ex_m0_def)
qed

section \<open>A serving loop that ends before the promotion\<close>

definition ex_dead :: manager where
  "ex_dead = promote 0 ex_cfg (generation_serve_returns 0 (Some (err_new ''accept'')) ex_probed)"

lemma ex_reach_probed: "reachable (ex_probed, Probed 0 ex_cfg)"
proof -
  have "mstep (ex_m0, Free) (ex_started, Probing 0 ex_cfg)" using ex_admit by (rule mstep.started)
  moreover have "mstep (ex_started, Probing 0 ex_cfg) (ex_probed, Probed 0 ex_cfg)"
    using ex_probe by (rule mstep.probe_passed)
  ultimately show ?thesis using ex_reach0 reachable.step by blast
qed

theorem serve_failure_before_promotion_is_lost_witness:
  "reachable (ex_dead, Free) \<and> mg_active ex_dead = Some 0
   \<and> gn_serve_done (gen ex_dead 0) = Some (Some (err_new ''accept''))
   \<and> Admission_IsOpen (sh_admission (mg_shared ex_dead)) \<and> stop_seen (sh_controller (mg_shared ex_dead)) = None
   \<and> ss_serving (Current ex_dead)"
proof -
  let ?d = "generation_serve_returns 0 (Some (err_new ''accept'')) ex_probed"
  have "mg_gens ex_probed 0 = Some ex_gen" and "gn_serve_done ex_gen = None" and "en_ctx_after ex_menv = None"
    and "\<not> errors_is (err_new ''accept'') ErrServerClosed"
    by (simp_all add: ex_probed_def ex_started_def ex_gen_def ex_menv_def ErrServerClosed_def)
  moreover have "replace_commit ex_menv ?d 0 ex_cfg =
      (ex_dead, case mg_active ?d of None \<Rightarrow> LReturn \<lparr>rs_generation = gn_id (gen ?d 0), rs_state = ReplaceApplied\<rparr> None
                | Some old \<Rightarrow> LDrain old 0)"
    by (simp add: replace_commit_def ex_menv_def ex_dead_def)
  moreover have "mg_shared ex_probed = mg_shared ex_m0" by (simp add: ex_probed_def ex_started_def)
  ultimately show ?thesis
    using serve_failure_before_promotion_is_lost [OF ex_reach_probed, of ex_gen "err_new ''accept''" ex_menv ex_dead]
    by (auto simp: ex_m0_def ex_gen_def)
qed

end
