(* ===== verification/Policy.thy ===== *)
theory Policy
  imports Prelude
begin

text \<open>
  Security policies, the platform-independent half of \<^verbatim>\<open>src/security/linux/security.go\<close>:
  modes, Landlock rights at their kernel bit values, grants, validation, the normal form
  behind the digest, the comparison of an effective with a desired policy, and the set of
  descriptors to preserve.
\<close>

unbundle bit_operations_syntax

section \<open>Modes, rights, grants, policies\<close>

type_synonym policy_mode = "8 word"

definition ModeOff :: policy_mode where "ModeOff = 0"
definition ModePreferred :: policy_mode where "ModePreferred = 1"
definition ModeRequired :: policy_mode where "ModeRequired = 2"

lemmas mode_defs = ModeOff_def ModePreferred_def ModeRequired_def

definition PolicyMode_String :: "policy_mode \<Rightarrow> string" where
  "PolicyMode_String m =
     (if m = ModeOff then ''off'' else if m = ModePreferred then ''preferred''
      else if m = ModeRequired then ''required'' else ''unknown'')"

definition PolicyMode_valid :: "policy_mode \<Rightarrow> bool" where
  "PolicyMode_valid m \<longleftrightarrow> m \<le> ModeRequired"

type_synonym rights = "64 word"

definition RightExecute :: rights where "RightExecute = push_bit 0 1"
definition RightWriteFile :: rights where "RightWriteFile = push_bit 1 1"
definition RightReadFile :: rights where "RightReadFile = push_bit 2 1"
definition RightReadDirectory :: rights where "RightReadDirectory = push_bit 3 1"
definition RightRemoveDirectory :: rights where "RightRemoveDirectory = push_bit 4 1"
definition RightRemoveFile :: rights where "RightRemoveFile = push_bit 5 1"
definition RightMakeCharacter :: rights where "RightMakeCharacter = push_bit 6 1"
definition RightMakeDirectory :: rights where "RightMakeDirectory = push_bit 7 1"
definition RightMakeRegular :: rights where "RightMakeRegular = push_bit 8 1"
definition RightMakeSocket :: rights where "RightMakeSocket = push_bit 9 1"
definition RightMakeFIFO :: rights where "RightMakeFIFO = push_bit 10 1"
definition RightMakeBlock :: rights where "RightMakeBlock = push_bit 11 1"
definition RightMakeSymlink :: rights where "RightMakeSymlink = push_bit 12 1"
definition RightRefer :: rights where "RightRefer = push_bit 13 1"
definition RightTruncate :: rights where "RightTruncate = push_bit 14 1"
definition RightIoctlDevice :: rights where "RightIoctlDevice = push_bit 15 1"

lemmas right_defs = RightExecute_def RightWriteFile_def RightReadFile_def RightReadDirectory_def
  RightRemoveDirectory_def RightRemoveFile_def RightMakeCharacter_def RightMakeDirectory_def
  RightMakeRegular_def RightMakeSocket_def RightMakeFIFO_def RightMakeBlock_def RightMakeSymlink_def
  RightRefer_def RightTruncate_def RightIoctlDevice_def

datatype grant = Grant (gr_path: string) (gr_access: rights)

text \<open>The comparison function \<^verbatim>\<open>normalized\<close> sorts grants by; the order of grants is the one it gives.\<close>

definition compare_grants :: "grant \<Rightarrow> grant \<Rightarrow> int" where
  "compare_grants a b =
     (if gr_path a < gr_path b then -1
      else if gr_path a > gr_path b then 1
      else if gr_access a < gr_access b then -1
      else if gr_access a > gr_access b then 1
      else 0)"

lemma compare_grants_simps:
  "compare_grants a b < 0 \<longleftrightarrow> gr_path a < gr_path b \<or> gr_path a = gr_path b \<and> gr_access a < gr_access b"
  "compare_grants a b \<le> 0 \<longleftrightarrow> gr_path a < gr_path b \<or> gr_path a = gr_path b \<and> gr_access a \<le> gr_access b"
  by (auto simp: compare_grants_def)

instantiation grant :: linorder
begin

definition less_eq_grant :: "grant \<Rightarrow> grant \<Rightarrow> bool" where
  "less_eq_grant a b \<longleftrightarrow> compare_grants a b \<le> 0"

definition less_grant :: "grant \<Rightarrow> grant \<Rightarrow> bool" where
  "less_grant a b \<longleftrightarrow> compare_grants a b < 0"

instance
proof
  fix a b c :: grant
  show "a < b \<longleftrightarrow> a \<le> b \<and> \<not> b \<le> a" and "a \<le> a" and "a \<le> b \<or> b \<le> a"
    by (auto simp: less_eq_grant_def less_grant_def compare_grants_simps)
  show "a \<le> b \<Longrightarrow> b \<le> c \<Longrightarrow> a \<le> c"
    by (auto simp: less_eq_grant_def compare_grants_simps)
  show "a \<le> b \<Longrightarrow> b \<le> a \<Longrightarrow> a = b"
    by (auto simp: less_eq_grant_def compare_grants_simps intro: grant.expand)
qed

end

record policy =
  po_mode :: policy_mode
  po_read_only :: "string list"
  po_writable :: "string list"
  po_executable :: "string list"
  po_grants :: "grant list"
  po_except_exec :: bool
  po_deny :: "string list"
  po_landlock :: bool
  po_seccomp :: bool

definition wantsLandlock :: "policy \<Rightarrow> bool" where
  "wantsLandlock p \<longleftrightarrow> po_landlock p \<or>
     length (po_read_only p) + length (po_writable p) + length (po_executable p)
       + length (po_grants p) \<noteq> 0"

definition wantsSeccomp :: "policy \<Rightarrow> bool" where
  "wantsSeccomp p \<longleftrightarrow> po_seccomp p \<or> length (po_deny p) \<noteq> 0"

section \<open>Validation\<close>

text \<open>
  The three lists of paths sit in a Go map, whose iteration order is not defined: \<open>order\<close>
  lists the keys as the loop meets them.
\<close>

datatype path_group = ReadOnly | Writable | Executable

fun group_name :: "path_group \<Rightarrow> string" where
  "group_name ReadOnly = ''read-only''"
| "group_name Writable = ''writable''"
| "group_name Executable = ''executable''"

fun group_paths :: "policy \<Rightarrow> path_group \<Rightarrow> string list" where
  "group_paths p ReadOnly = po_read_only p"
| "group_paths p Writable = po_writable p"
| "group_paths p Executable = po_executable p"

definition map_order :: "path_group list \<Rightarrow> bool" where
  "map_order order \<longleftrightarrow> distinct order \<and> set order = {ReadOnly, Writable, Executable}"

definition absolute :: "string \<Rightarrow> bool" where
  "absolute path \<longleftrightarrow> \<not> (path = '''' \<or> \<not> has_prefix path ''/'')"

definition group_error :: "policy \<Rightarrow> path_group \<Rightarrow> error" where
  "group_error p g =
     scan (\<lambda>path. if \<not> absolute path
             then Some (Errorf ''security: %s path must be absolute: %q'' [AStr (group_name g), AStr path])
             else None) id
          (\<lambda>path. Errorf ''security: duplicate %s path %q'' [AStr (group_name g), AStr path])
          {} (group_paths p g)"

fun first_error :: "('a \<Rightarrow> error) \<Rightarrow> 'a list \<Rightarrow> error" where
  "first_error f [] = None"
| "first_error f (x # xs) = (case f x of Some e \<Rightarrow> Some e | None \<Rightarrow> first_error f xs)"

definition grant_error :: "grant \<Rightarrow> error" where
  "grant_error g =
     (if \<not> absolute (gr_path g)
        then Some (Errorf ''security: grant path must be absolute: %q'' [AStr (gr_path g)])
      else if gr_access g = 0
        then Some (Errorf ''security: grant access is empty for %q'' [AStr (gr_path g)])
      else None)"

definition deny_error :: "policy \<Rightarrow> error" where
  "deny_error p =
     scan (\<lambda>name. if name = '''' then Some (err_new ''security: empty denied syscall'') else None) id
          (\<lambda>name. Errorf ''security: duplicate denied syscall %q'' [AStr name]) {} (po_deny p)"

definition Policy_Validate :: "path_group list \<Rightarrow> policy \<Rightarrow> error" where
  "Policy_Validate order p =
     (if \<not> PolicyMode_valid (po_mode p)
        then Some (Errorf ''security: invalid policy mode %d'' [AInt (uint (po_mode p))])
      else (case first_error (group_error p) order of
        Some e \<Rightarrow> Some e
      | None \<Rightarrow>
          (case first_error grant_error (po_grants p) of
             Some e \<Rightarrow> Some e
           | None \<Rightarrow> deny_error p)))"

section \<open>The normal form\<close>

definition Policy_normalized :: "policy \<Rightarrow> policy" where
  "Policy_normalized p =
     p\<lparr>po_read_only := sort (po_read_only p), po_writable := sort (po_writable p),
       po_executable := sort (po_executable p), po_deny := sort (po_deny p),
       po_grants := sort (po_grants p)\<rparr>"

text \<open>The digest of the normal form; JSON and SHA-256 are parameters.\<close>

definition Policy_Digest :: "(policy \<Rightarrow> string) \<Rightarrow> (string \<Rightarrow> string) \<Rightarrow> policy \<Rightarrow> string" where
  "Policy_Digest json sha256 p = hex_encode (sha256 (json (Policy_normalized p)))"

section \<open>Comparing policies\<close>

type_synonym change_kind = "8 word"

definition NoChange :: change_kind where "NoChange = 0"
definition MoreRestrictive :: change_kind where "MoreRestrictive = 1"
definition PermissionExpansion :: change_kind where "PermissionExpansion = 2"
definition ModeChange :: change_kind where "ModeChange = 3"

lemmas change_kind_defs = NoChange_def MoreRestrictive_def PermissionExpansion_def ModeChange_def

definition ChangeKind_String :: "change_kind \<Rightarrow> string" where
  "ChangeKind_String k =
     (if k = NoChange then ''no_change'' else if k = MoreRestrictive then ''more_restrictive''
      else if k = PermissionExpansion then ''permission_expansion''
      else if k = ModeChange then ''mode_change'' else ''unknown'')"

record policy_comparison =
  cp_kind :: change_kind
  cp_added_read_only :: "string list"
  cp_added_writable :: "string list"
  cp_added_executable :: "string list"
  cp_added_syscalls :: "string list"
  cp_removed_read_only :: "string list"
  cp_removed_writable :: "string list"
  cp_removed_executable :: "string list"
  cp_removed_syscalls :: "string list"
  cp_added_grants :: "grant list"
  cp_removed_grants :: "grant list"
  cp_mode_changed :: bool
  cp_landlock_changed :: bool
  cp_seccomp_changed :: bool
  cp_except_exec_changed :: bool
  cp_restart :: bool

definition differences :: "string list \<Rightarrow> string list \<Rightarrow> string list \<times> string list" where
  "differences current desired =
     (filter (\<lambda>x. x \<notin> set current) desired, filter (\<lambda>x. x \<notin> set desired) current)"

text \<open>\<^verbatim>\<open>m[g.Path] = g.Access\<close> for every grant in order; a missing key reads as 0.\<close>

definition grant_map :: "grant list \<Rightarrow> string \<Rightarrow> rights" where
  "grant_map gs = fold (\<lambda>g m. m(gr_path g := gr_access g)) gs (\<lambda>_. 0)"

definition grantDifferences :: "grant list \<Rightarrow> grant list \<Rightarrow> grant list \<times> grant list" where
  "grantDifferences current desired =
     (filter (\<lambda>g. grant_map current (gr_path g) \<noteq> gr_access g) desired,
      filter (\<lambda>g. grant_map desired (gr_path g) \<noteq> gr_access g) current)"

text \<open>The unused variant of the test: some desired access is not contained in the current one.\<close>

definition grantsExpanded :: "grant list \<Rightarrow> grant list \<Rightarrow> bool" where
  "grantsExpanded current desired \<longleftrightarrow>
     list_ex (\<lambda>g. grant_map current (gr_path g) AND gr_access g \<noteq> gr_access g) desired"

definition CompareEffectivePolicy :: "policy \<Rightarrow> policy \<Rightarrow> policy_comparison" where
  "CompareEffectivePolicy current0 desired0 =
     (let current = Policy_normalized current0; desired = Policy_normalized desired0;
          mode_changed = (po_mode current \<noteq> po_mode desired);
          (added_ro, removed_ro) = differences (po_read_only current) (po_read_only desired);
          (added_w, removed_w) = differences (po_writable current) (po_writable desired);
          (added_x, removed_x) = differences (po_executable current) (po_executable desired);
          (added_s, removed_s) = differences (po_deny current) (po_deny desired);
          (added_g, removed_g) = grantDifferences (po_grants current) (po_grants desired);
          kind0 = (if mode_changed then ModeChange else NoChange);
          expansion = (length added_ro + length added_w + length added_x + length added_s + length added_g > 0
             \<or> (po_landlock desired \<and> \<not> po_landlock current) \<or> (po_seccomp desired \<and> \<not> po_seccomp current));
          restriction = (length removed_ro + length removed_w + length removed_x + length removed_s
                + length removed_g > 0
             \<or> (po_landlock current \<and> \<not> po_landlock desired) \<or> (po_seccomp current \<and> \<not> po_seccomp desired))
      in \<lparr>cp_kind = (if expansion then PermissionExpansion
                     else if kind0 = NoChange \<and> restriction then MoreRestrictive else kind0),
          cp_added_read_only = added_ro, cp_added_writable = added_w, cp_added_executable = added_x,
          cp_added_syscalls = added_s, cp_removed_read_only = removed_ro, cp_removed_writable = removed_w,
          cp_removed_executable = removed_x, cp_removed_syscalls = removed_s, cp_added_grants = added_g,
          cp_removed_grants = removed_g, cp_mode_changed = mode_changed,
          cp_landlock_changed = (po_landlock current \<noteq> po_landlock desired),
          cp_seccomp_changed = (po_seccomp current \<noteq> po_seccomp desired),
          cp_except_exec_changed = (po_except_exec current \<noteq> po_except_exec desired),
          cp_restart = (expansion \<or> mode_changed \<and> (po_mode desired = ModeOff \<or> po_mode current = ModeOff))\<rparr>)"

section \<open>Preserved descriptors\<close>

definition ErrInvalidDescriptors :: goerr where
  "ErrInvalidDescriptors = err_new ''descriptor preserve set is invalid''"

definition PreserveFDSet_Validate :: "int list \<Rightarrow> error" where
  "PreserveFDSet_Validate s =
     scan (\<lambda>fd. if fd < 0 then Some (Errorf ''%w: negative fd %d'' [AWrap ErrInvalidDescriptors, AInt fd]) else None)
          id (\<lambda>fd. Errorf ''%w: duplicate fd %d'' [AWrap ErrInvalidDescriptors, AInt fd]) {} s"

end
