(* ===== verification/Handoff.thy ===== *)
theory Handoff
  imports Policy
begin

text \<open>
  The security handoff of \<^verbatim>\<open>src/security/linux/security.go\<close>: the record a process leaves
  in its environment for the image it re-executes, its integrity token, and its text form:
  unpadded URL-safe base64 (modelled as Go's \<^verbatim>\<open>encoding/base64\<close> works, lenient about line
  breaks and trailing bits) over JSON.  JSON and SHA-256 are parameters.
\<close>

section \<open>Base64, URL alphabet, no padding\<close>

definition b64_alphabet :: string where
  "b64_alphabet = ''ABCDEFGHIJKLMNOPQRSTUVWXYZabcdefghijklmnopqrstuvwxyz0123456789-_''"

definition b64_char :: "nat \<Rightarrow> char" where
  "b64_char i = b64_alphabet ! i"

fun find_index :: "char \<Rightarrow> string \<Rightarrow> nat option" where
  "find_index c [] = None"
| "find_index c (x # xs) = (if x = c then Some 0 else map_option Suc (find_index c xs))"

definition b64_index :: "char \<Rightarrow> nat option" where
  "b64_index c = find_index c b64_alphabet"

abbreviation byte :: "char \<Rightarrow> nat" where
  "byte c \<equiv> of_char c"

fun b64_encode :: "string \<Rightarrow> string" where
  "b64_encode [] = []"
| "b64_encode [a] = [b64_char (byte a div 4), b64_char (byte a mod 4 * 16)]"
| "b64_encode [a, b] =
     [b64_char (byte a div 4), b64_char (byte a mod 4 * 16 + byte b div 16), b64_char (byte b mod 16 * 4)]"
| "b64_encode (a # b # c # s) =
     b64_char (byte a div 4) # b64_char (byte a mod 4 * 16 + byte b div 16)
     # b64_char (byte b mod 16 * 4 + byte c div 64) # b64_char (byte c mod 64) # b64_encode s"

text \<open>The six-bit values, line breaks skipped; \<open>None\<close> at any other foreign character.\<close>

fun b64_values :: "string \<Rightarrow> nat list option" where
  "b64_values [] = Some []"
| "b64_values (c # s) =
     (case b64_index c of
        Some v \<Rightarrow> map_option (\<lambda>vs. v # vs) (b64_values s)
      | None \<Rightarrow> if c = CHR 0x0A \<or> c = CHR 0x0D then b64_values s else None)"

fun b64_unpack :: "nat list \<Rightarrow> string option" where
  "b64_unpack [] = Some []"
| "b64_unpack [p] = None"
| "b64_unpack [p, q] = Some [char_of (p * 4 + q div 16)]"
| "b64_unpack [p, q, r] = Some [char_of (p * 4 + q div 16), char_of (q mod 16 * 16 + r div 4)]"
| "b64_unpack (p # q # r # t # vs) =
     map_option (\<lambda>s. char_of (p * 4 + q div 16) # char_of (q mod 16 * 16 + r div 4)
                      # char_of (r mod 4 * 64 + t) # s) (b64_unpack vs)"

definition b64_decode :: "string \<Rightarrow> string option" where
  "b64_decode s = Option.bind (b64_values s) b64_unpack"

section \<open>The handoff\<close>

definition ErrHandoffInvalid :: goerr where
  "ErrHandoffInvalid = err_new ''security handoff is invalid''"

definition HandoffVersion :: "32 word" where "HandoffVersion = 1"

record handoff =
  ho_version :: "32 word"
  ho_digest :: string
  ho_landlock :: bool
  ho_seccomp :: bool
  ho_probe_path :: string
  ho_probe_dev :: "64 word"
  ho_probe_ino :: "64 word"
  ho_probe_mode :: "32 word"
  ho_token :: string

text \<open>The anonymous structure the token is computed over.\<close>

record token_input =
  ti_version :: "32 word"
  ti_digest :: string
  ti_probe_path :: string
  ti_probe_dev :: "64 word"
  ti_probe_ino :: "64 word"
  ti_probe_mode :: "32 word"
  ti_landlock :: bool
  ti_seccomp :: bool

text \<open>
  The library: \<^verbatim>\<open>json.Marshal\<close> and \<^verbatim>\<open>json.Unmarshal\<close> of a handoff, \<^verbatim>\<open>json.Marshal\<close> of
  the token structure and of a policy (which cannot fail), and SHA-256.
\<close>

record codec =
  co_marshal :: "handoff \<Rightarrow> goerr + string"
  co_unmarshal :: "string \<Rightarrow> goerr + handoff"
  co_token_json :: "token_input \<Rightarrow> string"
  co_policy_json :: "policy \<Rightarrow> string"
  co_sha256 :: "string \<Rightarrow> string"

definition digest :: "codec \<Rightarrow> policy \<Rightarrow> string" where
  "digest cd p = Policy_Digest (co_policy_json cd) (co_sha256 cd) p"

definition token_input_of :: "handoff \<Rightarrow> token_input" where
  "token_input_of h =
     \<lparr>ti_version = ho_version h, ti_digest = ho_digest h, ti_probe_path = ho_probe_path h,
      ti_probe_dev = ho_probe_dev h, ti_probe_ino = ho_probe_ino h, ti_probe_mode = ho_probe_mode h,
      ti_landlock = ho_landlock h, ti_seccomp = ho_seccomp h\<rparr>"

definition handoffToken :: "codec \<Rightarrow> handoff \<Rightarrow> string" where
  "handoffToken cd h = hex_encode (co_sha256 cd (co_token_json cd (token_input_of h)))"

definition validateHandoffShape :: "handoff \<Rightarrow> error" where
  "validateHandoffShape h =
     (if ho_version h \<noteq> HandoffVersion \<or> ho_digest h = '''' \<or> ho_token h = ''''
        then Some (err_wrap ''%w: unsupported version or missing fields'' ErrHandoffInvalid)
      else if ho_landlock h \<and> (ho_probe_path h = '''' \<or> ho_probe_dev h = 0 \<or> ho_probe_ino h = 0 \<or> ho_probe_mode h = 0)
        then Some (err_wrap ''%w: missing landlock probe identity'' ErrHandoffInvalid)
      else None)"

text \<open>What \<^verbatim>\<open>NewHandoff\<close> reads of a status: whether the two mechanisms are verified.\<close>

definition NewHandoff :: "codec \<Rightarrow> policy \<Rightarrow> bool \<Rightarrow> bool \<Rightarrow> handoff" where
  "NewHandoff cd p landlock_verified seccomp_verified =
     (let h = \<lparr>ho_version = HandoffVersion, ho_digest = digest cd p, ho_landlock = landlock_verified,
               ho_seccomp = seccomp_verified, ho_probe_path = '''', ho_probe_dev = 0, ho_probe_ino = 0,
               ho_probe_mode = 0, ho_token = ''''\<rparr>
      in h\<lparr>ho_token := handoffToken cd h\<rparr>)"

definition EncodeHandoff :: "codec \<Rightarrow> handoff \<Rightarrow> goerr + string" where
  "EncodeHandoff cd h =
     (case validateHandoffShape h of
        Some e \<Rightarrow> Inl e
      | None \<Rightarrow>
          (case co_marshal cd h of
             Inl e \<Rightarrow> Inl (err_wrap ''encode security handoff: %w'' e)
           | Inr b \<Rightarrow> Inr (b64_encode b)))"

definition err_base64 :: goerr where
  "err_base64 = err_new ''illegal base64 data''"

definition DecodeHandoff :: "codec \<Rightarrow> string \<Rightarrow> goerr + handoff" where
  "DecodeHandoff cd raw =
     (case b64_decode raw of
        None \<Rightarrow> Inl (Errorf ''%w: decode: %v'' [AWrap ErrHandoffInvalid, AShown err_base64])
      | Some b \<Rightarrow>
          (case co_unmarshal cd b of
             Inl e \<Rightarrow> Inl (Errorf ''%w: parse: %v'' [AWrap ErrHandoffInvalid, AShown e])
           | Inr h \<Rightarrow>
               (case validateHandoffShape h of
                  Some e \<Rightarrow> Inl e
                | None \<Rightarrow>
                    (if handoffToken cd h \<noteq> ho_token h
                     then Inl (err_wrap ''%w: token mismatch'' ErrHandoffInvalid)
                     else Inr h))))"

section \<open>Base64 round trip\<close>

lemma find_index_nth: "distinct xs \<Longrightarrow> i < length xs \<Longrightarrow> find_index (xs ! i) xs = Some i"
proof (induction xs arbitrary: i)
  case (Cons x xs)
  then show ?case by (cases i) auto
qed simp

lemma b64_index_char: "i < 64 \<Longrightarrow> b64_index (b64_char i) = Some i"
proof -
  have "distinct b64_alphabet" by code_simp
  moreover have "length b64_alphabet = 64" by (simp add: b64_alphabet_def)
  ultimately show "i < 64 \<Longrightarrow> b64_index (b64_char i) = Some i"
    by (simp add: b64_index_def b64_char_def find_index_nth)
qed

lemma byte_less: "byte c < (256::nat)"
  by simp

lemma pack_div: "y < m \<Longrightarrow> (x * m + y) div m = (x::nat)"
  and pack_mod: "y < m \<Longrightarrow> (x * m + y) mod m = (y::nat)"
  by simp_all

lemma small_parts:
  "byte b div 16 < (16::nat)" "byte c div 64 < (4::nat)" "byte a div 4 < (64::nat)"
  using byte_less [of a] byte_less [of b] byte_less [of c] by (simp_all add: less_mult_imp_div_less)

lemma sextet_bounds:
  "byte a div 4 < (64::nat)" "byte a mod 4 * 16 < (64::nat)" "byte b mod 16 * 4 < (64::nat)"
  "byte c mod 64 < (64::nat)"
  "byte a mod 4 * 16 + byte b div 16 < (64::nat)" "byte b mod 16 * 4 + byte c div 64 < (64::nat)"
proof -
  have "byte a mod 4 < (4::nat)" "byte b mod 16 < (16::nat)" by simp_all
  then show "byte a mod 4 * 16 < (64::nat)" "byte b mod 16 * 4 < (64::nat)"
    "byte a mod 4 * 16 + byte b div 16 < (64::nat)" "byte b mod 16 * 4 + byte c div 64 < (64::nat)"
    using small_parts(1) [of b] small_parts(2) [of c] by linarith+
qed (simp_all add: small_parts)

text \<open>The bytes put together again from the sextets of three, two or one of them.\<close>

lemma repack:
  "char_of (byte a div 4 * 4 + (byte a mod 4 * 16 + byte b div 16) div 16 :: nat) = a"
  "char_of (byte a div 4 * 4 + byte a mod 4 * 16 div 16 :: nat) = a"
  "char_of ((byte a mod 4 * 16 + byte b div 16) mod 16 * 16 + (byte b mod 16 * 4 + byte c div 64) div 4 :: nat) = b"
  "char_of ((byte a mod 4 * 16 + byte b div 16) mod 16 * 16 + byte b mod 16 * 4 div 4 :: nat) = b"
  "char_of ((byte b mod 16 * 4 + byte c div 64) mod 4 * 64 + byte c mod 64 :: nat) = c"
proof -
  have one: "x * m div m = x" if "0 < m" for x m :: nat using that by simp
  show "char_of (byte a div 4 * 4 + (byte a mod 4 * 16 + byte b div 16) div 16 :: nat) = a"
    by (simp only: pack_div [OF small_parts(1)] div_mult_mod_eq char_of_char)
  show "char_of (byte a div 4 * 4 + byte a mod 4 * 16 div 16 :: nat) = a"
    by (simp only: one zero_less_numeral div_mult_mod_eq char_of_char)
  show "char_of ((byte a mod 4 * 16 + byte b div 16) mod 16 * 16 + (byte b mod 16 * 4 + byte c div 64) div 4 :: nat) = b"
    by (simp only: pack_mod [OF small_parts(1)] pack_div [OF small_parts(2)] div_mult_mod_eq char_of_char)
  show "char_of ((byte a mod 4 * 16 + byte b div 16) mod 16 * 16 + byte b mod 16 * 4 div 4 :: nat) = b"
    by (simp only: pack_mod [OF small_parts(1)] one zero_less_numeral div_mult_mod_eq char_of_char)
  show "char_of ((byte b mod 16 * 4 + byte c div 64) mod 4 * 64 + byte c mod 64 :: nat) = c"
    by (simp only: pack_mod [OF small_parts(2)] div_mult_mod_eq char_of_char)
qed

lemma b64_values_cons: "i < 64 \<Longrightarrow> b64_values (b64_char i # s) = map_option (\<lambda>vs. i # vs) (b64_values s)"
  by (simp add: b64_index_char)

lemma b64_round_trip: "b64_decode (b64_encode s) = Some s"
proof -
  note step = b64_encode.simps b64_values_cons sextet_bounds b64_values.simps(1) option.map b64_unpack.simps
    repack
  have "\<exists>vs. b64_values (b64_encode s) = Some vs \<and> b64_unpack vs = Some s"
  proof (induction s rule: b64_encode.induct)
    case (4 a b c s)
    then obtain vs where vs: "b64_values (b64_encode s) = Some vs" "b64_unpack vs = Some s" by blast
    show ?case by (intro exI conjI, simp only: step vs, simp only: step vs)
  qed (intro exI conjI, simp only: step, simp only: step)+
  then show ?thesis by (auto simp: b64_decode_def)
qed

section \<open>Properties\<close>

lemma decode_encoded: "DecodeHandoff cd (b64_encode b) =
    (case co_unmarshal cd b of
       Inl e \<Rightarrow> Inl (Errorf ''%w: parse: %v'' [AWrap ErrHandoffInvalid, AShown e])
     | Inr h \<Rightarrow>
         (case validateHandoffShape h of
            Some e \<Rightarrow> Inl e
          | None \<Rightarrow> (if handoffToken cd h \<noteq> ho_token h
                     then Inl (err_wrap ''%w: token mismatch'' ErrHandoffInvalid) else Inr h)))"
  by (simp add: DecodeHandoff_def b64_round_trip)

lemma EncodeHandoff_Inr:
  "EncodeHandoff cd h = Inr raw \<longleftrightarrow>
     validateHandoffShape h = None \<and> (\<exists>b. co_marshal cd h = Inr b \<and> raw = b64_encode b)"
  by (auto simp: EncodeHandoff_def split: option.splits sum.splits)

text \<open>
  C33: a handoff that carries its own token and can be encoded is read back unchanged from
  its text form, where JSON reads back what it wrote for it.
\<close>

theorem handoff_round_trip:
  assumes "EncodeHandoff cd h = Inr raw" and "ho_token h = handoffToken cd h"
    and "\<And>b. co_marshal cd h = Inr b \<Longrightarrow> co_unmarshal cd b = Inr h"
  shows "DecodeHandoff cd raw = Inr h"
  using assms by (auto simp: EncodeHandoff_Inr decode_encoded)

text \<open>
  decoding any text either fails with an error that is \<^verbatim>\<open>ErrHandoffInvalid\<close>, or
  returns a handoff of the supported version with a policy digest, whose token is the one
  computed from its contents and which, if it claims Landlock, names a complete probe.
\<close>

theorem decoded_handoff_is_sound:
  "case DecodeHandoff cd raw of
     Inl e \<Rightarrow> errors_is e ErrHandoffInvalid
   | Inr h \<Rightarrow> ho_version h = HandoffVersion \<and> ho_digest h \<noteq> '''' \<and> ho_token h = handoffToken cd h
       \<and> (\<not> ho_landlock h \<or> ho_probe_path h \<noteq> '''' \<and> ho_probe_dev h \<noteq> 0 \<and> ho_probe_ino h \<noteq> 0
            \<and> ho_probe_mode h \<noteq> 0)"
  by (auto simp: DecodeHandoff_def validateHandoffShape_def split: option.splits sum.splits if_splits)

text \<open>
  the exported constructor cannot describe a process under Landlock: a handoff it
  makes from a status with Landlock verified is refused by its own encoder.
\<close>

theorem new_handoff_under_landlock_unencodable:
  "case EncodeHandoff cd (NewHandoff cd p True seccomp) of
     Inl e \<Rightarrow> errors_is e ErrHandoffInvalid | Inr raw \<Rightarrow> False"
  by (auto simp: EncodeHandoff_def NewHandoff_def validateHandoffShape_def Let_def)

section \<open>The round trip at a concrete codec\<close>

definition ex_handoff :: handoff where
  "ex_handoff = \<lparr>ho_version = 1, ho_digest = ''64'', ho_landlock = True, ho_seccomp = False,
     ho_probe_path = ''/proc/1/status'', ho_probe_dev = 22, ho_probe_ino = 42, ho_probe_mode = 36,
     ho_token = ''6f6b''\<rparr>"

text \<open>
  A codec that writes a handoff as the JSON object \<^verbatim>\<open>encoding/json\<close> does, for strings without
  quotes, commas or colons, and reads such objects by the names of their fields.
\<close>

definition json_string :: "string \<Rightarrow> string" where
  "json_string s = CHR 0x22 # s @ [CHR 0x22]"

definition json_bool :: "bool \<Rightarrow> string" where
  "json_bool b = (if b then ''true'' else ''false'')"

definition json_fields :: "handoff \<Rightarrow> (string \<times> string) list" where
  "json_fields h =
     [(''version'', dec (unat (ho_version h))), (''policy_digest'', json_string (ho_digest h)),
      (''landlock_enforced'', json_bool (ho_landlock h)), (''seccomp_enforced'', json_bool (ho_seccomp h))]
     @ (if ho_probe_path h = '''' then [] else [(''probe_path'', json_string (ho_probe_path h))])
     @ (if ho_probe_dev h = 0 then [] else [(''probe_dev'', dec (unat (ho_probe_dev h)))])
     @ (if ho_probe_ino h = 0 then [] else [(''probe_ino'', dec (unat (ho_probe_ino h)))])
     @ (if ho_probe_mode h = 0 then [] else [(''probe_mode'', dec (unat (ho_probe_mode h)))])
     @ [(''token'', json_string (ho_token h))]"

fun json_members :: "(string \<times> string) list \<Rightarrow> string" where
  "json_members [] = ''''"
| "json_members [(k, v)] = json_string k @ '':'' @ v"
| "json_members ((k, v) # ms) = json_string k @ '':'' @ v @ '','' @ json_members ms"

definition json_write :: "handoff \<Rightarrow> string" where
  "json_write h = ''{'' @ json_members (json_fields h) @ ''}''"

fun split_commas :: "string \<Rightarrow> string \<Rightarrow> string list" where
  "split_commas acc [] = [rev acc]"
| "split_commas acc (c # s) = (if c = CHR '','' then rev acc # split_commas [] s else split_commas (c # acc) s)"

definition json_field :: "string \<Rightarrow> string \<times> string" where
  "json_field s = (takeWhile (\<lambda>c. c \<noteq> CHR 0x22) (tl s), tl (dropWhile (\<lambda>c. c \<noteq> CHR '':'') s))"

definition member :: "(string \<times> string) list \<Rightarrow> string \<Rightarrow> string" where
  "member ms k = (case map_of ms k of Some v \<Rightarrow> v | None \<Rightarrow> '''')"

definition read_string :: "string \<Rightarrow> string" where
  "read_string s = butlast (tl s)"

definition read_nat :: "string \<Rightarrow> nat" where
  "read_nat s = foldl (\<lambda>n c. 10 * n + (of_char c - 48)) 0 s"

definition json_read :: "string \<Rightarrow> goerr + handoff" where
  "json_read b =
     (if b = '''' \<or> hd b \<noteq> CHR ''{'' then Inl (err_new ''invalid character'')
      else
        (let ms = map json_field (split_commas [] (butlast (tl b))) in
         Inr \<lparr>ho_version = of_nat (read_nat (member ms ''version'')),
              ho_digest = read_string (member ms ''policy_digest''),
              ho_landlock = (member ms ''landlock_enforced'' = ''true''),
              ho_seccomp = (member ms ''seccomp_enforced'' = ''true''),
              ho_probe_path = read_string (member ms ''probe_path''),
              ho_probe_dev = of_nat (read_nat (member ms ''probe_dev'')),
              ho_probe_ino = of_nat (read_nat (member ms ''probe_ino'')),
              ho_probe_mode = of_nat (read_nat (member ms ''probe_mode'')),
              ho_token = read_string (member ms ''token'')\<rparr>))"

definition ex_codec :: codec where
  "ex_codec = \<lparr>co_marshal = (\<lambda>h. Inr (json_write h)), co_unmarshal = json_read,
     co_token_json = (\<lambda>_. ''t''), co_policy_json = (\<lambda>_. ''p''),
     co_sha256 = (\<lambda>s. if s = ''p'' then ''d'' else ''ok'')\<rparr>"

definition ex_raw :: string where
  "ex_raw = b64_encode (json_write ex_handoff)"

lemma ex_json: "json_read (json_write ex_handoff) = Inr ex_handoff" "json_write ex_handoff \<noteq> ''''"
  by code_simp+

lemma ex_raw_nonempty [simp]: "ex_raw \<noteq> ''''"
  using ex_json(2) by (cases "json_write ex_handoff" rule: b64_encode.cases) (auto simp: ex_raw_def)

lemma ex_encode: "EncodeHandoff ex_codec ex_handoff = Inr ex_raw"
  by (simp add: EncodeHandoff_Inr ex_codec_def ex_raw_def)
     (simp add: validateHandoffShape_def ex_handoff_def HandoffVersion_def)

theorem handoff_round_trip_witness:
  "DecodeHandoff ex_codec ex_raw = Inr ex_handoff"
proof (rule handoff_round_trip [OF ex_encode])
  have "hex_encode ''ok'' = ''6f6b''" by code_simp
  then show "ho_token ex_handoff = handoffToken ex_codec ex_handoff"
    by (simp add: handoffToken_def ex_codec_def ex_handoff_def)
  show "\<And>b. co_marshal ex_codec ex_handoff = Inr b \<Longrightarrow> co_unmarshal ex_codec b = Inr ex_handoff"
    using ex_json(1) by (simp add: ex_codec_def)
qed

end
