(* ===== verification/Seccomp.thy ===== *)
theory Seccomp
  imports Policy
begin

text \<open>
  The seccomp filter of \<^verbatim>\<open>src/security/linux/platform_linux.go\<close>: the table of system
  calls, the construction of the BPF program with its relative jumps in eight bits, and
  its meaning.  The kernel's BPF machine is an interface (\<open>bpf_machine\<close>) of the four
  instructions the program uses, as documented; an interpreter for them provides it.
\<close>

section \<open>Instructions and constants\<close>

record sock_filter =
  sf_code :: "16 word"
  sf_jt :: "8 word"
  sf_jf :: "8 word"
  sf_k :: "32 word"

definition BPF_LD_W_ABS :: "16 word" where "BPF_LD_W_ABS = 0x20"
definition BPF_JMP_JEQ_K :: "16 word" where "BPF_JMP_JEQ_K = 0x15"
definition BPF_JMP_JGE_K :: "16 word" where "BPF_JMP_JGE_K = 0x35"
definition BPF_RET_K :: "16 word" where "BPF_RET_K = 0x06"

lemmas bpf_codes = BPF_LD_W_ABS_def BPF_JMP_JEQ_K_def BPF_JMP_JGE_K_def BPF_RET_K_def

definition seccompDataArchOffset :: "32 word" where "seccompDataArchOffset = 4"
definition seccompDataNrOffset :: "32 word" where "seccompDataNrOffset = 0"
definition seccompRetAllow :: "32 word" where "seccompRetAllow = 0x7fff0000"
definition seccompRetErrno :: "32 word" where "seccompRetErrno = 0x00050000"
definition SECCOMP_RET_KILL_PROCESS :: "32 word" where "SECCOMP_RET_KILL_PROCESS = 0x80000000"
definition EPERM_number :: "32 word" where "EPERM_number = 1"

definition ErrUnknownArchitecture :: goerr where
  "ErrUnknownArchitecture = err_new ''unsupported architecture''"

definition ABIForArchitecture :: "string \<Rightarrow> goerr + 32 word" where
  "ABIForArchitecture arch =
     (if arch = ''amd64'' then Inr 0xC000003E
      else if arch = ''arm64'' then Inr 0xC00000B7
      else Inl (Errorf ''%w: %s'' [AWrap ErrUnknownArchitecture, AStr arch]))"

definition amd64_syscalls :: "(string \<times> 32 word) list" where
  "amd64_syscalls =
     [(''read'', 0), (''write'', 1), (''open'', 2), (''close'', 3), (''ptrace'', 101), (''mount'', 165),
      (''kexec_load'', 246), (''process_vm_readv'', 310), (''process_vm_writev'', 311),
      (''kexec_file_load'', 320), (''bpf'', 321), (''userfaultfd'', 323), (''getpid'', 39),
      (''openat'', 257), (''connect'', 42), (''bind'', 49), (''execve'', 59), (''execveat'', 322)]"

definition arm64_syscalls :: "(string \<times> 32 word) list" where
  "arm64_syscalls =
     [(''read'', 63), (''write'', 64), (''openat'', 56), (''close'', 57), (''ptrace'', 117), (''mount'', 40),
      (''kexec_load'', 104), (''process_vm_readv'', 270), (''process_vm_writev'', 271),
      (''kexec_file_load'', 294), (''bpf'', 280), (''userfaultfd'', 282), (''getpid'', 172),
      (''connect'', 203), (''bind'', 200), (''execve'', 221), (''execveat'', 281)]"

definition syscallNumber :: "string \<Rightarrow> string \<Rightarrow> 32 word option" where
  "syscallNumber arch name =
     (if arch \<noteq> ''amd64'' \<and> arch \<noteq> ''arm64'' then None
      else map_of (if arch = ''amd64'' then amd64_syscalls else arm64_syscalls) name)"

section \<open>The filter\<close>

definition bpf_load :: "32 word \<Rightarrow> sock_filter" where
  "bpf_load k = \<lparr>sf_code = BPF_LD_W_ABS, sf_jt = 0, sf_jf = 0, sf_k = k\<rparr>"

definition bpf_jump :: "16 word \<Rightarrow> 32 word \<Rightarrow> 8 word \<Rightarrow> sock_filter" where
  "bpf_jump code k jt = \<lparr>sf_code = code, sf_jt = jt, sf_jf = 0, sf_k = k\<rparr>"

definition bpf_ret :: "32 word \<Rightarrow> sock_filter" where
  "bpf_ret k = \<lparr>sf_code = BPF_RET_K, sf_jt = 0, sf_jf = 0, sf_k = k\<rparr>"

text \<open>The conversion \<^verbatim>\<open>uint8(n)\<close> truncates.\<close>

definition uint8 :: "nat \<Rightarrow> 8 word" where
  "uint8 n = of_nat n"

definition denial_jumps :: "string \<Rightarrow> string list \<Rightarrow> sock_filter list" where
  "denial_jumps arch denied =
     map (\<lambda>(i, name). bpf_jump BPF_JMP_JEQ_K (the (syscallNumber arch name)) (uint8 (length denied - i)))
         (enumerate 0 denied)"

fun unknown_syscall :: "string \<Rightarrow> string list \<Rightarrow> string option" where
  "unknown_syscall arch [] = None"
| "unknown_syscall arch (name # names) =
     (if syscallNumber arch name = None then Some name else unknown_syscall arch names)"

definition buildSeccompFilter :: "string \<Rightarrow> string list \<Rightarrow> goerr + sock_filter list" where
  "buildSeccompFilter archName denied =
     (case ABIForArchitecture archName of
        Inl e \<Rightarrow> Inl e
      | Inr arch \<Rightarrow>
          (case unknown_syscall archName denied of
             Some name \<Rightarrow> Inl (Errorf ''unknown syscall %q'' [AStr name])
           | None \<Rightarrow>
               Inr ([bpf_load seccompDataArchOffset, bpf_jump BPF_JMP_JEQ_K arch 1,
                     bpf_ret SECCOMP_RET_KILL_PROCESS, bpf_load seccompDataNrOffset]
                    @ [bpf_jump BPF_JMP_JGE_K 0x40000000 (uint8 (length denied + 2))]
                    @ denial_jumps archName denied
                    @ [bpf_ret seccompRetAllow, bpf_ret (seccompRetErrno OR EPERM_number),
                       bpf_ret SECCOMP_RET_KILL_PROCESS])))"

section \<open>The machine\<close>

text \<open>The part of \<^verbatim>\<open>struct seccomp_data\<close> the filter reads.\<close>

record seccomp_data =
  sd_nr :: "32 word"
  sd_arch :: "32 word"

definition data_word :: "seccomp_data \<Rightarrow> 32 word \<Rightarrow> 32 word" where
  "data_word d k = (if k = seccompDataArchOffset then sd_arch d else sd_nr d)"

text \<open>
  \<open>exec prog pc a d\<close> is the verdict of the program from instruction \<open>pc\<close> on with the
  accumulator \<open>a\<close>: loads at the two offsets, forward jumps relative to the next
  instruction, and return of a constant.
\<close>

locale bpf_machine =
  fixes exec :: "sock_filter list \<Rightarrow> nat \<Rightarrow> 32 word \<Rightarrow> seccomp_data \<Rightarrow> 32 word option"
  assumes exec_load: "pc < length prog \<Longrightarrow> prog ! pc = bpf_load k \<Longrightarrow>
      k = seccompDataArchOffset \<or> k = seccompDataNrOffset \<Longrightarrow>
      exec prog pc a d = exec prog (pc + 1) (data_word d k) d"
    and exec_jeq: "pc < length prog \<Longrightarrow> prog ! pc = bpf_jump BPF_JMP_JEQ_K k jt \<Longrightarrow>
      exec prog pc a d = exec prog (pc + 1 + (if a = k then unat jt else 0)) a d"
    and exec_jge: "pc < length prog \<Longrightarrow> prog ! pc = bpf_jump BPF_JMP_JGE_K k jt \<Longrightarrow>
      exec prog pc a d = exec prog (pc + 1 + (if k \<le> a then unat jt else 0)) a d"
    and exec_ret: "pc < length prog \<Longrightarrow> prog ! pc = bpf_ret k \<Longrightarrow> exec prog pc a d = Some k"
begin

text \<open>The chain of comparisons at \<open>pc\<close>, one per key, jumps to \<open>hit\<close> on the first match.\<close>

lemma exec_chain:
  assumes "\<And>i. i < length ks \<Longrightarrow> prog ! (pc + i) = bpf_jump BPF_JMP_JEQ_K (ks ! i) (jts ! i)"
    and "\<And>i. i < length ks \<Longrightarrow> pc + i + 1 + unat (jts ! i) = hit"
    and "pc + length ks \<le> length prog" and "length jts = length ks"
  shows "exec prog pc a d = (if a \<in> set ks then exec prog hit a d else exec prog (pc + length ks) a d)"
  using assms
proof (induction ks arbitrary: pc jts)
  case (Cons k ks)
  obtain j js where jts: "jts = j # js" using Cons.prems(4) by (cases jts) auto
  have here: "prog ! pc = bpf_jump BPF_JMP_JEQ_K k j" and hit: "pc + 1 + unat j = hit"
    using Cons.prems(1) [of 0] Cons.prems(2) [of 0] jts by simp_all
  have rest: "exec prog (pc + 1) a d
      = (if a \<in> set ks then exec prog hit a d else exec prog (pc + 1 + length ks) a d)"
  proof (rule Cons.IH)
    show "prog ! (pc + 1 + i) = bpf_jump BPF_JMP_JEQ_K (ks ! i) (js ! i)" if "i < length ks" for i
      using Cons.prems(1) [of "Suc i"] that jts by simp
    show "pc + 1 + i + 1 + unat (js ! i) = hit" if "i < length ks" for i
      using Cons.prems(2) [of "Suc i"] that jts by simp
  qed (use Cons.prems(3,4) jts in auto)
  have "exec prog pc a d = exec prog (pc + 1 + (if a = k then unat j else 0)) a d"
    using Cons.prems(3) here by (intro exec_jeq) auto
  then show ?case using hit rest by simp
qed simp

end

text \<open>An interpreter of these instructions; anything else, and running off the end, has no verdict.\<close>

function bpf_exec :: "sock_filter list \<Rightarrow> nat \<Rightarrow> 32 word \<Rightarrow> seccomp_data \<Rightarrow> 32 word option" where
  "bpf_exec prog pc a d =
     (if length prog \<le> pc then None
      else (let ins = prog ! pc in
        if sf_code ins = BPF_LD_W_ABS then bpf_exec prog (pc + 1) (data_word d (sf_k ins)) d
        else if sf_code ins = BPF_JMP_JEQ_K
          then bpf_exec prog (pc + 1 + (if a = sf_k ins then unat (sf_jt ins) else unat (sf_jf ins))) a d
        else if sf_code ins = BPF_JMP_JGE_K
          then bpf_exec prog (pc + 1 + (if sf_k ins \<le> a then unat (sf_jt ins) else unat (sf_jf ins))) a d
        else if sf_code ins = BPF_RET_K then Some (sf_k ins)
        else None))"
  by pat_completeness auto
termination
  by (relation "measure (\<lambda>(prog, pc, a, d). length prog - pc)") auto

declare bpf_exec.simps [simp del]

interpretation bpf: bpf_machine bpf_exec
proof unfold_locales
  fix prog :: "sock_filter list" and pc k a d jt
  assume pc: "pc < length prog"
  show "prog ! pc = bpf_load k \<Longrightarrow> k = seccompDataArchOffset \<or> k = seccompDataNrOffset \<Longrightarrow>
      bpf_exec prog pc a d = bpf_exec prog (pc + 1) (data_word d k) d"
    using pc by (subst bpf_exec.simps) (simp add: bpf_load_def)
  show "prog ! pc = bpf_jump BPF_JMP_JEQ_K k jt \<Longrightarrow>
      bpf_exec prog pc a d = bpf_exec prog (pc + 1 + (if a = k then unat jt else 0)) a d"
    using pc by (subst bpf_exec.simps) (simp add: bpf_jump_def bpf_codes)
  show "prog ! pc = bpf_jump BPF_JMP_JGE_K k jt \<Longrightarrow>
      bpf_exec prog pc a d = bpf_exec prog (pc + 1 + (if k \<le> a then unat jt else 0)) a d"
    using pc by (subst bpf_exec.simps) (simp add: bpf_jump_def bpf_codes)
  show "prog ! pc = bpf_ret k \<Longrightarrow> bpf_exec prog pc a d = Some k"
    using pc by (subst bpf_exec.simps) (simp add: bpf_ret_def bpf_codes)
qed

section \<open>The verdict of the filter\<close>

lemma unknown_syscall_None:
  "unknown_syscall arch names = None \<longleftrightarrow> (\<forall>name \<in> set names. syscallNumber arch name \<noteq> None)"
  by (induction names) auto

lemma buildSeccompFilter_Inr:
  "buildSeccompFilter archName denied = Inr prog \<longleftrightarrow>
     (\<exists>abi. ABIForArchitecture archName = Inr abi
       \<and> (\<forall>name \<in> set denied. syscallNumber archName name \<noteq> None)
       \<and> prog = [bpf_load seccompDataArchOffset, bpf_jump BPF_JMP_JEQ_K abi 1,
                 bpf_ret SECCOMP_RET_KILL_PROCESS, bpf_load seccompDataNrOffset]
                @ [bpf_jump BPF_JMP_JGE_K 0x40000000 (uint8 (length denied + 2))]
                @ denial_jumps archName denied
                @ [bpf_ret seccompRetAllow, bpf_ret (seccompRetErrno OR EPERM_number),
                   bpf_ret SECCOMP_RET_KILL_PROCESS])"
  using unknown_syscall_None [of archName denied]
  by (auto simp: buildSeccompFilter_def split: sum.splits option.splits)

text \<open>A validated list of known calls is short enough for every jump to fit into eight bits.\<close>

lemma known_syscalls_bounded:
  assumes "\<forall>name \<in> set denied. syscallNumber arch name \<noteq> None" and "distinct denied"
  shows "length denied \<le> 18"
proof -
  have "set denied \<subseteq> fst ` set amd64_syscalls \<union> fst ` set arm64_syscalls"
    using assms(1) by (force simp: syscallNumber_def split: if_splits dest: map_of_SomeD)
  also have "fst ` set amd64_syscalls \<union> fst ` set arm64_syscalls = fst ` set amd64_syscalls"
    by (auto simp: amd64_syscalls_def arm64_syscalls_def)
  finally have "card (set denied) \<le> card (fst ` set amd64_syscalls)"
    by (intro card_mono) auto
  also have "\<dots> \<le> length amd64_syscalls"
    by (metis card_length image_set length_map)
  finally show ?thesis using assms(2) by (simp add: distinct_card amd64_syscalls_def)
qed

lemma unat_of_small: "n < 256 \<Longrightarrow> unat (uint8 n) = n"
  by (simp add: uint8_def unat_of_nat take_bit_nat_eq_self)

context bpf_machine
begin

lemma filter_verdict:
  assumes build: "buildSeccompFilter archName denied = Inr prog" and abi: "ABIForArchitecture archName = Inr abi"
    and small: "length denied \<le> 253"
  shows "exec prog 0 a d = Some
     (if sd_arch d \<noteq> abi then SECCOMP_RET_KILL_PROCESS
      else if 0x40000000 \<le> sd_nr d then SECCOMP_RET_KILL_PROCESS
      else if \<exists>name \<in> set denied. syscallNumber archName name = Some (sd_nr d)
        then seccompRetErrno OR EPERM_number
      else seccompRetAllow)"
proof -
  let ?n = "length denied"
  let ?ks = "map (\<lambda>name. the (syscallNumber archName name)) denied"
  let ?jts = "map (\<lambda>i. uint8 (?n - i)) [0..<?n]"
  have known: "\<forall>name \<in> set denied. syscallNumber archName name \<noteq> None"
    and prog: "prog = [bpf_load seccompDataArchOffset, bpf_jump BPF_JMP_JEQ_K abi 1,
                 bpf_ret SECCOMP_RET_KILL_PROCESS, bpf_load seccompDataNrOffset]
                @ [bpf_jump BPF_JMP_JGE_K 0x40000000 (uint8 (?n + 2))]
                @ denial_jumps archName denied
                @ [bpf_ret seccompRetAllow, bpf_ret (seccompRetErrno OR EPERM_number),
                   bpf_ret SECCOMP_RET_KILL_PROCESS]"
    using build abi by (auto simp: buildSeccompFilter_Inr)
  have len: "length prog = ?n + 8" and dlen: "length (denial_jumps archName denied) = ?n"
    by (simp_all add: prog denial_jumps_def)
  have at: "prog ! 0 = bpf_load seccompDataArchOffset" "prog ! 1 = bpf_jump BPF_JMP_JEQ_K abi 1"
    "prog ! 2 = bpf_ret SECCOMP_RET_KILL_PROCESS" "prog ! 3 = bpf_load seccompDataNrOffset"
    "prog ! 4 = bpf_jump BPF_JMP_JGE_K 0x40000000 (uint8 (?n + 2))"
    by (simp_all add: prog)
  have tail: "prog ! (5 + ?n) = bpf_ret seccompRetAllow"
    "prog ! (6 + ?n) = bpf_ret (seccompRetErrno OR EPERM_number)"
    "prog ! (7 + ?n) = bpf_ret SECCOMP_RET_KILL_PROCESS"
    by (simp_all add: prog nth_append dlen numeral_nat)
  have chain: "prog ! (5 + i) = bpf_jump BPF_JMP_JEQ_K (?ks ! i) (?jts ! i)" if "i < ?n" for i
    using that by (simp add: prog nth_append dlen numeral_nat denial_jumps_def nth_enumerate_eq)
  have jumps: "exec prog 5 x d = (if x \<in> set ?ks then exec prog (6 + ?n) x d else exec prog (5 + ?n) x d)" for x
    using exec_chain [of ?ks prog 5 ?jts "6 + ?n" x d] chain small len
    by (simp add: unat_of_small)
  have rets: "exec prog (5 + ?n) x d = Some seccompRetAllow"
    "exec prog (6 + ?n) x d = Some (seccompRetErrno OR EPERM_number)"
    "exec prog (7 + ?n) x d = Some SECCOMP_RET_KILL_PROCESS"
    "exec prog 2 x d = Some SECCOMP_RET_KILL_PROCESS" for x
    using tail at(3) len by (auto intro: exec_ret)
  have range: "exec prog 4 x d = (if 0x40000000 \<le> x then exec prog (7 + ?n) x d else exec prog 5 x d)" for x
    using exec_jge [OF _ at(5), of x d] small len by (simp add: unat_of_small)
  have load: "exec prog 3 x d = exec prog 4 (sd_nr d) d" for x
    using exec_load [OF _ at(4), of x d] len
    by (simp add: data_word_def seccompDataArchOffset_def seccompDataNrOffset_def)
  have arch: "exec prog 1 x d = (if x = abi then exec prog 3 x d else exec prog 2 x d)" for x
    using exec_jeq [OF _ at(2), of x d] len by (simp add: numeral_2_eq_2 numeral_3_eq_3)
  have start: "exec prog 0 a d = exec prog 1 (sd_arch d) d"
    using exec_load [OF _ at(1), of a d] len by (simp add: data_word_def)
  have "x \<in> set ?ks \<longleftrightarrow> (\<exists>name \<in> set denied. syscallNumber archName name = Some x)" for x
    using known by force
  then show ?thesis
    by (simp only: start arch load range jumps rets if_not_P if_P split: if_split) simp
qed

end

section \<open>Properties\<close>

text \<open>
  C32: on any machine that runs the four instructions as documented, the filter built for an
  accepted list of denied calls kills the process if the call comes from another
  architecture or the x32 range, answers \<^verbatim>\<open>EPERM\<close> exactly for the denied calls and
  allows every other call.
\<close>

theorem seccomp_filter_correct:
  assumes "bpf_machine exec" and "buildSeccompFilter archName denied = Inr prog" and "distinct denied"
    and "ABIForArchitecture archName = Inr abi"
  shows "exec prog 0 a d = Some
     (if sd_arch d \<noteq> abi \<or> 0x40000000 \<le> sd_nr d then SECCOMP_RET_KILL_PROCESS
      else if \<exists>name \<in> set denied. syscallNumber archName name = Some (sd_nr d)
        then seccompRetErrno OR EPERM_number
      else seccompRetAllow)"
proof -
  have "length denied \<le> 18"
    using assms(2,3) by (intro known_syscalls_bounded) (auto simp: buildSeccompFilter_Inr)
  then show ?thesis
    using bpf_machine.filter_verdict [OF assms(1,2,4)] by simp
qed

text \<open>
  the builder fails exactly for an architecture other than \<^verbatim>\<open>amd64\<close> and \<^verbatim>\<open>arm64\<close> or a
  name that is not in the architecture's table; for a list without repetitions the program
  has at most 26 instructions, so its length fits the sixteen bits and every jump the
  eight bits of the kernel's structures, and every jump target lies inside the program.
\<close>

theorem seccomp_filter_bounds:
  assumes "distinct denied"
  shows "((\<exists>prog. buildSeccompFilter archName denied = Inr prog) \<longleftrightarrow>
            archName \<in> {''amd64'', ''arm64''} \<and> (\<forall>name \<in> set denied. syscallNumber archName name \<noteq> None))
         \<and> (\<forall>prog. buildSeccompFilter archName denied = Inr prog \<longrightarrow>
              length prog = length denied + 8 \<and> length prog \<le> 26
              \<and> (\<forall>pc < length prog. pc + 1 + unat (sf_jt (prog ! pc)) \<le> length prog))"
proof (intro conjI allI impI)
  show "(\<exists>prog. buildSeccompFilter archName denied = Inr prog) \<longleftrightarrow>
            archName \<in> {''amd64'', ''arm64''} \<and> (\<forall>name \<in> set denied. syscallNumber archName name \<noteq> None)"
    by (auto simp: buildSeccompFilter_Inr ABIForArchitecture_def split: if_splits)
next
  fix prog
  assume build: "buildSeccompFilter archName denied = Inr prog"
  then have small: "length denied \<le> 18"
    using assms by (intro known_syscalls_bounded) (auto simp: buildSeccompFilter_Inr)
  show len: "length prog = length denied + 8" and "length prog \<le> 26"
    using build small by (auto simp: buildSeccompFilter_Inr denial_jumps_def)
  fix pc
  assume "pc < length prog"
  moreover have "pc + 1 + unat (sf_jt (prog ! pc)) \<le> length denied + 8" if pc: "pc < length denied + 8"
  proof -
    consider "pc < 5" | "5 \<le> pc" "pc < 5 + length denied" | "5 + length denied \<le> pc"
      by linarith
    then show ?thesis
    proof cases
      case 1
      then have "pc \<in> {0, 1, 2, 3, 4}" by auto
      then show ?thesis using build small
        by (auto simp: buildSeccompFilter_Inr bpf_load_def bpf_jump_def bpf_ret_def unat_of_small)
    next
      case 2
      define i where "i = pc - 5"
      have i: "pc = 5 + i" "i < length denied" using 2 by (simp_all add: i_def)
      then have "prog ! pc = denial_jumps archName denied ! i"
        using build by (auto simp: buildSeccompFilter_Inr nth_append denial_jumps_def)
      then show ?thesis using i small
        by (simp add: denial_jumps_def nth_enumerate_eq bpf_jump_def unat_of_small)
    next
      case 3
      then have "pc - length denied \<in> {5, 6, 7}" using pc by auto
      then have "pc = length denied + 5 \<or> pc = length denied + 6 \<or> pc = length denied + 7" using 3 by auto
      then show ?thesis using build
        by (auto simp: buildSeccompFilter_Inr nth_append denial_jumps_def bpf_ret_def numeral_nat)
    qed
  qed
  ultimately show "pc + 1 + unat (sf_jt (prog ! pc)) \<le> length prog" using len by simp
qed

theorem seccomp_filter_correct_witness:
  "\<exists>prog. buildSeccompFilter ''amd64'' [''ptrace'', ''mount''] = Inr prog
     \<and> bpf_exec prog 0 0 \<lparr>sd_nr = 165, sd_arch = 0xC000003E\<rparr> = Some (0x00050000 OR 1)
     \<and> bpf_exec prog 0 0 \<lparr>sd_nr = 0, sd_arch = 0xC000003E\<rparr> = Some 0x7fff0000"
proof -
  have abi: "ABIForArchitecture ''amd64'' = Inr 0xC000003E" by (simp add: ABIForArchitecture_def)
  have nr: "syscallNumber ''amd64'' ''ptrace'' = Some 101" "syscallNumber ''amd64'' ''mount'' = Some 165"
    by (simp_all add: syscallNumber_def amd64_syscalls_def)
  then obtain prog where prog: "buildSeccompFilter ''amd64'' [''ptrace'', ''mount''] = Inr prog"
    using buildSeccompFilter_Inr [of "''amd64''" "[''ptrace'', ''mount'']"] abi by auto
  have "distinct [''ptrace'', ''mount'']" by simp
  note verdict = seccomp_filter_correct [OF bpf.bpf_machine_axioms prog this abi]
  show ?thesis
    using prog nr verdict by (auto simp: seccompRetErrno_def EPERM_number_def seccompRetAllow_def
        word_le_nat_alt)
qed

theorem seccomp_filter_bounds_witness:
  "\<exists>prog. buildSeccompFilter ''arm64'' [''bpf''] = Inr prog \<and> length prog = 9"
proof -
  have "distinct [''bpf'']" by simp
  moreover have "syscallNumber ''arm64'' ''bpf'' = Some 280"
    by (simp add: syscallNumber_def arm64_syscalls_def)
  ultimately show ?thesis
    using seccomp_filter_bounds [of "[''bpf'']" "''arm64''"] by auto
qed

end
