(* ===== verification/Paths.thy ===== *)
theory Paths
  imports Prelude
begin

text \<open>
  The functions of \<^verbatim>\<open>path/filepath\<close> that the code relies on, on a system with slashes:
  \<^verbatim>\<open>Clean\<close>, \<^verbatim>\<open>Dir\<close> and \<^verbatim>\<open>IsAbs\<close>.
\<close>

section \<open>Clean\<close>

text \<open>\<^verbatim>\<open>filepath.Clean\<close>: the components without empty ones and dots, dot-dots resolved.\<close>

fun split_slash :: "string \<Rightarrow> string list" where
  "split_slash [] = [[]]"
| "split_slash (c # s) =
     (if c = CHR ''/'' then [] # split_slash s
      else (case split_slash s of [] \<Rightarrow> [[c]] | p # ps \<Rightarrow> (c # p) # ps))"

fun clean_parts :: "bool \<Rightarrow> string list \<Rightarrow> string list \<Rightarrow> string list" where
  "clean_parts rooted acc [] = acc"
| "clean_parts rooted acc (p # ps) =
     clean_parts rooted
       (if p = '''' \<or> p = ''.'' then acc
        else if p = ''..'' then
          (if acc \<noteq> [] \<and> last acc \<noteq> ''..'' then butlast acc
           else if rooted then acc else acc @ [p])
        else acc @ [p]) ps"

fun join_slash :: "string list \<Rightarrow> string" where
  "join_slash [] = ''''"
| "join_slash [p] = p"
| "join_slash (p # ps) = p @ ''/'' @ join_slash ps"

definition Clean :: "string \<Rightarrow> string" where
  "Clean path =
     (if path = '''' then ''.''
      else (let rooted = (hd path = CHR ''/''); parts = clean_parts rooted [] (split_slash path)
            in if rooted then ''/'' @ join_slash parts
               else if parts = [] then ''.'' else join_slash parts))"

section \<open>Dir and IsAbs\<close>

text \<open>Everything up to and including the last slash.\<close>

definition up_to_slash :: "string \<Rightarrow> string" where
  "up_to_slash path = rev (dropWhile (\<lambda>c. c \<noteq> CHR ''/'') (rev path))"

definition Dir :: "string \<Rightarrow> string" where
  "Dir path = Clean (up_to_slash path)"

definition IsAbs :: "string \<Rightarrow> bool" where
  "IsAbs path \<longleftrightarrow> has_prefix path ''/''"

end
