(* ===== verification/Platform.thy ===== *)
theory Platform
  imports Handoff Seccomp Paths
begin

text \<open>
  Enforcing a policy, \<^verbatim>\<open>src/security/linux/platform_linux.go\<close>: the Landlock ruleset and
  its rights, the choice of a denial probe, verification of a handoff against the kernel,
  sealing descriptors, the re-execution, and the overall decision that depends on the
  mode; and the other platforms, \<^verbatim>\<open>platform_other.go\<close>.  The kernel and the Go runtime are
  the environment \<open>platform_env\<close>; what is done to them is logged in order.
\<close>

section \<open>Granted paths\<close>

text \<open>The test \<^verbatim>\<open>pathGranted\<close> makes of one granted path.\<close>

definition path_covers :: "string \<Rightarrow> string \<Rightarrow> bool" where
  "path_covers path target \<longleftrightarrow>
     path = ''/'' \<or> target = path \<or> has_prefix target (trim_suffix path ''/'' @ ''/'')"

definition pathGranted :: "policy \<Rightarrow> string \<Rightarrow> bool" where
  "pathGranted p target \<longleftrightarrow>
     list_ex (\<lambda>path. path_covers path target) (po_read_only p @ po_writable p @ po_executable p)
     \<or> list_ex (\<lambda>g. path_covers (gr_path g) target) (po_grants p)"

section \<open>The environment\<close>

definition ErrUnsupported :: goerr where "ErrUnsupported = err_new ''security mechanism unsupported''"
definition ErrRequired :: goerr where "ErrRequired = err_new ''required security enforcement unavailable''"

definition ENOENT :: goerr where "ENOENT = err_new ''no such file or directory''"
definition EACCES :: goerr where "EACCES = err_new ''permission denied''"
definition EPERM :: goerr where "EPERM = err_new ''operation not permitted''"
definition EBADF :: goerr where "EBADF = err_new ''bad file descriptor''"

record file_stat =
  fs_dev :: "64 word"
  fs_ino :: "64 word"
  fs_mode :: "32 word"

text \<open>
  What the library and the kernel answer: the architecture, the Landlock ABI version,
  creating a ruleset, opening a rule's path and adding the rule, the path of the
  executable, \<^verbatim>\<open>os.Stat\<close>, the two \<^verbatim>\<open>prctl\<close>s and system calls, the names under
  \<^verbatim>\<open>/proc/self/fd\<close>, \<^verbatim>\<open>fcntl\<close>, the environment variable, \<^verbatim>\<open>exec\<close> (nil: it does not return),
  reading a probe, and the order in which Go iterates over the policy's path lists.
\<close>

record platform_env =
  pe_arch :: string
  pe_abi :: "goerr + 32 word"
  pe_create :: "rights \<Rightarrow> goerr + int"
  pe_open_path :: "string \<Rightarrow> error"
  pe_add_rule :: "string \<Rightarrow> rights \<Rightarrow> error"
  pe_executable :: "goerr + string"
  pe_stat :: "string \<Rightarrow> file_stat option"
  pe_no_new_privs :: error
  pe_restrict :: error
  pe_fds :: "goerr + string list"
  pe_fcntl :: "int \<Rightarrow> error"
  pe_setenv :: error
  pe_exec :: error
  pe_handoff :: string
  pe_open_read :: "string \<Rightarrow> error"
  pe_seccomp :: error
  pe_seccomp_mode :: "nat option"
  pe_order :: "path_group list"
  pe_codec :: codec

section \<open>Status\<close>

text \<open>\<^verbatim>\<open>LayerStatus\<close> and \<^verbatim>\<open>Status\<close> of \<^verbatim>\<open>security.go\<close>.\<close>

record layer_status =
  ly_available :: bool
  ly_applied :: bool
  ly_verified :: bool
  ly_error :: error

record sec_status =
  su_mode :: policy_mode
  su_arch :: string
  su_landlock :: layer_status
  su_seccomp :: layer_status
  su_missing :: "string list"
  su_warnings :: "string list"
  su_enforced :: bool
  su_handoff_verified :: bool
  su_restart :: bool

definition no_layer :: layer_status where
  "no_layer = \<lparr>ly_available = False, ly_applied = False, ly_verified = False, ly_error = None\<rparr>"

definition new_status :: "policy_mode \<Rightarrow> string \<Rightarrow> sec_status" where
  "new_status mode arch = \<lparr>su_mode = mode, su_arch = arch, su_landlock = no_layer, su_seccomp = no_layer,
     su_missing = [], su_warnings = [], su_enforced = False, su_handoff_verified = False, su_restart = False\<rparr>"

definition empty_status :: sec_status where
  "empty_status = new_status 0 ''''"

section \<open>Effects\<close>

text \<open>\<open>PRecord\<close>: the normal form of a policy and its status stored in \<^verbatim>\<open>platformState\<close>.\<close>

datatype plat_event =
    PCreate rights
  | PRule string rights
  | PClose int
  | PLockThread
  | PUnlockThread
  | PNoNewPrivs
  | PRestrict int
  | PSetFd int bool
  | PSetenv string
  | PUnsetenv
  | PExec string
  | PSeccomp "sock_filter list"
  | PRecord policy sec_status

definition setPlatformStatus :: "policy \<Rightarrow> sec_status \<Rightarrow> plat_event" where
  "setPlatformStatus p st = PRecord (Policy_normalized p) st"

text \<open>What \<^verbatim>\<open>CurrentStatus\<close> reads after a sequence of effects: the last status stored.\<close>

definition currentPlatformStatus :: "plat_event list \<Rightarrow> sec_status" where
  "currentPlatformStatus log =
     fold (\<lambda>ev st. case ev of PRecord _ st' \<Rightarrow> st' | _ \<Rightarrow> st) log empty_status"

section \<open>The Landlock ruleset\<close>

definition supportedFilesystemRights :: "32 word \<Rightarrow> rights" where
  "supportedFilesystemRights abi =
     (let r1 = RightExecute OR RightWriteFile OR RightReadFile OR RightReadDirectory
             OR RightRemoveDirectory OR RightRemoveFile OR RightMakeCharacter OR RightMakeDirectory
             OR RightMakeRegular OR RightMakeSocket OR RightMakeFIFO OR RightMakeBlock OR RightMakeSymlink;
          r2 = (if 2 \<le> abi then r1 OR RightRefer else r1);
          r3 = (if 3 \<le> abi then r2 OR RightTruncate else r2)
      in if 5 \<le> abi then r3 OR RightIoctlDevice else r3)"

definition handled_rights :: "policy \<Rightarrow> 32 word \<Rightarrow> rights" where
  "handled_rights p abi =
     (let handled = supportedFilesystemRights abi
      in if po_except_exec p then handled AND NOT RightExecute else handled)"

text \<open>The body of \<^verbatim>\<open>buildLandlock\<close> as the list of rules it adds, cut at a refusal.\<close>

datatype rule_step = AddRule string rights | Refuse goerr

definition read_rights :: "policy \<Rightarrow> rights" where
  "read_rights p =
     (if po_except_exec p then RightReadFile OR RightReadDirectory
      else RightReadFile OR RightReadDirectory OR RightExecute)"

definition rule_steps :: "platform_env \<Rightarrow> policy \<Rightarrow> rights \<Rightarrow> rule_step list" where
  "rule_steps env p handled =
     map (\<lambda>path. AddRule path (read_rights p)) (po_read_only p)
     @ map (\<lambda>path. AddRule path handled) (po_writable p)
     @ map (\<lambda>path. if po_except_exec p
             then Refuse (Errorf ''execute path selected with ExceptExec: %s'' [AStr path])
             else AddRule path (RightExecute OR RightReadFile OR RightReadDirectory)) (po_executable p)
     @ map (\<lambda>g. if gr_access g AND NOT handled \<noteq> 0
             then Refuse (Errorf ''unsupported Landlock rights for %s'' [AStr (gr_path g)])
             else AddRule (gr_path g) (gr_access g)) (po_grants p)
     @ (case pe_executable env of
          Inl _ \<Rightarrow> []
        | Inr exe \<Rightarrow> [AddRule exe (if po_except_exec p then RightReadFile else RightReadFile OR RightExecute)])
     @ (case pe_stat env ''/dev/null'' of
          None \<Rightarrow> [] | Some _ \<Rightarrow> [AddRule ''/dev/null'' (RightReadFile OR RightWriteFile)])"

definition addLandlockRule :: "platform_env \<Rightarrow> string \<Rightarrow> rights \<Rightarrow> error" where
  "addLandlockRule env path rights =
     (case pe_open_path env (Clean path) of
        Some e \<Rightarrow> Some e | None \<Rightarrow> pe_add_rule env (Clean path) rights)"

fun run_rules :: "platform_env \<Rightarrow> rights \<Rightarrow> rule_step list \<Rightarrow> plat_event list \<times> error" where
  "run_rules env handled [] = ([], None)"
| "run_rules env handled (Refuse e # steps) = ([], Some e)"
| "run_rules env handled (AddRule path r # steps) =
     (case addLandlockRule env path (r AND handled) of
        Some e \<Rightarrow> ([], Some e)
      | None \<Rightarrow>
          (let (log, err) = run_rules env handled steps
           in (PRule (Clean path) (r AND handled) # log, err)))"

definition buildLandlock :: "platform_env \<Rightarrow> policy \<Rightarrow> plat_event list \<times> (goerr + int)" where
  "buildLandlock env p =
     (case pe_abi env of
        Inl e \<Rightarrow> ([], Inl e)
      | Inr abi \<Rightarrow>
          (let handled = handled_rights p abi
           in case pe_create env handled of
                Inl e \<Rightarrow> ([], Inl e)
              | Inr fd \<Rightarrow>
                  (case run_rules env handled (rule_steps env p handled) of
                     (log, Some e) \<Rightarrow> (PCreate handled # log @ [PClose fd], Inl e)
                   | (log, None) \<Rightarrow> (PCreate handled # log, Inr fd))))"

section \<open>The denial probe and the verification of a handoff\<close>

record probe_identity =
  pi_path :: string
  pi_dev :: "64 word"
  pi_ino :: "64 word"
  pi_mode :: "32 word"

definition probe_candidates :: "string list" where
  "probe_candidates = [''/proc/1/status'', ''/proc/self/status'', ''/etc/hosts'']"

fun select_from :: "platform_env \<Rightarrow> policy \<Rightarrow> string list \<Rightarrow> goerr + probe_identity" where
  "select_from env p [] = Inl (err_wrap ''%w: policy grants all denial probes'' ErrRequired)"
| "select_from env p (path # paths) =
     (if pathGranted p path then select_from env p paths
      else (case pe_stat env path of
              None \<Rightarrow> select_from env p paths
            | Some st \<Rightarrow> Inr \<lparr>pi_path = path, pi_dev = fs_dev st, pi_ino = fs_ino st, pi_mode = fs_mode st\<rparr>))"

definition selectProbe :: "platform_env \<Rightarrow> policy \<Rightarrow> goerr + probe_identity" where
  "selectProbe env p = select_from env p probe_candidates"

definition verifyLandlockProbe :: "platform_env \<Rightarrow> handoff \<Rightarrow> policy \<Rightarrow> error" where
  "verifyLandlockProbe env h p =
     (if ho_probe_path h = '''' \<or> ho_probe_dev h = 0 \<or> ho_probe_ino h = 0 \<or> ho_probe_mode h = 0
         \<or> pathGranted p (ho_probe_path h)
        then Some ErrHandoffInvalid
      else (case pe_open_read env (ho_probe_path h) of
        None \<Rightarrow> Some (err_wrap ''%w: probe remained readable'' ErrHandoffInvalid)
      | Some err \<Rightarrow>
          (if errors_is err ENOENT then Some (err_wrap ''%w: probe disappeared'' ErrHandoffInvalid)
           else if \<not> errors_is err EACCES \<and> \<not> errors_is err EPERM then Some err
           else None)))"

definition verifyKernelEnforcement :: "platform_env \<Rightarrow> handoff \<Rightarrow> policy \<Rightarrow> error" where
  "verifyKernelEnforcement env h p =
     (if wantsLandlock p \<and> (\<not> ho_landlock h \<or> verifyLandlockProbe env h p \<noteq> None)
      then Some (err_wrap ''%w: landlock kernel state is not verified'' ErrHandoffInvalid) else None)"

definition VerifyHandoff :: "platform_env \<Rightarrow> string \<Rightarrow> policy \<Rightarrow> goerr + handoff" where
  "VerifyHandoff env raw p =
     (case DecodeHandoff (pe_codec env) raw of
        Inl e \<Rightarrow> Inl e
      | Inr h \<Rightarrow>
          (if ho_digest h \<noteq> digest (pe_codec env) p
             then Inl (err_wrap ''%w: policy digest mismatch'' ErrHandoffInvalid)
           else if wantsLandlock p \<and> \<not> ho_landlock h
             then Inl (err_wrap ''%w: landlock is not verified'' ErrHandoffInvalid)
           else (case verifyKernelEnforcement env h p of Some e \<Rightarrow> Inl e | None \<Rightarrow> Inr h)))"

section \<open>Descriptors\<close>

fun digits_value :: "nat \<Rightarrow> string \<Rightarrow> nat option" where
  "digits_value acc [] = Some acc"
| "digits_value acc (c # s) =
     (if CHR ''0'' \<le> c \<and> c \<le> CHR ''9'' then digits_value (acc * 10 + (of_char c - 48)) s else None)"

text \<open>\<^verbatim>\<open>strconv.Atoi\<close> on 64-bit machines: an optional sign, digits, in range.\<close>

definition Atoi :: "string \<Rightarrow> int option" where
  "Atoi s =
     (let (neg, ds) = (case s of [] \<Rightarrow> (False, [])
            | c # r \<Rightarrow> if c = CHR ''-'' then (True, r) else if c = CHR ''+'' then (False, r) else (False, s))
      in if ds = [] then None
         else (case digits_value 0 ds of
            None \<Rightarrow> None
          | Some n \<Rightarrow>
              (let v = (if neg then - int n else int n)
               in if - (2 ^ 63) \<le> v \<and> v < 2 ^ 63 then Some v else None)))"

fun seal_loop :: "platform_env \<Rightarrow> int list \<Rightarrow> string list \<Rightarrow> plat_event list \<times> error" where
  "seal_loop env preserve [] = ([], None)"
| "seal_loop env preserve (entry # entries) =
     (case Atoi entry of
        None \<Rightarrow> seal_loop env preserve entries
      | Some fd \<Rightarrow>
          (case pe_fcntl env fd of
             Some e \<Rightarrow> if errors_is e EBADF then seal_loop env preserve entries else ([], Some e)
           | None \<Rightarrow>
               (let (log, err) = seal_loop env preserve entries
                in (PSetFd fd (fd \<notin> set preserve) # log, err))))"

definition SealDescriptors :: "platform_env \<Rightarrow> int list \<Rightarrow> plat_event list \<times> error" where
  "SealDescriptors env preserve =
     (case PreserveFDSet_Validate preserve of
        Some e \<Rightarrow> ([], Some e)
      | None \<Rightarrow> (case pe_fds env of Inl e \<Rightarrow> ([], Some e) | Inr entries \<Rightarrow> seal_loop env preserve entries))"

end
