(* ===== verification/Enforcement.thy ===== *)
theory Enforcement
  imports Platform
begin

text \<open>
  Applying a policy: re-execution under Landlock, the seccomp filter, the status and the
  decision of the mode, \<^verbatim>\<open>src/security/linux/platform_linux.go\<close>, the pre-composition
  integration of \<^verbatim>\<open>security.go\<close>, and the other platforms.
\<close>

section \<open>Re-execution\<close>

text \<open>\<open>Replaced raw\<close>: the process image was replaced, with \<open>raw\<close> in its environment.\<close>

datatype reexec = Replaced string | Failed goerr

definition reexec_handoff :: "platform_env \<Rightarrow> policy \<Rightarrow> probe_identity \<Rightarrow> handoff" where
  "reexec_handoff env p probe =
     (let h = \<lparr>ho_version = HandoffVersion, ho_digest = digest (pe_codec env) p, ho_landlock = True,
               ho_seccomp = False, ho_probe_path = pi_path probe, ho_probe_dev = pi_dev probe,
               ho_probe_ino = pi_ino probe, ho_probe_mode = pi_mode probe, ho_token = ''''\<rparr>
      in h\<lparr>ho_token := handoffToken (pe_codec env) h\<rparr>)"

text \<open>After the thread was restricted: the handoff, the descriptors, the environment, the exec.\<close>

definition reexec_restricted ::
    "platform_env \<Rightarrow> policy \<Rightarrow> probe_identity \<Rightarrow> string \<Rightarrow> int \<Rightarrow> plat_event list \<times> reexec" where
  "reexec_restricted env p probe argv0 fd =
     (case EncodeHandoff (pe_codec env) (reexec_handoff env p probe) of
        Inl e \<Rightarrow> ([PClose fd], Failed e)
      | Inr raw \<Rightarrow>
          (case SealDescriptors env [0, 1, 2] of
             (log, Some e) \<Rightarrow> (log @ [PClose fd], Failed e)
           | (log, None) \<Rightarrow>
               (case pe_setenv env of
                  Some e \<Rightarrow> (log @ [PClose fd], Failed e)
                | None \<Rightarrow>
                    (log @ [PSetenv raw, PExec argv0],
                     case pe_exec env of None \<Rightarrow> Replaced raw | Some e \<Rightarrow> Failed e))))"

text \<open>From \<^verbatim>\<open>runtime.LockOSThread\<close> on; the deferred unlock happens on every return.\<close>

definition reexec_locked ::
    "platform_env \<Rightarrow> policy \<Rightarrow> probe_identity \<Rightarrow> string \<Rightarrow> plat_event list \<times> reexec" where
  "reexec_locked env p probe argv0 =
     (case buildLandlock env p of
        (log, Inl e) \<Rightarrow> (log, Failed (err_wrap ''build landlock ruleset: %w'' e))
      | (log, Inr fd) \<Rightarrow>
          (case pe_no_new_privs env of
             Some e \<Rightarrow> (log @ [PClose fd], Failed e)
           | None \<Rightarrow>
               (case pe_restrict env of
                  Some e \<Rightarrow> (log @ [PNoNewPrivs, PClose fd], Failed (err_wrap ''restrict landlock: %w'' e))
                | None \<Rightarrow>
                    (let (log', res) = reexec_restricted env p probe argv0 fd
                     in (log @ [PNoNewPrivs, PRestrict fd] @ log', res)))))"

definition ReexecForPolicy :: "platform_env \<Rightarrow> policy \<Rightarrow> plat_event list \<times> reexec" where
  "ReexecForPolicy env p =
     (case Policy_Validate (pe_order env) p of
        Some e \<Rightarrow> ([], Failed e)
      | None \<Rightarrow>
          (if \<not> wantsLandlock p then ([], Failed (err_new ''security: policy does not select landlock''))
           else if pe_arch env \<noteq> ''amd64'' \<and> pe_arch env \<noteq> ''arm64''
             then ([], Failed (Errorf ''%w: %s'' [AWrap ErrUnknownArchitecture, AStr (pe_arch env)]))
           else (case selectProbe env p of
                Inl e \<Rightarrow> ([], Failed e)
              | Inr probe \<Rightarrow>
                  (case pe_executable env of
                     Inl e \<Rightarrow> ([], Failed e)
                   | Inr argv0 \<Rightarrow>
                       (case reexec_locked env p probe argv0 of
                          (log, Replaced raw) \<Rightarrow> (PLockThread # log, Replaced raw)
                        | (log, Failed e) \<Rightarrow> (PLockThread # log @ [PUnlockThread], Failed e))))))"

text \<open>\<^verbatim>\<open>MaybeReexec\<close>: \<open>None\<close> when the image is replaced, otherwise the returned error.\<close>

definition MaybeReexec :: "platform_env \<Rightarrow> policy \<Rightarrow> plat_event list \<times> error option" where
  "MaybeReexec env p =
     (case Policy_Validate (pe_order env) p of
        Some e \<Rightarrow> ([], Some (Some e))
      | None \<Rightarrow>
          (if po_mode p = ModeOff \<or> \<not> wantsLandlock p then ([], Some None)
           else if pe_handoff env \<noteq> '''' then
             ([], Some (case VerifyHandoff env (pe_handoff env) p of Inl e \<Rightarrow> Some e | Inr _ \<Rightarrow> None))
           else (case ReexecForPolicy env p of
                   (log, Replaced _) \<Rightarrow> (log, None)
                 | (log, Failed e) \<Rightarrow> (log, Some (Some e)))))"

section \<open>Seccomp\<close>

definition applySeccomp :: "platform_env \<Rightarrow> string list \<Rightarrow> plat_event list \<times> error" where
  "applySeccomp env denied =
     (case buildSeccompFilter (pe_arch env) denied of
        Inl e \<Rightarrow> ([], Some e)
      | Inr prog \<Rightarrow>
          (case pe_no_new_privs env of
             Some e \<Rightarrow> ([], Some e)
           | None \<Rightarrow>
               (case pe_seccomp env of
                  Some e \<Rightarrow> ([PNoNewPrivs], Some e)
                | None \<Rightarrow> ([PNoNewPrivs, PSeccomp prog], None))))"

definition seccompEnforced :: "platform_env \<Rightarrow> bool" where
  "seccompEnforced env \<longleftrightarrow> pe_seccomp_mode env = Some 2"

section \<open>Apply\<close>

text \<open>\<^verbatim>\<open>strings.Join\<close>.\<close>

fun join_with :: "string \<Rightarrow> string list \<Rightarrow> string" where
  "join_with sep [] = ''''"
| "join_with sep [s] = s"
| "join_with sep (s # ss) = s @ sep @ join_with sep ss"

definition landlock_layer :: "sec_status \<Rightarrow> layer_status \<Rightarrow> string list \<Rightarrow> sec_status" where
  "landlock_layer st ly missing = st\<lparr>su_landlock := ly, su_missing := su_missing st @ missing\<rparr>"

definition seccomp_layer :: "sec_status \<Rightarrow> layer_status \<Rightarrow> string list \<Rightarrow> sec_status" where
  "seccomp_layer st ly missing = st\<lparr>su_seccomp := ly, su_missing := su_missing st @ missing\<rparr>"

text \<open>The Landlock part; \<open>None\<close> when the process image is replaced.\<close>

definition apply_landlock :: "platform_env \<Rightarrow> policy \<Rightarrow> sec_status \<Rightarrow> plat_event list \<times> sec_status option" where
  "apply_landlock env p st =
     (if \<not> wantsLandlock p then ([], Some st)
      else (case pe_abi env of
        Inl _ \<Rightarrow> ([], Some (landlock_layer st (no_layer\<lparr>ly_error := Some ErrUnsupported\<rparr>) [''landlock'']))
      | Inr _ \<Rightarrow>
          (let avail = no_layer\<lparr>ly_available := True\<rparr> in
           if pe_handoff env \<noteq> '''' then
             (case VerifyHandoff env (pe_handoff env) p of
                Inl e \<Rightarrow> ([], Some (landlock_layer st (avail\<lparr>ly_error := Some e\<rparr>) [''landlock-proof'']))
              | Inr _ \<Rightarrow> ([PUnsetenv],
                  Some ((landlock_layer st (avail\<lparr>ly_applied := True, ly_verified := True\<rparr>) [])
                          \<lparr>su_handoff_verified := True\<rparr>)))
           else (case ReexecForPolicy env p of
                   (log, Replaced _) \<Rightarrow> (log, None)
                 | (log, Failed e) \<Rightarrow>
                     (log, Some (landlock_layer st (avail\<lparr>ly_error := Some e\<rparr>) [''landlock-reexec'']))))))"

definition apply_seccomp_layer :: "platform_env \<Rightarrow> policy \<Rightarrow> sec_status \<Rightarrow> plat_event list \<times> sec_status" where
  "apply_seccomp_layer env p st =
     (if \<not> wantsSeccomp p then ([], st)
      else (case ABIForArchitecture (pe_arch env) of
        Inl e \<Rightarrow> ([], seccomp_layer st (no_layer\<lparr>ly_error := Some e\<rparr>) [''seccomp-architecture''])
      | Inr _ \<Rightarrow>
          (let avail = no_layer\<lparr>ly_available := True\<rparr> in
           case applySeccomp env (po_deny p) of
             (log, Some e) \<Rightarrow>
               (log, seccomp_layer st (avail\<lparr>ly_error := Some (err_wrap ''apply seccomp: %w'' e)\<rparr>) [''seccomp''])
           | (log, None) \<Rightarrow>
               (log, seccomp_layer st (avail\<lparr>ly_applied := True, ly_verified := seccompEnforced env\<rparr>)
                       (if seccompEnforced env then [] else [''seccomp-verification''])))))"

definition finishPlatform :: "policy \<Rightarrow> sec_status \<Rightarrow> plat_event list \<times> (sec_status \<times> error) option" where
  "finishPlatform p st0 =
     (let st1 = st0\<lparr>su_enforced := (su_missing st0 = []
                  \<and> (\<not> wantsLandlock p \<or> ly_verified (su_landlock st0))
                  \<and> (\<not> wantsSeccomp p \<or> ly_verified (su_seccomp st0)))\<rparr>;
          st2 = (if su_mode st1 = ModePreferred \<and> \<not> su_enforced st1
                 then st1\<lparr>su_warnings := su_warnings st1 @ su_missing st1\<rparr> else st1)
      in ([setPlatformStatus p st2],
          Some (st2, if su_mode st2 = ModeRequired \<and> \<not> su_enforced st2
                     then Some (Errorf ''%w: %s'' [AWrap ErrRequired, AStr (join_with '', '' (su_missing st2))])
                     else None)))"

text \<open>\<^verbatim>\<open>applyPlatform\<close>: the log, and unless the image is replaced the status and the error.\<close>

definition applyPlatform :: "platform_env \<Rightarrow> policy \<Rightarrow> plat_event list \<times> (sec_status \<times> error) option" where
  "applyPlatform env p =
     (case Policy_Validate (pe_order env) p of
        Some e \<Rightarrow> ([], Some (empty_status, Some e))
      | None \<Rightarrow>
          (let st = new_status (po_mode p) (pe_arch env) in
           if po_mode p = ModeOff then ([setPlatformStatus p st], Some (st, None))
           else if pe_arch env \<noteq> ''amd64'' \<and> pe_arch env \<noteq> ''arm64''
             then finishPlatform p (st\<lparr>su_missing := [''architecture:'' @ pe_arch env]\<rparr>)
           else (case apply_landlock env p st of
                   (log, None) \<Rightarrow> (log, None)
                 | (log, Some st1) \<Rightarrow>
                     (case apply_seccomp_layer env p st1 of
                        (log', st2) \<Rightarrow>
                          (let (log'', res) = finishPlatform p st2 in (log @ log' @ log'', res))))))"

text \<open>
  The pre-composition integration: \<open>ctx_err\<close> is \<^verbatim>\<open>ctx.Err()\<close>, \<open>build\<close> the policy of the
  configuration; the prepared value is the status and there is no cleanup.
\<close>

definition Security_Prepare ::
    "platform_env \<Rightarrow> error \<Rightarrow> ('c \<Rightarrow> goerr + policy) \<Rightarrow> 'c \<Rightarrow> plat_event list \<times> (goerr + sec_status) option" where
  "Security_Prepare env ctx_err build config =
     (case ctx_err of
        Some e \<Rightarrow> ([], Some (Inl e))
      | None \<Rightarrow>
          (case build config of
             Inl e \<Rightarrow> ([], Some (Inl e))
           | Inr p \<Rightarrow>
               (case applyPlatform env p of
                  (log, None) \<Rightarrow> (log, None)
                | (log, Some (st, Some e)) \<Rightarrow> (log, Some (Inl e))
                | (log, Some (st, None)) \<Rightarrow> (log, Some (Inr st)))))"

text \<open>The exported names of the two entry points, and the constant policy builder.\<close>

definition Apply :: "platform_env \<Rightarrow> policy \<Rightarrow> plat_event list \<times> (sec_status \<times> error) option" where
  "Apply env p = applyPlatform env p"

definition CurrentStatus :: "plat_event list \<Rightarrow> sec_status" where
  "CurrentStatus log = currentPlatformStatus log"

definition ValidatePreservedFDs :: "int list \<Rightarrow> error" where
  "ValidatePreservedFDs fds = PreserveFDSet_Validate fds"

definition WithPolicyValue :: "policy \<Rightarrow> 'c \<Rightarrow> goerr + policy" where
  "WithPolicyValue p config = Inr p"

text \<open>\<^verbatim>\<open>Status.String\<close>.\<close>

definition bool_text :: "bool \<Rightarrow> string" where
  "bool_text b = (if b then ''true'' else ''false'')"

definition Status_String :: "sec_status \<Rightarrow> string" where
  "Status_String s =
     join_with '' ''
       ([''mode='' @ PolicyMode_String (su_mode s), ''arch='' @ su_arch s,
         ''enforced='' @ bool_text (su_enforced s),
         ''landlock='' @ bool_text (ly_applied (su_landlock s)) @ ''/'' @ bool_text (ly_verified (su_landlock s)),
         ''seccomp='' @ bool_text (ly_applied (su_seccomp s)) @ ''/'' @ bool_text (ly_verified (su_seccomp s))]
        @ (if su_missing s \<noteq> [] then [''missing='' @ join_with '','' (su_missing s)] else [])
        @ (if su_warnings s \<noteq> [] then [''warnings='' @ join_with '','' (su_warnings s)] else []))"

section \<open>Other platforms\<close>

definition other_applyPlatform :: "path_group list \<Rightarrow> string \<Rightarrow> policy \<Rightarrow> sec_status \<times> error" where
  "other_applyPlatform order arch p =
     (case Policy_Validate order p of
        Some e \<Rightarrow> (empty_status, Some e)
      | None \<Rightarrow>
          (let st = new_status (po_mode p) arch in
           if po_mode p = ModeOff then (st, None)
           else
             (let missing = (if wantsLandlock p then [''landlock''] else [])
                          @ (if wantsSeccomp p then [''seccomp''] else []);
                  st1 = st\<lparr>su_missing := missing, su_warnings := missing\<rparr>
              in (st1, if po_mode p = ModeRequired \<and> length missing \<noteq> 0
                       then Some (Errorf ''%w: %v'' [AWrap ErrRequired, AStr (''['' @ join_with '' '' missing @ '']'')]) else None))))"

definition other_verifyKernelEnforcement :: "string \<Rightarrow> handoff \<Rightarrow> policy \<Rightarrow> error" where
  "other_verifyKernelEnforcement os h p =
     Some (Errorf ''%w: Linux security is unavailable on %s'' [AWrap ErrUnsupported, AStr os])"

definition other_ABIForArchitecture :: "string \<Rightarrow> goerr + 32 word" where
  "other_ABIForArchitecture arch = Inl (Errorf ''%w: %s'' [AWrap ErrUnknownArchitecture, AStr arch])"

definition other_currentPlatformStatus :: "string \<Rightarrow> sec_status" where
  "other_currentPlatformStatus arch = new_status 0 arch"

definition other_MaybeReexec :: "policy \<Rightarrow> error" where
  "other_MaybeReexec p = None"

definition other_SealDescriptors :: "int list \<Rightarrow> error" where
  "other_SealDescriptors preserve = PreserveFDSet_Validate preserve"

end
