(* ===== verification/Policy_Props.thy ===== *)
theory Policy_Props
  imports Policy
begin

text \<open>
  The properties of policies: what validation accepts, the normal form behind the digest,
  the exact classification of a policy change and the cases in which that classification
  is the wrong way round, and the descriptor set.
\<close>

section \<open>Lemmas\<close>

lemma first_error_None: "first_error f xs = None \<longleftrightarrow> (\<forall>x \<in> set xs. f x = None)"
  by (induction xs) (auto split: option.splits)

lemma absolute_iff: "absolute path \<longleftrightarrow> (\<exists>r. path = CHR ''/'' # r)"
  by (cases path) (auto simp: absolute_def has_prefix_def)

lemma group_error_None:
  "group_error p g = None \<longleftrightarrow> list_all absolute (group_paths p g) \<and> distinct (group_paths p g)"
  by (auto simp: group_error_def scan_empty_None list_all_iff split: if_splits)

lemma grant_error_None: "grant_error g = None \<longleftrightarrow> absolute (gr_path g) \<and> gr_access g \<noteq> 0"
  by (auto simp: grant_error_def)

lemma deny_error_None: "deny_error p = None \<longleftrightarrow> '''' \<notin> set (po_deny p) \<and> distinct (po_deny p)"
  by (auto simp: deny_error_def scan_empty_None split: if_splits)

definition policy_ok :: "policy \<Rightarrow> bool" where
  "policy_ok p \<longleftrightarrow> po_mode p \<in> {ModeOff, ModePreferred, ModeRequired}
     \<and> list_all absolute (po_read_only p) \<and> distinct (po_read_only p)
     \<and> list_all absolute (po_writable p) \<and> distinct (po_writable p)
     \<and> list_all absolute (po_executable p) \<and> distinct (po_executable p)
     \<and> list_all (\<lambda>g. absolute (gr_path g) \<and> gr_access g \<noteq> 0) (po_grants p)
     \<and> '''' \<notin> set (po_deny p) \<and> distinct (po_deny p)"

lemma mode_valid: "PolicyMode_valid m \<longleftrightarrow> m \<in> {ModeOff, ModePreferred, ModeRequired}"
proof -
  have "m \<le> 2 \<longleftrightarrow> unat m \<le> 2" by (simp add: word_le_nat_alt)
  also have "\<dots> \<longleftrightarrow> unat m = 0 \<or> unat m = 1 \<or> unat m = 2" by auto
  also have "\<dots> \<longleftrightarrow> m = 0 \<or> m = 1 \<or> m = 2" by (simp add: word_unat_eq_iff)
  finally show ?thesis by (simp add: PolicyMode_valid_def mode_defs)
qed

lemma Policy_Validate_None: "map_order order \<Longrightarrow> Policy_Validate order p = None \<longleftrightarrow> policy_ok p"
proof -
  assume "map_order order"
  then have "first_error (group_error p) order = None \<longleftrightarrow>
      group_error p ReadOnly = None \<and> group_error p Writable = None \<and> group_error p Executable = None"
    by (auto simp: first_error_None map_order_def)
  moreover have "first_error grant_error (po_grants p) = None \<longleftrightarrow>
      list_all (\<lambda>g. absolute (gr_path g) \<and> gr_access g \<noteq> 0) (po_grants p)"
    by (simp add: first_error_None grant_error_None list_all_iff)
  ultimately show ?thesis
    by (auto simp: Policy_Validate_def policy_ok_def group_error_None deny_error_None mode_valid
        split: option.splits)
qed

text \<open>The last grant of a path wins, so over sorted grants the map holds the largest access.\<close>

lemma grant_map_snoc [simp]: "grant_map (gs @ [g]) = (grant_map gs)(gr_path g := gr_access g)"
  by (simp add: grant_map_def)

lemma grant_map_absent: "path \<notin> gr_path ` set gs \<Longrightarrow> grant_map gs path = 0"
  by (induction gs rule: rev_induct) (auto simp: grant_map_def [of "[]"])

lemma grant_map_mem:
  "path \<in> gr_path ` set gs \<Longrightarrow> \<exists>g \<in> set gs. gr_path g = path \<and> grant_map gs path = gr_access g"
  by (induction gs rule: rev_induct) (auto split: if_splits)

lemma grant_map_unique:
  assumes "\<forall>g \<in> set gs. \<forall>h \<in> set gs. gr_path g = gr_path h \<longrightarrow> g = h" and "g \<in> set gs"
  shows "grant_map gs (gr_path g) = gr_access g"
  using grant_map_mem [of "gr_path g" gs] assms by (metis imageI)

lemma grant_map_in:
  assumes "\<forall>g \<in> set gs. \<forall>h \<in> set gs. gr_path g = gr_path h \<longrightarrow> g = h" and "gr_access x \<noteq> 0"
  shows "grant_map gs (gr_path x) = gr_access x \<longleftrightarrow> x \<in> set gs"
proof
  assume eq: "grant_map gs (gr_path x) = gr_access x"
  with assms(2) have "gr_path x \<in> gr_path ` set gs" using grant_map_absent by metis
  then obtain g where "g \<in> set gs" "gr_path g = gr_path x" "gr_access g = gr_access x"
    using grant_map_mem eq by metis
  then show "x \<in> set gs" by (metis grant.expand)
qed (use assms grant_map_unique in blast)

text \<open>No path is granted twice with different rights.\<close>

definition grants_functional :: "policy \<Rightarrow> bool" where
  "grants_functional p \<longleftrightarrow> inj_on gr_path (set (po_grants p))"

lemma grants_functionalD:
  "grants_functional p \<Longrightarrow> \<forall>g \<in> set (po_grants p). \<forall>h \<in> set (po_grants p). gr_path g = gr_path h \<longrightarrow> g = h"
  by (auto simp: grants_functional_def inj_on_def)

text \<open>What a change adds to and takes from a policy, as sets.\<close>

definition expands :: "policy \<Rightarrow> policy \<Rightarrow> bool" where
  "expands c d \<longleftrightarrow>
     \<not> set (po_read_only d) \<subseteq> set (po_read_only c) \<or> \<not> set (po_writable d) \<subseteq> set (po_writable c)
     \<or> \<not> set (po_executable d) \<subseteq> set (po_executable c) \<or> \<not> set (po_deny d) \<subseteq> set (po_deny c)
     \<or> \<not> set (po_grants d) \<subseteq> set (po_grants c)
     \<or> (po_landlock d \<and> \<not> po_landlock c) \<or> (po_seccomp d \<and> \<not> po_seccomp c)"

lemma filter_notin_empty: "filter (\<lambda>x. x \<notin> S) xs \<noteq> [] \<longleftrightarrow> \<not> set xs \<subseteq> S"
  by (auto simp: filter_empty_conv)

lemma grantDifferences_empty:
  assumes "grants_functional c" and "\<forall>g \<in> set (po_grants d). gr_access g \<noteq> 0"
  shows "fst (grantDifferences (sort (po_grants c)) (sort (po_grants d))) \<noteq> [] \<longleftrightarrow>
           \<not> set (po_grants d) \<subseteq> set (po_grants c)"
proof -
  have "grant_map (sort (po_grants c)) (gr_path g) = gr_access g \<longleftrightarrow> g \<in> set (po_grants c)"
    if "g \<in> set (po_grants d)" for g
    using that assms grants_functionalD grant_map_in [of "sort (po_grants c)" g] by simp
  then show ?thesis by (auto simp: grantDifferences_def filter_empty_conv)
qed

lemma grantDifferences_swap: "grantDifferences d c = prod.swap (grantDifferences c d)"
  by (simp add: grantDifferences_def)

lemma differences_empty:
  "fst (differences (sort xs) (sort ys)) = [] \<longleftrightarrow> set ys \<subseteq> set xs"
  "snd (differences (sort xs) (sort ys)) = [] \<longleftrightarrow> set xs \<subseteq> set ys"
  by (auto simp: differences_def filter_empty_conv)

text \<open>The two tests of the comparison, \<open>expansion\<close> and \<open>restriction\<close>, on the sets.\<close>

lemma expansion_test:
  assumes "grants_functional c" and "\<forall>g \<in> set (po_grants d). gr_access g \<noteq> 0"
  shows "(0 < length (fst (differences (sort (po_read_only c)) (sort (po_read_only d))))
      + length (fst (differences (sort (po_writable c)) (sort (po_writable d))))
      + length (fst (differences (sort (po_executable c)) (sort (po_executable d))))
      + length (fst (differences (sort (po_deny c)) (sort (po_deny d))))
      + length (fst (grantDifferences (sort (po_grants c)) (sort (po_grants d))))
      \<or> po_landlock d \<and> \<not> po_landlock c \<or> po_seccomp d \<and> \<not> po_seccomp c) \<longleftrightarrow> expands c d"
  using grantDifferences_empty [OF assms]
  by (simp add: expands_def differences_empty) blast

lemma restriction_test:
  assumes "grants_functional d" and "\<forall>g \<in> set (po_grants c). gr_access g \<noteq> 0"
  shows "(0 < length (snd (differences (sort (po_read_only c)) (sort (po_read_only d))))
      + length (snd (differences (sort (po_writable c)) (sort (po_writable d))))
      + length (snd (differences (sort (po_executable c)) (sort (po_executable d))))
      + length (snd (differences (sort (po_deny c)) (sort (po_deny d))))
      + length (snd (grantDifferences (sort (po_grants c)) (sort (po_grants d))))
      \<or> po_landlock c \<and> \<not> po_landlock d \<or> po_seccomp c \<and> \<not> po_seccomp d) \<longleftrightarrow> expands d c"
proof -
  have "snd (grantDifferences (sort (po_grants c)) (sort (po_grants d))) \<noteq> [] \<longleftrightarrow>
      \<not> set (po_grants c) \<subseteq> set (po_grants d)"
    using grantDifferences_empty [OF assms] by (subst grantDifferences_swap) simp
  then show ?thesis by (simp add: expands_def differences_empty) blast
qed

lemma normalized_fields [simp]:
  "po_mode (Policy_normalized p) = po_mode p"
  "po_read_only (Policy_normalized p) = sort (po_read_only p)"
  "po_writable (Policy_normalized p) = sort (po_writable p)"
  "po_executable (Policy_normalized p) = sort (po_executable p)"
  "po_grants (Policy_normalized p) = sort (po_grants p)"
  "po_except_exec (Policy_normalized p) = po_except_exec p"
  "po_deny (Policy_normalized p) = sort (po_deny p)"
  "po_landlock (Policy_normalized p) = po_landlock p"
  "po_seccomp (Policy_normalized p) = po_seccomp p"
  by (simp_all add: Policy_normalized_def)

lemma compare_sets:
  assumes "policy_ok c" and "policy_ok d" and "grants_functional c" and "grants_functional d"
  shows "cp_kind (CompareEffectivePolicy c d) =
      (if expands c d then PermissionExpansion
       else if po_mode c \<noteq> po_mode d then ModeChange
       else if expands d c then MoreRestrictive else NoChange)"
    and "cp_restart (CompareEffectivePolicy c d) \<longleftrightarrow>
      expands c d \<or> po_mode c \<noteq> po_mode d \<and> (po_mode c = ModeOff \<or> po_mode d = ModeOff)"
proof -
  have nz: "\<forall>g \<in> set (po_grants c). gr_access g \<noteq> 0" "\<forall>g \<in> set (po_grants d). gr_access g \<noteq> 0"
    using assms(1,2) by (auto simp: policy_ok_def list_all_iff)
  note tests = expansion_test [OF assms(3) nz(2)] restriction_test [OF assms(4) nz(1)]
  let ?kind0 = "if po_mode c \<noteq> po_mode d then ModeChange else NoChange"
  have "cp_kind (CompareEffectivePolicy c d) =
      (if expands c d then PermissionExpansion
       else if ?kind0 = NoChange \<and> expands d c then MoreRestrictive else ?kind0)"
    unfolding tests [symmetric]
    by (simp only: CompareEffectivePolicy_def normalized_fields Let_def case_prod_beta
        policy_comparison.simps)
  moreover have "ModeChange \<noteq> NoChange" by (simp add: change_kind_defs)
  ultimately show "cp_kind (CompareEffectivePolicy c d) =
      (if expands c d then PermissionExpansion
       else if po_mode c \<noteq> po_mode d then ModeChange
       else if expands d c then MoreRestrictive else NoChange)"
    by simp
  show "cp_restart (CompareEffectivePolicy c d) \<longleftrightarrow>
      expands c d \<or> po_mode c \<noteq> po_mode d \<and> (po_mode c = ModeOff \<or> po_mode d = ModeOff)"
    unfolding tests [symmetric]
    by (simp only: CompareEffectivePolicy_def normalized_fields Let_def case_prod_beta
        policy_comparison.simps) blast
qed

section \<open>Properties\<close>

text \<open>
  whatever order Go iterates over the three path lists in, a policy is accepted
  exactly if its mode is known, every path is absolute and not repeated in its list, every
  grant names an absolute path and some right, and the denied system calls are named and
  not repeated.
\<close>

theorem policy_accepted_exactly:
  assumes "map_order order"
  shows "Policy_Validate order p = None \<longleftrightarrow>
     po_mode p \<in> {ModeOff, ModePreferred, ModeRequired}
     \<and> list_all absolute (po_read_only p) \<and> distinct (po_read_only p)
     \<and> list_all absolute (po_writable p) \<and> distinct (po_writable p)
     \<and> list_all absolute (po_executable p) \<and> distinct (po_executable p)
     \<and> list_all (\<lambda>g. absolute (gr_path g) \<and> gr_access g \<noteq> 0) (po_grants p)
     \<and> '''' \<notin> set (po_deny p) \<and> distinct (po_deny p)"
  using Policy_Validate_None [OF assms] by (simp add: policy_ok_def)

text \<open>
  between accepted policies that grant no path twice, a change is an expansion exactly
  if something is listed in the desired policy and not in the current one or a mechanism
  is switched on; it needs an external restart exactly then or when the mode moves from or
  to off; a change that only removes is classed as more restrictive, and only equal
  contents (and a possibly different \<^verbatim>\<open>ExceptExec\<close>) as no change.
\<close>

theorem compare_classifies_exactly:
  assumes "map_order order" and "Policy_Validate order c = None" and "Policy_Validate order d = None"
    and "grants_functional c" and "grants_functional d"
  shows "cp_kind (CompareEffectivePolicy c d) =
           (if expands c d then PermissionExpansion
            else if po_mode c \<noteq> po_mode d then ModeChange
            else if expands d c then MoreRestrictive else NoChange)
         \<and> (cp_restart (CompareEffectivePolicy c d) \<longleftrightarrow>
              expands c d \<or> po_mode c \<noteq> po_mode d \<and> (po_mode c = ModeOff \<or> po_mode d = ModeOff))"
  using assms compare_sets by (simp add: Policy_Validate_None)

text \<open>
  denied system calls and the two mechanism switches are compared like permissions:
  denying one more call is an expansion that needs a restart, allowing one again is more
  restrictive and needs none, and so for switching a mechanism on and off.
\<close>

theorem compare_inverts_denials:
  assumes "map_order order" and "Policy_Validate order p = None" and "grants_functional p"
    and "s \<notin> set (po_deny p)" and "s \<noteq> ''''" and "\<not> po_seccomp p"
  shows "cp_kind (CompareEffectivePolicy p (p\<lparr>po_deny := po_deny p @ [s]\<rparr>)) = PermissionExpansion
         \<and> cp_kind (CompareEffectivePolicy (p\<lparr>po_deny := po_deny p @ [s]\<rparr>) p) = MoreRestrictive
         \<and> \<not> cp_restart (CompareEffectivePolicy (p\<lparr>po_deny := po_deny p @ [s]\<rparr>) p)
         \<and> cp_kind (CompareEffectivePolicy p (p\<lparr>po_seccomp := True\<rparr>)) = PermissionExpansion
         \<and> cp_kind (CompareEffectivePolicy (p\<lparr>po_seccomp := True\<rparr>) p) = MoreRestrictive"
proof -
  let ?q = "p\<lparr>po_deny := po_deny p @ [s]\<rparr>" and ?r = "p\<lparr>po_seccomp := True\<rparr>"
  have ok: "policy_ok p" using assms(1,2) by (simp add: Policy_Validate_None)
  have oks: "policy_ok ?q" "policy_ok ?r"
    using ok assms(4,5) by (auto simp: policy_ok_def)
  have fn: "grants_functional ?q" "grants_functional ?r"
    using assms(3) by (simp_all add: grants_functional_def)
  have "expands p ?q" "\<not> expands ?q p" "expands p ?r" "\<not> expands ?r p"
    using assms(4,6) by (auto simp: expands_def)
  then show ?thesis
    using compare_sets [OF ok oks(1) assms(3) fn(1)] compare_sets [OF oks(1) ok fn(1) assms(3)]
      compare_sets [OF ok oks(2) assms(3) fn(2)] compare_sets [OF oks(2) ok fn(2) assms(3)]
    by simp
qed

text \<open>
  the normal form forgets the order of the five lists and nothing else, so two
  policies have the same digest input exactly if they are rearrangements of each other; a
  policy compared with a rearrangement of itself is unchanged exactly if it does not grant
  one path with different rights, otherwise it is reported as an expansion of itself.
\<close>

theorem normal_form_forgets_order:
  "(Policy_normalized p = Policy_normalized q \<longleftrightarrow>
      po_mode p = po_mode q \<and> mset (po_read_only p) = mset (po_read_only q)
      \<and> mset (po_writable p) = mset (po_writable q) \<and> mset (po_executable p) = mset (po_executable q)
      \<and> mset (po_grants p) = mset (po_grants q) \<and> po_except_exec p = po_except_exec q
      \<and> mset (po_deny p) = mset (po_deny q) \<and> po_landlock p = po_landlock q \<and> po_seccomp p = po_seccomp q)
   \<and> cp_kind (CompareEffectivePolicy p p) = (if grants_functional p then NoChange else PermissionExpansion)"
proof (rule conjI)
  have s: "sort xs = sort ys \<longleftrightarrow> mset xs = mset ys" for xs ys :: "'b::linorder list"
    using sort_perm by (metis mset_sort)
  show "Policy_normalized p = Policy_normalized q \<longleftrightarrow>
      po_mode p = po_mode q \<and> mset (po_read_only p) = mset (po_read_only q)
      \<and> mset (po_writable p) = mset (po_writable q) \<and> mset (po_executable p) = mset (po_executable q)
      \<and> mset (po_grants p) = mset (po_grants q) \<and> po_except_exec p = po_except_exec q
      \<and> mset (po_deny p) = mset (po_deny q) \<and> po_landlock p = po_landlock q \<and> po_seccomp p = po_seccomp q"
    by (cases p; cases q) (auto simp: Policy_normalized_def s)
  have self: "fst (grantDifferences gs gs) = [] \<longleftrightarrow> inj_on gr_path (set gs)" for gs
  proof
    assume "fst (grantDifferences gs gs) = []"
    then have "gr_access g = grant_map gs (gr_path g)" if "g \<in> set gs" for g
      using that by (auto simp: grantDifferences_def filter_empty_conv)
    then show "inj_on gr_path (set gs)" by (intro inj_onI) (metis grant.expand)
  next
    assume "inj_on gr_path (set gs)"
    then have "grant_map gs (gr_path g) = gr_access g" if "g \<in> set gs" for g
      using that by (intro grant_map_unique) (auto simp: inj_on_def)
    then show "fst (grantDifferences gs gs) = []"
      by (simp add: grantDifferences_def filter_empty_conv)
  qed
  have "snd (grantDifferences gs gs) = fst (grantDifferences gs gs)" for gs
    by (simp add: grantDifferences_def)
  then show "cp_kind (CompareEffectivePolicy p p) = (if grants_functional p then NoChange else PermissionExpansion)"
    by (simp add: CompareEffectivePolicy_def Let_def case_prod_beta differences_empty self grants_functional_def)
qed

text \<open>
  a descriptor set is accepted exactly if no descriptor is negative or repeated, and
  every refusal is an invalid-descriptor error.
\<close>

theorem preserve_set_accepted_exactly:
  "(PreserveFDSet_Validate s = None \<longleftrightarrow> (list_all (\<lambda>fd. 0 \<le> fd) s \<and> distinct s))
   \<and> (PreserveFDSet_Validate s = None \<or> error_is (PreserveFDSet_Validate s) ErrInvalidDescriptors)"
proof (rule conjI)
  show "PreserveFDSet_Validate s = None \<longleftrightarrow> (list_all (\<lambda>fd. 0 \<le> fd) s \<and> distinct s)"
    by (auto simp: PreserveFDSet_Validate_def scan_empty_None list_all_iff not_less split: if_splits)
  have "scan (\<lambda>fd. if fd < 0 then Some (Errorf ''%w: negative fd %d'' [AWrap ErrInvalidDescriptors, AInt fd]) else None)
          id (\<lambda>fd. Errorf ''%w: duplicate fd %d'' [AWrap ErrInvalidDescriptors, AInt fd]) seen s = Some e
      \<Longrightarrow> errors_is e ErrInvalidDescriptors" for seen e
    by (induction s arbitrary: seen) (auto split: if_splits)
  then show "PreserveFDSet_Validate s = None \<or> error_is (PreserveFDSet_Validate s) ErrInvalidDescriptors"
    unfolding PreserveFDSet_Validate_def
    by (cases "scan (\<lambda>fd. if fd < 0 then Some (Errorf ''%w: negative fd %d'' [AWrap ErrInvalidDescriptors, AInt fd]) else None)
          id (\<lambda>fd. Errorf ''%w: duplicate fd %d'' [AWrap ErrInvalidDescriptors, AInt fd]) {} s") auto
qed

section \<open>The properties at a concrete policy\<close>

definition ex_policy :: policy where
  "ex_policy = \<lparr>po_mode = ModeRequired, po_read_only = [''/usr'', ''/etc''], po_writable = [''/var/lib/app''],
     po_executable = [], po_grants = [Grant ''/tmp'' RightReadFile], po_except_exec = False,
     po_deny = [''ptrace''], po_landlock = True, po_seccomp = False\<rparr>"

lemma ex_order: "map_order [Writable, ReadOnly, Executable]"
  by (auto simp: map_order_def)

lemma ex_policy_ok: "policy_ok ex_policy" "grants_functional ex_policy"
  by (simp_all add: policy_ok_def ex_policy_def absolute_def has_prefix_def right_defs grants_functional_def)

lemma ex_policy_valid: "Policy_Validate [Writable, ReadOnly, Executable] ex_policy = None"
  using ex_policy_ok Policy_Validate_None [OF ex_order] by blast

theorem policy_accepted_exactly_witness:
  "Policy_Validate [Writable, ReadOnly, Executable] ex_policy = None"
  using policy_accepted_exactly [OF ex_order, of ex_policy] ex_policy_ok(1)
  by (simp add: policy_ok_def)

theorem compare_classifies_exactly_witness:
  "cp_kind (CompareEffectivePolicy ex_policy (ex_policy\<lparr>po_writable := []\<rparr>)) = MoreRestrictive"
proof -
  let ?d = "ex_policy\<lparr>po_writable := []\<rparr>"
  have ok: "policy_ok ?d" "grants_functional ?d"
    using ex_policy_ok by (simp_all add: policy_ok_def grants_functional_def)
  then have "Policy_Validate [Writable, ReadOnly, Executable] ?d = None"
    using Policy_Validate_None [OF ex_order] by blast
  from compare_classifies_exactly [OF ex_order ex_policy_valid this ex_policy_ok(2) ok(2)]
  show ?thesis by (simp add: expands_def ex_policy_def)
qed

theorem compare_inverts_denials_witness:
  "cp_kind (CompareEffectivePolicy ex_policy (ex_policy\<lparr>po_deny := [''ptrace'', ''mount'']\<rparr>)) = PermissionExpansion"
proof -
  have "''mount'' \<notin> set (po_deny ex_policy)" "''mount'' \<noteq> ''''" "\<not> po_seccomp ex_policy"
    and deny: "po_deny ex_policy = [''ptrace'']"
    by (simp_all add: ex_policy_def)
  from compare_inverts_denials [OF ex_order ex_policy_valid ex_policy_ok(2) this(1-3)] deny
  show ?thesis by simp
qed

end
