(* ===== verification/Enforcement_Props.thy ===== *)
theory Enforcement_Props
  imports Enforcement Policy_Props
begin

text \<open>
  The properties of enforcement: what a returned status means in each mode, the order of
  effects of a re-execution and what it leaves behind, the rules of the Landlock ruleset
  and the denial probe, and what a handoff proves.
\<close>

section \<open>Lemmas\<close>

lemma seal_loop_events:
  "seal_loop env keep entries = (log, None) \<Longrightarrow>
   PSetFd fd c \<in> set log \<longleftrightarrow>
     (\<exists>s \<in> set entries. Atoi s = Some fd \<and> pe_fcntl env fd = None) \<and> c = (fd \<notin> set keep)"
  by (induction env keep entries arbitrary: log rule: seal_loop.induct)
     (auto split: option.splits if_splits prod.splits)

lemma seal_loop_only: "x \<in> set (fst (seal_loop env keep entries)) \<Longrightarrow> \<exists>fd c. x = PSetFd fd c"
  by (induction env keep entries rule: seal_loop.induct)
     (auto split: option.splits if_splits prod.splits)

lemma run_rules_events:
  "run_rules env handled steps = (log, None) \<Longrightarrow>
   x \<in> set log \<longleftrightarrow> (\<exists>path r. AddRule path r \<in> set steps \<and> x = PRule (Clean path) (r AND handled))"
  by (induction env handled steps arbitrary: log rule: run_rules.induct)
     (auto split: option.splits prod.splits, blast)

lemma run_rules_no_refusal:
  "run_rules env handled steps = (log, None) \<Longrightarrow> Refuse e \<notin> set steps"
  by (induction env handled steps arbitrary: log rule: run_rules.induct)
     (auto split: option.splits prod.splits)

lemma buildLandlock_Inr:
  assumes "buildLandlock env p = (log, Inr fd)"
  obtains abi rules where "pe_abi env = Inr abi" "log = PCreate (handled_rights p abi) # rules"
    "run_rules env (handled_rights p abi) (rule_steps env p (handled_rights p abi)) = (rules, None)"
    "pe_create env (handled_rights p abi) = Inr fd"
  using assms by (auto simp: buildLandlock_def Let_def split: sum.splits prod.splits option.splits)

lemma rule_steps_cases:
  assumes "AddRule src r \<in> set (rule_steps env p handled)"
  obtains "src \<in> set (po_read_only p) \<union> set (po_writable p) \<union> set (po_executable p)
                  \<union> gr_path ` set (po_grants p)"
  | "pe_executable env = Inr src"
    "r = (if po_except_exec p then RightReadFile else RightReadFile OR RightExecute)"
  | "src = ''/dev/null''" "r = RightReadFile OR RightWriteFile"
  using assms by (auto simp: rule_steps_def split: if_splits sum.splits option.splits)

lemma select_from_Inr:
  "select_from env p paths = Inr probe \<Longrightarrow>
   \<not> pathGranted p (pi_path probe) \<and> pi_path probe \<in> set paths
   \<and> pe_stat env (pi_path probe) = Some \<lparr>fs_dev = pi_dev probe, fs_ino = pi_ino probe, fs_mode = pi_mode probe\<rparr>"
  by (induction paths) (auto split: if_splits option.splits)

section \<open>What a verified handoff proves\<close>

lemma verifyLandlockProbe_None:
  "verifyLandlockProbe env h p = None \<longleftrightarrow>
     ho_probe_path h \<noteq> '''' \<and> ho_probe_dev h \<noteq> 0 \<and> ho_probe_ino h \<noteq> 0 \<and> ho_probe_mode h \<noteq> 0
     \<and> \<not> pathGranted p (ho_probe_path h)
     \<and> (\<exists>e. pe_open_read env (ho_probe_path h) = Some e \<and> \<not> errors_is e ENOENT
          \<and> (errors_is e EACCES \<or> errors_is e EPERM))"
  by (auto simp: verifyLandlockProbe_def split: option.splits)

lemma VerifyHandoff_Inr:
  "VerifyHandoff env raw p = Inr h \<longleftrightarrow>
     DecodeHandoff (pe_codec env) raw = Inr h \<and> ho_digest h = digest (pe_codec env) p
     \<and> (if wantsLandlock p then ho_landlock h \<and> verifyLandlockProbe env h p = None else True)"
  by (auto simp: VerifyHandoff_def verifyKernelEnforcement_def split: sum.splits if_splits option.splits)

lemma decoded_token: "DecodeHandoff cd raw = Inr h \<Longrightarrow> ho_token h = handoffToken cd h"
  by (auto simp: DecodeHandoff_def split: option.splits sum.splits if_splits)

section \<open>Layers\<close>

definition landlock_proved :: "platform_env \<Rightarrow> policy \<Rightarrow> bool" where
  "landlock_proved env p \<longleftrightarrow> (\<exists>abi. pe_abi env = Inr abi) \<and> pe_handoff env \<noteq> ''''
     \<and> (\<exists>h. VerifyHandoff env (pe_handoff env) p = Inr h)"

definition seccomp_installed :: "platform_env \<Rightarrow> policy \<Rightarrow> bool" where
  "seccomp_installed env p \<longleftrightarrow> (\<exists>prog. buildSeccompFilter (pe_arch env) (po_deny p) = Inr prog)
     \<and> pe_no_new_privs env = None \<and> pe_seccomp env = None \<and> pe_seccomp_mode env = Some 2"

lemma apply_landlock_status:
  assumes "apply_landlock env p st = (log, Some st1)" and "su_missing st = []"
    and "\<not> ly_verified (su_landlock st)"
  shows "su_mode st1 = su_mode st \<and> su_seccomp st1 = su_seccomp st \<and> su_warnings st1 = su_warnings st
     \<and> (wantsLandlock p \<longrightarrow> (su_missing st1 = [] \<longleftrightarrow> landlock_proved env p)
          \<and> (ly_verified (su_landlock st1) \<longleftrightarrow> landlock_proved env p))
     \<and> (\<not> wantsLandlock p \<longrightarrow> su_missing st1 = [])"
  using assms
  by (auto simp: apply_landlock_def landlock_layer_def no_layer_def landlock_proved_def Let_def
      split: if_splits sum.splits prod.splits reexec.splits)

lemma apply_seccomp_status:
  assumes "apply_seccomp_layer env p st = (log, st2)" and "\<not> ly_verified (su_seccomp st)"
    and "pe_arch env = ''amd64'' \<or> pe_arch env = ''arm64''"
  shows "su_mode st2 = su_mode st \<and> su_landlock st2 = su_landlock st \<and> su_warnings st2 = su_warnings st
     \<and> (wantsSeccomp p \<longrightarrow> (su_missing st2 = [] \<longleftrightarrow> su_missing st = [] \<and> seccomp_installed env p)
          \<and> (ly_verified (su_seccomp st2) \<longleftrightarrow> seccomp_installed env p))
     \<and> (\<not> wantsSeccomp p \<longrightarrow> su_missing st2 = su_missing st)"
  using assms
  by (auto simp: apply_seccomp_layer_def applySeccomp_def seccomp_layer_def no_layer_def
      seccomp_installed_def seccompEnforced_def ABIForArchitecture_def Let_def
      split: if_splits sum.splits prod.splits option.splits)

lemma finishPlatform_decides:
  "finishPlatform p st = (log, Some (st', err)) \<Longrightarrow>
     log = [setPlatformStatus p st'] \<and> su_mode st' = su_mode st \<and> su_missing st' = su_missing st
     \<and> (su_enforced st' \<longleftrightarrow> su_missing st = [] \<and> (\<not> wantsLandlock p \<or> ly_verified (su_landlock st))
          \<and> (\<not> wantsSeccomp p \<or> ly_verified (su_seccomp st)))
     \<and> (err \<noteq> None \<longleftrightarrow> su_mode st = ModeRequired \<and> \<not> su_enforced st')
     \<and> (err = None \<or> error_is err ErrRequired)
     \<and> su_warnings st' = su_warnings st
         @ (if su_mode st = ModePreferred \<and> \<not> su_enforced st' then su_missing st else [])"
  by (auto simp: finishPlatform_def Let_def split: if_splits)

lemma current_after_record: "currentPlatformStatus (log @ [setPlatformStatus p st]) = st"
  by (simp add: currentPlatformStatus_def setPlatformStatus_def)

section \<open>Properties\<close>

lemma required_mode_decides:
  assumes "Policy_Validate (pe_order env) p = None" and "applyPlatform env p = (log, Some (st, err))"
    and "po_mode p \<noteq> ModeOff"
  shows "(su_enforced st \<longleftrightarrow> (pe_arch env = ''amd64'' \<or> pe_arch env = ''arm64'')
            \<and> (wantsLandlock p \<longrightarrow> landlock_proved env p) \<and> (wantsSeccomp p \<longrightarrow> seccomp_installed env p))
         \<and> (err \<noteq> None \<longleftrightarrow> po_mode p = ModeRequired \<and> \<not> su_enforced st)
         \<and> (err = None \<or> error_is err ErrRequired)
         \<and> (po_mode p = ModePreferred \<and> \<not> su_enforced st \<longrightarrow> su_warnings st = su_missing st)
         \<and> currentPlatformStatus (earlier @ log) = st"
proof (cases "pe_arch env = ''amd64'' \<or> pe_arch env = ''arm64''")
  case False
  then have fin: "finishPlatform p ((new_status (po_mode p) (pe_arch env))\<lparr>su_missing := [''architecture:'' @ pe_arch env]\<rparr>)
      = (log, Some (st, err))"
    using assms by (simp add: applyPlatform_def Let_def)
  show ?thesis using finishPlatform_decides [OF fin] False
    by (auto simp: new_status_def current_after_record)
next
  case True
  let ?st0 = "new_status (po_mode p) (pe_arch env)"
  obtain l1 st1 where ll: "apply_landlock env p ?st0 = (l1, Some st1)"
    using assms True by (auto simp: applyPlatform_def Let_def split: prod.splits option.splits if_splits)
  obtain l2 st2 where sc: "apply_seccomp_layer env p st1 = (l2, st2)" by fastforce
  have "\<not> (pe_arch env \<noteq> ''amd64'' \<and> pe_arch env \<noteq> ''arm64'')" using True by blast
  then obtain l3 where fin: "finishPlatform p st2 = (l3, Some (st, err))" and log: "log = l1 @ l2 @ l3"
    using assms ll sc
    by (simp only: applyPlatform_def Let_def if_False option.case prod.case) (auto split: prod.splits)
  have L: "su_mode st1 = po_mode p" "su_seccomp st1 = no_layer" "su_warnings st1 = []"
    "wantsLandlock p \<longrightarrow> (su_missing st1 = [] \<longleftrightarrow> landlock_proved env p)
          \<and> (ly_verified (su_landlock st1) \<longleftrightarrow> landlock_proved env p)"
    "\<not> wantsLandlock p \<longrightarrow> su_missing st1 = []"
    using apply_landlock_status [OF ll] by (auto simp: new_status_def no_layer_def)
  have S: "su_mode st2 = po_mode p" "su_landlock st2 = su_landlock st1" "su_warnings st2 = []"
    "wantsSeccomp p \<longrightarrow> (su_missing st2 = [] \<longleftrightarrow> su_missing st1 = [] \<and> seccomp_installed env p)
          \<and> (ly_verified (su_seccomp st2) \<longleftrightarrow> seccomp_installed env p)"
    "\<not> wantsSeccomp p \<longrightarrow> su_missing st2 = su_missing st1"
    using apply_seccomp_status [OF sc _ True] L by (auto simp: no_layer_def)
  note F = finishPlatform_decides [OF fin]
  have "su_enforced st \<longleftrightarrow> (wantsLandlock p \<longrightarrow> landlock_proved env p) \<and> (wantsSeccomp p \<longrightarrow> seccomp_installed env p)"
    using F L(4,5) S(2,4,5) by auto
  moreover have "currentPlatformStatus (earlier @ log) = st"
    using F log current_after_record [of "earlier @ l1 @ l2"] by simp
  ultimately show ?thesis using F S(1,3) True by simp
qed

text \<open>
  C25: when applying an accepted policy returns, with a mode other than off, the status says
  enforced exactly if the architecture is supported, a wanted Landlock was proved by a
  verified handoff and a wanted seccomp filter was built, installed and seen by the
  kernel; an error is returned exactly if the mode is required and it is not enforced,
  and it is \<^verbatim>\<open>ErrRequired\<close>; in the preferred mode every missing mechanism is a warning;
  and the status is the one \<^verbatim>\<open>CurrentStatus\<close> then answers.
\<close>

theorem required_mode_fails_closed:
  assumes "Policy_Validate (pe_order env) p = None" and "applyPlatform env p = (log, Some (st, err))"
    and "po_mode p \<noteq> ModeOff"
  shows "(su_enforced st \<longleftrightarrow> (pe_arch env = ''amd64'' \<or> pe_arch env = ''arm64'')
            \<and> (wantsLandlock p \<longrightarrow> landlock_proved env p) \<and> (wantsSeccomp p \<longrightarrow> seccomp_installed env p))
         \<and> (err \<noteq> None \<longleftrightarrow> po_mode p = ModeRequired \<and> \<not> su_enforced st)
         \<and> (err = None \<or> error_is err ErrRequired)
         \<and> (po_mode p = ModePreferred \<and> \<not> su_enforced st \<longrightarrow> su_warnings st = su_missing st)
         \<and> currentPlatformStatus (earlier @ log) = st"
  using required_mode_decides [OF assms] .

text \<open>
  C27: when the process image is replaced, the thread was locked, the ruleset built, new
  privileges given up and the thread restricted before; every descriptor the kernel listed
  but the three standard ones was then marked close-on-exec, the environment set and the
  executable run, in this order; the handoff in the environment claims Landlock for the
  digest of the policy, under its own token, and names a probe that the policy does not
  grant.
\<close>

theorem exec_only_under_restriction:
  assumes "ReexecForPolicy env p = (log, Replaced raw)"
  shows "\<exists>build fd sealed argv0 h entries.
     log = PLockThread # build @ [PNoNewPrivs, PRestrict fd] @ sealed @ [PSetenv raw, PExec argv0]
     \<and> buildLandlock env p = (build, Inr fd) \<and> pe_executable env = Inr argv0
     \<and> pe_fds env = Inr entries
     \<and> (\<forall>d c. PSetFd d c \<in> set sealed \<longleftrightarrow>
          (\<exists>s \<in> set entries. Atoi s = Some d \<and> pe_fcntl env d = None) \<and> c = (d \<notin> {0, 1, 2}))
     \<and> EncodeHandoff (pe_codec env) h = Inr raw \<and> ho_landlock h \<and> ho_digest h = digest (pe_codec env) p
     \<and> ho_token h = handoffToken (pe_codec env) h
     \<and> ho_probe_path h \<in> set probe_candidates \<and> \<not> pathGranted p (ho_probe_path h)"
proof -
  obtain probe argv0 llog where probe: "selectProbe env p = Inr probe" and exe: "pe_executable env = Inr argv0"
    and locked: "reexec_locked env p probe argv0 = (llog, Replaced raw)" and log: "log = PLockThread # llog"
    using assms by (auto simp: ReexecForPolicy_def split: option.splits if_splits sum.splits prod.splits reexec.splits)
  obtain build fd rlog where build: "buildLandlock env p = (build, Inr fd)"
    and restricted: "reexec_restricted env p probe argv0 fd = (rlog, Replaced raw)"
    and llog: "llog = build @ [PNoNewPrivs, PRestrict fd] @ rlog"
    using locked by (auto simp: reexec_locked_def split: prod.splits sum.splits option.splits)
  let ?h = "reexec_handoff env p probe"
  obtain sealed where enc: "EncodeHandoff (pe_codec env) ?h = Inr raw"
    and seal: "SealDescriptors env [0, 1, 2] = (sealed, None)"
    and rlog: "rlog = sealed @ [PSetenv raw, PExec argv0]"
    using restricted by (auto simp: reexec_restricted_def split: sum.splits prod.splits option.splits)
  obtain entries where fds: "pe_fds env = Inr entries" and loop: "seal_loop env [0, 1, 2] entries = (sealed, None)"
    using seal by (auto simp: SealDescriptors_def split: option.splits sum.splits)
  have h: "ho_landlock ?h" "ho_digest ?h = digest (pe_codec env) p" "ho_token ?h = handoffToken (pe_codec env) ?h"
    "ho_probe_path ?h = pi_path probe"
    by (simp_all add: reexec_handoff_def Let_def handoffToken_def token_input_of_def)
  have "pi_path probe \<in> set probe_candidates \<and> \<not> pathGranted p (pi_path probe)"
    using probe select_from_Inr by (auto simp: selectProbe_def)
  then show ?thesis
    using log llog rlog build exe fds enc h seal_loop_events [OF loop]
    by (intro exI [of _ build] exI [of _ fd] exI [of _ sealed] exI [of _ argv0] exI [of _ ?h]
        exI [of _ entries]) simp
qed

text \<open>
  C31: a re-execution that fails after the thread was restricted gives the thread back
  unlocked, with Landlock in force on it alone; in the preferred mode applying the policy
  then goes on and reports no error.
\<close>

theorem failed_reexec_leaves_thread_restricted:
  assumes "ReexecForPolicy env p = (log, Failed e)" and "PRestrict fd \<in> set log"
    and "po_mode p = ModePreferred" and "pe_handoff env = ''''"
  shows "last log = PUnlockThread
     \<and> (\<exists>log' st. applyPlatform env p = (log @ log', Some (st, None)) \<and> \<not> su_enforced st)"
proof -
  obtain llog where valid: "Policy_Validate (pe_order env) p = None" and wants: "wantsLandlock p"
    and arch: "pe_arch env = ''amd64'' \<or> pe_arch env = ''arm64''" and log: "log = PLockThread # llog @ [PUnlockThread]"
    and locked: "\<exists>probe argv0. reexec_locked env p probe argv0 = (llog, Failed e)"
    using assms(1,2)
    by (auto simp: ReexecForPolicy_def split: option.splits if_splits sum.splits prod.splits reexec.splits)
  have "\<exists>build fd. buildLandlock env p = (build, Inr fd)"
  proof (rule ccontr)
    assume "\<not> ?thesis"
    then obtain b e' where b: "buildLandlock env p = (b, Inl e')"
      by (cases "buildLandlock env p"; cases "snd (buildLandlock env p)") auto
    have "PRestrict fd \<in> set b"
      using locked log assms(2) b by (auto simp: reexec_locked_def)
    moreover have "PRestrict fd \<notin> set (fst (run_rules env r steps))" for r steps
      by (induction env r steps rule: run_rules.induct) (auto split: option.splits prod.splits)
    ultimately show False
      using b by (auto simp: buildLandlock_def Let_def split: sum.splits prod.splits option.splits)
         (metis fst_conv)+
  qed
  then have abi: "\<exists>abi. pe_abi env = Inr abi"
    using buildLandlock_Inr by metis
  let ?st = "landlock_layer (new_status (po_mode p) (pe_arch env))
      (no_layer\<lparr>ly_available := True, ly_error := Some e\<rparr>) [''landlock-reexec'']"
  have ll: "apply_landlock env p (new_status (po_mode p) (pe_arch env)) = (log, Some ?st)"
    using abi assms(1,4) wants by (auto simp: apply_landlock_def no_layer_def)
  obtain l2 st2 where sc: "apply_seccomp_layer env p ?st = (l2, st2)" by fastforce
  obtain l3 st err where fin: "finishPlatform p st2 = (l3, Some (st, err))"
    by (simp add: finishPlatform_def Let_def)
  have st2: "su_mode st2 = ModePreferred" "\<not> ly_verified (su_landlock st2)"
    using apply_seccomp_status [OF sc _ arch] assms(3)
    by (simp_all add: landlock_layer_def new_status_def no_layer_def)
  have "ModePreferred \<noteq> ModeRequired" "ModePreferred \<noteq> ModeOff" by (simp_all add: mode_defs)
  then have "err = None \<and> \<not> su_enforced st"
    using finishPlatform_decides [OF fin] st2 wants by auto
  moreover have "\<not> (pe_arch env \<noteq> ''amd64'' \<and> pe_arch env \<noteq> ''arm64'')" using arch by blast
  then have "applyPlatform env p = (log @ l2 @ l3, Some (st, err))"
    using valid ll sc fin assms(3) \<open>ModePreferred \<noteq> ModeOff\<close>
    by (simp only: applyPlatform_def Let_def if_False option.case prod.case)
  ultimately show ?thesis using log fin by auto
qed

text \<open>
  C29: every rule of a ruleset that was built stays within the rights the ruleset handles,
  is for a path of the policy, for the executable (read and execute only) or for
  \<^verbatim>\<open>/dev/null\<close>, and without the right to execute if the policy excepts it.
\<close>

theorem landlock_rules_stay_within_policy:
  assumes "buildLandlock env p = (log, Inr fd)" and "PRule path r \<in> set log"
  shows "\<exists>abi. pe_abi env = Inr abi \<and> r AND handled_rights p abi = r
     \<and> (path \<in> Clean ` (set (po_read_only p) \<union> set (po_writable p) \<union> set (po_executable p)
                         \<union> gr_path ` set (po_grants p))
        \<or> (\<exists>exe. pe_executable env = Inr exe \<and> path = Clean exe \<and> r AND (RightReadFile OR RightExecute) = r)
        \<or> path = Clean ''/dev/null'' \<and> r AND (RightReadFile OR RightWriteFile) = r)
     \<and> (if po_except_exec p then r AND RightExecute = 0 else True)"
proof -
  obtain abi rules where abi: "pe_abi env = Inr abi" and log: "log = PCreate (handled_rights p abi) # rules"
    and run: "run_rules env (handled_rights p abi) (rule_steps env p (handled_rights p abi)) = (rules, None)"
    using assms(1) by (rule buildLandlock_Inr)
  let ?H = "handled_rights p abi"
  obtain src r0 where step: "AddRule src r0 \<in> set (rule_steps env p ?H)" and eq: "path = Clean src" "r = r0 AND ?H"
    using assms(2) log run_rules_events [OF run] by auto
  have H: "r AND ?H = r" by (simp add: eq and.assoc)
  have "po_except_exec p \<Longrightarrow> ?H AND RightExecute = 0"
    by (simp add: handled_rights_def Let_def and.assoc)
  then have X: "if po_except_exec p then r AND RightExecute = 0 else True"
    by (simp add: eq and.assoc)
  have within: "x AND (x OR y) = x" "y AND (x OR y) = y" for x y :: rights
    by (rule bit_word_eqI; auto simp: bit_simps)+
  have cut: "(x AND y) AND z = x AND y" if "x AND z = x" for x y z :: rights
    using that by (metis and.assoc and.commute)
  from step have "path \<in> Clean ` (set (po_read_only p) \<union> set (po_writable p) \<union> set (po_executable p)
                         \<union> gr_path ` set (po_grants p))
        \<or> (\<exists>exe. pe_executable env = Inr exe \<and> path = Clean exe \<and> r AND (RightReadFile OR RightExecute) = r)
        \<or> path = Clean ''/dev/null'' \<and> r AND (RightReadFile OR RightWriteFile) = r"
    (is "?policy \<or> ?exe \<or> ?null")
  proof (rule rule_steps_cases)
    assume "src \<in> set (po_read_only p) \<union> set (po_writable p) \<union> set (po_executable p)
                         \<union> gr_path ` set (po_grants p)"
    then show ?thesis using eq by blast
  next
    assume "pe_executable env = Inr src"
      and "r0 = (if po_except_exec p then RightReadFile else RightReadFile OR RightExecute)"
    then have ?exe using eq by (auto simp: within intro!: cut)
    then show ?thesis by blast
  next
    assume "src = ''/dev/null''" and "r0 = RightReadFile OR RightWriteFile"
    then have ?null using eq by (simp add: cut)
    then show ?thesis by blast
  qed
  then show ?thesis using abi H X by blast
qed

text \<open>
  C28: the image started by a re-execution accepts its handoff: if JSON reads back the one
  handoff that was written (its strings are hexadecimal digests and one of the candidate
  paths) and the kernel denies to that image the file of the probe, \<^verbatim>\<open>os.Open\<close> answering with
  an error that wraps the error number \<^verbatim>\<open>EACCES\<close> or \<^verbatim>\<open>EPERM\<close>, Landlock is proved there.
\<close>

theorem reexeced_image_proves_landlock:
  assumes "ReexecForPolicy env p = (log, Replaced raw)"
    and "\<And>probe b. selectProbe env p = Inr probe \<Longrightarrow> co_marshal (pe_codec env) (reexec_handoff env p probe) = Inr b \<Longrightarrow>
           co_unmarshal (pe_codec env) b = Inr (reexec_handoff env p probe) \<and> b \<noteq> ''''"
    and "pe_handoff env' = raw" and "pe_codec env' = pe_codec env" and "pe_abi env' = Inr abi"
    and "\<And>path. path \<in> set probe_candidates \<Longrightarrow> \<not> pathGranted p path \<Longrightarrow> pe_stat env path \<noteq> None \<Longrightarrow>
           \<exists>e. pe_open_read env' path = Some e \<and> (errors_is e EACCES \<or> errors_is e EPERM) \<and> \<not> errors_is e ENOENT"
  shows "landlock_proved env' p"
proof -
  obtain probe where enc: "EncodeHandoff (pe_codec env) (reexec_handoff env p probe) = Inr raw"
    and sel: "selectProbe env p = Inr probe" and wants: "wantsLandlock p"
    using assms(1) by (auto simp: ReexecForPolicy_def reexec_locked_def reexec_restricted_def
        split: option.splits if_splits sum.splits prod.splits reexec.splits)
  let ?h = "reexec_handoff env p probe"
  have tok: "ho_token ?h = handoffToken (pe_codec env) ?h"
    by (simp add: reexec_handoff_def Let_def handoffToken_def token_input_of_def)
  obtain b where b: "co_marshal (pe_codec env) ?h = Inr b" "raw = b64_encode b"
    and shape: "validateHandoffShape ?h = None"
    using enc by (auto simp: EncodeHandoff_Inr)
  have dec: "DecodeHandoff (pe_codec env) raw = Inr ?h"
    using assms(2) [OF sel] b shape tok by (simp add: decode_encoded)
  have fields: "ho_landlock ?h" "ho_digest ?h = digest (pe_codec env) p" "ho_probe_path ?h = pi_path probe"
    by (simp_all add: reexec_handoff_def Let_def)
  have "pi_path probe \<in> set probe_candidates \<and> \<not> pathGranted p (pi_path probe) \<and> pe_stat env (pi_path probe) \<noteq> None"
    using sel select_from_Inr by (auto simp: selectProbe_def)
  moreover have "ho_probe_path ?h \<noteq> '''' \<and> ho_probe_dev ?h \<noteq> 0 \<and> ho_probe_ino ?h \<noteq> 0 \<and> ho_probe_mode ?h \<noteq> 0"
    using shape fields(1) by (simp add: validateHandoffShape_def split: if_splits)
  moreover from calculation obtain e where "pe_open_read env' (pi_path probe) = Some e"
    and "errors_is e EACCES \<or> errors_is e EPERM" "\<not> errors_is e ENOENT" using assms(6) by metis
  ultimately have "verifyLandlockProbe env' ?h p = None"
    using fields(3) by (simp add: verifyLandlockProbe_None)
  moreover have "b64_encode b \<noteq> ''''" using assms(2) [OF sel b(1)] by (cases b rule: b64_encode.cases) auto
  ultimately show ?thesis
    using dec fields assms(3-5) b(2) by (auto simp: landlock_proved_def VerifyHandoff_Inr)
qed

text \<open>
  C30: a handoff that verifies under a policy with Landlock carries the digest of that
  policy and its own token, claims Landlock, and names a path that the policy does not
  grant and that the kernel refuses to open; but the identity of the file recorded with
  the path is not compared with the file that is there.
\<close>

theorem verified_handoff_means_denied:
  assumes "VerifyHandoff env raw p = Inr h" and "wantsLandlock p"
  shows "ho_digest h = digest (pe_codec env) p \<and> ho_token h = handoffToken (pe_codec env) h \<and> ho_landlock h
     \<and> \<not> pathGranted p (ho_probe_path h)
     \<and> (\<exists>e. pe_open_read env (ho_probe_path h) = Some e \<and> (errors_is e EACCES \<or> errors_is e EPERM))
     \<and> VerifyHandoff (env\<lparr>pe_stat := stat\<rparr>) raw p = Inr h"
proof -
  have dec: "DecodeHandoff (pe_codec env) raw = Inr h" and probe: "verifyLandlockProbe env h p = None"
    using assms by (auto simp: VerifyHandoff_Inr)
  have "verifyLandlockProbe (env\<lparr>pe_stat := stat\<rparr>) h p = None"
    using probe by (simp add: verifyLandlockProbe_None)
  moreover have "ho_token h = handoffToken (pe_codec env) h"
    using decoded_token [OF dec] .
  ultimately show ?thesis
    using assms probe by (auto simp: VerifyHandoff_Inr verifyLandlockProbe_None)
qed

text \<open>
  a path of the policy that \<^verbatim>\<open>filepath.Clean\<close> turns into the root is granted as the
  root by the ruleset, but hides nothing from the choice of the probe: with \<^verbatim>\<open>//\<close> among the
  read-only paths the policy is accepted, all files are readable under the ruleset, and
  every candidate still counts as not granted.
\<close>

theorem unclean_path_hides_grant:
  "let p = ex_policy\<lparr>po_read_only := [''//'']\<rparr> in
     Policy_Validate [Writable, ReadOnly, Executable] p = None
     \<and> AddRule ''//'' (read_rights p) \<in> set (rule_steps env p handled)
     \<and> Clean ''//'' = ''/'' \<and> read_rights p AND RightReadFile = RightReadFile
     \<and> list_all (\<lambda>target. path_covers (Clean ''//'') target \<and> \<not> pathGranted p target) probe_candidates"
proof -
  let ?p = "ex_policy\<lparr>po_read_only := [''//'']\<rparr>"
  have "policy_ok ?p" "grants_functional ?p"
    using ex_policy_ok by (simp_all add: policy_ok_def grants_functional_def absolute_def has_prefix_def)
  then have valid: "Policy_Validate [Writable, ReadOnly, Executable] ?p = None"
    using Policy_Validate_None [OF ex_order] by blast
  have clean: "Clean ''//'' = ''/''" by code_simp
  have rights: "read_rights ?p AND RightReadFile = RightReadFile"
    by (simp add: read_rights_def ex_policy_def right_defs)
  have "list_all (\<lambda>target. path_covers ''/'' target \<and> \<not> pathGranted ?p target) probe_candidates"
    by (simp add: probe_candidates_def pathGranted_def path_covers_def ex_policy_def has_prefix_def
        trim_suffix_def)
  then show ?thesis using valid clean rights by (simp add: rule_steps_def)
qed

end
