(* ===== verification/Enforcement_Witness.thy ===== *)
theory Enforcement_Witness
  imports Enforcement_Props
begin

text \<open>
  The properties of enforcement at a concrete machine: a kernel with Landlock version 5 and
  seccomp, a policy that requires both, and the image before and after its re-execution.
\<close>

section \<open>The environment\<close>

definition ex_probe :: probe_identity where
  "ex_probe = \<lparr>pi_path = ''/proc/1/status'', pi_dev = 22, pi_ino = 42, pi_mode = 36\<rparr>"

text \<open>The \<^verbatim>\<open>*PathError\<close> that \<^verbatim>\<open>os.Open\<close> returns: it wraps the error number.\<close>

definition ex_path_error :: "string \<Rightarrow> goerr" where
  "ex_path_error path = Errorf ''open %s: %w'' [AStr path, AWrap EACCES]"

lemma ex_path_error_is: "errors_is (ex_path_error path) EACCES" "\<not> errors_is (ex_path_error path) ENOENT"
  by (simp_all add: ex_path_error_def EACCES_def ENOENT_def)

definition ex_machine :: platform_env where
  "ex_machine = \<lparr>pe_arch = ''amd64'', pe_abi = Inr 5, pe_create = (\<lambda>_. Inr 7), pe_open_path = (\<lambda>_. None),
     pe_add_rule = (\<lambda>_ _. None), pe_executable = Inr ''/usr/bin/app'',
     pe_stat = (\<lambda>path. if path = ''/proc/1/status'' then Some \<lparr>fs_dev = 22, fs_ino = 42, fs_mode = 36\<rparr> else None),
     pe_no_new_privs = None, pe_restrict = None, pe_fds = Inr [''2'', ''9''], pe_fcntl = (\<lambda>_. None),
     pe_setenv = None, pe_exec = None, pe_handoff = '''', pe_open_read = (\<lambda>path. Some (ex_path_error path)),
     pe_seccomp = None, pe_seccomp_mode = Some 2, pe_order = [Writable, ReadOnly, Executable],
     pe_codec = ex_codec\<rparr>"

lemma ex_machine_simps [simp]:
  "pe_arch ex_machine = ''amd64''" "pe_abi ex_machine = Inr 5" "pe_create ex_machine = (\<lambda>_. Inr 7)"
  "pe_open_path ex_machine = (\<lambda>_. None)" "pe_add_rule ex_machine = (\<lambda>_ _. None)"
  "pe_executable ex_machine = Inr ''/usr/bin/app''" "pe_no_new_privs ex_machine = None" "pe_restrict ex_machine = None"
  "pe_fds ex_machine = Inr [''2'', ''9'']" "pe_fcntl ex_machine = (\<lambda>_. None)" "pe_setenv ex_machine = None"
  "pe_exec ex_machine = None" "pe_handoff ex_machine = ''''" "pe_open_read ex_machine = (\<lambda>path. Some (ex_path_error path))"
  "pe_seccomp ex_machine = None" "pe_seccomp_mode ex_machine = Some 2"
  "pe_order ex_machine = [Writable, ReadOnly, Executable]" "pe_codec ex_machine = ex_codec"
  by (simp_all add: ex_machine_def)

text \<open>The image after the re-execution, and a machine on which \<^verbatim>\<open>exec\<close> fails.\<close>

definition ex_image :: platform_env where
  "ex_image = ex_machine\<lparr>pe_handoff := ex_raw\<rparr>"

definition ex_failing :: platform_env where
  "ex_failing = ex_machine\<lparr>pe_exec := Some EACCES\<rparr>"

lemma ex_wants: "wantsLandlock ex_policy" "wantsSeccomp ex_policy"
  by (simp_all add: wantsLandlock_def wantsSeccomp_def ex_policy_def)

lemma ex_not_granted: "\<not> pathGranted ex_policy ''/proc/1/status''"
  by (simp add: pathGranted_def path_covers_def ex_policy_def has_prefix_def trim_suffix_def)

lemma ex_selects: "selectProbe ex_machine ex_policy = Inr ex_probe"
  by (simp add: selectProbe_def probe_candidates_def ex_not_granted ex_machine_def ex_probe_def)

lemma ex_digest: "digest ex_codec p = ''64''"
proof -
  have "hex_encode ''d'' = ''64''" by code_simp
  then show ?thesis by (simp add: digest_def Policy_Digest_def ex_codec_def)
qed

lemma ex_token: "handoffToken ex_codec h = ''6f6b''"
proof -
  have "hex_encode ''ok'' = ''6f6b''" by code_simp
  then show ?thesis by (simp add: handoffToken_def ex_codec_def)
qed

lemma ex_reexec_handoff:
  assumes "pe_codec env = ex_codec"
  shows "reexec_handoff env p ex_probe = ex_handoff"
  using assms
  by (simp add: reexec_handoff_def Let_def ex_digest ex_token ex_probe_def ex_handoff_def HandoffVersion_def)

lemma ex_verify: "VerifyHandoff ex_image ex_raw ex_policy = Inr ex_handoff"
proof -
  have codec: "pe_codec ex_image = ex_codec" and opn: "pe_open_read ex_image = (\<lambda>path. Some (ex_path_error path))"
    by (simp_all add: ex_image_def)
  have probe: "verifyLandlockProbe ex_image ex_handoff ex_policy = None"
    using ex_not_granted
    by (simp add: verifyLandlockProbe_None opn ex_handoff_def ex_path_error_is)
  show ?thesis
    using handoff_round_trip [OF ex_encode] ex_token ex_digest probe ex_json(1)
    by (simp add: VerifyHandoff_Inr codec) (simp add: ex_handoff_def ex_codec_def)
qed

section \<open>Building the ruleset\<close>

lemma mode_irrelevant:
  "rule_steps env (p\<lparr>po_mode := m\<rparr>) = rule_steps env p"
  "handled_rights (p\<lparr>po_mode := m\<rparr>) = handled_rights p"
  "pathGranted (p\<lparr>po_mode := m\<rparr>) = pathGranted p"
  "wantsLandlock (p\<lparr>po_mode := m\<rparr>) = wantsLandlock p"
  by (simp_all add: fun_eq_iff rule_steps_def read_rights_def handled_rights_def
      pathGranted_def wantsLandlock_def)

lemma buildLandlock_mode: "buildLandlock env (p\<lparr>po_mode := m\<rparr>) = buildLandlock env p"
  unfolding buildLandlock_def mode_irrelevant ..

lemma selectProbe_mode: "selectProbe env (p\<lparr>po_mode := m\<rparr>) = selectProbe env p"
proof -
  have "select_from env (p\<lparr>po_mode := m\<rparr>) paths = select_from env p paths" for paths
    by (induction paths) (simp_all add: mode_irrelevant split: option.split)
  then show ?thesis by (simp add: selectProbe_def)
qed

lemma buildLandlock_exec: "buildLandlock (env\<lparr>pe_exec := e\<rparr>) p = buildLandlock env p"
proof -
  have rules: "run_rules (env\<lparr>pe_exec := e\<rparr>) h steps = run_rules env h steps" for h steps
    by (induction env h steps rule: run_rules.induct) (simp_all add: addLandlockRule_def split: option.split)
  have steps: "rule_steps (env\<lparr>pe_exec := e\<rparr>) = rule_steps env"
    by (simp add: fun_eq_iff rule_steps_def)
  show ?thesis unfolding buildLandlock_def rules steps by (simp add: Let_def split: sum.split)
qed

lemma ex_run_rules:
  assumes "\<forall>x \<in> set steps. \<exists>path r. x = AddRule path r"
  shows "\<exists>log. run_rules ex_machine handled steps = (log, None)"
  using assms by (induction steps) (auto simp: addLandlockRule_def)

lemma ex_handled_read: "RightReadFile AND NOT (handled_rights ex_policy 5) = 0"
  by (simp add: handled_rights_def supportedFilesystemRights_def Let_def ex_policy_def right_defs)

lemma ex_steps:
  "\<forall>x \<in> set (rule_steps ex_machine ex_policy (handled_rights ex_policy 5)). \<exists>path r. x = AddRule path r"
proof -
  have p: "po_executable ex_policy = []" "po_grants ex_policy = [Grant ''/tmp'' RightReadFile]"
    by (simp_all add: ex_policy_def)
  show ?thesis using ex_handled_read by (auto simp: rule_steps_def p split: option.splits)
qed

lemma ex_build: "\<exists>log. buildLandlock ex_machine ex_policy = (log, Inr 7)"
proof -
  obtain log where "run_rules ex_machine (handled_rights ex_policy 5)
      (rule_steps ex_machine ex_policy (handled_rights ex_policy 5)) = (log, None)"
    using ex_run_rules [OF ex_steps] by blast
  then show ?thesis by (simp add: buildLandlock_def Let_def)
qed

theorem landlock_rules_stay_within_policy_witness:
  "\<exists>log r. buildLandlock ex_machine ex_policy = (log, Inr 7) \<and> PRule ''/tmp'' r \<in> set log
     \<and> r AND handled_rights ex_policy 5 = r"
proof -
  obtain log where log: "buildLandlock ex_machine ex_policy = (log, Inr 7)"
    using ex_build by blast
  then obtain abi rules where abi: "pe_abi ex_machine = Inr abi"
    and parts: "log = PCreate (handled_rights ex_policy abi) # rules"
      "run_rules ex_machine (handled_rights ex_policy abi) (rule_steps ex_machine ex_policy (handled_rights ex_policy abi)) = (rules, None)"
    using buildLandlock_Inr by metis
  have "AddRule ''/tmp'' RightReadFile \<in> set (rule_steps ex_machine ex_policy (handled_rights ex_policy abi))"
    using abi ex_handled_read by (simp add: rule_steps_def) (simp add: ex_policy_def)
  moreover have "Clean ''/tmp'' = ''/tmp''" by code_simp
  ultimately have "PRule ''/tmp'' (RightReadFile AND handled_rights ex_policy abi) \<in> set log"
    using run_rules_events [OF parts(2)] parts(1) by force
  with log landlock_rules_stay_within_policy [OF log this] abi show ?thesis by auto
qed

section \<open>Re-execution\<close>

lemma seal_loop_total:
  "pe_fcntl env = (\<lambda>_. None) \<Longrightarrow> snd (seal_loop env keep entries) = None"
  by (induction env keep entries rule: seal_loop.induct) (auto split: option.splits prod.splits)

lemma ex_seals:
  assumes "pe_fds env = Inr entries" and "pe_fcntl env = (\<lambda>_. None)"
  shows "\<exists>log. SealDescriptors env [0, 1, 2] = (log, None)"
proof -
  have "PreserveFDSet_Validate [0, 1, 2] = None" by code_simp
  moreover have "seal_loop env [0, 1, 2] entries = (fst (seal_loop env [0, 1, 2] entries), None)"
    using seal_loop_total [OF assms(2)] by (simp add: prod_eq_iff)
  ultimately show ?thesis using assms(1) by (auto simp: SealDescriptors_def)
qed

lemma ex_valid: "Policy_Validate [Writable, ReadOnly, Executable] (ex_policy\<lparr>po_mode := ModePreferred\<rparr>) = None"
proof -
  have "policy_ok (ex_policy\<lparr>po_mode := ModePreferred\<rparr>)"
    using ex_policy_ok by (simp add: policy_ok_def mode_defs PolicyMode_valid_def)
  then show ?thesis using Policy_Validate_None [OF ex_order] by blast
qed

lemma ex_reexec: "\<exists>log. ReexecForPolicy ex_machine ex_policy = (log, Replaced ex_raw)"
proof -
  obtain build log where "buildLandlock ex_machine ex_policy = (build, Inr 7)"
    "SealDescriptors ex_machine [0, 1, 2] = (log, None)"
    using ex_build ex_seals [of ex_machine] by auto
  then show ?thesis
    using ex_policy_valid ex_wants ex_selects ex_encode
    by (simp add: ReexecForPolicy_def reexec_locked_def reexec_restricted_def ex_reexec_handoff)
qed

lemma ex_reexec_fails:
  "\<exists>log. ReexecForPolicy ex_failing (ex_policy\<lparr>po_mode := ModePreferred\<rparr>) = (log, Failed EACCES)
     \<and> PRestrict 7 \<in> set log"
proof -
  have "select_from ex_failing p paths = select_from ex_machine p paths" for p paths
    by (induction paths) (simp_all add: ex_failing_def split: option.split)
  then have "selectProbe ex_failing p = selectProbe ex_machine p" for p by (simp add: selectProbe_def)
  moreover obtain build log where "buildLandlock ex_machine ex_policy = (build, Inr 7)"
    "SealDescriptors ex_failing [0, 1, 2] = (log, None)"
    using ex_build ex_seals [of ex_failing] by (auto simp: ex_failing_def)
  moreover have "pe_codec ex_failing = ex_codec" by (simp add: ex_failing_def)
  ultimately show ?thesis
    using ex_valid ex_wants ex_selects ex_encode
    by (simp add: ReexecForPolicy_def reexec_locked_def reexec_restricted_def ex_reexec_handoff
        mode_irrelevant buildLandlock_mode selectProbe_mode ex_failing_def buildLandlock_exec)
qed

theorem exec_only_under_restriction_witness:
  "\<exists>build fd sealed argv0. ReexecForPolicy ex_machine ex_policy
       = (PLockThread # build @ [PNoNewPrivs, PRestrict fd] @ sealed @ [PSetenv ex_raw, PExec argv0], Replaced ex_raw)"
proof -
  obtain log where log: "ReexecForPolicy ex_machine ex_policy = (log, Replaced ex_raw)"
    using ex_reexec by blast
  from exec_only_under_restriction [OF this] log show ?thesis by auto
qed

theorem verified_handoff_means_denied_witness:
  "wantsLandlock ex_policy \<and> VerifyHandoff (ex_image\<lparr>pe_stat := (\<lambda>_. None)\<rparr>) ex_raw ex_policy = Inr ex_handoff"
  using verified_handoff_means_denied [OF ex_verify ex_wants(1)] ex_wants(1) by blast

lemma ex_image_enforces:
  "Policy_Validate (pe_order ex_image) ex_policy = None" "po_mode ex_policy \<noteq> ModeOff"
  "landlock_proved ex_image ex_policy" "seccomp_installed ex_image ex_policy" "pe_arch ex_image = ''amd64''"
proof -
  show "Policy_Validate (pe_order ex_image) ex_policy = None" "po_mode ex_policy \<noteq> ModeOff" "pe_arch ex_image = ''amd64''"
    using ex_policy_valid by (simp_all add: ex_image_def ex_policy_def mode_defs)
  show "landlock_proved ex_image ex_policy"
    using ex_verify by (auto simp: landlock_proved_def ex_image_def)
  have "\<not> (case buildSeccompFilter ''amd64'' [''ptrace''] of Inl _ \<Rightarrow> True | Inr _ \<Rightarrow> False)" by code_simp
  then have "\<exists>prog. buildSeccompFilter ''amd64'' [''ptrace''] = Inr prog" by (simp split: sum.splits)
  then show "seccomp_installed ex_image ex_policy"
    by (simp add: seccomp_installed_def ex_image_def ex_policy_def)
qed

lemma ex_image_applies: "\<exists>log st. applyPlatform ex_image ex_policy = (log, Some (st, None))"
proof -
  have abi: "pe_abi ex_image = Inr 5" and hand: "pe_handoff ex_image = ex_raw" by (simp_all add: ex_image_def)
  have "\<exists>log st err. applyPlatform ex_image ex_policy = (log, Some (st, err))"
    using ex_image_enforces(1,2,5) ex_verify abi hand
    by (simp add: applyPlatform_def apply_landlock_def Let_def finishPlatform_def split: prod.splits)
  then obtain log st err where log: "applyPlatform ex_image ex_policy = (log, Some (st, err))" by blast
  from required_mode_decides [OF ex_image_enforces(1) log ex_image_enforces(2), of "[]"] ex_image_enforces(3-5)
  have "err = None" by auto
  with log show ?thesis by blast
qed

theorem required_mode_fails_closed_witness:
  "\<exists>log st. applyPlatform ex_image ex_policy = (log, Some (st, None)) \<and> su_enforced st \<and> currentPlatformStatus log = st"
proof -
  obtain log st where log: "applyPlatform ex_image ex_policy = (log, Some (st, None))" using ex_image_applies by blast
  from required_mode_fails_closed [OF ex_image_enforces(1) log ex_image_enforces(2), of "[]"] ex_image_enforces(3-5)
  have "su_enforced st" "currentPlatformStatus log = st" by auto
  with log show ?thesis by blast
qed

theorem reexeced_image_proves_landlock_witness: "landlock_proved ex_image ex_policy"
proof -
  obtain log where log: "ReexecForPolicy ex_machine ex_policy = (log, Replaced ex_raw)"
    using ex_reexec by blast
  show ?thesis
  proof (rule reexeced_image_proves_landlock [OF log])
    fix probe b
    assume "selectProbe ex_machine ex_policy = Inr probe"
      and "co_marshal (pe_codec ex_machine) (reexec_handoff ex_machine ex_policy probe) = Inr b"
    moreover have "reexec_handoff ex_machine ex_policy ex_probe = ex_handoff" by (rule ex_reexec_handoff) simp
    ultimately show "co_unmarshal (pe_codec ex_machine) b = Inr (reexec_handoff ex_machine ex_policy probe) \<and> b \<noteq> ''''"
      using ex_selects ex_json by (auto simp: ex_codec_def)
  next
    fix path
    show "\<exists>e. pe_open_read ex_image path = Some e \<and> (errors_is e EACCES \<or> errors_is e EPERM) \<and> \<not> errors_is e ENOENT"
      using ex_path_error_is by (simp add: ex_image_def)
  qed (simp_all add: ex_image_def)
qed

theorem failed_reexec_leaves_thread_restricted_witness:
  "\<exists>log log' st. applyPlatform ex_failing (ex_policy\<lparr>po_mode := ModePreferred\<rparr>) = (log @ log', Some (st, None))
     \<and> PRestrict 7 \<in> set log \<and> last log = PUnlockThread \<and> \<not> su_enforced st"
proof -
  obtain log where log: "ReexecForPolicy ex_failing (ex_policy\<lparr>po_mode := ModePreferred\<rparr>) = (log, Failed EACCES)"
    and restricted: "PRestrict 7 \<in> set log"
    using ex_reexec_fails by blast
  have "pe_handoff ex_failing = ''''" by (simp add: ex_failing_def)
  from failed_reexec_leaves_thread_restricted [OF log restricted _ this] restricted
  show ?thesis by auto
qed

end
