(* ===== verification/Conditions.thy ===== *)
theory Conditions
  imports Prelude
begin

text \<open>
  Startup conditions, \<^verbatim>\<open>src/bootstrap/condition.go\<close>: the coordinator validates and
  sorts the conditions of an unordered Fx group, runs each in its own goroutine, waits
  for exactly one outcome per condition and joins the failures, once.
\<close>

section \<open>Conditions and the coordinator\<close>

text \<open>
  What the \<^verbatim>\<open>select\<close> in a condition's goroutine observes: \<^verbatim>\<open>Run\<close> returned
  first, or the condition's context ended first with its error.  Which of the two
  happens belongs to the run of the program and is part of the condition here.
\<close>

datatype condition_race = Returned error | CtxEnded goerr

record condition =
  cd_name :: string
  cd_timeout :: int
  cd_run :: "(context_deadline \<Rightarrow> condition_race) option"

text \<open>
  A condition whose \<^verbatim>\<open>Run\<close> ends with \<open>err\<close>, in an environment where \<open>expired ctx\<close> is the
  error of the context if it ended before \<^verbatim>\<open>Run\<close> returned, and \<open>None\<close> otherwise.
\<close>

definition run_race :: "(context_deadline \<Rightarrow> error) \<Rightarrow> error \<Rightarrow> context_deadline \<Rightarrow> condition_race" where
  "run_race expired err ctx = (case expired ctx of Some e \<Rightarrow> CtxEnded e | None \<Rightarrow> Returned err)"

record coordinator =
  co_conditions :: "condition list"
  co_initialized :: bool
  co_result :: error

definition condition_error :: "condition \<Rightarrow> error" where
  "condition_error c =
     (if cd_name c = '''' then Some (err_new ''startup condition name is empty'')
      else if cd_run c = None
        then Some (Errorf ''startup condition %q has no runner'' [AStr (cd_name c)])
      else if cd_timeout c < 0
        then Some (Errorf ''startup condition %q has a negative timeout'' [AStr (cd_name c)])
      else None)"

definition condition_duplicate :: "condition \<Rightarrow> goerr" where
  "condition_duplicate c =
     Errorf ''startup condition %q is registered more than once'' [AStr (cd_name c)]"

definition newCoordinator :: "condition list \<Rightarrow> goerr + coordinator" where
  "newCoordinator cs =
     (case scan condition_error cd_name condition_duplicate {} cs of
        Some e \<Rightarrow> Inl e
      | None \<Rightarrow> Inr \<lparr>co_conditions = sort_key cd_name cs, co_initialized = False, co_result = None\<rparr>)"

section \<open>Initialize\<close>

text \<open>The context a condition runs under: its own timeout, if any, within the caller's.\<close>

definition condition_context :: "int \<Rightarrow> context_deadline \<Rightarrow> condition \<Rightarrow> context_deadline" where
  "condition_context now ctx c =
     (if 0 < cd_timeout c then with_timeout now ctx (cd_timeout c) else ctx)"

type_synonym outcome = "string \<times> error"

text \<open>
  The outcome one goroutine sends.  A condition without a runner never reaches this
  point (\<open>newCoordinator_Inr\<close>); the first branch stands for calling a nil function.
\<close>

definition condition_outcome :: "int \<Rightarrow> context_deadline \<Rightarrow> condition \<Rightarrow> outcome" where
  "condition_outcome now ctx c =
     (cd_name c,
      case cd_run c of
        None \<Rightarrow> Some (err_new ''invalid memory address or nil pointer dereference'')
      | Some run \<Rightarrow> (case run (condition_context now ctx c) of Returned e \<Rightarrow> e | CtxEnded e \<Rightarrow> Some e))"

definition condition_failure :: "outcome \<Rightarrow> goerr \<Rightarrow> goerr" where
  "condition_failure out e = Errorf ''startup condition %s: %w'' [AStr (fst out), AWrap e]"

fun collect :: "error \<Rightarrow> outcome list \<Rightarrow> error" where
  "collect result [] = result"
| "collect result (out # outs) =
     collect (case snd out of None \<Rightarrow> result
              | Some e \<Rightarrow> errors_join [result, Some (condition_failure out e)]) outs"

text \<open>
  \<open>arrivals\<close> is the order in which the outcomes come out of the channel: any
  rearrangement of one outcome per condition.
\<close>

definition arrivals_of :: "int \<Rightarrow> context_deadline \<Rightarrow> coordinator \<Rightarrow> outcome list \<Rightarrow> bool" where
  "arrivals_of now ctx co arrivals \<longleftrightarrow>
     mset arrivals = mset (map (condition_outcome now ctx) (co_conditions co))"

text \<open>
  The conditions a call of \<^verbatim>\<open>Initialize\<close> starts a goroutine for: all of them in the first
  call, whatever any of them returns; none in a later one.  A goroutine is not stopped when
  another condition fails or when its own context ends.
\<close>

definition launched :: "coordinator \<Rightarrow> condition list" where
  "launched co = (if co_initialized co then [] else co_conditions co)"

definition Initialize :: "outcome list \<Rightarrow> coordinator \<Rightarrow> coordinator \<times> error" where
  "Initialize arrivals co =
     (if co_initialized co then (co, co_result co)
      else (let result = collect None arrivals
            in (co\<lparr>co_initialized := True, co_result := result\<rparr>, result)))"

section \<open>Lemmas\<close>

lemma condition_error_None:
  "condition_error c = None \<longleftrightarrow> cd_name c \<noteq> '''' \<and> cd_run c \<noteq> None \<and> 0 \<le> cd_timeout c"
  by (auto simp: condition_error_def)

lemma newCoordinator_Inr:
  "newCoordinator cs = Inr co \<longleftrightarrow>
     (\<forall>c \<in> set cs. condition_error c = None) \<and> distinct (map cd_name cs) \<and>
     co = \<lparr>co_conditions = sort_key cd_name cs, co_initialized = False, co_result = None\<rparr>"
  using scan_empty_None [of condition_error cd_name condition_duplicate cs]
  by (cases "scan condition_error cd_name condition_duplicate {} cs") (auto simp: newCoordinator_def)

definition coordinator_build :: "condition list \<Rightarrow> goerr + condition list" where
  "coordinator_build cs = map_sum id co_conditions (newCoordinator cs)"

lemma coordinator_build_Inr:
  "coordinator_build cs = Inr ys \<longleftrightarrow> (\<exists>co. newCoordinator cs = Inr co \<and> ys = co_conditions co)"
  by (cases "newCoordinator cs") (auto simp: coordinator_build_def)

lemma coordinator_build_eq:
  "coordinator_build cs = Inr ys \<longleftrightarrow>
     scan condition_error cd_name condition_duplicate {} cs = None \<and> ys = sort_key cd_name cs"
  by (auto simp: coordinator_build_Inr newCoordinator_def split: option.splits)

interpretation conditions: sorted_registry coordinator_build cd_name
proof unfold_locales
  fix xs xs' ys :: "condition list"
  assume "mset xs = mset xs'" and "coordinator_build xs = Inr ys"
  then show "\<exists>zs. coordinator_build xs' = Inr zs"
    by (auto simp: coordinator_build_eq dest!: scan_mset_None)
next
  fix xs ys :: "condition list"
  assume ok: "coordinator_build xs = Inr ys"
  then show "mset ys = mset xs" and "sorted (map cd_name ys)"
    by (auto simp: coordinator_build_eq)
  have "mset (map cd_name ys) = mset (map cd_name xs)" and "distinct (map cd_name xs)"
    using ok by (auto simp: coordinator_build_eq scan_empty_None)
  then show "distinct (map cd_name ys)"
    using mset_eq_imp_distinct_iff by blast
qed

lemma collect_Some: "collect (Some e) outs \<noteq> None"
  by (induction outs arbitrary: e) (auto split: option.splits simp: errors_join_def List.map_filter_def)

lemma collect_None: "collect None outs = None \<longleftrightarrow> (\<forall>out \<in> set outs. snd out = None)"
proof (induction outs)
  case (Cons out outs)
  show ?case
  proof (cases "snd out")
    case (Some e)
    obtain e' where "errors_join [None, Some (condition_failure out e)] = Some e'"
      by (auto simp: errors_join_def List.map_filter_def)
    with Some show ?thesis using collect_Some by simp
  qed (use Cons in simp)
qed simp

lemma collect_keeps: "error_is result t \<Longrightarrow> error_is (collect result outs) t"
proof (induction outs arbitrary: result)
  case (Cons out outs)
  show ?case
  proof (cases "snd out")
    case (Some e)
    have "error_is (errors_join [result, Some (condition_failure out e)]) t"
      using Cons.prems by (intro errors_join_is [of result]) auto
    with Some Cons.IH show ?thesis by simp
  qed (use Cons in simp)
qed simp

lemma collect_has_failure:
  "out \<in> set outs \<Longrightarrow> snd out = Some e \<Longrightarrow> errors_is e t \<Longrightarrow> error_is (collect result outs) t"
proof (induction outs arbitrary: result)
  case (Cons o1 outs)
  show ?case
  proof (cases "out = o1")
    case True
    have "error_is (errors_join [result, Some (condition_failure out e)]) t"
      using Cons.prems(3) by (intro errors_join_is [of "Some (condition_failure out e)"])
        (auto simp: condition_failure_def)
    with True Cons.prems(2) show ?thesis by (simp add: collect_keeps)
  qed (use Cons in auto)
qed simp

lemma arrivals_of_set:
  "arrivals_of now ctx co arrivals \<Longrightarrow>
   set arrivals = condition_outcome now ctx ` set (co_conditions co)"
  unfolding arrivals_of_def by (metis list.set_map mset_eq_setD)

lemma Initialize_again: "Initialize b (fst (Initialize a co)) = Initialize a co"
  if "\<not> co_initialized co"
  using that by (simp add: Initialize_def Let_def)

section \<open>Properties\<close>

text \<open>
  the coordinator accepts a group of conditions exactly when every condition is named,
  has a runner and a timeout that is not negative, and no name is used twice; it then
  holds the same conditions in increasing order of their names, whatever the order of
  the group.
\<close>

theorem coordinator_accepts_exactly:
  assumes "mset cs = mset cs'"
  shows "((\<exists>co. newCoordinator cs = Inr co) \<longleftrightarrow>
           (\<forall>c \<in> set cs. cd_name c \<noteq> '''' \<and> cd_run c \<noteq> None \<and> 0 \<le> cd_timeout c)
           \<and> distinct (map cd_name cs))
         \<and> (\<forall>co. newCoordinator cs = Inr co \<longrightarrow>
              newCoordinator cs' = Inr co \<and> sorted (map cd_name (co_conditions co))
              \<and> mset (co_conditions co) = mset cs)"
proof (intro conjI allI impI)
  show "(\<exists>co. newCoordinator cs = Inr co) \<longleftrightarrow>
           (\<forall>c \<in> set cs. cd_name c \<noteq> '''' \<and> cd_run c \<noteq> None \<and> 0 \<le> cd_timeout c)
           \<and> distinct (map cd_name cs)"
    by (simp add: newCoordinator_Inr condition_error_None)
next
  fix co
  assume "newCoordinator cs = Inr co"
  then have co: "coordinator_build cs = Inr (co_conditions co)"
    and flds: "co_initialized co = False" "co_result co = None"
    by (auto simp: coordinator_build_Inr newCoordinator_Inr)
  have "coordinator_build cs' = Inr (co_conditions co)"
    using assms co by (rule conditions.build_order_independent)
  then obtain co' where "newCoordinator cs' = Inr co'" "co_conditions co' = co_conditions co"
    by (auto simp: coordinator_build_Inr)
  then show "newCoordinator cs' = Inr co"
    using flds by (auto simp: newCoordinator_Inr)
  show "sorted (map cd_name (co_conditions co))" and "mset (co_conditions co) = mset cs"
    using conditions.build_sorted [OF co] conditions.build_perm [OF co] by auto
qed

definition ex_conditions :: "condition list" where
  "ex_conditions =
     [\<lparr>cd_name = ''migrations'', cd_timeout = 0, cd_run = Some (\<lambda>_. Returned None)\<rparr>,
      \<lparr>cd_name = ''cache'', cd_timeout = 5, cd_run = Some (\<lambda>_. CtxEnded (err_new ''late''))\<rparr>]"

theorem coordinator_accepts_exactly_witness:
  "newCoordinator (rev ex_conditions) = newCoordinator ex_conditions
   \<and> newCoordinator ex_conditions =
       Inr \<lparr>co_conditions = rev ex_conditions, co_initialized = False, co_result = None\<rparr>"
proof -
  have eval: "newCoordinator ex_conditions =
      Inr \<lparr>co_conditions = rev ex_conditions, co_initialized = False, co_result = None\<rparr>"
    by (simp add: newCoordinator_def ex_conditions_def condition_error_def)
  have "mset ex_conditions = mset (rev ex_conditions)" by simp
  from coordinator_accepts_exactly [OF this] eval show ?thesis by simp
qed

text \<open>
  C7: for every order in which the outcomes arrive, startup succeeds exactly when every
  condition returned nil before its context ended; a failing condition's error can be
  found in the result by \<^verbatim>\<open>errors.Is\<close>; and a second call runs nothing and returns
  the recorded result.
\<close>

theorem initialize_joins_every_failure:
  assumes "arrivals_of now ctx co arrivals" and "\<not> co_initialized co"
  shows "(snd (Initialize arrivals co) = None \<longleftrightarrow>
            (\<forall>c \<in> set (co_conditions co). snd (condition_outcome now ctx c) = None))
         \<and> (\<forall>c \<in> set (co_conditions co). \<forall>e t. snd (condition_outcome now ctx c) = Some e
              \<longrightarrow> errors_is e t \<longrightarrow> error_is (snd (Initialize arrivals co)) t)
         \<and> Initialize arrivals' (fst (Initialize arrivals co)) = Initialize arrivals co"
proof (intro conjI ballI allI impI)
  note outs = arrivals_of_set [OF assms(1)]
  have res: "snd (Initialize arrivals co) = collect None arrivals"
    using assms(2) by (simp add: Initialize_def Let_def)
  show "snd (Initialize arrivals co) = None \<longleftrightarrow>
      (\<forall>c \<in> set (co_conditions co). snd (condition_outcome now ctx c) = None)"
    by (simp add: res collect_None outs)
  fix c e t
  assume "c \<in> set (co_conditions co)" and "snd (condition_outcome now ctx c) = Some e"
    and "errors_is e t"
  then show "error_is (snd (Initialize arrivals co)) t"
    unfolding res by (intro collect_has_failure [of "condition_outcome now ctx c"]) (auto simp: outs)
next
  show "Initialize arrivals' (fst (Initialize arrivals co)) = Initialize arrivals co"
    using assms(2) by (rule Initialize_again)
qed

definition ex_coordinator :: coordinator where
  "ex_coordinator = \<lparr>co_conditions = rev ex_conditions, co_initialized = False, co_result = None\<rparr>"

definition ex_arrivals :: "outcome list" where
  "ex_arrivals = [(''migrations'', None), (''cache'', Some (err_new ''late''))]"

theorem initialize_joins_every_failure_witness:
  "error_is (snd (Initialize ex_arrivals ex_coordinator)) (err_new ''late'')
   \<and> snd (Initialize [] (fst (Initialize ex_arrivals ex_coordinator))) \<noteq> None"
proof -
  have arr: "arrivals_of 0 None ex_coordinator ex_arrivals"
    by (simp add: arrivals_of_def ex_arrivals_def ex_coordinator_def ex_conditions_def
        condition_outcome_def condition_context_def)
  have new: "\<not> co_initialized ex_coordinator"
    by (simp add: ex_coordinator_def)
  have out: "snd (condition_outcome 0 None (ex_conditions ! 1)) = Some (err_new ''late'')"
    and mem: "ex_conditions ! 1 \<in> set (co_conditions ex_coordinator)"
    by (simp_all add: ex_conditions_def condition_outcome_def ex_coordinator_def)
  note C = initialize_joins_every_failure [OF arr new, of "[]"]
  have is_late: "error_is (snd (Initialize ex_arrivals ex_coordinator)) (err_new ''late'')"
    using C mem out errors_is_refl by blast
  moreover have "snd (Initialize [] (fst (Initialize ex_arrivals ex_coordinator))) \<noteq> None"
    using C is_late by (metis error_is_simps(1))
  ultimately show ?thesis by blast
qed

end
