(* ===== verification/Scheduler.thy ===== *)
theory Scheduler
  imports Conditions Health
begin

text \<open>
  The scheduler integration, \<^verbatim>\<open>src/scheduler/scheduler.go\<close>: the monitor that keeps
  the first failure, the reference that hides the native scheduler until it is published,
  construction and registration, initialisation, stopping and the readiness check.  The
  native scheduler (gocron) is a handle; its operations are arguments, its callbacks are
  the events \<open>monitor_event\<close>.  Log messages are not modelled.
\<close>

section \<open>The monitor\<close>

record monitor =
  mo_required :: "string \<Rightarrow> bool option"
  mo_failure :: error
  mo_intentional :: bool

definition new_monitor :: monitor where
  "new_monitor = \<lparr>mo_required = (\<lambda>_. None), mo_failure = None, mo_intentional = False\<rparr>"

definition setRequired :: "string \<Rightarrow> bool \<Rightarrow> monitor \<Rightarrow> monitor" where
  "setRequired name required m = m\<lparr>mo_required := (mo_required m)(name \<mapsto> required)\<rparr>"

definition failureError :: "monitor \<Rightarrow> error" where
  "failureError m = mo_failure m"

definition monitor_fail :: "error \<Rightarrow> monitor \<Rightarrow> monitor" where
  "monitor_fail e m = (if mo_failure m = None then m\<lparr>mo_failure := e\<rparr> else m)"

definition markIntentionalStop :: "monitor \<Rightarrow> monitor" where
  "markIntentionalStop m = m\<lparr>mo_intentional := True\<rparr>"

definition clearIntentionalStop :: "monitor \<Rightarrow> monitor" where
  "clearIntentionalStop m = m\<lparr>mo_intentional := False\<rparr>"

definition SchedulerStarted :: "monitor \<Rightarrow> monitor" where
  "SchedulerStarted m = clearIntentionalStop m"

definition err_stopped :: goerr where
  "err_stopped = err_new ''scheduler stopped unexpectedly''"

definition SchedulerStopped :: "monitor \<Rightarrow> monitor" where
  "SchedulerStopped m =
     (let was = mo_intentional m; m1 = m\<lparr>mo_intentional := False\<rparr>
      in if \<not> was then monitor_fail (Some err_stopped) m1 else m1)"

definition err_job :: "string \<Rightarrow> goerr \<Rightarrow> goerr" where
  "err_job name e = Errorf ''required scheduler job %q failed: %w'' [AStr name, AWrap e]"

definition JobFailed :: "string \<Rightarrow> goerr \<Rightarrow> monitor \<Rightarrow> monitor" where
  "JobFailed name e m =
     (if mo_required m name = Some True then monitor_fail (Some (err_job name e)) m else m)"

text \<open>
  What happens to the monitor while the application runs: the callbacks of the native
  scheduler, and an announced stop (\<^verbatim>\<open>markIntentionalStop\<close>).  The other callbacks
  only log.
\<close>

datatype monitor_event =
    EvStarted
  | EvStopped
  | EvJobFailed string goerr
  | EvAnnounced
  | EvLogged

fun monitor_step :: "monitor_event \<Rightarrow> monitor \<Rightarrow> monitor" where
  "monitor_step EvStarted m = SchedulerStarted m"
| "monitor_step EvStopped m = SchedulerStopped m"
| "monitor_step (EvJobFailed name e) m = JobFailed name e m"
| "monitor_step EvAnnounced m = markIntentionalStop m"
| "monitor_step EvLogged m = m"

lemmas monitor_defs = SchedulerStarted_def SchedulerStopped_def JobFailed_def markIntentionalStop_def
  clearIntentionalStop_def monitor_fail_def setRequired_def

text \<open>The failure the monitor keeps is a cell that is written once.\<close>

interpretation failure_cell: write_once "\<lambda>e. monitor_fail (Some e)" failureError id "\<lambda>_. True"
  by unfold_locales (auto simp: monitor_fail_def failureError_def)

section \<open>The runtime\<close>

type_synonym native = nat

record scheduler_job =
  jb_name :: string
  jb_register :: "(native \<Rightarrow> error) option"

record scheduler_config =
  sc_shutdown_timeout :: int
  sc_health_timeout :: int
  sc_health_name :: string

text \<open>\<^verbatim>\<open>runtime\<close> with its \<^verbatim>\<open>schedulerRef\<close>, whose field is \<open>sr_native\<close>.\<close>

record sched_runtime =
  sr_config :: scheduler_config
  sr_jobs :: "scheduler_job list"
  sr_health_name :: string
  sr_health_time :: int
  sr_monitor :: monitor
  sr_native :: "native option"
  sr_started :: bool
  sr_stopping :: bool
  sr_stop_once :: bool

definition scheduler_newRuntime :: "scheduler_config \<Rightarrow> scheduler_job list \<Rightarrow> goerr + sched_runtime" where
  "scheduler_newRuntime config jobs =
     (if sc_shutdown_timeout config < 0 then Inl (err_new ''scheduler shutdown timeout is negative'')
      else if sc_health_timeout config < 0 then Inl (err_new ''scheduler health timeout is negative'')
      else Inr \<lparr>sr_config = config, sr_jobs = jobs,
                sr_health_name = (if sc_health_name config = '''' then ''scheduler'' else sc_health_name config),
                sr_health_time = sc_health_timeout config, sr_monitor = new_monitor, sr_native = None,
                sr_started = False, sr_stopping = False, sr_stop_once = False\<rparr>)"

datatype sched_event =
    SConstruct native
  | SRegister string
  | SStart native
  | SShutdown native
  | SShutdownCtx native context_deadline

section \<open>The reference\<close>

definition errNotStarted :: goerr where
  "errNotStarted = err_new ''scheduler has not started''"

definition ref_set :: "native \<Rightarrow> sched_runtime \<Rightarrow> sched_runtime" where
  "ref_set n rt = rt\<lparr>sr_native := Some n\<rparr>"

definition ref_get :: "sched_runtime \<Rightarrow> goerr + native" where
  "ref_get rt = (case sr_native rt of None \<Rightarrow> Inl errNotStarted | Some n \<Rightarrow> Inr n)"

definition on_monitor :: "(monitor \<Rightarrow> monitor) \<Rightarrow> sched_runtime \<Rightarrow> sched_runtime" where
  "on_monitor f rt = rt\<lparr>sr_monitor := f (sr_monitor rt)\<rparr>"

definition ref_start :: "sched_runtime \<Rightarrow> sched_runtime \<times> sched_event list" where
  "ref_start rt =
     (case ref_get rt of
        Inl _ \<Rightarrow> (rt, [])
      | Inr n \<Rightarrow> (on_monitor clearIntentionalStop rt, [SStart n]))"

text \<open>The native operation is the first argument.\<close>

definition ref_shutdown ::
    "(native \<Rightarrow> context_deadline \<Rightarrow> error) \<Rightarrow> context_deadline \<Rightarrow> sched_runtime
     \<Rightarrow> sched_runtime \<times> sched_event list \<times> error" where
  "ref_shutdown op ctx rt =
     (case ref_get rt of
        Inl _ \<Rightarrow> (rt, [], None)
      | Inr n \<Rightarrow> (on_monitor markIntentionalStop rt, [SShutdownCtx n ctx], op n ctx))"

definition Ref_Jobs :: "(native \<Rightarrow> 'j list) \<Rightarrow> sched_runtime \<Rightarrow> 'j list" where
  "Ref_Jobs op rt = (case ref_get rt of Inl _ \<Rightarrow> [] | Inr n \<Rightarrow> op n)"

definition Ref_NewJob :: "(native \<Rightarrow> 'd \<Rightarrow> goerr + 'j) \<Rightarrow> 'd \<Rightarrow> sched_runtime \<Rightarrow> goerr + 'j" where
  "Ref_NewJob op d rt = (case ref_get rt of Inl e \<Rightarrow> Inl e | Inr n \<Rightarrow> op n d)"

text \<open>\<open>None\<close>: nothing is done; otherwise the native call that is made.\<close>

definition Ref_RemoveByTags :: "string list \<Rightarrow> sched_runtime \<Rightarrow> (native \<times> string list) option" where
  "Ref_RemoveByTags tags rt = (case ref_get rt of Inl _ \<Rightarrow> None | Inr n \<Rightarrow> Some (n, tags))"

definition Ref_RemoveJob :: "(native \<Rightarrow> 'u \<Rightarrow> error) \<Rightarrow> 'u \<Rightarrow> sched_runtime \<Rightarrow> error" where
  "Ref_RemoveJob op u rt = (case ref_get rt of Inl e \<Rightarrow> Some e | Inr n \<Rightarrow> op n u)"

definition Ref_Shutdown ::
    "(native \<Rightarrow> error) \<Rightarrow> sched_runtime \<Rightarrow> sched_runtime \<times> sched_event list \<times> error" where
  "Ref_Shutdown op rt =
     (case ref_get rt of
        Inl _ \<Rightarrow> (rt, [], None)
      | Inr n \<Rightarrow> (on_monitor markIntentionalStop rt, [SShutdown n], op n))"

text \<open>\<^verbatim>\<open>StopJobs\<close> and \<^verbatim>\<open>StopJobsWithContext\<close>, the context in the native operation.\<close>

definition Ref_StopJobs :: "(native \<Rightarrow> error) \<Rightarrow> sched_runtime \<Rightarrow> sched_runtime \<times> error" where
  "Ref_StopJobs op rt =
     (case ref_get rt of
        Inl e \<Rightarrow> (rt, Some e) | Inr n \<Rightarrow> (on_monitor markIntentionalStop rt, op n))"

definition Ref_Update :: "(native \<Rightarrow> 'u \<Rightarrow> 'd \<Rightarrow> goerr + 'j) \<Rightarrow> 'u \<Rightarrow> 'd \<Rightarrow> sched_runtime \<Rightarrow> goerr + 'j" where
  "Ref_Update op u d rt = (case ref_get rt of Inl e \<Rightarrow> Inl e | Inr n \<Rightarrow> op n u d)"

definition Ref_JobsWaitingInQueue :: "(native \<Rightarrow> int) \<Rightarrow> sched_runtime \<Rightarrow> int" where
  "Ref_JobsWaitingInQueue op rt = (case ref_get rt of Inl _ \<Rightarrow> 0 | Inr n \<Rightarrow> op n)"

section \<open>Construction and registration\<close>

text \<open>The loop over the jobs in the order of their names; on an error the native scheduler is shut down.\<close>

fun register_jobs ::
    "native \<Rightarrow> string set \<Rightarrow> scheduler_job list \<Rightarrow> monitor \<Rightarrow> monitor \<times> sched_event list \<times> error" where
  "register_jobs n seen [] m = (m, [], None)"
| "register_jobs n seen (job # jobs) m =
     (if jb_name job = '''' then (m, [SShutdown n], Some (err_new ''scheduler job requires a name''))
      else (case jb_register job of
        None \<Rightarrow> (m, [SShutdown n],
                 Some (Errorf ''scheduler job %q has no registration function'' [AStr (jb_name job)]))
      | Some register \<Rightarrow>
          (if jb_name job \<in> seen
           then (m, [SShutdown n],
                 Some (Errorf ''scheduler job %q is registered more than once'' [AStr (jb_name job)]))
           else (case register n of
              Some e \<Rightarrow> (m, [SRegister (jb_name job), SShutdown n],
                 Some (Errorf ''register scheduler job %q: %w'' [AStr (jb_name job), AWrap e]))
            | None \<Rightarrow>
                (let (m', log, err) = register_jobs n (insert (jb_name job) seen) jobs
                                        (setRequired (jb_name job) True m)
                 in (m', SRegister (jb_name job) # log, err))))))"

text \<open>
  \<^verbatim>\<open>compare\<close>, by which the jobs are sorted: it orders names as \<open>sort_key jb_name\<close> does, and is
  zero for equal names only.
\<close>

definition job_compare :: "string \<Rightarrow> string \<Rightarrow> int" where
  "job_compare left right = (if left < right then -1 else if left > right then 1 else 0)"

lemma job_compare_order:
  "job_compare l r \<le> 0 \<longleftrightarrow> l \<le> r" "job_compare l r = 0 \<longleftrightarrow> l = r"
  by (auto simp: job_compare_def)

lemma jobs_sorted_by_compare:
  "sorted_wrt (\<lambda>j k. job_compare (jb_name j) (jb_name k) \<le> 0) (sort_key jb_name jobs)"
  using sorted_sort_key [of jb_name jobs] by (simp add: job_compare_order sorted_map)

text \<open>\<open>made\<close> is what \<^verbatim>\<open>gocron.NewScheduler\<close> answers.\<close>

definition constructAndRegister ::
    "goerr + native \<Rightarrow> sched_runtime \<Rightarrow> sched_runtime \<times> sched_event list \<times> error" where
  "constructAndRegister made rt =
     (case made of
        Inl e \<Rightarrow> (rt, [], Some (err_wrap ''construct scheduler: %w'' e))
      | Inr n \<Rightarrow>
          (let (m, log, err) = register_jobs n {} (sort_key jb_name (sr_jobs rt)) (sr_monitor rt);
               rt1 = rt\<lparr>sr_monitor := m\<rparr>
           in case err of
                Some e \<Rightarrow> (rt1, SConstruct n # log, Some e)
              | None \<Rightarrow> (ref_set n rt1, SConstruct n # log, None)))"

section \<open>The lifecycle\<close>

definition err_stopping :: goerr where
  "err_stopping = err_new ''scheduler is stopping''"

definition sched_start :: "sched_runtime \<Rightarrow> sched_runtime \<times> error" where
  "sched_start rt = (rt, None)"

definition sched_initialize ::
    "goerr + native \<Rightarrow> sched_runtime \<Rightarrow> sched_runtime \<times> sched_event list \<times> error" where
  "sched_initialize made rt =
     (if sr_stopping rt then (rt, [], Some err_stopping)
      else (case constructAndRegister made rt of
              (rt1, log, Some e) \<Rightarrow> (on_monitor (monitor_fail (Some e)) rt1, log, Some e)
            | (rt1, log, None) \<Rightarrow>
                (let (rt2, log2) = ref_start rt1 in (rt2\<lparr>sr_started := True\<rparr>, log @ log2, None))))"

definition stop_flag :: "sched_runtime \<Rightarrow> sched_runtime" where
  "stop_flag rt = (if sr_stop_once rt then rt else rt\<lparr>sr_stop_once := True, sr_stopping := True\<rparr>)"

definition stop_context :: "int \<Rightarrow> context_deadline \<Rightarrow> sched_runtime \<Rightarrow> context_deadline" where
  "stop_context now ctx rt =
     (if 0 < sc_shutdown_timeout (sr_config rt) then with_timeout now ctx (sc_shutdown_timeout (sr_config rt))
      else ctx)"

definition sched_stop ::
    "(native \<Rightarrow> context_deadline \<Rightarrow> error) \<Rightarrow> int \<Rightarrow> context_deadline \<Rightarrow> sched_runtime
     \<Rightarrow> sched_runtime \<times> sched_event list \<times> error" where
  "sched_stop op now ctx rt =
     (let rt1 = stop_flag rt
      in if \<not> sr_started rt1 then (rt1, [], None) else ref_shutdown op (stop_context now ctx rt1) rt1)"

definition sched_check :: "sched_runtime \<Rightarrow> result" where
  "sched_check rt =
     (case failureError (sr_monitor rt) of
        Some e \<Rightarrow> \<lparr>hr_status = StatusFail, hr_detail = ''scheduler failed'', hr_err = Some e\<rparr>
      | None \<Rightarrow>
          (if \<not> sr_started rt
             then \<lparr>hr_status = StatusFail, hr_detail = ''scheduler is not started'', hr_err = None\<rparr>
           else if sr_stopping rt
             then \<lparr>hr_status = StatusFail, hr_detail = ''scheduler is stopping'', hr_err = None\<rparr>
           else \<lparr>hr_status = StatusPass, hr_detail = ''scheduler is running'', hr_err = None\<rparr>))"

text \<open>The health check and the startup condition the module contributes.\<close>

definition scheduler_health :: "sched_runtime \<Rightarrow> check" where
  "scheduler_health rt =
     \<lparr>hc_name = sr_health_name rt, hc_kind = Readiness, hc_timeout = sr_health_time rt,
      hc_run = Some (\<lambda>_. CheckReturned (sched_check rt))\<rparr>"

text \<open>\<open>expired\<close> tells whether the condition's context ends before \<^verbatim>\<open>initialize\<close> returns.\<close>

definition scheduler_condition ::
    "(context_deadline \<Rightarrow> error) \<Rightarrow> goerr + native \<Rightarrow> sched_runtime \<Rightarrow> condition" where
  "scheduler_condition expired made rt =
     \<lparr>cd_name = ''scheduler'', cd_timeout = 0,
      cd_run = Some (run_race expired (snd (snd (sched_initialize made rt))))\<rparr>"

end
