(* ===== verification/Scheduler_Props.thy ===== *)
theory Scheduler_Props
  imports Scheduler
begin

text \<open>
  The scheduler's initialisation and its stop as two goroutines whose loads, stores and
  native calls interleave, and the properties of the scheduler: what initialisation does
  for which jobs, which failure the health check reports, and how the two goroutines
  can and cannot interfere.
\<close>

section \<open>Initialisation and stop, interleaved\<close>

datatype init_pc = IIdle | IChecked | IPublished | IStarted | IDone error
datatype stop_pc = TIdle | TFlagged | TLoaded | TDone error

record sched_machine =
  sm_rt :: sched_runtime
  sm_init :: init_pc
  sm_stop :: stop_pc
  sm_log :: "sched_event list"

text \<open>
  The shared accesses of \<^verbatim>\<open>initialize\<close>: the load of \<^verbatim>\<open>stopping\<close>, construction up to
  the publication of the reference, the native start, the store of \<^verbatim>\<open>started\<close>.
\<close>

definition init_step :: "goerr + native \<Rightarrow> sched_machine \<Rightarrow> sched_machine" where
  "init_step made sm =
     (case sm_init sm of
        IIdle \<Rightarrow> sm\<lparr>sm_init := (if sr_stopping (sm_rt sm) then IDone (Some err_stopping) else IChecked)\<rparr>
      | IChecked \<Rightarrow>
          (case constructAndRegister made (sm_rt sm) of
             (rt, log, Some e) \<Rightarrow> sm\<lparr>sm_rt := on_monitor (monitor_fail (Some e)) rt, sm_init := IDone (Some e),
                                     sm_log := sm_log sm @ log\<rparr>
           | (rt, log, None) \<Rightarrow> sm\<lparr>sm_rt := rt, sm_init := IPublished, sm_log := sm_log sm @ log\<rparr>)
      | IPublished \<Rightarrow>
          (let (rt, log) = ref_start (sm_rt sm)
           in sm\<lparr>sm_rt := rt, sm_init := IStarted, sm_log := sm_log sm @ log\<rparr>)
      | IStarted \<Rightarrow> sm\<lparr>sm_rt := (sm_rt sm)\<lparr>sr_started := True\<rparr>, sm_init := IDone None\<rparr>
      | IDone e \<Rightarrow> sm)"

text \<open>Those of \<^verbatim>\<open>stop\<close>: the store of \<^verbatim>\<open>stopping\<close>, the load of \<^verbatim>\<open>started\<close>, the shutdown.\<close>

definition stop_step ::
    "(native \<Rightarrow> context_deadline \<Rightarrow> error) \<Rightarrow> context_deadline \<Rightarrow> sched_machine \<Rightarrow> sched_machine" where
  "stop_step op ctx sm =
     (case sm_stop sm of
        TIdle \<Rightarrow> sm\<lparr>sm_rt := stop_flag (sm_rt sm), sm_stop := TFlagged\<rparr>
      | TFlagged \<Rightarrow> sm\<lparr>sm_stop := (if sr_started (sm_rt sm) then TLoaded else TDone None)\<rparr>
      | TLoaded \<Rightarrow>
          (case ref_shutdown op ctx (sm_rt sm) of
             (rt, log, err) \<Rightarrow> sm\<lparr>sm_rt := rt, sm_stop := TDone err, sm_log := sm_log sm @ log\<rparr>)
      | TDone e \<Rightarrow> sm)"

definition sched_machine_init :: "sched_runtime \<Rightarrow> sched_machine" where
  "sched_machine_init rt = \<lparr>sm_rt = rt, sm_init = IIdle, sm_stop = TIdle, sm_log = []\<rparr>"

inductive sched_reach ::
    "goerr + native \<Rightarrow> (native \<Rightarrow> context_deadline \<Rightarrow> error) \<Rightarrow> context_deadline \<Rightarrow> sched_runtime
     \<Rightarrow> sched_machine \<Rightarrow> bool"
  for made op ctx rt where
  reach_new: "sched_reach made op ctx rt (sched_machine_init rt)"
| reach_init: "sched_reach made op ctx rt sm \<Longrightarrow> sched_reach made op ctx rt (init_step made sm)"
| reach_stop: "sched_reach made op ctx rt sm \<Longrightarrow> sched_reach made op ctx rt (stop_step op ctx sm)"
| reach_monitor: "sched_reach made op ctx rt sm \<Longrightarrow>
     sched_reach made op ctx rt (sm\<lparr>sm_rt := on_monitor (monitor_step ev) (sm_rt sm)\<rparr>)"

section \<open>Lemmas\<close>

definition job_ok :: "native \<Rightarrow> scheduler_job \<Rightarrow> bool" where
  "job_ok n job \<longleftrightarrow> jb_name job \<noteq> '''' \<and> (\<exists>f. jb_register job = Some f \<and> f n = None)"

lemma register_jobs_None:
  "snd (snd (register_jobs n seen jobs m)) = None \<longleftrightarrow>
     list_all (job_ok n) jobs \<and> distinct (map jb_name jobs)
     \<and> (\<forall>job \<in> set jobs. jb_name job \<notin> seen)"
  by (induction n seen jobs m rule: register_jobs.induct)
     (auto simp: job_ok_def image_iff Let_def split: option.splits prod.splits, metis+)

lemma register_jobs_done:
  "register_jobs n seen jobs m = (m', log, None) \<Longrightarrow>
     log = map (\<lambda>job. SRegister (jb_name job)) jobs
     \<and> mo_failure m' = mo_failure m \<and> mo_intentional m' = mo_intentional m
     \<and> (\<forall>name. mo_required m' name = (if name \<in> jb_name ` set jobs then Some True else mo_required m name))"
  by (induction n seen jobs m arbitrary: m' log rule: register_jobs.induct)
     (auto simp: setRequired_def Let_def split: option.splits prod.splits if_splits)

lemma register_jobs_failed:
  "register_jobs n seen jobs m = (m', log, Some e) \<Longrightarrow>
     log \<noteq> [] \<and> last log = SShutdown n \<and> (\<forall>k c. SStart k \<notin> set log \<and> SShutdownCtx k c \<notin> set log)
     \<and> mo_failure m' = mo_failure m"
  by (induction n seen jobs m arbitrary: m' log e rule: register_jobs.induct)
     (auto simp: setRequired_def Let_def split: option.splits prod.splits if_splits)

lemma constructAndRegister_None:
  "constructAndRegister made rt = (rt', log, None) \<Longrightarrow>
     \<exists>n m. made = Inr n \<and> list_all (job_ok n) (sr_jobs rt) \<and> distinct (map jb_name (sr_jobs rt))
       \<and> rt' = rt\<lparr>sr_monitor := m, sr_native := Some n\<rparr>
       \<and> log = SConstruct n # map (\<lambda>job. SRegister (jb_name job)) (sort_key jb_name (sr_jobs rt))
       \<and> mo_failure m = mo_failure (sr_monitor rt)
       \<and> (\<forall>name. mo_required m name = (if name \<in> jb_name ` set (sr_jobs rt) then Some True
                                        else mo_required (sr_monitor rt) name))"
proof -
  assume ok: "constructAndRegister made rt = (rt', log, None)"
  let ?jobs = "sort_key jb_name (sr_jobs rt)"
  obtain n m l where made: "made = Inr n" and reg: "register_jobs n {} ?jobs (sr_monitor rt) = (m, l, None)"
    and rt': "rt' = rt\<lparr>sr_monitor := m, sr_native := Some n\<rparr>" and log: "log = SConstruct n # l"
    using ok by (auto simp: constructAndRegister_def ref_set_def Let_def
        split: sum.splits prod.splits option.splits)
  have "distinct (map jb_name ?jobs) \<longleftrightarrow> distinct (map jb_name (sr_jobs rt))"
    by (rule mset_eq_imp_distinct_iff) simp
  moreover have "list_all (job_ok n) ?jobs \<longleftrightarrow> list_all (job_ok n) (sr_jobs rt)"
    by (simp add: list_all_iff)
  ultimately show ?thesis
    using made rt' log register_jobs_None [of n "{}" ?jobs "sr_monitor rt"] register_jobs_done [OF reg] reg
    by auto
qed

lemma constructAndRegister_Some:
  "constructAndRegister (Inr n) rt = (rt', log, Some e) \<Longrightarrow>
     \<not> (list_all (job_ok n) (sr_jobs rt) \<and> distinct (map jb_name (sr_jobs rt)))
     \<and> log \<noteq> [] \<and> last log = SShutdown n \<and> (\<forall>k c. SStart k \<notin> set log \<and> SShutdownCtx k c \<notin> set log)
     \<and> (\<exists>m. rt' = rt\<lparr>sr_monitor := m\<rparr> \<and> mo_failure m = mo_failure (sr_monitor rt))"
proof -
  assume bad: "constructAndRegister (Inr n) rt = (rt', log, Some e)"
  let ?jobs = "sort_key jb_name (sr_jobs rt)"
  obtain m l where reg: "register_jobs n {} ?jobs (sr_monitor rt) = (m, l, Some e)"
    and rt': "rt' = rt\<lparr>sr_monitor := m\<rparr>" and log: "log = SConstruct n # l"
    using bad by (auto simp: constructAndRegister_def Let_def split: prod.splits option.splits)
  have "distinct (map jb_name ?jobs) \<longleftrightarrow> distinct (map jb_name (sr_jobs rt))"
    by (rule mset_eq_imp_distinct_iff) simp
  moreover have "list_all (job_ok n) ?jobs \<longleftrightarrow> list_all (job_ok n) (sr_jobs rt)"
    by (simp add: list_all_iff)
  ultimately show ?thesis
    using rt' log register_jobs_None [of n "{}" ?jobs "sr_monitor rt"] register_jobs_failed [OF reg] reg
    by auto
qed

text \<open>What a successful construction does, in order.\<close>

definition sched_log :: "native \<Rightarrow> scheduler_job list \<Rightarrow> sched_event list" where
  "sched_log n jobs = SConstruct n # map (\<lambda>job. SRegister (jb_name job)) (sort_key jb_name jobs)"

lemma constructs_when_ok:
  assumes "list_all (job_ok n) (sr_jobs rt)" and "distinct (map jb_name (sr_jobs rt))"
  shows "\<exists>m. constructAndRegister (Inr n) rt
    = (rt\<lparr>sr_monitor := m, sr_native := Some n\<rparr>, sched_log n (sr_jobs rt), None)"
proof -
  obtain rt' log err where con: "constructAndRegister (Inr n) rt = (rt', log, err)"
    by (cases "constructAndRegister (Inr n) rt")
  then have "err = None"
    using constructAndRegister_Some assms by (cases err) blast+
  then show ?thesis
    using con constructAndRegister_None [of "Inr n" rt rt' log] by (auto simp: sched_log_def)
qed

section \<open>The invariant of the two goroutines\<close>

definition sched_inv :: "native \<Rightarrow> context_deadline \<Rightarrow> scheduler_job list \<Rightarrow> sched_machine \<Rightarrow> bool" where
  "sched_inv n ctx jobs sm \<longleftrightarrow>
     sr_jobs (sm_rt sm) = jobs
     \<and> (case sm_init sm of
          IIdle \<Rightarrow> sm_log sm = [] \<and> \<not> sr_started (sm_rt sm)
        | IChecked \<Rightarrow> sm_log sm = [] \<and> \<not> sr_started (sm_rt sm)
        | IPublished \<Rightarrow> sm_log sm = sched_log n jobs \<and> \<not> sr_started (sm_rt sm) \<and> sr_native (sm_rt sm) = Some n
        | IStarted \<Rightarrow> sm_log sm = sched_log n jobs @ [SStart n] \<and> \<not> sr_started (sm_rt sm)
             \<and> sr_native (sm_rt sm) = Some n
        | IDone None \<Rightarrow> sr_native (sm_rt sm) = Some n
             \<and> (sm_log sm = sched_log n jobs @ [SStart n]
                \<or> sm_log sm = sched_log n jobs @ [SStart n, SShutdownCtx n ctx] \<and> (\<exists>e. sm_stop sm = TDone e))
        | IDone (Some _) \<Rightarrow> \<not> sr_started (sm_rt sm)
             \<and> (\<forall>k c. SStart k \<notin> set (sm_log sm) \<and> SShutdownCtx k c \<notin> set (sm_log sm)))
     \<and> (sm_stop sm = TLoaded \<longrightarrow> sr_started (sm_rt sm))
     \<and> (sm_stop sm \<noteq> TIdle \<longrightarrow> sr_stopping (sm_rt sm))
     \<and> (sm_stop sm = TIdle \<longrightarrow> \<not> sr_stop_once (sm_rt sm))"

lemma sched_inv_init: "sched_inv n ctx jobs sm \<Longrightarrow> sched_inv n ctx jobs (init_step (Inr n) sm)"
proof (cases "sm_init sm")
  case IChecked
  assume inv: "sched_inv n ctx jobs sm"
  obtain rt log err where con: "constructAndRegister (Inr n) (sm_rt sm) = (rt, log, err)"
    by (cases "constructAndRegister (Inr n) (sm_rt sm)")
  show ?thesis
  proof (cases err)
    case None
    with con inv constructAndRegister_None [of "Inr n" "sm_rt sm" rt log] IChecked show ?thesis
      by (auto simp: sched_inv_def init_step_def sched_log_def)
  next
    case (Some e)
    with con inv constructAndRegister_Some [of n "sm_rt sm" rt log e] IChecked show ?thesis
      by (auto simp: sched_inv_def init_step_def on_monitor_def)
  qed
qed (auto simp: sched_inv_def init_step_def ref_start_def ref_get_def on_monitor_def Let_def split: option.splits)

lemma sched_inv_stop: "sched_inv n ctx jobs sm \<Longrightarrow> sched_inv n ctx jobs (stop_step op ctx sm)"
  by (cases "sm_stop sm")
     (auto simp: sched_inv_def stop_step_def stop_flag_def ref_shutdown_def ref_get_def on_monitor_def
       split: init_pc.splits option.splits)

lemma sched_inv_monitor:
  "sched_inv n ctx jobs sm \<Longrightarrow> sched_inv n ctx jobs (sm\<lparr>sm_rt := on_monitor f (sm_rt sm)\<rparr>)"
  by (auto simp: sched_inv_def on_monitor_def split: init_pc.splits option.splits)

lemma sched_reach_inv:
  assumes "scheduler_newRuntime config jobs = Inr rt" and "sched_reach (Inr n) op ctx rt sm"
  shows "sched_inv n ctx jobs sm"
  using assms(2)
proof induction
  case reach_new
  show ?case
    using assms(1) by (auto simp: sched_inv_def sched_machine_init_def scheduler_newRuntime_def split: if_splits)
qed (simp_all add: sched_inv_init sched_inv_stop sched_inv_monitor)

section \<open>Uninterrupted goroutines\<close>

lemma init_step_simps [simp]:
  "init_step made \<lparr>sm_rt = rt, sm_init = IIdle, sm_stop = t, sm_log = l\<rparr>
     = \<lparr>sm_rt = rt, sm_init = (if sr_stopping rt then IDone (Some err_stopping) else IChecked),
        sm_stop = t, sm_log = l\<rparr>"
  "init_step made \<lparr>sm_rt = rt, sm_init = IPublished, sm_stop = t, sm_log = l\<rparr>
     = \<lparr>sm_rt = fst (ref_start rt), sm_init = IStarted, sm_stop = t, sm_log = l @ snd (ref_start rt)\<rparr>"
  "init_step made \<lparr>sm_rt = rt, sm_init = IStarted, sm_stop = t, sm_log = l\<rparr>
     = \<lparr>sm_rt = rt\<lparr>sr_started := True\<rparr>, sm_init = IDone None, sm_stop = t, sm_log = l\<rparr>"
  "init_step made \<lparr>sm_rt = rt, sm_init = IDone e, sm_stop = t, sm_log = l\<rparr>
     = \<lparr>sm_rt = rt, sm_init = IDone e, sm_stop = t, sm_log = l\<rparr>"
  by (simp_all add: init_step_def split: prod.split)

lemma init_step_checked:
  assumes "constructAndRegister made rt = (rt1, log, err)"
  shows "init_step made \<lparr>sm_rt = rt, sm_init = IChecked, sm_stop = t, sm_log = l\<rparr>
     = (case err of
          Some e \<Rightarrow> \<lparr>sm_rt = on_monitor (monitor_fail (Some e)) rt1, sm_init = IDone (Some e), sm_stop = t,
                     sm_log = l @ log\<rparr>
        | None \<Rightarrow> \<lparr>sm_rt = rt1, sm_init = IPublished, sm_stop = t, sm_log = l @ log\<rparr>)"
  using assms by (simp add: init_step_def split: option.split)

lemma init_steps_refine:
  "case sched_initialize made rt of (rt', log, err) \<Rightarrow>
     (init_step made ^^ 4) (sched_machine_init rt) = \<lparr>sm_rt = rt', sm_init = IDone err, sm_stop = TIdle, sm_log = log\<rparr>"
proof -
  obtain rt1 log err where con: "constructAndRegister made rt = (rt1, log, err)"
    by (cases "constructAndRegister made rt")
  have four: "(f ^^ 4) x = f (f (f (f x)))" for f :: "sched_machine \<Rightarrow> sched_machine" and x
    by (simp add: numeral_eq_Suc)
  show ?thesis
    unfolding four sched_machine_init_def sched_initialize_def con
    by (cases err) (simp_all add: init_step_checked [OF con] case_prod_beta)
qed

lemma stop_step_simps [simp]:
  "stop_step op ctx \<lparr>sm_rt = rt, sm_init = i, sm_stop = TIdle, sm_log = l\<rparr>
     = \<lparr>sm_rt = stop_flag rt, sm_init = i, sm_stop = TFlagged, sm_log = l\<rparr>"
  "stop_step op ctx \<lparr>sm_rt = rt, sm_init = i, sm_stop = TFlagged, sm_log = l\<rparr>
     = \<lparr>sm_rt = rt, sm_init = i, sm_stop = (if sr_started rt then TLoaded else TDone None), sm_log = l\<rparr>"
  "stop_step op ctx \<lparr>sm_rt = rt, sm_init = i, sm_stop = TLoaded, sm_log = l\<rparr>
     = \<lparr>sm_rt = fst (ref_shutdown op ctx rt), sm_init = i, sm_stop = TDone (snd (snd (ref_shutdown op ctx rt))),
        sm_log = l @ fst (snd (ref_shutdown op ctx rt))\<rparr>"
  "stop_step op ctx \<lparr>sm_rt = rt, sm_init = i, sm_stop = TDone e, sm_log = l\<rparr>
     = \<lparr>sm_rt = rt, sm_init = i, sm_stop = TDone e, sm_log = l\<rparr>"
  by (simp_all add: stop_step_def split: prod.split)

lemma stop_steps_refine:
  "case sched_stop op now ctx rt of (rt', log, err) \<Rightarrow>
     (stop_step op (stop_context now ctx rt) ^^ 3) (sched_machine_init rt)
       = \<lparr>sm_rt = rt', sm_init = IIdle, sm_stop = TDone err, sm_log = log\<rparr>"
proof -
  have three: "(f ^^ 3) x = f (f (f x))" for f :: "sched_machine \<Rightarrow> sched_machine" and x
    by (simp add: numeral_eq_Suc)
  have "stop_context now ctx (stop_flag rt) = stop_context now ctx rt"
    by (simp add: stop_flag_def stop_context_def)
  then show ?thesis
    unfolding three sched_machine_init_def sched_stop_def by (simp add: Let_def case_prod_beta)
qed

section \<open>The failure a monitor keeps\<close>

text \<open>The failure that a sequence of events leaves in a monitor without one.\<close>

fun first_failure :: "(string \<Rightarrow> bool) \<Rightarrow> bool \<Rightarrow> monitor_event list \<Rightarrow> error" where
  "first_failure required announced [] = None"
| "first_failure required announced (EvStarted # es) = first_failure required False es"
| "first_failure required announced (EvAnnounced # es) = first_failure required True es"
| "first_failure required announced (EvStopped # es) =
     (if announced then first_failure required False es else Some err_stopped)"
| "first_failure required announced (EvJobFailed name e # es) =
     (if required name then Some (err_job name e) else first_failure required announced es)"
| "first_failure required announced (EvLogged # es) = first_failure required announced es"

lemma monitor_keeps_failure: "mo_failure m = Some e \<Longrightarrow> mo_failure (fold monitor_step es m) = Some e"
proof (induction es arbitrary: m)
  case (Cons ev es)
  then have "mo_failure (monitor_step ev m) = Some e"
    by (cases ev) (auto simp: monitor_defs Let_def)
  then show ?case using Cons.IH by simp
qed simp

lemma monitor_first_failure:
  "mo_failure m = None \<Longrightarrow>
   mo_failure (fold monitor_step es m)
     = first_failure (\<lambda>name. mo_required m name = Some True) (mo_intentional m) es"
proof (induction es arbitrary: m)
  case (Cons ev es)
  show ?case
    using Cons.prems
    by (cases ev) (auto simp: monitor_defs Let_def Cons.IH monitor_keeps_failure)
qed simp

text \<open>A successful initialisation has started the native scheduler.\<close>

lemma scheduler_started:
  assumes "sched_initialize (Inr n) rt = (rt', log, err)" and "err = None"
  shows "SStart n \<in> set log \<and> sr_started rt'"
  using assms
  by (auto simp: sched_initialize_def constructAndRegister_def ref_start_def ref_get_def ref_set_def Let_def
      split: if_splits prod.splits option.splits)

section \<open>Properties\<close>

text \<open>
  C35: with a native scheduler at hand, initialisation succeeds exactly if the runtime is not
  stopping and every job is named, registers without error and shares its name with no
  other.  Then all jobs were registered in the order of their names and are required,
  and the scheduler is published and started.  Otherwise it was never started nor
  published, and, unless nothing was done because of the stop, it was shut down and the
  health check fails with a recorded failure.
\<close>

theorem scheduler_initializes_exactly:
  assumes "sched_initialize (Inr n) rt = (rt', log, err)"
  shows "(err = None \<longleftrightarrow> \<not> sr_stopping rt \<and> list_all (job_ok n) (sr_jobs rt) \<and> distinct (map jb_name (sr_jobs rt)))
     \<and> (if err = None then
          log = SConstruct n # map (\<lambda>job. SRegister (jb_name job)) (sort_key jb_name (sr_jobs rt)) @ [SStart n]
          \<and> sr_native rt' = Some n \<and> sr_started rt'
          \<and> list_all (\<lambda>job. mo_required (sr_monitor rt') (jb_name job) = Some True) (sr_jobs rt)
        else sr_native rt' = sr_native rt \<and> sr_started rt' = sr_started rt \<and> SStart n \<notin> set log
          \<and> (if sr_stopping rt then log = [] \<and> rt' = rt
             else last log = SShutdown n \<and> failureError (sr_monitor rt') \<noteq> None
                  \<and> hr_status (sched_check rt') = StatusFail))"
proof (cases "sr_stopping rt")
  case True
  then show ?thesis using assms by (auto simp: sched_initialize_def)
next
  case running: False
  obtain rt1 log1 err1 where con: "constructAndRegister (Inr n) rt = (rt1, log1, err1)"
    by (cases "constructAndRegister (Inr n) rt")
  show ?thesis
  proof (cases err1)
    case None
    from constructAndRegister_None [OF con [unfolded None]] obtain m where
      ok: "list_all (job_ok n) (sr_jobs rt)" "distinct (map jb_name (sr_jobs rt))"
      and rt1: "rt1 = rt\<lparr>sr_monitor := m, sr_native := Some n\<rparr>"
      and log1: "log1 = SConstruct n # map (\<lambda>job. SRegister (jb_name job)) (sort_key jb_name (sr_jobs rt))"
      and req: "\<forall>name. mo_required m name = (if name \<in> jb_name ` set (sr_jobs rt) then Some True
                                        else mo_required (sr_monitor rt) name)"
      by auto
    have "rt' = on_monitor clearIntentionalStop rt1\<lparr>sr_started := True\<rparr>" "log = log1 @ [SStart n]" "err = None"
      using assms con None running rt1 by (auto simp: sched_initialize_def ref_start_def ref_get_def)
    then show ?thesis
      using running ok log1 req rt1 by (simp add: on_monitor_def clearIntentionalStop_def list_all_iff)
  next
    case (Some e)
    note bad = constructAndRegister_Some [OF con [unfolded Some]]
    have res: "rt' = on_monitor (monitor_fail (Some e)) rt1" "log = log1" "err = Some e"
      using assms con Some running by (auto simp: sched_initialize_def)
    have "failureError (sr_monitor rt') \<noteq> None"
      by (simp add: res on_monitor_def monitor_fail_def failureError_def)
    then have "hr_status (sched_check rt') = StatusFail"
      by (auto simp: sched_check_def)
    with \<open>failureError (sr_monitor rt') \<noteq> None\<close> show ?thesis
      using bad res running by (auto simp: on_monitor_def)
  qed
qed

text \<open>
  whatever the native scheduler and announced stops do to a monitor without a failure,
  the health check of the runtime passes exactly if it is started and not stopping and
  there was no failure, and reports the first one otherwise: the failure of a required
  job, or a stop that was not announced since the last start or stop.
\<close>

theorem scheduler_reports_first_failure:
  assumes "mo_failure (sr_monitor rt) = None"
  shows "let failure = first_failure (\<lambda>name. mo_required (sr_monitor rt) name = Some True)
                         (mo_intentional (sr_monitor rt)) es;
             seen = sched_check (on_monitor (fold monitor_step es) rt)
         in (hr_status seen = StatusPass \<longleftrightarrow> failure = None \<and> sr_started rt \<and> \<not> sr_stopping rt)
            \<and> hr_err seen = failure \<and> (hr_status seen = StatusPass \<or> hr_status seen = StatusFail)"
  using monitor_first_failure [OF assms, of es]
  by (auto simp: Let_def sched_check_def on_monitor_def failureError_def status_defs split: option.splits)

text \<open>
  uninterrupted, the accesses of a goroutine amount to its whole operation: four steps
  of initialisation and three of a stop.
\<close>

theorem scheduler_steps_refine_operations:
  "(case sched_initialize made rt of (rt', log, err) \<Rightarrow>
      (init_step made ^^ 4) (sched_machine_init rt)
        = \<lparr>sm_rt = rt', sm_init = IDone err, sm_stop = TIdle, sm_log = log\<rparr>)
   \<and> (case sched_stop op now ctx rt of (rt', log, err) \<Rightarrow>
      (stop_step op (stop_context now ctx rt) ^^ 3) (sched_machine_init rt)
        = \<lparr>sm_rt = rt', sm_init = IIdle, sm_stop = TDone err, sm_log = log\<rparr>)"
  using init_steps_refine stop_steps_refine by (rule conjI)

text \<open>
  C36: in every interleaving of initialisation, stop and the monitor's callbacks the native
  scheduler is constructed and started at most once, the stop shuts it down at most once
  and only after its start, and once the stop has begun the health check fails.
\<close>

theorem scheduler_shutdown_follows_start:
  assumes "scheduler_newRuntime config jobs = Inr rt" and "sched_reach (Inr n) op ctx rt sm"
  shows "(if SStart n \<in> set (sm_log sm) \<or> SShutdownCtx n c \<in> set (sm_log sm)
          then sm_log sm = sched_log n jobs @ [SStart n]
            \<or> sm_log sm = sched_log n jobs @ [SStart n, SShutdownCtx n ctx] \<and> sm_init sm = IDone None
          else True)
       \<and> (sm_stop sm = TIdle \<or> hr_status (sched_check (sm_rt sm)) = StatusFail)"
proof -
  have jobs: "sr_jobs rt = jobs" using assms(1) by (auto simp: scheduler_newRuntime_def split: if_splits)
  have "sched_inv n ctx jobs sm"
    using sched_reach_inv [OF assms] .
  then show ?thesis
    by (auto simp: sched_inv_def sched_log_def sched_check_def status_defs
        split: init_pc.splits option.splits)
qed

text \<open>
  the two goroutines can also miss each other: with jobs that register, there is an
  interleaving in which initialisation and stop have both returned without an error, the
  native scheduler runs and nothing shuts it down.
\<close>

theorem scheduler_stop_can_miss_start:
  assumes "scheduler_newRuntime config jobs = Inr rt" and "list_all (job_ok n) jobs"
    and "distinct (map jb_name jobs)"
  shows "\<exists>sm. sched_reach (Inr n) op ctx rt sm \<and> sm_init sm = IDone None \<and> sm_stop sm = TDone None
     \<and> sm_log sm = sched_log n jobs @ [SStart n]"
proof -
  have rt: "sr_jobs rt = jobs" "\<not> sr_stopping rt" "\<not> sr_started rt" "\<not> sr_stop_once rt"
    using assms(1) by (auto simp: scheduler_newRuntime_def split: if_splits)
  obtain m where con: "constructAndRegister (Inr n) rt
      = (rt\<lparr>sr_monitor := m, sr_native := Some n\<rparr>, sched_log n jobs, None)"
    using constructs_when_ok assms(2,3) rt(1) by metis
  let ?rt1 = "rt\<lparr>sr_monitor := m, sr_native := Some n\<rparr>" and ?L = "sched_log n jobs"
  let ?rt2 = "?rt1\<lparr>sr_stop_once := True, sr_stopping := True\<rparr>"
  let ?rt3 = "on_monitor clearIntentionalStop ?rt2"
  let ?reach = "\<lambda>rt' i t log. sched_reach (Inr n) op ctx rt \<lparr>sm_rt = rt', sm_init = i, sm_stop = t, sm_log = log\<rparr>"
  have "?reach rt IChecked TIdle []"
    using reach_init [OF reach_new [of "Inr n" op ctx rt]] rt
    by (simp add: sched_machine_init_def)
  from reach_init [OF this] have "?reach ?rt1 IPublished TIdle ?L"
    by (simp add: init_step_checked [OF con])
  from reach_stop [OF this] have "?reach ?rt2 IPublished TFlagged ?L"
    using rt by (simp add: stop_flag_def)
  from reach_stop [OF this] have "?reach ?rt2 IPublished (TDone None) ?L"
    using rt by simp
  from reach_init [OF this] have "?reach ?rt3 IStarted (TDone None) (?L @ [SStart n])"
    by (simp add: ref_start_def ref_get_def)
  from reach_init [OF this] have "?reach (?rt3\<lparr>sr_started := True\<rparr>) (IDone None) (TDone None) (?L @ [SStart n])"
    by simp
  then show ?thesis by (intro exI conjI) (assumption, simp_all)
qed

section \<open>The properties at a concrete runtime\<close>

definition ex_sched_jobs :: "scheduler_job list" where
  "ex_sched_jobs = [\<lparr>jb_name = ''purge'', jb_register = Some (\<lambda>_. None)\<rparr>,
                    \<lparr>jb_name = ''mail'', jb_register = Some (\<lambda>_. None)\<rparr>]"

definition ex_sched_config :: scheduler_config where
  "ex_sched_config = \<lparr>sc_shutdown_timeout = 0, sc_health_timeout = 0, sc_health_name = ''''\<rparr>"

definition ex_sched_runtime :: sched_runtime where
  "ex_sched_runtime = \<lparr>sr_config = ex_sched_config, sr_jobs = ex_sched_jobs, sr_health_name = ''scheduler'',
     sr_health_time = 0, sr_monitor = new_monitor, sr_native = None, sr_started = False,
     sr_stopping = False, sr_stop_once = False\<rparr>"

lemma ex_sched_new: "scheduler_newRuntime ex_sched_config ex_sched_jobs = Inr ex_sched_runtime"
  by (simp add: scheduler_newRuntime_def ex_sched_config_def ex_sched_runtime_def)

lemma ex_sched_ok: "list_all (job_ok 3) ex_sched_jobs" "distinct (map jb_name ex_sched_jobs)"
  by (simp_all add: ex_sched_jobs_def job_ok_def)

theorem scheduler_initializes_exactly_witness:
  "snd (snd (sched_initialize (Inr 3) ex_sched_runtime)) = None
   \<and> sr_native (fst (sched_initialize (Inr 3) ex_sched_runtime)) = Some 3"
proof -
  obtain rt' log err where res: "sched_initialize (Inr 3) ex_sched_runtime = (rt', log, err)"
    by (cases "sched_initialize (Inr 3) ex_sched_runtime")
  have "sr_jobs ex_sched_runtime = ex_sched_jobs" "\<not> sr_stopping ex_sched_runtime"
    by (simp_all add: ex_sched_runtime_def)
  with scheduler_initializes_exactly [OF res] ex_sched_ok res show ?thesis by simp
qed

theorem scheduler_reports_first_failure_witness:
  "hr_err (sched_check (on_monitor (fold monitor_step [EvStarted, EvAnnounced, EvStopped, EvStopped]) ex_sched_runtime))
     = Some err_stopped"
proof -
  have "mo_failure (sr_monitor ex_sched_runtime) = None"
    by (simp add: ex_sched_runtime_def new_monitor_def)
  from scheduler_reports_first_failure [OF this, of "[EvStarted, EvAnnounced, EvStopped, EvStopped]"]
  show ?thesis by (simp add: Let_def)
qed

theorem scheduler_shutdown_follows_start_witness:
  "hr_status (sched_check (sm_rt (stop_step (\<lambda>_ _. None) None (sched_machine_init ex_sched_runtime)))) = StatusFail"
proof -
  let ?sm = "stop_step (\<lambda>_ _. None) None (sched_machine_init ex_sched_runtime)"
  have reach: "sched_reach (Inr 3) (\<lambda>_ _. None) None ex_sched_runtime ?sm"
    by (intro sched_reach.intros)
  have "sm_stop ?sm = TFlagged" by (simp add: stop_step_def sched_machine_init_def)
  with scheduler_shutdown_follows_start [OF ex_sched_new reach] show ?thesis by auto
qed

theorem scheduler_stop_can_miss_start_witness:
  "\<exists>sm. sched_reach (Inr 3) (\<lambda>_ _. None) None ex_sched_runtime sm \<and> sm_init sm = IDone None
     \<and> sm_stop sm = TDone None \<and> sm_log sm = sched_log 3 ex_sched_jobs @ [SStart 3]"
  by (rule scheduler_stop_can_miss_start [OF ex_sched_new ex_sched_ok])

end
