(* ===== verification/Migration.thy ===== *)
theory Migration
  imports Conditions
begin

text \<open>
  Database migrations at startup, \<^verbatim>\<open>src/migration/migration.go\<close>.  The Goose provider is
  a parameter that acts on a database \<open>'db\<close>; the calls made to it are logged, so that a
  disabled manager can be seen not to touch the database.
\<close>

section \<open>Policy and manager\<close>

type_synonym migration_policy = "8 word"

definition Disabled :: migration_policy where "Disabled = 0"
definition ValidateOnly :: migration_policy where "ValidateOnly = 1"
definition MigrateBeforeStart :: migration_policy where "MigrateBeforeStart = 2"

lemmas migration_policy_defs = Disabled_def ValidateOnly_def MigrateBeforeStart_def

definition migration_policy_String :: "migration_policy \<Rightarrow> string" where
  "migration_policy_String p =
     (if p = Disabled then ''disabled'' else if p = ValidateOnly then ''validate_only''
      else if p = MigrateBeforeStart then ''migrate_before_start''
      else ''unknown('' @ dec (unat p) @ '')'')"

definition ErrPendingMigrations :: goerr where
  "ErrPendingMigrations = err_new ''pending migrations''"

text \<open>
  \<^verbatim>\<open>*goose.Provider\<close>: whether migrations are pending, their states \<open>'s\<close>, and applying
  all of them, with results \<open>'r\<close>.
\<close>

record ('db, 's, 'r) provider =
  pv_has_pending :: "'db \<Rightarrow> goerr + bool"
  pv_status :: "'db \<Rightarrow> goerr + 's list"
  pv_up :: "'db \<Rightarrow> 'db \<times> (goerr + 'r list)"

text \<open>A manager keeps the handle of its database (\<open>None\<close>: nil) and its provider.\<close>

record ('db, 's, 'r) migration_manager =
  mm_policy :: migration_policy
  mm_db :: "nat option"
  mm_provider :: "('db, 's, 'r) provider option"

text \<open>\<open>made\<close> is the answer of \<^verbatim>\<open>goose.NewProvider\<close> for the configured dialect and files.\<close>

definition migration_New ::
    "migration_policy \<Rightarrow> goerr + ('db, 's, 'r) provider \<Rightarrow> nat option \<Rightarrow> goerr + ('db, 's, 'r) migration_manager" where
  "migration_New policy made db =
     (if policy > MigrateBeforeStart
        then Inl (Errorf ''unknown migration policy %d'' [AInt (uint policy)])
      else
        (let manager = \<lparr>mm_policy = policy, mm_db = db, mm_provider = None\<rparr>
         in if policy = Disabled then Inr manager
            else if db = None then Inl (err_new ''migration database is nil'')
            else (case made of
                    Inl e \<Rightarrow> Inl (err_wrap ''create goose provider: %w'' e)
                  | Inr provider \<Rightarrow> Inr (manager\<lparr>mm_provider := Some provider\<rparr>))))"

text \<open>The methods take a pointer that may be nil.\<close>

definition Manager_Policy :: "('db, 's, 'r) migration_manager option \<Rightarrow> migration_policy" where
  "Manager_Policy m = (case m of None \<Rightarrow> Disabled | Some x \<Rightarrow> mm_policy x)"

definition Manager_DB :: "('db, 's, 'r) migration_manager option \<Rightarrow> nat option" where
  "Manager_DB m = (case m of None \<Rightarrow> None | Some x \<Rightarrow> mm_db x)"

definition Manager_Provider :: "('db, 's, 'r) migration_manager option \<Rightarrow> ('db, 's, 'r) provider option" where
  "Manager_Provider m = (case m of None \<Rightarrow> None | Some x \<Rightarrow> mm_provider x)"

section \<open>Operations\<close>

datatype migration_call = CallHasPending | CallStatus | CallUp

definition is_disabled :: "('db, 's, 'r) migration_manager option \<Rightarrow> bool" where
  "is_disabled m \<longleftrightarrow> (case m of None \<Rightarrow> True | Some x \<Rightarrow> mm_policy x = Disabled)"

text \<open>
  The provider of a manager that is not disabled.  \<^verbatim>\<open>New\<close> gives every such manager one;
  the panic of a nil provider is the first branch.
\<close>

definition err_nil_pointer :: goerr where
  "err_nil_pointer = err_new ''invalid memory address or nil pointer dereference''"

definition with_provider ::
    "('db, 's, 'r) migration_manager option \<Rightarrow> (('db, 's, 'r) provider \<Rightarrow> goerr + 'a) \<Rightarrow> goerr + 'a" where
  "with_provider m f = (case Manager_Provider m of None \<Rightarrow> Inl err_nil_pointer | Some pv \<Rightarrow> f pv)"

definition HasPending ::
    "('db, 's, 'r) migration_manager option \<Rightarrow> 'db \<Rightarrow> migration_call list \<times> (goerr + bool)" where
  "HasPending m db =
     (if is_disabled m then ([], Inr False)
      else ([CallHasPending], with_provider m (\<lambda>pv. pv_has_pending pv db)))"

definition Migration_Status ::
    "('db, 's, 'r) migration_manager option \<Rightarrow> 'db \<Rightarrow> migration_call list \<times> (goerr + 's list)" where
  "Migration_Status m db =
     (if is_disabled m then ([], Inr []) else ([CallStatus], with_provider m (\<lambda>pv. pv_status pv db)))"

definition Migration_Validate ::
    "('db, 's, 'r) migration_manager option \<Rightarrow> 'db \<Rightarrow> migration_call list \<times> error" where
  "Migration_Validate m db =
     (if is_disabled m then ([], None)
      else ([CallHasPending],
            case with_provider m (\<lambda>pv. pv_has_pending pv db) of
              Inl e \<Rightarrow> Some (err_wrap ''check pending migrations: %w'' e)
            | Inr pending \<Rightarrow> if pending then Some ErrPendingMigrations else None))"

definition Migrate ::
    "('db, 's, 'r) migration_manager option \<Rightarrow> 'db \<Rightarrow> 'db \<times> migration_call list \<times> (goerr + 'r list)" where
  "Migrate m db =
     (if is_disabled m then (db, [], Inr [])
      else (case Manager_Provider m of
              None \<Rightarrow> (db, [CallUp], Inl (err_wrap ''apply migrations: %w'' err_nil_pointer))
            | Some pv \<Rightarrow>
                (case pv_up pv db of
                   (db', Inl e) \<Rightarrow> (db', [CallUp], Inl (err_wrap ''apply migrations: %w'' e))
                 | (db', Inr rs) \<Rightarrow> (db', [CallUp], Inr rs))))"

definition Migration_Close :: "('db, 's, 'r) migration_manager option \<Rightarrow> error" where
  "Migration_Close m = None"

text \<open>\<^verbatim>\<open>Condition().Run\<close>.\<close>

definition migration_run ::
    "('db, 's, 'r) migration_manager option \<Rightarrow> 'db \<Rightarrow> 'db \<times> migration_call list \<times> error" where
  "migration_run m db =
     (let p = Manager_Policy m
      in if p = Disabled then (db, [], None)
         else if p = ValidateOnly then (let (log, err) = Migration_Validate m db in (db, log, err))
         else if p = MigrateBeforeStart then
           (case Migrate m db of
              (db', log, Inl e) \<Rightarrow> (db', log, Some e)
            | (db', log, Inr _) \<Rightarrow> (db', log, None))
         else (db, [], Some (Errorf ''unknown migration policy %d'' [AInt (uint p)])))"

text \<open>The condition, with the environment's answer to whether its context ends first.\<close>

definition migration_condition ::
    "(context_deadline \<Rightarrow> error) \<Rightarrow> ('db, 's, 'r) migration_manager option \<Rightarrow> 'db \<Rightarrow> condition" where
  "migration_condition expired m db =
     \<lparr>cd_name = ''migrations'', cd_timeout = 0,
      cd_run = Some (run_race expired (snd (snd (migration_run m db))))\<rparr>"

text \<open>What the module constructs: a disabled policy needs no database.\<close>

definition migration_module_manager ::
    "migration_policy \<Rightarrow> goerr + ('db, 's, 'r) provider \<Rightarrow> nat \<Rightarrow> goerr + ('db, 's, 'r) migration_manager" where
  "migration_module_manager policy made db =
     (if policy = Disabled then migration_New policy made None else migration_New policy made (Some db))"

section \<open>Lemmas\<close>

lemma migration_New_Inr:
  "migration_New policy made db = Inr m \<longleftrightarrow>
     policy \<le> MigrateBeforeStart
     \<and> (if policy = Disabled then m = \<lparr>mm_policy = policy, mm_db = db, mm_provider = None\<rparr>
        else \<exists>h pv. db = Some h \<and> made = Inr pv
               \<and> m = \<lparr>mm_policy = policy, mm_db = db, mm_provider = Some pv\<rparr>)"
  by (auto simp: migration_New_def Let_def linorder_not_less split: sum.splits)

lemma policy_cases:
  assumes "(p :: migration_policy) \<le> MigrateBeforeStart"
  obtains "p = Disabled" | "p = ValidateOnly" | "p = MigrateBeforeStart"
proof -
  have "unat p \<le> 2" using assms by (simp add: MigrateBeforeStart_def word_le_nat_alt)
  then have "unat p = 0 \<or> unat p = 1 \<or> unat p = 2" by linarith
  then have "p = 0 \<or> p = 1 \<or> p = 2"
    by (simp add: word_unat_eq_iff)
  then show ?thesis using that by (auto simp: migration_policy_defs)
qed

lemma policies_differ [simp]:
  "ValidateOnly \<noteq> Disabled" "MigrateBeforeStart \<noteq> Disabled" "MigrateBeforeStart \<noteq> ValidateOnly"
  "Disabled \<noteq> ValidateOnly" "Disabled \<noteq> MigrateBeforeStart" "ValidateOnly \<noteq> MigrateBeforeStart"
  by (simp_all add: migration_policy_defs)

section \<open>Properties\<close>

text \<open>
  the startup condition of a manager that \<^verbatim>\<open>New\<close> accepted: a disabled one makes no call
  and succeeds; a validating one only asks, never changes the database, and succeeds
  exactly if nothing is pending; a migrating one applies the migrations once and succeeds
  exactly if that does.  So where applying migrations leaves none pending, a start with
  an enabled policy that passes the condition finds none pending.
\<close>

theorem migration_condition_guards_start:
  assumes "migration_New policy (Inr pv) db = Inr m" and "migration_run (Some m) s = (s', log, err)"
    and "\<And>s s' rs. pv_up pv s = (s', Inr rs) \<Longrightarrow> pv_has_pending pv s' = Inr False"
  shows "(if policy = Disabled then s' = s \<and> log = [] \<and> err = None
          else if policy = ValidateOnly then s' = s \<and> log = [CallHasPending]
            \<and> (err = None \<longleftrightarrow> pv_has_pending pv s = Inr False)
            \<and> (err = Some ErrPendingMigrations \<longleftrightarrow> pv_has_pending pv s = Inr True)
          else s' = fst (pv_up pv s) \<and> log = [CallUp] \<and> (err = None \<longleftrightarrow> (\<exists>rs. snd (pv_up pv s) = Inr rs)))
       \<and> (err \<noteq> None \<or> policy = Disabled \<or> pv_has_pending pv s' = Inr False)"
proof -
  have m: "policy \<le> MigrateBeforeStart" "mm_policy m = policy"
    "policy \<noteq> Disabled \<longrightarrow> mm_provider m = Some pv"
    using assms(1) by (auto simp: migration_New_Inr split: if_splits)
  note defs = migration_run_def Manager_Policy_def Migration_Validate_def Migrate_def is_disabled_def
    with_provider_def Manager_Provider_def Let_def
  from m(1) show ?thesis
  proof (cases rule: policy_cases)
    case 1
    then show ?thesis using assms(2) m by (auto simp: defs)
  next
    case 2
    have "Errorf ''check pending migrations: %w'' [AWrap e] \<noteq> ErrPendingMigrations" for e
      by (simp add: ErrPendingMigrations_def)
    with 2 show ?thesis
      using assms(2) m by (auto simp: defs split: sum.splits if_splits)
  next
    case 3
    then show ?thesis
      using assms(2,3) m by (auto simp: defs split: sum.splits prod.splits)
  qed
qed

section \<open>A provider over the number of applied migrations\<close>

definition ex_provider :: "(nat, string, nat) provider" where
  "ex_provider = \<lparr>pv_has_pending = (\<lambda>n. Inr (n < 3)), pv_status = (\<lambda>n. Inr [''pending'']),
                  pv_up = (\<lambda>n. (3, Inr [n]))\<rparr>"

theorem migration_condition_guards_start_witness:
  "\<exists>m. migration_New MigrateBeforeStart (Inr ex_provider) (Some 1) = Inr m
     \<and> migration_run (Some m) 1 = (3, [CallUp], None) \<and> pv_has_pending ex_provider 3 = Inr False"
proof -
  let ?m = "\<lparr>mm_policy = MigrateBeforeStart, mm_db = Some (1::nat), mm_provider = Some ex_provider\<rparr>"
  have new: "migration_New MigrateBeforeStart (Inr ex_provider) (Some 1) = Inr ?m"
    by (simp add: migration_New_Inr)
  obtain s' log err where run: "migration_run (Some ?m) 1 = (s', log, err)"
    by (cases "migration_run (Some ?m) 1")
  have "pv_has_pending ex_provider s' = Inr False" if "pv_up ex_provider s = (s', Inr rs)" for s s' rs
    using that by (auto simp: ex_provider_def)
  from migration_condition_guards_start [OF new run this] run new show ?thesis
    by (auto simp: ex_provider_def)
qed

end
