(* ===== verification/Config.thy ===== *)
theory Config
  imports Prelude
begin

text \<open>
  Loading a configuration, \<^verbatim>\<open>src/config/config.go\<close>: the keys of a Go structure type found
  by reflection, and the phases of \<^verbatim>\<open>Load\<close>.  Viper is a parameter.

  A Go type is a finite term whose structures are names, looked up in \<open>types\<close>, so that
  types may be recursive.  The recursion of \<^verbatim>\<open>structKeys\<close> follows those names and has
  fuel: \<open>None\<close> means that it did not come to an end within it.
\<close>

section \<open>Types and fields\<close>

datatype gotype =
    GPointer gotype
  | GStruct string
  | GContext
  | GOther

text \<open>\<open>fl_tag key\<close> is \<^verbatim>\<open>field.Tag.Get(key)\<close>, empty when the tag has no such key.\<close>

record field =
  fl_name :: string
  fl_exported :: bool
  fl_anonymous :: bool
  fl_tag :: "string \<Rightarrow> string"
  fl_type :: gotype

type_synonym types = "string \<Rightarrow> field list"

text \<open>\<^verbatim>\<open>for t.Kind() == reflect.Pointer { t = t.Elem() }\<close>\<close>

fun strip_pointers :: "gotype \<Rightarrow> gotype" where
  "strip_pointers (GPointer t) = strip_pointers t"
| "strip_pointers t = t"

text \<open>\<^verbatim>\<open>strings.Split\<close> at a comma; a string has at least one part.\<close>

fun split_comma :: "string \<Rightarrow> string list" where
  "split_comma [] = [[]]"
| "split_comma (c # s) =
     (if c = CHR '','' then [] # split_comma s
      else (case split_comma s of [] \<Rightarrow> [[c]] | p # ps \<Rightarrow> (c # p) # ps))"

text \<open>\<^verbatim>\<open>strings.ToLower\<close> on ASCII identifiers.\<close>

definition lower_char :: "char \<Rightarrow> char" where
  "lower_char c = (if CHR ''A'' \<le> c \<and> c \<le> CHR ''Z'' then char_of (of_char c + 32 :: nat) else c)"

definition ToLower :: "string \<Rightarrow> string" where
  "ToLower s = map lower_char s"

definition tag_keys :: "string list" where
  "tag_keys = [''mapstructure'', ''yaml'', ''json'', ''toml'']"

text \<open>A name, whether the field is inlined, and whether it is skipped.\<close>

datatype field_naming = Named string bool | Skipped

definition untagged_name :: "field \<Rightarrow> bool \<Rightarrow> field_naming" where
  "untagged_name f inl =
     (if fl_anonymous f then Named '''' True
      else if fl_name f = '''' then Skipped
      else Named (ToLower (fl_name f)) inl)"

fun name_from_tags :: "field \<Rightarrow> bool \<Rightarrow> string list \<Rightarrow> field_naming" where
  "name_from_tags f inl [] = untagged_name f inl"
| "name_from_tags f inl (key # keys) =
     (if fl_tag f key = '''' then name_from_tags f inl keys
      else
        (let parts = split_comma (fl_tag f key)
         in if hd parts = ''-'' then Skipped
            else
              (let inl' = (inl \<or> list_ex (\<lambda>opt. opt = ''squash'' \<or> opt = ''inline'') (tl parts))
               in if hd parts \<noteq> '''' then Named (hd parts) inl' else name_from_tags f inl' keys)))"

definition fieldName :: "field \<Rightarrow> field_naming" where
  "fieldName f = name_from_tags f False tag_keys"

definition field_prefix :: "string \<Rightarrow> string \<Rightarrow> bool \<Rightarrow> string" where
  "field_prefix prefix name inl =
     (if inl then prefix else if prefix \<noteq> '''' then prefix @ ''.'' @ name else name)"

section \<open>The keys of a type\<close>

text \<open>
  What one field adds: nothing, one key, or the keys of a nested structure, which \<open>nested\<close>
  computes from its name and prefix.
\<close>

definition field_keys :: "(string \<Rightarrow> string \<Rightarrow> string list option) \<Rightarrow> string \<Rightarrow> field \<Rightarrow> string list option" where
  "field_keys nested prefix f =
     (if \<not> fl_exported f then Some []
      else (case fieldName f of
              Skipped \<Rightarrow> Some []
            | Named name inl \<Rightarrow>
                (let p = field_prefix prefix name inl
                 in case strip_pointers (fl_type f) of
                      GStruct n \<Rightarrow> nested n p
                    | _ \<Rightarrow> Some (if p \<noteq> '''' then [p] else []))))"

fun collect_keys :: "(field \<Rightarrow> string list option) \<Rightarrow> field list \<Rightarrow> string list option" where
  "collect_keys k [] = Some []"
| "collect_keys k (f # fs) =
     (case k f of None \<Rightarrow> None
      | Some ks \<Rightarrow> (case collect_keys k fs of None \<Rightarrow> None | Some ks' \<Rightarrow> Some (ks @ ks')))"

fun struct_fields_keys :: "nat \<Rightarrow> types \<Rightarrow> string \<Rightarrow> string \<Rightarrow> string list option" where
  "struct_fields_keys 0 types n prefix = None"
| "struct_fields_keys (Suc fuel) types n prefix =
     collect_keys (field_keys (struct_fields_keys fuel types) prefix) (types n)"

definition structKeys :: "nat \<Rightarrow> types \<Rightarrow> gotype \<Rightarrow> string \<Rightarrow> string list option" where
  "structKeys fuel types t prefix =
     (case strip_pointers t of GStruct n \<Rightarrow> struct_fields_keys fuel types n prefix | _ \<Rightarrow> Some [])"

section \<open>Load\<close>

record source =
  so_file :: string
  so_env_prefix :: string
  so_defaults :: "(string \<times> string) list"
  so_overrides :: "(string \<times> string) list"
  so_allow_unused :: bool

datatype load_event =
    LEnvPrefix string
  | LAutomaticEnv
  | LDefault string string
  | LSet string string
  | LReadFile string
  | LBindEnv string
  | LUnmarshal
  | LUnmarshalExact
  | LValidate

text \<open>
  Viper and the configuration type: reading the file, binding a key, the two decoders with
  the (possibly partial) result they leave, and the \<^verbatim>\<open>Validate\<close> methods of the pointer and
  of the value type, if any.  \<open>so_defaults\<close> and \<open>so_overrides\<close> list the Go maps in the
  order of iteration.
\<close>

record 'c loader =
  lo_zero :: 'c
  lo_read :: "string \<Rightarrow> error"
  lo_bind :: "string \<Rightarrow> error"
  lo_unmarshal :: "'c \<times> error"
  lo_unmarshal_exact :: "'c \<times> error"
  lo_validate_pointer :: "('c \<Rightarrow> error) option"
  lo_validate_value :: "('c \<Rightarrow> error) option"

definition load_setup :: "source \<Rightarrow> load_event list" where
  "load_setup src =
     (if so_env_prefix src \<noteq> '''' then [LEnvPrefix (so_env_prefix src)] else [])
     @ [LAutomaticEnv] @ map (\<lambda>(k, v). LDefault k v) (so_defaults src)
     @ map (\<lambda>(k, v). LSet k v) (so_overrides src)"

fun bind_keys :: "(string \<Rightarrow> error) \<Rightarrow> string list \<Rightarrow> load_event list \<times> error" where
  "bind_keys bind [] = ([], None)"
| "bind_keys bind (key # keys) =
     (case bind key of
        Some e \<Rightarrow> ([LBindEnv key], Some (Errorf ''bind environment key %q: %w'' [AStr key, AWrap e]))
      | None \<Rightarrow> (let (log, err) = bind_keys bind keys in (LBindEnv key # log, err)))"

definition load_validate :: "'c loader \<Rightarrow> 'c \<Rightarrow> load_event list \<times> error" where
  "load_validate lo c =
     (case (case lo_validate_pointer lo of Some v \<Rightarrow> Some v | None \<Rightarrow> lo_validate_value lo) of
        None \<Rightarrow> ([], None)
      | Some v \<Rightarrow> ([LValidate], map_option (err_wrap ''validate configuration: %w'') (v c)))"

definition load_decode :: "'c loader \<Rightarrow> source \<Rightarrow> load_event list \<times> 'c \<times> error" where
  "load_decode lo src =
     (let (c, err) = (if so_allow_unused src then lo_unmarshal lo else lo_unmarshal_exact lo);
          ev = (if so_allow_unused src then LUnmarshal else LUnmarshalExact)
      in case err of
           Some e \<Rightarrow> ([ev], c, Some (err_wrap ''decode configuration: %w'' e))
         | None \<Rightarrow> (let (log, err') = load_validate lo c in (ev # log, c, err')))"

text \<open>\<open>keys\<close> are the keys of the configuration type, \<open>ctx_err\<close> is \<^verbatim>\<open>ctx.Err()\<close>.\<close>

definition Load :: "error \<Rightarrow> string list \<Rightarrow> 'c loader \<Rightarrow> source \<Rightarrow> load_event list \<times> 'c \<times> error" where
  "Load ctx_err keys lo src =
     (case ctx_err of
        Some e \<Rightarrow> ([], lo_zero lo, Some e)
      | None \<Rightarrow>
          (let setup = load_setup src;
               (read, rerr) = (if so_file src = '''' then ([], None) else ([LReadFile (so_file src)], lo_read lo (so_file src)))
           in case rerr of
                Some e \<Rightarrow> (setup @ read, lo_zero lo, Some (err_wrap ''read configuration file: %w'' e))
              | None \<Rightarrow>
                  (case bind_keys (lo_bind lo) keys of
                     (log, Some e) \<Rightarrow> (setup @ read @ log, lo_zero lo, Some e)
                   | (log, None) \<Rightarrow>
                       (let (log', c, err) = load_decode lo src in (setup @ read @ log @ log', c, err)))))"

section \<open>Lemmas\<close>

lemma collect_keys_None: "collect_keys k fs = None \<longleftrightarrow> (\<exists>f \<in> set fs. k f = None)"
  by (induction fs) (auto split: option.splits)

lemma collect_keys_Some:
  "collect_keys k fs = Some ks \<longleftrightarrow>
     (\<forall>f \<in> set fs. k f \<noteq> None) \<and> ks = concat (map (\<lambda>f. the (k f)) fs)"
proof -
  have "\<forall>f \<in> set fs. k f \<noteq> None \<Longrightarrow> collect_keys k fs = Some (concat (map (\<lambda>f. the (k f)) fs))"
    by (induction fs) auto
  then show ?thesis using collect_keys_None [of k fs] by fastforce
qed

text \<open>The structures a structure contains through exported fields that are not skipped.\<close>

definition nested_in :: "types \<Rightarrow> string \<Rightarrow> string \<Rightarrow> bool" where
  "nested_in types n m \<longleftrightarrow>
     (\<exists>f \<in> set (types n). fl_exported f \<and> fieldName f \<noteq> Skipped \<and> strip_pointers (fl_type f) = GStruct m)"

lemma field_keys_None:
  "field_keys nested prefix f = None \<longleftrightarrow>
     fl_exported f \<and> (\<exists>name inl m. fieldName f = Named name inl \<and> strip_pointers (fl_type f) = GStruct m
        \<and> nested m (field_prefix prefix name inl) = None)"
  by (auto simp: field_keys_def Let_def split: field_naming.splits gotype.splits)

lemma fuel_enough:
  assumes "\<And>m m'. nested_in types m m' \<Longrightarrow> rank m' < rank m"
  shows "rank n < fuel \<Longrightarrow> struct_fields_keys fuel types n prefix \<noteq> None"
proof (induction fuel arbitrary: n prefix)
  case (Suc fuel)
  show ?case
  proof
    assume "struct_fields_keys (Suc fuel) types n prefix = None"
    then obtain f name inl m where "f \<in> set (types n)" "fl_exported f" "fieldName f = Named name inl"
      "strip_pointers (fl_type f) = GStruct m"
      and none: "struct_fields_keys fuel types m (field_prefix prefix name inl) = None"
      by (auto simp: collect_keys_None field_keys_None)
    then have "nested_in types n m" by (auto simp: nested_in_def)
    then have "rank m < fuel" using assms Suc.prems by fastforce
    then show False using Suc.IH none by blast
  qed
qed simp

lemma recursive_never_ends:
  assumes "\<And>m. P m \<Longrightarrow> \<exists>m'. P m' \<and> nested_in types m m'"
  shows "P n \<Longrightarrow> struct_fields_keys fuel types n prefix = None"
proof (induction fuel arbitrary: n prefix)
  case (Suc fuel)
  obtain m where "P m" and "nested_in types n m" using assms Suc.prems by blast
  then obtain f name inl where "f \<in> set (types n)" "fl_exported f" "fieldName f = Named name inl"
    "strip_pointers (fl_type f) = GStruct m"
    by (auto simp: nested_in_def) (metis field_naming.exhaust)
  then show ?case
    using Suc.IH [OF \<open>P m\<close>] by (auto simp: collect_keys_None field_keys_None)
qed simp

section \<open>What a key is\<close>

text \<open>
  The specification of the keys: a key of a structure is the prefix of an exported,
  unskipped field that is not a structure, or a key of the structure it nests.
\<close>

inductive is_key :: "types \<Rightarrow> string \<Rightarrow> string \<Rightarrow> string \<Rightarrow> bool" for types where
  leaf: "f \<in> set (types n) \<Longrightarrow> fl_exported f \<Longrightarrow> fieldName f = Named name inl \<Longrightarrow>
     (\<And>m. strip_pointers (fl_type f) \<noteq> GStruct m) \<Longrightarrow> field_prefix prefix name inl \<noteq> '''' \<Longrightarrow>
     is_key types n prefix (field_prefix prefix name inl)"
| nested: "f \<in> set (types n) \<Longrightarrow> fl_exported f \<Longrightarrow> fieldName f = Named name inl \<Longrightarrow>
     strip_pointers (fl_type f) = GStruct m \<Longrightarrow> is_key types m (field_prefix prefix name inl) key \<Longrightarrow>
     is_key types n prefix key"

lemma keys_sound:
  "struct_fields_keys fuel types n prefix = Some ks \<Longrightarrow> key \<in> set ks \<Longrightarrow> is_key types n prefix key"
proof (induction fuel arbitrary: n prefix ks)
  case (Suc fuel)
  then obtain f where f: "f \<in> set (types n)"
    and some: "field_keys (struct_fields_keys fuel types) prefix f \<noteq> None"
    and key: "key \<in> set (the (field_keys (struct_fields_keys fuel types) prefix f))"
    by (auto simp: collect_keys_Some)
  then have exported: "fl_exported f" by (auto simp: field_keys_def split: if_splits)
  obtain name inl where naming: "fieldName f = Named name inl"
    using key exported by (cases "fieldName f") (auto simp: field_keys_def)
  show ?case
  proof (cases "\<exists>m. strip_pointers (fl_type f) = GStruct m")
    case True
    then obtain m where m: "strip_pointers (fl_type f) = GStruct m" by blast
    then obtain ks' where "struct_fields_keys fuel types m (field_prefix prefix name inl) = Some ks'" "key \<in> set ks'"
      using some key exported naming by (auto simp: field_keys_def Let_def)
    then show ?thesis using Suc.IH f exported naming m is_key.nested by blast
  next
    case False
    then have "key = field_prefix prefix name inl" "key \<noteq> ''''"
      using key exported naming by (auto simp: field_keys_def Let_def split: gotype.splits if_splits)
    then show ?thesis using False f exported naming is_key.leaf by blast
  qed
qed simp

lemma keys_complete:
  "is_key types n prefix key \<Longrightarrow> struct_fields_keys fuel types n prefix = Some ks \<Longrightarrow> key \<in> set ks"
proof (induction arbitrary: fuel ks rule: is_key.induct)
  case (leaf f n name inl prefix)
  then obtain fuel' where fuel: "fuel = Suc fuel'" by (cases fuel) auto
  have "field_keys (struct_fields_keys fuel' types) prefix f = Some [field_prefix prefix name inl]"
    using leaf.hyps by (auto simp: field_keys_def Let_def split: gotype.splits)
  then show ?case using leaf.prems leaf.hyps(1) fuel by (auto simp: collect_keys_Some intro!: bexI [of _ f])
next
  case (nested f n name inl m prefix key)
  then obtain fuel' where fuel: "fuel = Suc fuel'" by (cases fuel) auto
  have eq: "field_keys (struct_fields_keys fuel' types) prefix f
      = struct_fields_keys fuel' types m (field_prefix prefix name inl)"
    using nested.hyps by (simp add: field_keys_def Let_def)
  then obtain ks' where "struct_fields_keys fuel' types m (field_prefix prefix name inl) = Some ks'"
    using nested.prems nested.hyps(1) fuel by (fastforce simp: collect_keys_Some)
  moreover from this have "key \<in> set ks'" by (rule nested.IH)
  ultimately show ?case
    using nested.prems nested.hyps(1) fuel eq by (auto simp: collect_keys_Some intro!: bexI [of _ f])
qed

lemma structKeys_struct:
  "strip_pointers t = GStruct n \<Longrightarrow> structKeys fuel types t prefix = struct_fields_keys fuel types n prefix"
  by (simp add: structKeys_def)

section \<open>Properties\<close>

text \<open>
  C37: for a type whose structures do not contain themselves, so that they have ranks that
  decrease inwards, \<^verbatim>\<open>structKeys\<close> ends and returns exactly the keys of the type: for every
  exported field that is not skipped by its tag the dotted path to it if it is no
  structure, and the keys of the structure otherwise.
\<close>

theorem config_keys_exact:
  assumes "\<And>m m'. nested_in types m m' \<Longrightarrow> rank m' < rank m" and "strip_pointers t = GStruct n"
    and "rank n < fuel"
  shows "\<exists>ks. structKeys fuel types t prefix = Some ks \<and> set ks = {key. is_key types n prefix key}"
proof -
  obtain ks where ks: "struct_fields_keys fuel types n prefix = Some ks"
    using fuel_enough [of types rank n fuel prefix] assms(1,3) by auto
  then have "set ks = {key. is_key types n prefix key}"
    using keys_sound keys_complete by blast
  with ks structKeys_struct [OF assms(2)] show ?thesis by auto
qed

text \<open>
  for a type whose structure contains itself, directly, through a pointer or through
  other structures, the recursion of \<^verbatim>\<open>structKeys\<close> never ends.
\<close>

theorem recursive_config_never_ends:
  assumes "(nested_in types)\<^sup>+\<^sup>+ n n" and "strip_pointers t = GStruct n"
  shows "structKeys fuel types t prefix = None"
proof -
  have "\<exists>m'. (nested_in types)\<^sup>+\<^sup>+ m' m' \<and> nested_in types m m'"
    if cyc: "(nested_in types)\<^sup>+\<^sup>+ m m" for m
  proof -
    obtain m' where "nested_in types m m'" "(nested_in types)\<^sup>*\<^sup>* m' m"
      using tranclpD [OF cyc] by blast
    then show ?thesis by (meson rtranclp_into_tranclp1)
  qed
  then show ?thesis
    using recursive_never_ends [of "\<lambda>m. (nested_in types)\<^sup>+\<^sup>+ m m"] assms by (simp add: structKeys_struct)
qed

text \<open>
  loading succeeds exactly if the context is alive, the file, if any, is read, every key
  of the type can be bound, the selected decoder succeeds, and the \<^verbatim>\<open>Validate\<close> method of
  the pointer type, or else of the value type, accepts the decoded value; that value is
  returned, and the sources are set up, the file read, the keys bound in order, decoding
  and validation done in this sequence.
\<close>

theorem load_succeeds_exactly:
  "case Load ctx_err keys lo src of
     (log, c, err) \<Rightarrow>
       (err = None \<longleftrightarrow> ctx_err = None \<and> (so_file src = '''' \<or> lo_read lo (so_file src) = None)
          \<and> list_all (\<lambda>key. lo_bind lo key = None) keys
          \<and> (let (v, derr) = (if so_allow_unused src then lo_unmarshal lo else lo_unmarshal_exact lo)
             in derr = None
                \<and> (case lo_validate_pointer lo of
                     Some check \<Rightarrow> check v = None
                   | None \<Rightarrow> (case lo_validate_value lo of Some check \<Rightarrow> check v = None | None \<Rightarrow> True))))
       \<and> (if err = None then
            c = fst (if so_allow_unused src then lo_unmarshal lo else lo_unmarshal_exact lo)
            \<and> log = load_setup src @ (if so_file src = '''' then [] else [LReadFile (so_file src)])
                @ map LBindEnv keys @ [if so_allow_unused src then LUnmarshal else LUnmarshalExact]
                @ (if lo_validate_pointer lo = None \<and> lo_validate_value lo = None then [] else [LValidate])
          else True)"
proof -
  have bind: "bind_keys f ks = (map LBindEnv ks, None)" if "list_all (\<lambda>key. f key = None) ks" for f ks
    using that by (induction ks) auto
  have bind_bad: "snd (bind_keys f ks) \<noteq> None" if "\<not> list_all (\<lambda>key. f key = None) ks" for f ks
    using that by (induction ks) (auto split: option.splits prod.splits)
  show ?thesis
  proof (cases "list_all (\<lambda>key. lo_bind lo key = None) keys")
    case True
    show ?thesis
      by (simp add: Load_def load_decode_def load_validate_def bind [OF True] True Let_def
          split: option.splits prod.splits if_splits)
  next
    case False
    obtain log e where "bind_keys (lo_bind lo) keys = (log, Some e)"
      using bind_bad [OF False] by (cases "bind_keys (lo_bind lo) keys") auto
    with False show ?thesis
      by (simp add: Load_def Let_def split: option.splits prod.splits)
  qed
qed

section \<open>The properties at concrete types\<close>

definition plain_field :: "string \<Rightarrow> gotype \<Rightarrow> field" where
  "plain_field name t = \<lparr>fl_name = name, fl_exported = True, fl_anonymous = False, fl_tag = (\<lambda>_. ''''), fl_type = t\<rparr>"

definition ex_types :: types where
  "ex_types n =
     (if n = ''Config'' then [plain_field ''HTTP'' (GStruct ''HTTP''), plain_field ''Debug'' GOther]
      else if n = ''HTTP'' then [plain_field ''Address'' GOther]
      else if n = ''Node'' then [plain_field ''Next'' (GPointer (GStruct ''Node''))] else [])"

lemma plain_field_simps [simp]:
  "fl_exported (plain_field name t)" "fl_type (plain_field name t) = t"
  by (simp_all add: plain_field_def)

lemma ex_naming: "name \<noteq> '''' \<Longrightarrow> fieldName (plain_field name t) = Named (ToLower name) False"
  by (simp add: fieldName_def tag_keys_def untagged_name_def plain_field_def)

definition ex_flat_types :: types where
  "ex_flat_types n = (if n = ''Node'' then [] else ex_types n)"

lemma ex_address_key: "is_key ex_flat_types ''Config'' '''' ''http.address''"
proof -
  have low: "ToLower ''HTTP'' = ''http''" "ToLower ''Address'' = ''address''" by code_simp+
  have addr: "plain_field ''Address'' GOther \<in> set (ex_flat_types ''HTTP'')"
    and http: "plain_field ''HTTP'' (GStruct ''HTTP'') \<in> set (ex_flat_types ''Config'')"
    by (simp_all add: ex_flat_types_def ex_types_def)
  have dotted: "field_prefix ''http'' ''address'' False = ''http.address''" "field_prefix '''' ''http'' False = ''http''"
    by (simp_all add: field_prefix_def)
  have names: "fieldName (plain_field ''Address'' GOther) = Named ''address'' False"
    "fieldName (plain_field ''HTTP'' (GStruct ''HTTP'')) = Named ''http'' False"
    using low by (simp_all add: ex_naming)
  have "is_key ex_flat_types ''HTTP'' ''http'' (field_prefix ''http'' ''address'' False)"
    by (rule is_key.leaf [of "plain_field ''Address'' GOther"]) (use addr names in \<open>simp_all add: dotted\<close>)
  then have "is_key ex_flat_types ''HTTP'' (field_prefix '''' ''http'' False) ''http.address''"
    by (simp only: dotted)
  then show ?thesis
    by (rule is_key.nested [of "plain_field ''HTTP'' (GStruct ''HTTP'')", rotated 4]) (use http names in simp_all)
qed

theorem config_keys_exact_witness:
  "\<exists>ks. structKeys 2 ex_flat_types (GPointer (GStruct ''Config'')) '''' = Some ks \<and> ''http.address'' \<in> set ks"
proof -
  let ?rank = "\<lambda>n. if n = ''Config'' then 1 else (0::nat)"
  have rank: "?rank m' < ?rank m" if "nested_in ex_flat_types m m'" for m m'
    using that by (auto simp: nested_in_def ex_flat_types_def ex_types_def split: if_splits)
  have "\<exists>ks. structKeys 2 ex_flat_types (GPointer (GStruct ''Config'')) '''' = Some ks
      \<and> set ks = {key. is_key ex_flat_types ''Config'' '''' key}"
    by (rule config_keys_exact [of ex_flat_types ?rank, OF rank]) simp_all
  with ex_address_key show ?thesis by blast
qed

theorem recursive_config_never_ends_witness:
  "structKeys 1000 ex_types (GStruct ''Node'') '''' = None"
proof (rule recursive_config_never_ends)
  have "plain_field ''Next'' (GPointer (GStruct ''Node'')) \<in> set (ex_types ''Node'')"
    by (simp add: ex_types_def)
  then have "nested_in ex_types ''Node'' ''Node''"
    unfolding nested_in_def by (rule bexI [rotated]) (simp add: ex_naming)
  then show "(nested_in ex_types)\<^sup>+\<^sup>+ ''Node'' ''Node''" by blast
qed simp

end
