(* ===== verification/Runner.thy ===== *)
theory Runner
  imports Process Conditions
begin

text \<open>
  The application runner, \<^verbatim>\<open>src/hanami.go\<close>: options and settings, the
  pre-composition integrations with their cleanups, the Fx application (a parameter),
  the startup conditions, admission, the wait for a stop, and the teardown on every
  path.  A run is a function of its environment; besides Go's result and error it
  returns the log of the effects it had, in order.
\<close>

section \<open>Specification, options, settings\<close>

record timeouts =
  to_startup :: int
  to_shutdown :: int

datatype logger = ServiceLogger string | GivenLogger nat

type_synonym cleanup = "context_deadline \<Rightarrow> error"

record 'v prepared =
  pp_cleanup :: "cleanup option"
  pp_values :: "'v list"

record ('c, 'v) integration =
  in_name :: string
  in_prepare :: "context_deadline \<Rightarrow> 'c \<Rightarrow> goerr + 'v prepared"

text \<open>What calling \<^verbatim>\<open>Spec.Modules\<close> does: panic, return nil or return an \<^verbatim>\<open>fx.Option\<close>.\<close>

datatype 'm factory = Panics string | ReturnsNil | Returns 'm

record ('c, 'm) spec =
  sp_name :: string
  sp_load :: "(context_deadline \<Rightarrow> goerr + 'c) option"
  sp_modules :: "('c \<Rightarrow> 'm factory) option"

text \<open>
  The options a caller can pass: \<^verbatim>\<open>Option\<close> has an unexported method, so only the three
  constructors of the package (with possibly nil arguments) and a nil option exist.
\<close>

datatype ('c, 'v) run_option =
    WithIntegration "('c, 'v) integration option"
  | WithTimeouts timeouts
  | WithLogger "logger option"
  | NilOption

record ('c, 'v) run_settings =
  st_integrations :: "('c, 'v) integration list"
  st_timeouts :: timeouts
  st_logger :: logger

definition apply_option :: "('c, 'v) run_option \<Rightarrow> ('c, 'v) run_settings \<Rightarrow> goerr + ('c, 'v) run_settings" where
  "apply_option opt st =
     (case opt of
        NilOption \<Rightarrow> Inl (err_new ''run option is nil'')
      | WithIntegration None \<Rightarrow> Inl (err_new ''integration is nil'')
      | WithIntegration (Some i) \<Rightarrow> Inr (st\<lparr>st_integrations := st_integrations st @ [i]\<rparr>)
      | WithTimeouts t \<Rightarrow>
          (if to_startup t \<le> 0 then Inl (err_new ''startup timeout must be positive'')
           else if to_shutdown t \<le> 0 then Inl (err_new ''shutdown timeout must be positive'')
           else Inr (st\<lparr>st_timeouts := t\<rparr>))
      | WithLogger None \<Rightarrow> Inl (err_new ''logger is nil'')
      | WithLogger (Some l) \<Rightarrow> Inr (st\<lparr>st_logger := l\<rparr>))"

fun apply_options :: "('c, 'v) run_option list \<Rightarrow> ('c, 'v) run_settings \<Rightarrow> goerr + ('c, 'v) run_settings" where
  "apply_options [] st = Inr st"
| "apply_options (opt # opts) st =
     (case apply_option opt st of Inl e \<Rightarrow> Inl e | Inr st' \<Rightarrow> apply_options opts st')"

definition default_settings :: "string \<Rightarrow> ('c, 'v) run_settings" where
  "default_settings name =
     \<lparr>st_integrations = [], st_timeouts = \<lparr>to_startup = 15 * 1000000000, to_shutdown = 30 * 1000000000\<rparr>,
      st_logger = ServiceLogger name\<rparr>"

definition name_error :: "('c, 'v) integration \<Rightarrow> error" where
  "name_error i = (if in_name i = '''' then Some (err_new ''integration name is empty'') else None)"

definition name_duplicate :: "('c, 'v) integration \<Rightarrow> goerr" where
  "name_duplicate i = Errorf ''integration %q is selected more than once'' [AStr (in_name i)]"

definition resolveSettings ::
    "('c, 'm) spec \<Rightarrow> ('c, 'v) run_option list \<Rightarrow> goerr + ('c, 'v) run_settings" where
  "resolveSettings spec opts =
     (if sp_name spec = '''' then Inl (err_new ''application name is empty'')
      else if sp_load spec = None then Inl (err_new ''configuration loader is nil'')
      else if sp_modules spec = None then Inl (err_new ''module factory is nil'')
      else (case apply_options opts (default_settings (sp_name spec)) of
              Inl e \<Rightarrow> Inl e
            | Inr st \<Rightarrow>
                (case scan name_error in_name name_duplicate {} (st_integrations st) of
                   Some e \<Rightarrow> Inl e
                 | None \<Rightarrow> Inr st)))"

section \<open>Effects\<close>

datatype run_event =
    EvLoad
  | EvPrepare string
  | EvModules
  | EvCompose
  | EvStart
  | EvInitialize
  | EvAdmit
  | EvWait
  | EvCloseAdmission
  | EvStop context_deadline
  | EvCleanup string context_deadline

text \<open>
  The environment of a run: the caller's context, the clock readings at which the run
  derives contexts, the Fx
  application (composition error, start, stop), the coordinator Fx populated with the
  arrival order of the conditions' outcomes, and what ends the wait: the stop requests
  made while the application runs and whether the \<^verbatim>\<open>select\<close> took the caller's
  cancellation.
\<close>

record ('v, 'm) run_env =
  ev_ctx :: context_deadline
  ev_now_start :: int
  ev_now_stop :: int
  ev_now_cleanup :: int
  ev_compose :: "'v list \<Rightarrow> 'm \<Rightarrow> error"
  ev_start :: "context_deadline \<Rightarrow> error"
  ev_stop :: "context_deadline \<Rightarrow> error"
  ev_coordinator :: coordinator
  ev_arrivals :: "outcome list"
  ev_requests :: "request list"
  ev_cancelled :: bool

record run_result =
  rr_reason :: stop_reason
  rr_restart :: bool

record run_outcome =
  ro_log :: "run_event list"
  ro_admission :: "admission option"
  ro_result :: run_result
  ro_err :: error

text \<open>A registered cleanup; the name of the integration that registered it is kept for the log.\<close>

type_synonym named_cleanup = "string \<times> cleanup"

section \<open>Integrations and cleanups\<close>

fun prepareIntegrations ::
    "context_deadline \<Rightarrow> 'c \<Rightarrow> ('c, 'v) integration list \<Rightarrow>
     run_event list \<times> named_cleanup list \<times> 'v list \<times> error" where
  "prepareIntegrations ctx config [] = ([], [], [], None)"
| "prepareIntegrations ctx config (i # is) =
     (case in_prepare i ctx config of
        Inl e \<Rightarrow> ([EvPrepare (in_name i)], [], [],
                  Some (Errorf ''prepare integration %s: %w'' [AStr (in_name i), AWrap e]))
      | Inr p \<Rightarrow>
          (let (log, cleanups, values, err) = prepareIntegrations ctx config is
           in (EvPrepare (in_name i) # log,
               (case pp_cleanup p of None \<Rightarrow> cleanups | Some f \<Rightarrow> (in_name i, f) # cleanups),
               pp_values p @ values, err)))"

fun run_cleanups_from ::
    "context_deadline \<Rightarrow> error \<Rightarrow> named_cleanup list \<Rightarrow> run_event list \<times> error" where
  "run_cleanups_from ctx result [] = ([], result)"
| "run_cleanups_from ctx result ((name, f) # cs) =
     (let err = f ctx;
          (log, result') = run_cleanups_from ctx
             (if err \<noteq> None then errors_join [result, err] else result) cs
      in (EvCleanup name ctx # log, result'))"

definition runCleanupsWithContext ::
    "context_deadline \<Rightarrow> named_cleanup list \<Rightarrow> run_event list \<times> error" where
  "runCleanupsWithContext ctx cleanups = run_cleanups_from ctx None (rev cleanups)"

definition runCleanups :: "int \<Rightarrow> int \<Rightarrow> named_cleanup list \<Rightarrow> run_event list \<times> error" where
  "runCleanups now timeout cleanups =
     runCleanupsWithContext (with_timeout now background timeout) cleanups"

definition stopApplication :: "('v, 'm) run_env \<Rightarrow> int \<Rightarrow> run_event list \<times> error" where
  "stopApplication env timeout =
     (let ctx = with_timeout (ev_now_stop env) background timeout
      in ([EvStop ctx], ev_stop env ctx))"

definition buildModules :: "('c \<Rightarrow> 'm factory) \<Rightarrow> 'c \<Rightarrow> goerr + 'm" where
  "buildModules factory config =
     (case factory config of
        Panics msg \<Rightarrow> Inl (Errorf ''compose modules: %v'' [AStr msg])
      | ReturnsNil \<Rightarrow> Inl (err_new ''module factory returned nil'')
      | Returns m \<Rightarrow> Inr m)"

section \<open>Run\<close>

definition startup_failure :: run_result where
  "startup_failure = \<lparr>rr_reason = StopReasonStartupFailure, rr_restart = False\<rparr>"

text \<open>The wait: \<open>None\<close> when neither the caller cancels nor anybody requests a stop.\<close>

definition await_stop :: "('v, 'm) run_env \<Rightarrow> (run_result \<times> error) option" where
  "await_stop env =
     (if ev_cancelled env
        then Some (\<lparr>rr_reason = StopReasonContextCancelled, rr_restart = False\<rparr>, None)
      else (case stop_seen (stop_after (ev_requests env)) of
              None \<Rightarrow> None
            | Some r \<Rightarrow> Some (\<lparr>rr_reason = rq_reason r, rr_restart = rq_restart r\<rparr>, rq_err r)))"

text \<open>
  From the start of the Fx application on, with the settings, the admission and the
  registered cleanups at hand.  \<open>log\<close> is what happened before.
\<close>

definition run_application ::
    "('v, 'm) run_env \<Rightarrow> timeouts \<Rightarrow> context_deadline \<Rightarrow> named_cleanup list \<Rightarrow> run_event list
     \<Rightarrow> run_outcome option" where
  "run_application env t startup cleanups log =
     (let adm = NewAdmission in
      case ev_start env startup of
        Some e \<Rightarrow>
          (let (slog, stopErr) = stopApplication env (to_shutdown t);
               (clog, cleanupErr) = runCleanups (ev_now_cleanup env) (to_shutdown t) cleanups
           in Some \<lparr>ro_log = log @ [EvStart] @ slog @ clog, ro_admission = Some adm,
                ro_result = startup_failure,
                ro_err = errors_join [Some (err_wrap ''start application: %w'' e), stopErr, cleanupErr]\<rparr>)
      | None \<Rightarrow>
          (case snd (Initialize (ev_arrivals env) (ev_coordinator env)) of
             Some e \<Rightarrow>
               (let (slog, stopErr) = stopApplication env (to_shutdown t);
                    (clog, cleanupErr) = runCleanups (ev_now_cleanup env) (to_shutdown t) cleanups
                in Some \<lparr>ro_log = log @ [EvStart, EvInitialize, EvCloseAdmission] @ slog @ clog,
                     ro_admission = Some (Admission_Close adm), ro_result = startup_failure,
                     ro_err = errors_join [Some (err_wrap ''initialize application: %w'' e), stopErr, cleanupErr]\<rparr>)
           | None \<Rightarrow>
               (case await_stop env of
                  None \<Rightarrow> None
                | Some (result, runtimeErr) \<Rightarrow>
                    (let ctx = with_timeout (ev_now_stop env) background (to_shutdown t);
                         stopErr = ev_stop env ctx;
                         (clog, cleanupErr) = runCleanupsWithContext ctx cleanups
                     in Some \<lparr>ro_log = log @ [EvStart, EvInitialize, EvAdmit, EvWait, EvCloseAdmission, EvStop ctx] @ clog,
                          ro_admission = Some (Admission_Close (Admission_Open adm)), ro_result = result,
                          ro_err = errors_join [runtimeErr, stopErr, cleanupErr]\<rparr>))))"

definition startup_context :: "('v, 'm) run_env \<Rightarrow> timeouts \<Rightarrow> context_deadline" where
  "startup_context env t = with_timeout (ev_now_start env) (ev_ctx env) (to_startup t)"

definition startup_error :: "run_event list \<Rightarrow> admission option \<Rightarrow> error \<Rightarrow> run_outcome" where
  "startup_error log adm err =
     \<lparr>ro_log = log, ro_admission = adm, ro_result = startup_failure, ro_err = err\<rparr>"

text \<open>\<open>None\<close>: the run never returns.\<close>

definition Run ::
    "('v, 'm) run_env \<Rightarrow> ('c, 'm) spec \<Rightarrow> ('c, 'v) run_option list \<Rightarrow> run_outcome option" where
  "Run env spec opts =
     (case resolveSettings spec opts of
        Inl e \<Rightarrow> Some (startup_error [] None (Some e))
      | Inr st \<Rightarrow>
          (let t = st_timeouts st;
               startup = startup_context env t
           in case the (sp_load spec) startup of
                Inl e \<Rightarrow> Some (startup_error [EvLoad] None (Some (err_wrap ''load configuration: %w'' e)))
              | Inr config \<Rightarrow>
                  (let (plog, cleanups, values, perr) =
                         prepareIntegrations startup config (st_integrations st);
                       log = EvLoad # plog;
                       (clog, cleanupErr) = runCleanups (ev_now_cleanup env) (to_shutdown t) cleanups
                   in case perr of
                        Some e \<Rightarrow> Some (startup_error (log @ clog) None (errors_join [Some e, cleanupErr]))
                      | None \<Rightarrow>
                          (case buildModules (the (sp_modules spec)) config of
                             Inl e \<Rightarrow> Some (startup_error (log @ [EvModules] @ clog) (Some NewAdmission)
                                         (errors_join [Some e, cleanupErr]))
                           | Inr modules \<Rightarrow>
                               (case ev_compose env values modules of
                                  Some e \<Rightarrow> Some (startup_error (log @ [EvModules, EvCompose] @ clog) (Some NewAdmission)
                                              (errors_join [Some (err_wrap ''compose application: %w'' e), cleanupErr]))
                                | None \<Rightarrow>
                                    run_application env t startup cleanups (log @ [EvModules, EvCompose]))))))"

definition exitCode :: "run_result \<Rightarrow> error \<Rightarrow> nat" where
  "exitCode result err =
     (if err = None \<and> \<not> rr_restart result then 0
      else if rr_reason result = StopReasonStartupFailure then 2
      else 1)"

text \<open>\<^verbatim>\<open>Main\<close>: the exit status of the process, when the run returns.\<close>

definition Main :: "('v, 'm) run_env \<Rightarrow> ('c, 'm) spec \<Rightarrow> ('c, 'v) run_option list \<Rightarrow> nat option" where
  "Main env spec opts = map_option (\<lambda>ro. exitCode (ro_result ro) (ro_err ro)) (Run env spec opts)"

text \<open>\<^verbatim>\<open>testkit.Run\<close> is \<^verbatim>\<open>Run\<close> under the caller's context.\<close>

definition testkit_Run ::
    "('v, 'm) run_env \<Rightarrow> ('c, 'm) spec \<Rightarrow> ('c, 'v) run_option list \<Rightarrow> run_outcome option" where
  "testkit_Run env spec opts = Run env spec opts"

section \<open>What a run does, path by path\<close>

abbreviation cleanup_log :: "context_deadline \<Rightarrow> named_cleanup list \<Rightarrow> run_event list" where
  "cleanup_log ctx cs \<equiv> map (\<lambda>(n, f). EvCleanup n ctx) (rev cs)"

definition cleanup_error :: "context_deadline \<Rightarrow> named_cleanup list \<Rightarrow> error" where
  "cleanup_error ctx cs = snd (runCleanupsWithContext ctx cs)"

lemma run_cleanups_from_log:
  "fst (run_cleanups_from ctx res cs) = map (\<lambda>(n, f). EvCleanup n ctx) cs"
  by (induction ctx res cs rule: run_cleanups_from.induct) (auto simp: Let_def split: prod.splits)

lemma runCleanupsWithContext_eq:
  "runCleanupsWithContext ctx cs = (cleanup_log ctx cs, cleanup_error ctx cs)"
  by (simp add: runCleanupsWithContext_def cleanup_error_def prod_eq_iff run_cleanups_from_log)

lemma run_cleanups_from_err:
  "snd (run_cleanups_from ctx res ((n, f) # cs)) =
   snd (run_cleanups_from ctx (if f ctx \<noteq> None then errors_join [res, f ctx] else res) cs)"
  by (simp add: Let_def split: prod.splits)

lemma run_cleanups_from_keeps:
  "error_is res t \<Longrightarrow> error_is (snd (run_cleanups_from ctx res cs)) t"
proof (induction cs arbitrary: res)
  case (Cons c cs)
  obtain n f where c: "c = (n, f)" by (cases c)
  have "error_is (if f ctx \<noteq> None then errors_join [res, f ctx] else res) t"
    using Cons.prems errors_join_is [of res "[res, f ctx]"] by simp
  then show ?case unfolding c run_cleanups_from_err by (rule Cons.IH)
qed simp

lemma run_cleanups_from_has:
  assumes "(n, f) \<in> set cs" and "f ctx = Some e" and "errors_is e t"
  shows "error_is (snd (run_cleanups_from ctx res cs)) t"
  using assms(1)
proof (induction cs arbitrary: res)
  case (Cons c cs)
  obtain m g where c: "c = (m, g)" by (cases c)
  let ?res = "if g ctx \<noteq> None then errors_join [res, g ctx] else res"
  have "error_is (snd (run_cleanups_from ctx ?res cs)) t"
  proof (cases "(n, f) = c")
    case True
    have "error_is (f ctx) t" using assms by simp
    with True c assms(2) have "error_is ?res t"
      using errors_join_is [of "f ctx" "[res, g ctx]" t] by simp
    then show ?thesis by (rule run_cleanups_from_keeps)
  next
    case False
    with Cons.prems have "(n, f) \<in> set cs" by auto
    then show ?thesis by (rule Cons.IH)
  qed
  then show ?case unfolding c run_cleanups_from_err .
qed simp

lemma cleanup_error_is:
  "(n, f) \<in> set cs \<Longrightarrow> f ctx = Some e \<Longrightarrow> errors_is e t \<Longrightarrow> error_is (cleanup_error ctx cs) t"
  unfolding cleanup_error_def runCleanupsWithContext_def
  by (rule run_cleanups_from_has [of n f]) simp_all

text \<open>The integrations a run prepared, and those of them that registered a cleanup.\<close>

definition prepared_ok :: "context_deadline \<Rightarrow> 'c \<Rightarrow> ('c, 'v) integration \<Rightarrow> bool" where
  "prepared_ok ctx config i = (case in_prepare i ctx config of Inl _ \<Rightarrow> False | Inr _ \<Rightarrow> True)"

definition has_cleanup :: "context_deadline \<Rightarrow> 'c \<Rightarrow> ('c, 'v) integration \<Rightarrow> bool" where
  "has_cleanup ctx config i =
     (case in_prepare i ctx config of Inl _ \<Rightarrow> False | Inr p \<Rightarrow> pp_cleanup p \<noteq> None)"

definition acquired :: "context_deadline \<Rightarrow> 'c \<Rightarrow> ('c, 'v) integration list \<Rightarrow> string list" where
  "acquired ctx config is =
     map in_name (filter (has_cleanup ctx config) (takeWhile (prepared_ok ctx config) is))"

lemma prepareIntegrations_acquired:
  "prepareIntegrations ctx config is = (log, cs, vs, err) \<Longrightarrow> map fst cs = acquired ctx config is"
proof (induction ctx config "is" arbitrary: log cs vs err rule: prepareIntegrations.induct)
  case (2 ctx config i "is")
  show ?case
  proof (cases "in_prepare i ctx config")
    case (Inl e)
    with "2.prems" show ?thesis by (auto simp: acquired_def prepared_ok_def)
  next
    case (Inr p)
    obtain l c v e where rec: "prepareIntegrations ctx config is = (l, c, v, e)"
      by (metis prod_cases4)
    with Inr "2.IH" have "map fst c = acquired ctx config is" by blast
    with Inr rec "2.prems" show ?thesis
      by (auto simp: acquired_def prepared_ok_def has_cleanup_def split: option.splits)
  qed
qed (simp add: acquired_def)

lemma prepareIntegrations_log:
  "prepareIntegrations ctx config is = (log, cs, vs, err) \<Longrightarrow>
   (\<exists>n. log = take n (map (EvPrepare \<circ> in_name) is)) \<and>
   (err = None \<longrightarrow> log = map (EvPrepare \<circ> in_name) is)"
proof (induction ctx config "is" arbitrary: log cs vs err rule: prepareIntegrations.induct)
  case (2 ctx config i "is")
  show ?case
  proof (cases "in_prepare i ctx config")
    case (Inl e)
    with "2.prems" show ?thesis by (auto intro!: exI [of _ 1])
  next
    case (Inr p)
    obtain l c v e where rec: "prepareIntegrations ctx config is = (l, c, v, e)"
      by (metis prod_cases4)
    with Inr "2.IH" obtain n where n: "l = take n (map (EvPrepare \<circ> in_name) is)"
      and full: "e = None \<longrightarrow> l = map (EvPrepare \<circ> in_name) is" by blast
    have "log = EvPrepare (in_name i) # l" and "err = e"
      using Inr rec "2.prems" by auto
    with n full have "log = take (Suc n) (map (EvPrepare \<circ> in_name) (i # is))"
      and "err = None \<longrightarrow> log = map (EvPrepare \<circ> in_name) (i # is)" by auto
    then show ?thesis by blast
  qed
qed simp

section \<open>The plan of a startup\<close>

text \<open>
  What a startup is supposed to do, stated apart from \<^verbatim>\<open>Run\<close>: its phases in their order,
  each with the error it gives in this environment.  A startup reaches the phases up to and
  including the first that fails; the error of that phase is what startup fails with.
\<close>

fun reached :: "('e \<times> error) list \<Rightarrow> 'e list" where
  "reached [] = []"
| "reached ((ev, err) # ps) = ev # (if err = None then reached ps else [])"

fun first_failure :: "('e \<times> error) list \<Rightarrow> error" where
  "first_failure [] = None"
| "first_failure ((ev, err) # ps) = (if err = None then first_failure ps else err)"

definition prepare_failure :: "context_deadline \<Rightarrow> 'c \<Rightarrow> ('c, 'v) integration \<Rightarrow> error" where
  "prepare_failure ctx config i = (case in_prepare i ctx config of Inl e \<Rightarrow> Some e | Inr p \<Rightarrow> None)"

definition prepared_values :: "context_deadline \<Rightarrow> 'c \<Rightarrow> ('c, 'v) integration \<Rightarrow> 'v list" where
  "prepared_values ctx config i = (case in_prepare i ctx config of Inl e \<Rightarrow> [] | Inr p \<Rightarrow> pp_values p)"

definition prepare_plan ::
    "context_deadline \<Rightarrow> 'c \<Rightarrow> ('c, 'v) integration list \<Rightarrow> (run_event \<times> error) list" where
  "prepare_plan ctx config is = map (\<lambda>i. (EvPrepare (in_name i), prepare_failure ctx config i)) is"

definition module_plan ::
    "('v, 'm) run_env \<Rightarrow> context_deadline \<Rightarrow> 'v list \<Rightarrow> goerr + 'm \<Rightarrow> (run_event \<times> error) list" where
  "module_plan env ctx values built =
     (case built of
        Inl e \<Rightarrow> [(EvModules, Some e)]
      | Inr m \<Rightarrow>
          [(EvModules, None), (EvCompose, ev_compose env values m), (EvStart, ev_start env ctx),
           (EvInitialize, snd (Initialize (ev_arrivals env) (ev_coordinator env))),
           (EvAdmit, None), (EvWait, None)])"

definition startup_plan ::
    "('v, 'm) run_env \<Rightarrow> ('c, 'm) spec \<Rightarrow> ('c, 'v) run_settings \<Rightarrow> (run_event \<times> error) list" where
  "startup_plan env spec st =
     (let ctx = startup_context env (st_timeouts st) in
      case the (sp_load spec) ctx of
        Inl e \<Rightarrow> [(EvLoad, Some e)]
      | Inr config \<Rightarrow>
          (EvLoad, None) # prepare_plan ctx config (st_integrations st)
            @ module_plan env ctx
                (concat (map (prepared_values ctx config) (st_integrations st)))
                (buildModules (the (sp_modules spec)) config))"

lemma prepare_plan_ok:
  "prepareIntegrations ctx config is = (log, cs, vs, None) \<Longrightarrow>
   vs = concat (map (prepared_values ctx config) is)
   \<and> reached (prepare_plan ctx config is @ rest) = log @ reached rest
   \<and> first_failure (prepare_plan ctx config is @ rest) = first_failure rest"
proof (induction ctx config "is" arbitrary: log cs vs rule: prepareIntegrations.induct)
  case (2 ctx config i "is")
  then show ?case
    by (cases "in_prepare i ctx config")
      (auto simp: prepare_plan_def prepare_failure_def prepared_values_def Let_def split: prod.splits)
qed (simp add: prepare_plan_def)

lemma prepare_plan_fails:
  "prepareIntegrations ctx config is = (log, cs, vs, Some e) \<Longrightarrow>
   reached (prepare_plan ctx config is @ rest) = log
   \<and> (\<exists>cause. first_failure (prepare_plan ctx config is @ rest) = Some cause
        \<and> (\<forall>t. errors_is cause t \<longrightarrow> errors_is e t))"
proof (induction ctx config "is" arbitrary: log cs vs rule: prepareIntegrations.induct)
  case (2 ctx config i "is")
  then show ?case
    by (cases "in_prepare i ctx config")
      (auto simp: prepare_plan_def prepare_failure_def Let_def split: prod.splits)
qed simp

text \<open>The registered cleanup of every integration that was reached and prepared is kept.\<close>

lemma prepareIntegrations_registers:
  "prepareIntegrations ctx config is = (log, cs, vs, err) \<Longrightarrow>
   i \<in> set (takeWhile (\<lambda>j. prepare_failure ctx config j = None) is) \<Longrightarrow>
   in_prepare i ctx config = Inr p \<Longrightarrow> pp_cleanup p = Some f \<Longrightarrow> (in_name i, f) \<in> set cs"
proof (induction ctx config "is" arbitrary: log cs vs err rule: prepareIntegrations.induct)
  case (2 ctx config j "is")
  then show ?case
    by (cases "in_prepare j ctx config")
      (auto simp: prepare_failure_def Let_def split: prod.splits if_splits option.splits)
qed simp

text \<open>The plan and the first failure of a startup that gets past the integrations.\<close>

lemma startup_plan_load:
  "the (sp_load spec) (startup_context env (st_timeouts st)) = Inl e \<Longrightarrow>
   startup_plan env spec st = [(EvLoad, Some e)]"
  by (simp add: startup_plan_def Let_def)

lemma startup_plan_prepare:
  assumes "the (sp_load spec) (startup_context env (st_timeouts st)) = Inr config"
    and "prepareIntegrations (startup_context env (st_timeouts st)) config (st_integrations st)
         = (plog, cs, vs, Some e)"
  shows "reached (startup_plan env spec st) = EvLoad # plog"
    and "\<exists>cause. first_failure (startup_plan env spec st) = Some cause
           \<and> (\<forall>t. errors_is cause t \<longrightarrow> errors_is e t)"
  using prepare_plan_fails [OF assms(2)] assms(1) by (simp_all add: startup_plan_def Let_def)

lemma startup_plan_modules:
  assumes "the (sp_load spec) (startup_context env (st_timeouts st)) = Inr config"
    and "prepareIntegrations (startup_context env (st_timeouts st)) config (st_integrations st)
         = (plog, cs, vs, None)"
  defines "rest \<equiv> module_plan env (startup_context env (st_timeouts st)) vs
                    (buildModules (the (sp_modules spec)) config)"
  shows "reached (startup_plan env spec st) = EvLoad # plog @ reached rest"
    and "first_failure (startup_plan env spec st) = first_failure rest"
  using prepare_plan_ok [OF assms(2)] assms(1) by (simp_all add: startup_plan_def rest_def Let_def)

lemma module_plan_simps [simp]:
  "module_plan env ctx vs (Inl e) = [(EvModules, Some e)]"
  "module_plan env ctx vs (Inr m) =
     [(EvModules, None), (EvCompose, ev_compose env vs m), (EvStart, ev_start env ctx),
      (EvInitialize, snd (Initialize (ev_arrivals env) (ev_coordinator env))),
      (EvAdmit, None), (EvWait, None)]"
  by (simp_all add: module_plan_def)

lemma Run_elim:
  assumes "Run env spec opts = Some ro"
  obtains
    (settings) e where "resolveSettings spec opts = Inl e" "ro = startup_error [] None (Some e)"
  | (load) st e where "resolveSettings spec opts = Inr st"
      "the (sp_load spec) (startup_context env (st_timeouts st)) = Inl e"
      "ro = startup_error [EvLoad] None (Some (err_wrap ''load configuration: %w'' e))"
  | (prepare) st config plog cs vs e ctx where "resolveSettings spec opts = Inr st"
      "the (sp_load spec) (startup_context env (st_timeouts st)) = Inr config"
      "prepareIntegrations (startup_context env (st_timeouts st)) config (st_integrations st)
         = (plog, cs, vs, Some e)"
      "ctx = Some (ev_now_cleanup env + to_shutdown (st_timeouts st))"
      "ro = startup_error (EvLoad # plog @ cleanup_log ctx cs) None
              (errors_join [Some e, cleanup_error ctx cs])"
  | (compose) st config plog cs vs e ctx mods cause where "resolveSettings spec opts = Inr st"
      "the (sp_load spec) (startup_context env (st_timeouts st)) = Inr config"
      "prepareIntegrations (startup_context env (st_timeouts st)) config (st_integrations st)
         = (plog, cs, vs, None)"
      "ctx = Some (ev_now_cleanup env + to_shutdown (st_timeouts st))"
      "mods = [EvModules] \<or> mods = [EvModules, EvCompose]"
      "reached (startup_plan env spec st) = EvLoad # plog @ mods"
      "first_failure (startup_plan env spec st) = Some cause" "\<forall>t. errors_is cause t \<longrightarrow> errors_is e t"
      "ro = startup_error (EvLoad # plog @ mods @ cleanup_log ctx cs) (Some NewAdmission)
              (errors_join [Some e, cleanup_error ctx cs])"
  | (start) st config plog cs vs e sctx ctx inits adm cause where "resolveSettings spec opts = Inr st"
      "the (sp_load spec) (startup_context env (st_timeouts st)) = Inr config"
      "prepareIntegrations (startup_context env (st_timeouts st)) config (st_integrations st)
         = (plog, cs, vs, None)"
      "sctx = Some (ev_now_stop env + to_shutdown (st_timeouts st))"
      "ctx = Some (ev_now_cleanup env + to_shutdown (st_timeouts st))"
      "inits = [EvStart] \<or> inits = [EvStart, EvInitialize, EvCloseAdmission]"
      "reached (startup_plan env spec st) =
         EvLoad # plog @ [EvModules, EvCompose] @ takeWhile (\<lambda>ev. ev \<noteq> EvCloseAdmission) inits"
      "first_failure (startup_plan env spec st) = Some cause" "\<forall>t. errors_is cause t \<longrightarrow> errors_is e t"
      "\<not> Admission_IsOpen adm"
      "ro = startup_error (EvLoad # plog @ [EvModules, EvCompose] @ inits @ EvStop sctx # cleanup_log ctx cs)
              (Some adm) (errors_join [Some e, ev_stop env sctx, cleanup_error ctx cs])"
  | (stopped) st config plog cs vs ctx result runtimeErr where "resolveSettings spec opts = Inr st"
      "the (sp_load spec) (startup_context env (st_timeouts st)) = Inr config"
      "prepareIntegrations (startup_context env (st_timeouts st)) config (st_integrations st)
         = (plog, cs, vs, None)"
      "ctx = Some (ev_now_stop env + to_shutdown (st_timeouts st))"
      "ev_start env (startup_context env (st_timeouts st)) = None"
      "snd (Initialize (ev_arrivals env) (ev_coordinator env)) = None"
      "await_stop env = Some (result, runtimeErr)"
      "reached (startup_plan env spec st) =
         EvLoad # plog @ [EvModules, EvCompose, EvStart, EvInitialize, EvAdmit, EvWait]"
      "first_failure (startup_plan env spec st) = None"
      "ro = \<lparr>ro_log = EvLoad # plog @ [EvModules, EvCompose, EvStart, EvInitialize, EvAdmit, EvWait,
                EvCloseAdmission, EvStop ctx] @ cleanup_log ctx cs,
             ro_admission = Some (Admission_Close (Admission_Open NewAdmission)), ro_result = result,
             ro_err = errors_join [runtimeErr, ev_stop env ctx, cleanup_error ctx cs]\<rparr>"
proof -
  show thesis
  proof (cases "resolveSettings spec opts")
    case (Inl e)
    with assms show thesis by (intro settings) (auto simp: Run_def)
  next
    case st: (Inr st)
    let ?ctx = "startup_context env (st_timeouts st)"
    show thesis
    proof (cases "the (sp_load spec) ?ctx")
      case (Inl e)
      with assms st show thesis by (intro load) (auto simp: Run_def Let_def)
    next
      case config: (Inr config)
      obtain plog cs vs perr where prep:
        "prepareIntegrations ?ctx config (st_integrations st) = (plog, cs, vs, perr)"
        by (metis prod_cases4)
      note run = assms [unfolded Run_def, simplified Let_def runCleanups_def runCleanupsWithContext_eq,
          simplified st config prep sum.case prod.case with_timeout_background]
      show thesis
      proof (cases perr)
        case (Some e)
        show thesis
          by (rule prepare [OF st config prep [unfolded Some] refl]) (use run Some in simp)
      next
        case None
        note prep = prep [unfolded None]
        note plan = startup_plan_modules [OF config prep]
        show thesis
        proof (cases "buildModules (the (sp_modules spec)) config")
          case (Inl e)
          show thesis
            by (rule compose [OF st config prep refl, of "[EvModules]" e e])
              (use run None Inl plan in simp_all)
        next
          case mods: (Inr modules)
          show thesis
          proof (cases "ev_compose env vs modules")
            case (Some e)
            show thesis
              by (rule compose [OF st config prep refl, of "[EvModules, EvCompose]"
                    e "err_wrap ''compose application: %w'' e"])
                (use run None mods Some plan in simp_all)
          next
            case composed: None
            note app = run [simplified None mods composed option.case sum.case, unfolded run_application_def,
                simplified Let_def stopApplication_def runCleanups_def runCleanupsWithContext_eq
                  prod.case with_timeout_background]
            show thesis
            proof (cases "ev_start env ?ctx")
              case (Some e)
              show thesis
                by (rule start [OF st config prep refl refl, of "[EvStart]" e
                      "err_wrap ''start application: %w'' e" NewAdmission])
                  (use app mods composed Some plan in \<open>simp_all add: startup_error_def\<close>)
            next
              case started: None
              show thesis
              proof (cases "snd (Initialize (ev_arrivals env) (ev_coordinator env))")
                case (Some e)
                show thesis
                  by (rule start [OF st config prep refl refl, of "[EvStart, EvInitialize, EvCloseAdmission]" e
                        "err_wrap ''initialize application: %w'' e" "Admission_Close NewAdmission"])
                    (use app mods composed started Some plan in \<open>simp_all add: startup_error_def\<close>)
              next
                case inited: None
                with app started obtain result runtimeErr where "await_stop env = Some (result, runtimeErr)"
                  by (cases "await_stop env") auto
                with app mods composed started inited plan show thesis
                  by (intro stopped [OF st config prep refl started inited]) auto
              qed
            qed
          qed
        qed
      qed
    qed
  qed
qed

end
