(* ===== verification/Runner_Props.thy ===== *)
theory Runner_Props
  imports Runner
begin

text \<open>
  The properties of \<^verbatim>\<open>hanami.Run\<close>: the phases happen in order and admission opens
  only after all of them, cleanups run exactly once and newest first on every path,
  admission is closed on return, a failed startup is reported as one, root causes survive,
  what the shutdown deadlines are, and when a run returns at all.
\<close>

section \<open>Phases and teardown\<close>

fun is_teardown :: "run_event \<Rightarrow> bool" where
  "is_teardown EvCloseAdmission = True"
| "is_teardown (EvStop c) = True"
| "is_teardown (EvCleanup n c) = True"
| "is_teardown _ = False"

definition startup_phases :: "('c, 'v) run_settings \<Rightarrow> run_event list" where
  "startup_phases st =
     EvLoad # map (EvPrepare \<circ> in_name) (st_integrations st)
       @ [EvModules, EvCompose, EvStart, EvInitialize, EvAdmit, EvWait]"

fun cleaned :: "run_event list \<Rightarrow> string list" where
  "cleaned [] = []"
| "cleaned (EvCleanup n c # es) = n # cleaned es"
| "cleaned (e # es) = cleaned es"

lemma cleaned_append [simp]: "cleaned (xs @ ys) = cleaned xs @ cleaned ys"
  by (induction xs rule: cleaned.induct) auto

lemma cleaned_prepares [simp]: "cleaned (map (EvPrepare \<circ> f) xs) = []"
  by (induction xs) auto

lemma cleaned_cleanup_log [simp]: "cleaned (cleanup_log ctx cs) = rev (map fst cs)"
proof -
  have "cleaned (map (\<lambda>(n, f). EvCleanup n ctx) xs) = map fst xs" for xs :: "named_cleanup list"
    by (induction xs) auto
  then show ?thesis by (simp add: rev_map)
qed

lemma teardown_cleanup_log: "\<forall>e \<in> set (cleanup_log ctx cs). is_teardown e"
  by auto

lemma prepareIntegrations_all_ok:
  "prepareIntegrations ctx config is = (log, cs, vs, None) \<Longrightarrow> \<forall>i \<in> set is. prepared_ok ctx config i"
proof (induction ctx config "is" arbitrary: log cs vs rule: prepareIntegrations.induct)
  case (2 ctx config i "is")
  then show ?case
    by (cases "in_prepare i ctx config") (auto simp: prepared_ok_def Let_def split: prod.splits)
qed simp

lemma prepare_log_cleaned:
  "prepareIntegrations ctx config is = (log, cs, vs, err) \<Longrightarrow> cleaned log = []"
  using prepareIntegrations_log [of ctx config "is" log cs vs err]
  by (metis cleaned_prepares take_map)

lemma prepare_log_no_admit:
  "prepareIntegrations ctx config is = (log, cs, vs, err) \<Longrightarrow>
   EvAdmit \<notin> set log \<and> EvWait \<notin> set log \<and> EvStart \<notin> set log \<and> (\<forall>c. EvStop c \<notin> set log)
   \<and> (\<forall>n c. EvCleanup n c \<notin> set log)"
  using prepareIntegrations_log [of ctx config "is" log cs vs err]
  by (auto dest: in_set_takeD)

lemma phases_prefix:
  assumes "log = map (EvPrepare \<circ> in_name) (st_integrations st)"
    and "xs = take k [EvModules, EvCompose, EvStart, EvInitialize, EvAdmit, EvWait]"
  shows "EvLoad # log @ xs = take (Suc (length (st_integrations st) + k)) (startup_phases st)"
  using assms by (simp add: startup_phases_def)

lemma phases_prefix_prepare:
  assumes "plog = take n (map (EvPrepare \<circ> in_name) (st_integrations st))"
  shows "EvLoad # plog = take (Suc (min n (length (st_integrations st)))) (startup_phases st)"
proof -
  let ?m = "min n (length (st_integrations st))"
  have "plog = take ?m (map (EvPrepare \<circ> in_name) (st_integrations st))"
    using assms by (metis length_map min.commute take_take take_all_iff order_refl)
  then show ?thesis by (simp add: startup_phases_def)
qed

lemma plan_is_prefix: "\<exists>n. reached (startup_plan env spec st) = take n (startup_phases st)"
proof (cases "the (sp_load spec) (startup_context env (st_timeouts st))")
  case (Inl e)
  then show ?thesis by (intro exI [of _ 1]) (simp add: startup_plan_load startup_phases_def)
next
  case (Inr config)
  obtain plog cs vs err where prep: "prepareIntegrations (startup_context env (st_timeouts st)) config
      (st_integrations st) = (plog, cs, vs, err)" by (metis prod_cases4)
  note log = prepareIntegrations_log [OF prep]
  show ?thesis
  proof (cases err)
    case (Some e)
    from log obtain n where "plog = take n (map (EvPrepare \<circ> in_name) (st_integrations st))" by blast
    from phases_prefix_prepare [OF this] show ?thesis
      using startup_plan_prepare(1) [OF Inr prep [unfolded Some]] by auto
  next
    case None
    let ?rest = "module_plan env (startup_context env (st_timeouts st)) vs
                   (buildModules (the (sp_modules spec)) config)"
    have "\<exists>k. reached ?rest = take k [EvModules, EvCompose, EvStart, EvInitialize, EvAdmit, EvWait]"
      by (rule exI [of _ "length (reached ?rest)"]) (simp add: module_plan_def split: sum.split)
    then obtain k where "reached ?rest = take k [EvModules, EvCompose, EvStart, EvInitialize, EvAdmit, EvWait]" ..
    from phases_prefix [OF _ this] log None show ?thesis
      using startup_plan_modules(1) [OF Inr prep [unfolded None]] by auto
  qed
qed

text \<open>The log is what the plan reaches, then teardown.\<close>

lemma Run_reached:
  assumes "Run env spec opts = Some ro" and "resolveSettings spec opts = Inr st"
  shows "\<exists>teardown. ro_log ro = reached (startup_plan env spec st) @ teardown
           \<and> (\<forall>e \<in> set teardown. is_teardown e)"
  using assms(1)
proof (cases rule: Run_elim)
  case (load st' e)
  with assms(2) show ?thesis by (simp add: startup_error_def startup_plan_load)
next
  case (prepare st' config plog cs vs e ctx)
  with assms(2) startup_plan_prepare(1) [OF prepare(2,3)] show ?thesis
    using teardown_cleanup_log [of ctx cs] by (simp add: startup_error_def)
next
  case (compose st' config plog cs vs e ctx mods cause)
  with assms(2) show ?thesis
    using teardown_cleanup_log [of ctx cs] by (simp add: startup_error_def)
next
  case (start st' config plog cs vs e sctx ctx inits adm cause)
  with assms(2) show ?thesis
    using teardown_cleanup_log [of ctx cs] by (auto simp: startup_error_def)
next
  case (stopped st' config plog cs vs ctx result runtimeErr)
  with assms(2) show ?thesis
    using teardown_cleanup_log [of ctx cs] by simp
qed (use assms in simp)

text \<open>The first failure of the plan is found in the error of the run.\<close>

lemma Run_first_failure:
  assumes "Run env spec opts = Some ro" and "resolveSettings spec opts = Inr st"
    and "first_failure (startup_plan env spec st) = Some e" and "errors_is e t"
  shows "error_is (ro_err ro) t \<and> EvAdmit \<notin> set (ro_log ro)"
  using assms(1)
proof (cases rule: Run_elim)
  case (load st' e')
  with assms show ?thesis by (simp add: startup_error_def startup_plan_load)
next
  case (prepare st' config plog cs vs e' ctx)
  with assms startup_plan_prepare(2) [OF prepare(2,3)] have "errors_is e' t" by auto
  moreover have "EvAdmit \<notin> set plog" using prepare_log_no_admit [OF prepare(3)] by simp
  ultimately show ?thesis
    using prepare(5) errors_join_is [of "Some e'" "[Some e', cleanup_error ctx cs]" t]
    by (auto simp: startup_error_def)
next
  case (compose st' config plog cs vs e' ctx mods cause)
  with assms have "errors_is e' t" by simp
  moreover have "EvAdmit \<notin> set plog" using prepare_log_no_admit [OF compose(3)] by simp
  ultimately show ?thesis
    using compose(5,9) errors_join_is [of "Some e'" "[Some e', cleanup_error ctx cs]" t]
    by (auto simp: startup_error_def)
next
  case (start st' config plog cs vs e' sctx ctx inits adm cause)
  with assms have "errors_is e' t" by simp
  moreover have "EvAdmit \<notin> set plog" using prepare_log_no_admit [OF start(3)] by simp
  ultimately show ?thesis
    using start(6,11) errors_join_is [of "Some e'" "[Some e', ev_stop env sctx, cleanup_error ctx cs]" t]
    by (auto simp: startup_error_def)
qed (use assms in simp_all)

lemma Run_admits:
  assumes "Run env spec opts = Some ro" and "resolveSettings spec opts = Inr st"
    and "first_failure (startup_plan env spec st) = None"
  shows "EvAdmit \<in> set (ro_log ro)"
  using assms(1)
proof (cases rule: Run_elim)
  case (prepare st' config plog cs vs e' ctx)
  with assms startup_plan_prepare(2) [OF prepare(2,3)] show ?thesis by simp
qed (use assms in \<open>simp_all add: startup_plan_load\<close>)

text \<open>Every cleanup in the log ran under one context, the error of which is joined.\<close>

lemma Run_cleanup_error:
  assumes "Run env spec opts = Some ro" and "resolveSettings spec opts = Inr st"
    and "the (sp_load spec) (startup_context env (st_timeouts st)) = Inr config"
    and "i \<in> set (takeWhile (prepared_ok (startup_context env (st_timeouts st)) config) (st_integrations st))"
    and "in_prepare i (startup_context env (st_timeouts st)) config = Inr p" and "pp_cleanup p = Some f"
    and "EvCleanup (in_name i) ctx \<in> set (ro_log ro)" and "f ctx = Some e" and "errors_is e t"
  shows "error_is (ro_err ro) t"
proof -
  let ?s = "startup_context env (st_timeouts st)"
  have "prepared_ok ?s config = (\<lambda>j. prepare_failure ?s config j = None)"
    by (auto simp: prepared_ok_def prepare_failure_def fun_eq_iff split: sum.splits)
  note i = assms(4) [unfolded this]
  have registered: "(in_name i, f) \<in> set cs"
    if "prepareIntegrations ?s config (st_integrations st) = (plog, cs, vs, err)" for plog cs vs err
    using prepareIntegrations_registers [OF that i assms(5,6)] .
  note found = cleanup_error_is [OF registered assms(8,9)]
  show ?thesis
    using assms(1)
  proof (cases rule: Run_elim)
    case (prepare st' config' plog cs vs e' ctx')
    with assms prepare_log_no_admit [OF prepare(3)] have "ctx' = ctx"
      by (auto simp: startup_error_def)
    moreover have "error_is (cleanup_error ctx cs) t"
      using found prepare assms(2,3) by auto
    ultimately show ?thesis
      using prepare(5) errors_join_is [of "cleanup_error ctx cs" "[Some e', cleanup_error ctx cs]" t]
      by (simp add: startup_error_def)
  next
    case (compose st' config' plog cs vs e' ctx' mods cause)
    with assms prepare_log_no_admit [OF compose(3)] have "ctx' = ctx"
      by (auto simp: startup_error_def)
    moreover have "error_is (cleanup_error ctx cs) t"
      using found compose assms(2,3) by auto
    ultimately show ?thesis
      using compose(9) errors_join_is [of "cleanup_error ctx cs" "[Some e', cleanup_error ctx cs]" t]
      by (simp add: startup_error_def)
  next
    case (start st' config' plog cs vs e' sctx ctx' inits adm cause)
    with assms prepare_log_no_admit [OF start(3)] have "ctx' = ctx"
      by (auto simp: startup_error_def)
    moreover have "error_is (cleanup_error ctx cs) t"
      using found start assms(2,3) by auto
    ultimately show ?thesis
      using start(11) errors_join_is [of "cleanup_error ctx cs" "[Some e', ev_stop env sctx, cleanup_error ctx cs]" t]
      by (simp add: startup_error_def)
  next
    case (stopped st' config' plog cs vs ctx' result runtimeErr)
    with assms prepare_log_no_admit [OF stopped(3)] have "ctx' = ctx" by auto
    moreover have "error_is (cleanup_error ctx cs) t"
      using found stopped assms(2,3) by auto
    ultimately show ?thesis
      using stopped(10) errors_join_is [of "cleanup_error ctx cs" "[runtimeErr, ev_stop env ctx, cleanup_error ctx cs]" t]
      by simp
  qed (use assms in \<open>simp_all add: startup_error_def\<close>)
qed

lemma Run_stop_error:
  assumes "Run env spec opts = Some ro" and "EvStop ctx \<in> set (ro_log ro)"
    and "ev_stop env ctx = Some e" and "errors_is e t"
  shows "error_is (ro_err ro) t"
  using assms(1)
proof (cases rule: Run_elim)
  case (prepare st config plog cs vs e' ctx')
  with assms prepare_log_no_admit [OF prepare(3)] show ?thesis by (auto simp: startup_error_def)
next
  case (compose st config plog cs vs e' ctx' mods cause)
  with assms prepare_log_no_admit [OF compose(3)] show ?thesis by (auto simp: startup_error_def)
next
  case (start st config plog cs vs e' sctx ctx' inits adm cause)
  with assms prepare_log_no_admit [OF start(3)] have "sctx = ctx" by (auto simp: startup_error_def)
  with start(11) assms errors_join_is [of "Some e" "[Some e', Some e, cleanup_error ctx' cs]" t]
  show ?thesis by (simp add: startup_error_def)
next
  case (stopped st config plog cs vs ctx' result runtimeErr)
  with assms prepare_log_no_admit [OF stopped(3)] have "ctx' = ctx" by auto
  with stopped(10) assms errors_join_is [of "Some e" "[runtimeErr, Some e, cleanup_error ctx cs]" t]
  show ?thesis by simp
qed (use assms in \<open>simp_all add: startup_error_def\<close>)

lemma Run_request_error:
  assumes "Run env spec opts = Some ro" and "EvAdmit \<in> set (ro_log ro)"
  obtains result runtimeErr where "await_stop env = Some (result, runtimeErr)" and "ro_result ro = result"
    and "\<And>t. error_is runtimeErr t \<Longrightarrow> error_is (ro_err ro) t"
  using assms(1)
proof (cases rule: Run_elim)
  case (stopped st config plog cs vs ctx result runtimeErr)
  show ?thesis
  proof (rule that [OF stopped(7)])
    show "ro_result ro = result" by (simp add: stopped(10))
    show "error_is (ro_err ro) t" if "error_is runtimeErr t" for t
      using errors_join_is [OF _ that, of "[runtimeErr, ev_stop env ctx, cleanup_error ctx cs]"]
      by (simp add: stopped(10))
  qed
qed (use assms(2) in \<open>auto simp: startup_error_def dest: prepare_log_no_admit\<close>)

section \<open>Further lemmas\<close>

lemma stop_position:
  assumes "\<forall>c. EvStop c \<notin> set pre" and "\<forall>c. EvStop c \<notin> set post"
    and "pre @ EvStop s # post = xs @ EvStop c # ys"
  shows "xs = pre"
proof -
  from assms(3) obtain us where "pre = xs @ us \<and> us @ EvStop s # post = EvStop c # ys
      \<or> pre @ us = xs \<and> EvStop s # post = us @ EvStop c # ys"
    by (auto simp: append_eq_append_conv2)
  with assms(1,2) show ?thesis by (cases us) auto
qed

lemma Run_cleaned:
  assumes "Run env spec opts = Some ro" and "resolveSettings spec opts = Inr st"
    and "the (sp_load spec) (startup_context env (st_timeouts st)) = Inr config"
  shows "cleaned (ro_log ro) = rev (acquired (startup_context env (st_timeouts st)) config (st_integrations st))"
  using assms(1)
proof (cases rule: Run_elim)
  case (prepare st' config' plog cs vs e ctx)
  with assms show ?thesis
    by (simp add: startup_error_def prepare_log_cleaned prepareIntegrations_acquired del: rev_map)
next
  case (compose st' config' plog cs vs e ctx mods cause)
  with assms show ?thesis
    by (auto simp: startup_error_def prepare_log_cleaned prepareIntegrations_acquired)
next
  case (start st' config' plog cs vs e sctx ctx inits adm cause)
  with assms show ?thesis
    by (auto simp: startup_error_def prepare_log_cleaned prepareIntegrations_acquired)
next
  case (stopped st' config' plog cs vs ctx result runtimeErr)
  with assms show ?thesis
    by (simp add: prepare_log_cleaned prepareIntegrations_acquired)
qed (use assms in simp_all)

lemma Run_admit:
  assumes "Run env spec opts = Some ro" and "EvAdmit \<in> set (ro_log ro)"
  obtains st config where "resolveSettings spec opts = Inr st"
    and "the (sp_load spec) (startup_context env (st_timeouts st)) = Inr config"
    and "\<forall>i \<in> set (st_integrations st). prepared_ok (startup_context env (st_timeouts st)) config i"
    and "ev_start env (startup_context env (st_timeouts st)) = None"
    and "snd (Initialize (ev_arrivals env) (ev_coordinator env)) = None"
    and "await_stop env \<noteq> None"
  using assms(1)
proof (cases rule: Run_elim)
  case (stopped st config plog cs vs ctx result runtimeErr)
  show ?thesis
    by (rule that [OF stopped(1,2) prepareIntegrations_all_ok [OF stopped(3)] stopped(5,6)])
      (simp add: stopped(7))
qed (use assms(2) in \<open>auto simp: startup_error_def dest: prepare_log_no_admit\<close>)

text \<open>The module factory is called only after the loader and every integration succeeded.\<close>

lemma Run_modules:
  assumes "Run env spec opts = Some ro" and "EvModules \<in> set (ro_log ro)"
  obtains st config where "resolveSettings spec opts = Inr st"
    and "the (sp_load spec) (startup_context env (st_timeouts st)) = Inr config"
    and "\<forall>i \<in> set (st_integrations st). prepared_ok (startup_context env (st_timeouts st)) config i"
  using assms(1)
proof (cases rule: Run_elim)
  case (prepare st config plog cs vs e ctx)
  have "EvModules \<notin> set plog" using prepareIntegrations_log [OF prepare(3)] by (auto dest: in_set_takeD)
  with assms(2) show ?thesis by (auto simp: prepare(5) startup_error_def)
next
  case (compose st config plog cs vs e ctx mods cause)
  show ?thesis by (rule that [OF compose(1,2) prepareIntegrations_all_ok [OF compose(3)]])
next
  case (start st config plog cs vs e sctx ctx inits adm cause)
  show ?thesis by (rule that [OF start(1,2) prepareIntegrations_all_ok [OF start(3)]])
next
  case (stopped st config plog cs vs ctx result runtimeErr)
  show ?thesis by (rule that [OF stopped(1,2) prepareIntegrations_all_ok [OF stopped(3)]])
qed (use assms(2) in \<open>auto simp: startup_error_def\<close>)

lemma Run_startup_failure:
  assumes "Run env spec opts = Some ro" and "EvAdmit \<notin> set (ro_log ro)"
  shows "ro_result ro = startup_failure \<and> ro_err ro \<noteq> None"
  using assms(1)
proof (cases rule: Run_elim)
  case (stopped st config plog cs vs ctx result runtimeErr)
  with assms(2) show ?thesis by simp
qed (auto simp: startup_error_def err_simps)

section \<open>Properties\<close>

text \<open>
  C1: the log of every run that returns is exactly what the plan of its startup reaches,
  followed by teardown effects only: the phases in their documented order up to and
  including the first that fails, so that nothing of the startup happens after a failure.
  Admission opens exactly when no phase of the plan fails, which means that the loader,
  every integration, the composition, the Fx start and every startup condition succeeded.
\<close>

theorem run_phases_in_order:
  assumes "Run env spec opts = Some ro" and "resolveSettings spec opts = Inr st"
  shows "(\<exists>teardown. ro_log ro = reached (startup_plan env spec st) @ teardown
            \<and> (\<forall>e \<in> set teardown. is_teardown e))
         \<and> (\<exists>n. reached (startup_plan env spec st) = take n (startup_phases st))
         \<and> (EvAdmit \<in> set (ro_log ro) \<longleftrightarrow> first_failure (startup_plan env spec st) = None)
         \<and> (EvAdmit \<in> set (ro_log ro) \<longrightarrow>
              (\<exists>config. the (sp_load spec) (startup_context env (st_timeouts st)) = Inr config
                 \<and> (\<forall>i \<in> set (st_integrations st).
                      prepared_ok (startup_context env (st_timeouts st)) config i))
              \<and> ev_start env (startup_context env (st_timeouts st)) = None
              \<and> snd (Initialize (ev_arrivals env) (ev_coordinator env)) = None)"
proof (intro conjI)
  show "EvAdmit \<in> set (ro_log ro) \<longleftrightarrow> first_failure (startup_plan env spec st) = None"
    using Run_admits [OF assms] Run_first_failure [OF assms _ errors_is_refl] by (metis not_Some_eq)
  show "\<exists>n. reached (startup_plan env spec st) = take n (startup_phases st)"
    by (rule plan_is_prefix)
qed (use Run_reached [OF assms] Run_admit [OF assms(1)] assms(2) in \<open>blast, metis sum.inject(2)\<close>)

text \<open>
  C2: on every path after the configuration was loaded, each cleanup that an integration
  registered runs exactly once, newest first, whatever fails; a cleanup that was never
  registered does not run.
\<close>

theorem cleanups_once_newest_first:
  assumes "Run env spec opts = Some ro" and "resolveSettings spec opts = Inr st"
    and "the (sp_load spec) (startup_context env (st_timeouts st)) = Inr config"
  shows "cleaned (ro_log ro) =
         rev (map in_name (filter (has_cleanup (startup_context env (st_timeouts st)) config)
                (takeWhile (prepared_ok (startup_context env (st_timeouts st)) config) (st_integrations st))))"
  using Run_cleaned [OF assms] by (simp add: acquired_def)

lemma Run_returns_closed:
  assumes "Run env spec opts = Some ro"
  shows "(case ro_admission ro of None \<Rightarrow> True | Some a \<Rightarrow> \<not> Admission_IsOpen a)
         \<and> (EvStart \<in> set (ro_log ro) \<longleftrightarrow> (\<exists>c. EvStop c \<in> set (ro_log ro)))
         \<and> (\<forall>xs c ys. ro_log ro = xs @ EvStop c # ys \<longrightarrow> cleaned xs = [])"
  using assms
proof (cases rule: Run_elim)
  case (prepare st config plog cs vs e ctx)
  have "EvStart \<notin> set plog" "\<forall>c. EvStop c \<notin> set plog"
    using prepare_log_no_admit [OF prepare(3)] by auto
  moreover have "\<forall>c. EvStop c \<notin> set (ro_log ro)"
    using prepare calculation by (auto simp: startup_error_def)
  then have "\<forall>xs c ys. ro_log ro \<noteq> xs @ EvStop c # ys" by (metis in_set_conv_decomp)
  ultimately show ?thesis using prepare by (auto simp: startup_error_def)
next
  case (compose st config plog cs vs e ctx mods cause)
  have "EvStart \<notin> set plog" "\<forall>c. EvStop c \<notin> set plog"
    using prepare_log_no_admit [OF compose(3)] by auto
  moreover have "\<forall>c. EvStop c \<notin> set (ro_log ro)"
    using compose calculation by (auto simp: startup_error_def)
  then have "\<forall>xs c ys. ro_log ro \<noteq> xs @ EvStop c # ys" by (metis in_set_conv_decomp)
  ultimately show ?thesis using compose by (auto simp: startup_error_def)
next
  case (start st config plog cs vs e sctx ctx inits adm cause)
  let ?pre = "EvLoad # plog @ [EvModules, EvCompose] @ inits"
  have log: "ro_log ro = ?pre @ EvStop sctx # cleanup_log ctx cs"
    using start(11) by (simp add: startup_error_def)
  have "cleaned ?pre = []" and "\<forall>c. EvStop c \<notin> set ?pre"
    using start(6) prepare_log_cleaned [OF start(3)] prepare_log_no_admit [OF start(3)] by auto
  moreover have "\<forall>c. EvStop c \<notin> set (cleanup_log ctx cs)" by auto
  ultimately have "\<forall>xs c ys. ro_log ro = xs @ EvStop c # ys \<longrightarrow> cleaned xs = []"
    unfolding log using stop_position by blast
  then show ?thesis using start by (auto simp: startup_error_def)
next
  case (stopped st config plog cs vs ctx result runtimeErr)
  let ?pre = "EvLoad # plog @ [EvModules, EvCompose, EvStart, EvInitialize, EvAdmit, EvWait, EvCloseAdmission]"
  have log: "ro_log ro = ?pre @ EvStop ctx # cleanup_log ctx cs"
    using stopped(10) by simp
  have "cleaned ?pre = []" and "\<forall>c. EvStop c \<notin> set ?pre"
    using prepare_log_cleaned [OF stopped(3)] prepare_log_no_admit [OF stopped(3)] by auto
  moreover have "\<forall>c. EvStop c \<notin> set (cleanup_log ctx cs)" by auto
  ultimately have "\<forall>xs c ys. ro_log ro = xs @ EvStop c # ys \<longrightarrow> cleaned xs = []"
    unfolding log using stop_position by blast
  moreover have "EvStart \<in> set (ro_log ro)" and "EvStop ctx \<in> set (ro_log ro)"
    by (simp_all add: log)
  ultimately show ?thesis using stopped(10) by auto
qed (auto simp: startup_error_def Cons_eq_append_conv)


text \<open>Admission opens right after a start and an initialisation that both succeeded.\<close>

lemma split_unique:
  assumes "x \<notin> set pre" and "x \<notin> set post" and "pre @ x # post = xs @ x # ys"
  shows "xs = pre \<and> ys = post"
proof -
  from assms(3) obtain us where "pre = xs @ us \<and> us @ x # post = x # ys
      \<or> pre @ us = xs \<and> x # post = us @ x # ys"
    by (auto simp: append_eq_append_conv2)
  with assms show ?thesis by (cases us) auto
qed

lemma Run_admission_position:
  assumes "Run env spec opts = Some ro" and "ro_log ro = xs @ EvAdmit # ys"
  obtains st pre where "resolveSettings spec opts = Inr st"
    and "ev_start env (startup_context env (st_timeouts st)) = None"
    and "snd (Initialize (ev_arrivals env) (ev_coordinator env)) = None"
    and "xs = pre @ [EvStart, EvInitialize]"
proof -
  have admitted: "EvAdmit \<in> set (ro_log ro)" using assms(2) by simp
  show ?thesis
    using assms(1)
  proof (cases rule: Run_elim)
    case (stopped st config plog cs vs ctx result runtimeErr)
    let ?pre = "EvLoad # plog @ [EvModules, EvCompose, EvStart, EvInitialize]"
    let ?post = "[EvWait, EvCloseAdmission, EvStop ctx] @ cleanup_log ctx cs"
    have "?pre @ EvAdmit # ?post = xs @ EvAdmit # ys"
      using assms(2) stopped(10) by simp
    moreover have "EvAdmit \<notin> set ?pre" and "EvAdmit \<notin> set ?post"
      using prepare_log_no_admit [OF stopped(3)] by auto
    ultimately have "xs = (EvLoad # plog @ [EvModules, EvCompose]) @ [EvStart, EvInitialize]"
      using split_unique [of EvAdmit ?pre ?post xs ys] by simp
    then show ?thesis by (rule that [OF stopped(1,5,6)])
  qed (use admitted in \<open>auto simp: startup_error_def dest: prepare_log_no_admit\<close>)
qed

lemma Run_closes_before_stop:
  assumes "Run env spec opts = Some ro" and "ro_log ro = xs @ EvStop c # ys" and "EvAdmit \<in> set xs"
  shows "EvCloseAdmission \<in> set xs"
proof -
  have admitted: "EvAdmit \<in> set (ro_log ro)" using assms(2,3) by simp
  show ?thesis
    using assms(1)
  proof (cases rule: Run_elim)
    case (stopped st config plog cs vs ctx result runtimeErr)
    let ?pre = "EvLoad # plog @ [EvModules, EvCompose, EvStart, EvInitialize, EvAdmit, EvWait, EvCloseAdmission]"
    have "\<forall>c. EvStop c \<notin> set ?pre" and "\<forall>c. EvStop c \<notin> set (cleanup_log ctx cs)"
      using prepare_log_no_admit [OF stopped(3)] by auto
    moreover have "?pre @ EvStop ctx # cleanup_log ctx cs = xs @ EvStop c # ys"
      using assms(2) stopped(10) by simp
    ultimately have "xs = ?pre" by (rule stop_position)
    then show ?thesis by simp
  qed (use admitted in \<open>auto simp: startup_error_def dest: prepare_log_no_admit\<close>)
qed

text \<open>
  C4: when a run returns, admission is closed (if it was ever created), the Fx
  application was stopped exactly when its start was attempted, and no cleanup ran
  before the stop.  Nothing is admitted before initialisation succeeded: admission opens
  only right after a start and an initialisation that both returned no error; and an
  admission that was opened is closed again before the stop.
\<close>

theorem run_returns_closed:
  assumes "Run env spec opts = Some ro"
  shows "(case ro_admission ro of None \<Rightarrow> True | Some a \<Rightarrow> \<not> Admission_IsOpen a)
         \<and> (EvStart \<in> set (ro_log ro) \<longleftrightarrow> (\<exists>c. EvStop c \<in> set (ro_log ro)))
         \<and> (\<forall>xs c ys. ro_log ro = xs @ EvStop c # ys \<longrightarrow>
              cleaned xs = [] \<and> (EvAdmit \<in> set xs \<longrightarrow> EvCloseAdmission \<in> set xs))
         \<and> (\<forall>xs ys. ro_log ro = xs @ EvAdmit # ys \<longrightarrow>
              (\<exists>pre. xs = pre @ [EvStart, EvInitialize])
              \<and> (\<exists>st. resolveSettings spec opts = Inr st
                    \<and> ev_start env (startup_context env (st_timeouts st)) = None)
              \<and> snd (Initialize (ev_arrivals env) (ev_coordinator env)) = None)"
  using Run_returns_closed [OF assms]
  by (auto elim: Run_admission_position [OF assms] Run_closes_before_stop [OF assms])

text \<open>
  a run that never opened admission reports a startup failure with an error, and
  \<^verbatim>\<open>Main\<close> exits with 2; a run that opened admission exits with 0 exactly when nothing
  failed and no external restart is required.
\<close>

theorem startup_failure_exit_code:
  assumes "Run env spec opts = Some ro"
  shows "if EvAdmit \<in> set (ro_log ro)
         then (Main env spec opts = Some 0 \<longleftrightarrow> ro_err ro = None \<and> \<not> rr_restart (ro_result ro))
         else ro_result ro = startup_failure \<and> ro_err ro \<noteq> None \<and> Main env spec opts = Some 2"
proof (cases "EvAdmit \<in> set (ro_log ro)")
  case True
  with assms show ?thesis by (simp add: Main_def exitCode_def)
next
  case False
  with assms Run_startup_failure [OF assms] show ?thesis
    by (simp add: Main_def exitCode_def startup_failure_def)
qed

text \<open>
  What can go wrong in a run with a given log of effects: the settings, the first failing
  phase of the startup, the stop of the Fx application, the cleanup of an integration,
  and the error a component requested the stop with.
\<close>

inductive run_cause ::
    "('v, 'm) run_env \<Rightarrow> ('c, 'm) spec \<Rightarrow> ('c, 'v) run_option list \<Rightarrow> run_event list \<Rightarrow> goerr \<Rightarrow> bool"
  for env spec opts log where
  settings: "resolveSettings spec opts = Inl e \<Longrightarrow> run_cause env spec opts log e"
| phase: "resolveSettings spec opts = Inr st \<Longrightarrow> first_failure (startup_plan env spec st) = Some e \<Longrightarrow>
    run_cause env spec opts log e"
| stop: "EvStop ctx \<in> set log \<Longrightarrow> ev_stop env ctx = Some e \<Longrightarrow> run_cause env spec opts log e"
| cleanup: "resolveSettings spec opts = Inr st \<Longrightarrow>
    the (sp_load spec) (startup_context env (st_timeouts st)) = Inr config \<Longrightarrow>
    i \<in> set (takeWhile (prepared_ok (startup_context env (st_timeouts st)) config) (st_integrations st)) \<Longrightarrow>
    in_prepare i (startup_context env (st_timeouts st)) config = Inr p \<Longrightarrow> pp_cleanup p = Some f \<Longrightarrow>
    EvCleanup (in_name i) ctx \<in> set log \<Longrightarrow> f ctx = Some e \<Longrightarrow> run_cause env spec opts log e"
| request: "EvAdmit \<in> set log \<Longrightarrow> await_stop env = Some (result, Some e) \<Longrightarrow> run_cause env spec opts log e"

text \<open>
  C3: on every path on which a run returns, every root cause is found in the returned error
  by \<^verbatim>\<open>errors.Is\<close>: the error of the settings, of the first startup phase that failed, of
  the Fx stop, of every cleanup of a prepared integration, and the error of the stop
  request; after admission the result of the run is the one the wait ended with.
\<close>

theorem run_preserves_root_causes:
  assumes "Run env spec opts = Some ro"
  shows "(\<forall>e t. run_cause env spec opts (ro_log ro) e \<longrightarrow> errors_is e t \<longrightarrow> error_is (ro_err ro) t)
         \<and> (EvAdmit \<in> set (ro_log ro) \<longrightarrow> map_option fst (await_stop env) = Some (ro_result ro))"
proof (intro conjI allI impI)
  fix e t
  assume "run_cause env spec opts (ro_log ro) e" and t: "errors_is e t"
  then show "error_is (ro_err ro) t"
  proof cases
    case settings
    with assms t show ?thesis by (auto simp: Run_def startup_error_def)
  next
    case (phase st)
    with Run_first_failure [OF assms _ _ t] show ?thesis by blast
  next
    case (stop ctx)
    with Run_stop_error [OF assms _ _ t] show ?thesis by blast
  next
    case (cleanup st config i p f ctx)
    from Run_cleanup_error [OF assms cleanup t] show ?thesis .
  next
    case (request result)
    from Run_request_error [OF assms request(1)] obtain res runtimeErr where
      await: "await_stop env = Some (res, runtimeErr)"
      and found: "\<And>t. error_is runtimeErr t \<Longrightarrow> error_is (ro_err ro) t" by metis
    with request(2) t show ?thesis by simp
  qed
next
  assume "EvAdmit \<in> set (ro_log ro)"
  with assms show "map_option fst (await_stop env) = Some (ro_result ro)"
    by (auto elim: Run_request_error)
qed

text \<open>
  C6: a run that admitted work has one shutdown deadline, fixed when the stop is seen: the
  Fx stop and every cleanup work under the same context.  A startup that fails after the
  Fx start was attempted gives the Fx stop and the cleanups a full shutdown timeout each.
\<close>

theorem shutdown_budget:
  assumes "Run env spec opts = Some ro" and "resolveSettings spec opts = Inr st"
    and "EvStart \<in> set (ro_log ro)"
  shows "(\<forall>c. EvStop c \<in> set (ro_log ro) \<longrightarrow> c = Some (ev_now_stop env + to_shutdown (st_timeouts st)))
         \<and> (\<forall>n c. EvCleanup n c \<in> set (ro_log ro) \<longrightarrow>
              c = Some ((if EvAdmit \<in> set (ro_log ro) then ev_now_stop env else ev_now_cleanup env)
                        + to_shutdown (st_timeouts st)))"
  using assms(1)
proof (cases rule: Run_elim)
  case (compose st' config plog cs vs e ctx mods cause)
  then show ?thesis
    using prepare_log_no_admit [OF compose(3)] assms(3) by (auto simp: startup_error_def)
next
  case (prepare st' config plog cs vs e ctx)
  then show ?thesis
    using prepare_log_no_admit [OF prepare(3)] assms(3) by (auto simp: startup_error_def)
next
  case (start st' config plog cs vs e sctx ctx inits adm cause)
  then show ?thesis
    using prepare_log_no_admit [OF start(3)] assms(2) by (auto simp: startup_error_def)
next
  case (stopped st' config plog cs vs ctx result runtimeErr)
  then show ?thesis
    using prepare_log_no_admit [OF stopped(3)] assms(2) by auto
qed (use assms in \<open>simp_all add: startup_error_def\<close>)

lemma await_stop_None: "await_stop env = None \<longleftrightarrow> \<not> ev_cancelled env \<and> ev_requests env = []"
  by (auto simp: await_stop_def stop_seen_after split: list.splits)

definition startup_succeeds ::
    "('v, 'm) run_env \<Rightarrow> ('c, 'm) spec \<Rightarrow> ('c, 'v) run_option list \<Rightarrow> bool" where
  "startup_succeeds env spec opts =
     (case resolveSettings spec opts of
        Inl _ \<Rightarrow> False
      | Inr st \<Rightarrow>
          (let ctx = startup_context env (st_timeouts st) in
           case the (sp_load spec) ctx of
             Inl _ \<Rightarrow> False
           | Inr config \<Rightarrow>
               (case prepareIntegrations ctx config (st_integrations st) of
                  (_, _, values, err) \<Rightarrow>
                    err = None
                    \<and> (case buildModules (the (sp_modules spec)) config of
                          Inl _ \<Rightarrow> False
                        | Inr m \<Rightarrow> ev_compose env values m = None)
                    \<and> ev_start env ctx = None
                    \<and> snd (Initialize (ev_arrivals env) (ev_coordinator env)) = None)))"

lemma run_application_None:
  "run_application env t ctx cs log = None \<longleftrightarrow>
     ev_start env ctx = None \<and> snd (Initialize (ev_arrivals env) (ev_coordinator env)) = None
     \<and> await_stop env = None"
  by (cases "ev_start env ctx"; cases "snd (Initialize (ev_arrivals env) (ev_coordinator env))";
      cases "await_stop env")
    (auto simp: run_application_def runCleanups_def runCleanupsWithContext_eq stopApplication_def Let_def)

lemma Run_None: "Run env spec opts = None \<longleftrightarrow> startup_succeeds env spec opts \<and> await_stop env = None"
proof (cases "resolveSettings spec opts")
  case (Inl e)
  then show ?thesis by (simp add: Run_def startup_succeeds_def)
next
  case st: (Inr st)
  let ?ctx = "startup_context env (st_timeouts st)"
  show ?thesis
  proof (cases "the (sp_load spec) ?ctx")
    case (Inl e)
    with st show ?thesis by (simp add: Run_def startup_succeeds_def Let_def)
  next
    case config: (Inr config)
    obtain plog cs vs perr where prep:
      "prepareIntegrations ?ctx config (st_integrations st) = (plog, cs, vs, perr)"
      by (metis prod_cases4)
    show ?thesis
      using st config prep
      by (cases perr; cases "buildModules (the (sp_modules spec)) config")
        (simp_all add: Run_def startup_succeeds_def Let_def runCleanups_def runCleanupsWithContext_eq
          run_application_None split: option.splits)
  qed
qed

text \<open>
  C5: a run fails to return exactly when its startup succeeds, the caller never cancels
  and no component ever requests a stop; when a component does, the first request alone
  decides the reason and whether an external restart is required.
\<close>

theorem run_returns_iff:
  shows "(Run env spec opts = None \<longleftrightarrow>
            startup_succeeds env spec opts \<and> \<not> ev_cancelled env \<and> ev_requests env = [])
         \<and> (\<forall>ro r rs. Run env spec opts = Some ro \<longrightarrow> EvAdmit \<in> set (ro_log ro)
              \<longrightarrow> \<not> ev_cancelled env \<longrightarrow> ev_requests env = r # rs
              \<longrightarrow> ro_result ro = \<lparr>rr_reason = rq_reason (default_reason r), rr_restart = rq_restart r\<rparr>)"
proof (intro conjI allI impI)
  show "Run env spec opts = None \<longleftrightarrow>
      startup_succeeds env spec opts \<and> \<not> ev_cancelled env \<and> ev_requests env = []"
    by (simp add: Run_None await_stop_None)
next
  fix ro r rs
  assume ro: "Run env spec opts = Some ro" and admit: "EvAdmit \<in> set (ro_log ro)"
    and req: "\<not> ev_cancelled env" "ev_requests env = r # rs"
  have "rq_restart (default_reason r) = rq_restart r"
    by (simp add: default_reason_def)
  then have await: "await_stop env =
      Some (\<lparr>rr_reason = rq_reason (default_reason r), rr_restart = rq_restart r\<rparr>, rq_err (default_reason r))"
    using req by (simp add: await_stop_def stop_seen_after)
  show "ro_result ro = \<lparr>rr_reason = rq_reason (default_reason r), rr_restart = rq_restart r\<rparr>"
    using ro
  proof (cases rule: Run_elim)
    case (stopped st config plog cs vs ctx result runtimeErr)
    with await show ?thesis by simp
  qed (use admit in \<open>auto simp: startup_error_def dest: prepare_log_no_admit\<close>)
qed

section \<open>A concrete run\<close>

text \<open>
  Two integrations that both register a cleanup (the second cleanup fails), a composed
  application, and a stop request with an error; and the same application when the Fx
  start fails.
\<close>

definition ex_lock :: "(nat, nat) integration" where
  "ex_lock = \<lparr>in_name = ''ownership'',
     in_prepare = (\<lambda>_ _. Inr \<lparr>pp_cleanup = Some (\<lambda>_. None), pp_values = []\<rparr>)\<rparr>"

definition ex_security :: "(nat, nat) integration" where
  "ex_security = \<lparr>in_name = ''security'',
     in_prepare = (\<lambda>_ _. Inr \<lparr>pp_cleanup = Some (\<lambda>_. Some (err_new ''late'')), pp_values = [7]\<rparr>)\<rparr>"

definition ex_spec :: "(nat, nat) spec" where
  "ex_spec = \<lparr>sp_name = ''app'', sp_load = Some (\<lambda>_. Inr 1), sp_modules = Some (\<lambda>c. Returns c)\<rparr>"

definition ex_options :: "(nat, nat) run_option list" where
  "ex_options = [WithIntegration (Some ex_lock), WithTimeouts \<lparr>to_startup = 10, to_shutdown = 20\<rparr>,
     WithIntegration (Some ex_security)]"

definition ex_env :: "error \<Rightarrow> (nat, nat) run_env" where
  "ex_env start_err = \<lparr>ev_ctx = None, ev_now_start = 0, ev_now_stop = 100, ev_now_cleanup = 115,
     ev_compose = (\<lambda>_ _. None), ev_start = (\<lambda>_. start_err), ev_stop = (\<lambda>_. None),
     ev_coordinator = \<lparr>co_conditions = [], co_initialized = False, co_result = None\<rparr>,
     ev_arrivals = [],
     ev_requests = [\<lparr>rq_reason = '''', rq_err = Some (err_new ''serve''), rq_restart = False\<rparr>],
     ev_cancelled = False\<rparr>"

definition ex_settings :: "(nat, nat) run_settings" where
  "ex_settings = \<lparr>st_integrations = [ex_lock, ex_security],
     st_timeouts = \<lparr>to_startup = 10, to_shutdown = 20\<rparr>, st_logger = ServiceLogger ''app''\<rparr>"

lemma ex_resolve: "resolveSettings ex_spec ex_options = Inr ex_settings"
  by (simp add: resolveSettings_def ex_spec_def ex_options_def apply_option_def default_settings_def
      ex_settings_def ex_lock_def ex_security_def name_error_def)

lemma ex_config: "the (sp_load ex_spec) (startup_context (ex_env e) (st_timeouts ex_settings)) = Inr 1"
  by (simp add: ex_spec_def)

lemma ex_spec_calls: "the (sp_load ex_spec) ctx = Inr 1" "the (sp_modules ex_spec) c = Returns c"
  by (simp_all add: ex_spec_def)

lemmas ex_run_simps = Run_def ex_spec_calls ex_resolve Let_def runCleanups_def runCleanupsWithContext_def
  run_application_def buildModules_def stopApplication_def startup_context_def Initialize_def

definition ex_stopped :: run_outcome where
  "ex_stopped =
     \<lparr>ro_log = [EvLoad, EvPrepare ''ownership'', EvPrepare ''security'', EvModules, EvCompose, EvStart,
        EvInitialize, EvAdmit, EvWait, EvCloseAdmission, EvStop (Some 120),
        EvCleanup ''security'' (Some 120), EvCleanup ''ownership'' (Some 120)],
      ro_admission = Some \<lparr>adm_open = False\<rparr>,
      ro_result = \<lparr>rr_reason = ''runtime_failure'', rr_restart = False\<rparr>,
      ro_err = Some (Joined [err_new ''serve'', Joined [err_new ''late'']])\<rparr>"

lemma ex_run: "Run (ex_env None) ex_spec ex_options = Some ex_stopped"
  by (simp add: ex_run_simps ex_env_def ex_settings_def ex_lock_def ex_security_def
      await_stop_def stop_seen_after default_reason_def stop_reason_defs errors_join_def
      List.map_filter_def ex_stopped_def Admission_Open_def Admission_Close_def NewAdmission_def)

definition ex_failed :: run_outcome where
  "ex_failed =
     \<lparr>ro_log = [EvLoad, EvPrepare ''ownership'', EvPrepare ''security'', EvModules, EvCompose, EvStart,
        EvStop (Some 120), EvCleanup ''security'' (Some 135), EvCleanup ''ownership'' (Some 135)],
      ro_admission = Some \<lparr>adm_open = False\<rparr>, ro_result = startup_failure,
      ro_err = Some (Joined [err_wrap ''start application: %w'' (err_new ''port''), Joined [err_new ''late'']])\<rparr>"

lemma ex_run_failed: "Run (ex_env (Some (err_new ''port''))) ex_spec ex_options = Some ex_failed"
  by (simp add: ex_run_simps ex_env_def ex_settings_def ex_lock_def ex_security_def
      errors_join_def List.map_filter_def ex_failed_def NewAdmission_def)

theorem run_phases_in_order_witness:
  "reached (startup_plan (ex_env (Some (err_new ''port''))) ex_spec ex_settings) =
     [EvLoad, EvPrepare ''ownership'', EvPrepare ''security'', EvModules, EvCompose, EvStart]
   \<and> (\<exists>teardown. ro_log ex_failed = [EvLoad, EvPrepare ''ownership'', EvPrepare ''security'', EvModules,
          EvCompose, EvStart] @ teardown \<and> list_all is_teardown teardown)"
proof -
  have "reached (startup_plan (ex_env (Some (err_new ''port''))) ex_spec ex_settings) =
     [EvLoad, EvPrepare ''ownership'', EvPrepare ''security'', EvModules, EvCompose, EvStart]"
    by (simp add: startup_plan_def prepare_plan_def prepare_failure_def ex_spec_calls buildModules_def
        ex_settings_def ex_lock_def ex_security_def ex_env_def)
  with run_phases_in_order [OF ex_run_failed ex_resolve] show ?thesis
    unfolding list_all_iff by auto
qed

theorem cleanups_once_newest_first_witness:
  "cleaned (ro_log ex_failed) = [''security'', ''ownership'']"
  using cleanups_once_newest_first [OF ex_run_failed ex_resolve ex_config]
  by (simp add: ex_settings_def ex_lock_def ex_security_def has_cleanup_def prepared_ok_def)

theorem run_returns_closed_witness:
  "ro_admission ex_stopped = Some \<lparr>adm_open = False\<rparr>
   \<and> (EvStart \<in> set (ro_log ex_stopped) \<longleftrightarrow> (\<exists>c. EvStop c \<in> set (ro_log ex_stopped)))
   \<and> (\<exists>pre. [EvLoad, EvPrepare ''ownership'', EvPrepare ''security'', EvModules, EvCompose, EvStart,
        EvInitialize] = pre @ [EvStart, EvInitialize])"
proof -
  have "ro_log ex_stopped = [EvLoad, EvPrepare ''ownership'', EvPrepare ''security'', EvModules, EvCompose,
      EvStart, EvInitialize] @ EvAdmit # [EvWait, EvCloseAdmission, EvStop (Some 120),
        EvCleanup ''security'' (Some 120), EvCleanup ''ownership'' (Some 120)]"
    by (simp add: ex_stopped_def)
  with run_returns_closed [OF ex_run] have "\<exists>pre. [EvLoad, EvPrepare ''ownership'', EvPrepare ''security'',
      EvModules, EvCompose, EvStart, EvInitialize] = pre @ [EvStart, EvInitialize]" by blast
  then show ?thesis using run_returns_closed [OF ex_run] by (simp add: ex_stopped_def)
qed

theorem startup_failure_exit_code_witness:
  "Main (ex_env (Some (err_new ''port''))) ex_spec ex_options = Some 2"
  using startup_failure_exit_code [OF ex_run_failed] by (simp add: ex_failed_def)

theorem run_preserves_root_causes_witness:
  "error_is (ro_err ex_stopped) (err_new ''serve'') \<and> error_is (ro_err ex_failed) (err_new ''port'')
   \<and> error_is (ro_err ex_failed) (err_new ''late'')"
proof (intro conjI)
  have "await_stop (ex_env None) = Some (\<lparr>rr_reason = StopReasonRuntimeFailure, rr_restart = False\<rparr>,
      Some (err_new ''serve''))"
    by (simp add: await_stop_def ex_env_def stop_seen_after default_reason_def)
  then have "run_cause (ex_env None) ex_spec ex_options (ro_log ex_stopped) (err_new ''serve'')"
    by (intro run_cause.request) (simp_all add: ex_stopped_def)
  with run_preserves_root_causes [OF ex_run] show "error_is (ro_err ex_stopped) (err_new ''serve'')"
    using errors_is_refl by blast
  let ?env = "ex_env (Some (err_new ''port''))"
  have "first_failure (startup_plan ?env ex_spec ex_settings) = Some (err_new ''port'')"
    by (simp add: startup_plan_def prepare_plan_def prepare_failure_def ex_spec_calls buildModules_def
        ex_settings_def ex_lock_def ex_security_def ex_env_def)
  then have "run_cause ?env ex_spec ex_options (ro_log ex_failed) (err_new ''port'')"
    by (rule run_cause.phase [OF ex_resolve])
  with run_preserves_root_causes [OF ex_run_failed] show "error_is (ro_err ex_failed) (err_new ''port'')"
    using errors_is_refl by blast
  have "run_cause ?env ex_spec ex_options (ro_log ex_failed) (err_new ''late'')"
    by (rule run_cause.cleanup [OF ex_resolve ex_config, where i = ex_security
          and p = "\<lparr>pp_cleanup = Some (\<lambda>_. Some (err_new ''late'')), pp_values = [7]\<rparr>"
          and f = "\<lambda>_. Some (err_new ''late'')"])
      (simp_all add: ex_settings_def ex_security_def ex_lock_def prepared_ok_def ex_failed_def)
  with run_preserves_root_causes [OF ex_run_failed] show "error_is (ro_err ex_failed) (err_new ''late'')"
    using errors_is_refl by blast
qed

theorem shutdown_budget_witness:
  "{c. \<exists>n. EvCleanup n c \<in> set (ro_log ex_failed)} \<subseteq> {Some 135}"
proof -
  have "EvStart \<in> set (ro_log ex_failed)" and "EvAdmit \<notin> set (ro_log ex_failed)"
    by (simp_all add: ex_failed_def)
  with shutdown_budget [OF ex_run_failed ex_resolve] show ?thesis
    by (auto simp: ex_env_def ex_settings_def)
qed

theorem run_returns_iff_witness:
  "ro_result ex_stopped = \<lparr>rr_reason = StopReasonRuntimeFailure, rr_restart = False\<rparr>"
proof -
  have "EvAdmit \<in> set (ro_log ex_stopped)" by (simp add: ex_stopped_def)
  then show ?thesis
    using run_returns_iff [of "ex_env None" ex_spec ex_options] ex_run
    by (simp add: ex_env_def default_reason_def)
qed

end
