(* ===== verification/Ownership.thy ===== *)
theory Ownership
  imports Runner_Props Paths
begin

text \<open>
  The ownership integration, \<^verbatim>\<open>src/ownership/ownership.go\<close>: an exclusive file lock that
  is taken before the application is composed and released by the cleanup it registers
  with the runner.  The file system and the lock library are parameters.
\<close>

section \<open>The requirement\<close>

record requirement =
  rq_lock_path :: string
  rq_retry_interval :: int

text \<open>
  \<^verbatim>\<open>os.Stat\<close> of a directory (\<open>Inr True\<close>: it is one), \<^verbatim>\<open>TryLockContext\<close> with the path, the
  context and the interval, and closing the lock.
\<close>

record lock_env =
  le_stat :: "string \<Rightarrow> goerr + bool"
  le_try_lock :: "string \<Rightarrow> context_deadline \<Rightarrow> int \<Rightarrow> goerr + bool"
  le_close :: "string \<Rightarrow> error"

definition requirement_error :: "requirement \<Rightarrow> error" where
  "requirement_error r =
     (if rq_lock_path r = '''' then Some (err_new ''ownership lock path is empty'')
      else if \<not> IsAbs (rq_lock_path r) then Some (err_new ''ownership lock path must be absolute'')
      else None)"

definition retry_default :: "requirement \<Rightarrow> requirement" where
  "retry_default r = (if rq_retry_interval r \<le> 0 then r\<lparr>rq_retry_interval := 100 * 1000000\<rparr> else r)"

definition directory_error :: "lock_env \<Rightarrow> requirement \<Rightarrow> error" where
  "directory_error env r =
     (case le_stat env (Dir (rq_lock_path r)) of
        Inl e \<Rightarrow> Some (err_wrap ''inspect ownership lock directory: %w'' e)
      | Inr dir \<Rightarrow> if \<not> dir then Some (err_new ''ownership lock parent is not a directory'') else None)"

text \<open>The cleanup closes the lock; besides its error it has that call as an effect.\<close>

datatype lock_call = LClose string

definition lock_cleanup :: "lock_env \<Rightarrow> requirement \<Rightarrow> context_deadline \<Rightarrow> lock_call list \<times> error" where
  "lock_cleanup env r ctx =
     ([LClose (rq_lock_path r)],
      case le_close env (rq_lock_path r) of
        Some e \<Rightarrow> Some (err_wrap ''release ownership lock: %w'' e)
      | None \<Rightarrow> None)"

text \<open>\<open>None\<close>: a nil builder.\<close>

definition Ownership_Prepare ::
    "lock_env \<Rightarrow> ('c \<Rightarrow> goerr + requirement) option \<Rightarrow> context_deadline \<Rightarrow> 'c \<Rightarrow> goerr + 'v prepared" where
  "Ownership_Prepare env build ctx config =
     (case build of
        None \<Rightarrow> Inl (err_new ''ownership requirement builder is nil'')
      | Some b \<Rightarrow>
          (case b config of
             Inl e \<Rightarrow> Inl (err_wrap ''build ownership requirement: %w'' e)
           | Inr r0 \<Rightarrow>
               (case requirement_error r0 of
                  Some e \<Rightarrow> Inl e
                | None \<Rightarrow>
                    (let r = retry_default r0
                     in case directory_error env r of
                          Some e \<Rightarrow> Inl e
                        | None \<Rightarrow>
                            (case le_try_lock env (rq_lock_path r) ctx (rq_retry_interval r) of
                               Inl e \<Rightarrow> Inl (err_wrap ''acquire ownership lock: %w'' e)
                             | Inr locked \<Rightarrow>
                                 (if \<not> locked then Inl (err_new ''ownership lock was not acquired'')
                                  else Inr \<lparr>pp_cleanup = Some (\<lambda>c. snd (lock_cleanup env r c)), pp_values = []\<rparr>))))))"

definition ownership_integration :: "lock_env \<Rightarrow> ('c \<Rightarrow> goerr + requirement) option \<Rightarrow> ('c, 'v) integration" where
  "ownership_integration env build = \<lparr>in_name = ''ownership'', in_prepare = Ownership_Prepare env build\<rparr>"

text \<open>The calls on the lock that the cleanups of a run made.\<close>

fun lock_calls :: "lock_env \<Rightarrow> requirement \<Rightarrow> run_event list \<Rightarrow> lock_call list" where
  "lock_calls env r [] = []"
| "lock_calls env r (EvCleanup n c # es) =
     (if n = ''ownership'' then fst (lock_cleanup env r c) else []) @ lock_calls env r es"
| "lock_calls env r (e # es) = lock_calls env r es"

section \<open>Lemmas\<close>

lemma lock_calls_cleaned:
  "lock_calls env r log = replicate (count_list (cleaned log) ''ownership'') (LClose (rq_lock_path r))"
  by (induction log rule: cleaned.induct) (simp_all add: lock_cleanup_def)

lemma cleaned_member: "n \<in> set (cleaned log) \<longleftrightarrow> (\<exists>c. EvCleanup n c \<in> set log)"
  by (induction log rule: cleaned.induct) auto

lemma Ownership_Prepare_registers:
  "Ownership_Prepare env (Some b) ctx config = Inr p \<Longrightarrow> b config = Inr r \<Longrightarrow>
   pp_cleanup p = Some (\<lambda>c. snd (lock_cleanup env (retry_default r) c))"
  by (auto simp: Ownership_Prepare_def Let_def split: option.splits sum.splits if_splits)

lemma retry_default_path [simp]: "rq_lock_path (retry_default r) = rq_lock_path r"
  by (simp add: retry_default_def)

text \<open>A requirement that is well formed, whose directory exists, and whose lock is obtained.\<close>

definition lock_taken :: "lock_env \<Rightarrow> ('c \<Rightarrow> goerr + requirement) option \<Rightarrow> context_deadline \<Rightarrow> 'c \<Rightarrow> bool" where
  "lock_taken env build ctx config \<longleftrightarrow>
     (\<exists>b r. build = Some b \<and> b config = Inr r \<and> IsAbs (rq_lock_path r)
        \<and> le_stat env (Dir (rq_lock_path r)) = Inr True
        \<and> le_try_lock env (rq_lock_path r) ctx
            (if rq_retry_interval r \<le> 0 then 100000000 else rq_retry_interval r) = Inr True)"

lemma Ownership_Prepare_Inr:
  "(\<exists>p. Ownership_Prepare env build ctx config = Inr p) \<longleftrightarrow> lock_taken env build ctx config"
  by (auto simp: Ownership_Prepare_def lock_taken_def requirement_error_def retry_default_def directory_error_def
      IsAbs_def has_prefix_def Let_def split: option.splits sum.splits)

lemma Ownership_Prepare_cleanup:
  "Ownership_Prepare env build ctx config = Inr p \<Longrightarrow> pp_cleanup p \<noteq> None"
  by (auto simp: Ownership_Prepare_def Let_def split: option.splits sum.splits if_splits)

lemma ownership_integration_facts:
  "prepared_ok ctx config (ownership_integration env build) \<longleftrightarrow> lock_taken env build ctx config"
  "has_cleanup ctx config (ownership_integration env build) \<longleftrightarrow> lock_taken env build ctx config"
proof -
  show ok: "prepared_ok ctx config (ownership_integration env build) \<longleftrightarrow> lock_taken env build ctx config"
    using Ownership_Prepare_Inr [of env build ctx config]
    by (auto simp: prepared_ok_def ownership_integration_def split: sum.splits)
  show "has_cleanup ctx config (ownership_integration env build) \<longleftrightarrow> lock_taken env build ctx config"
    using ok Ownership_Prepare_cleanup [of env build ctx config]
    by (auto simp: has_cleanup_def prepared_ok_def ownership_integration_def split: sum.splits)
qed

lemma settings_names_distinct:
  "resolveSettings spec opts = Inr st \<Longrightarrow> distinct (map in_name (st_integrations st))"
  by (auto simp: resolveSettings_def scan_empty_None split: if_splits sum.splits option.splits)

lemma count_list_distinct: "distinct xs \<Longrightarrow> count_list xs x = (if x \<in> set xs then 1 else 0)"
  by (induction xs) auto

lemma count_in_acquired:
  assumes "distinct (map in_name is)" and "i \<in> set is" and "prepared_ok ctx config i \<Longrightarrow> has_cleanup ctx config i"
  shows "count_list (rev (acquired ctx config is)) (in_name i)
     = (if i \<in> set (takeWhile (prepared_ok ctx config) is) then 1 else 0)"
proof -
  let ?tw = "takeWhile (prepared_ok ctx config) is"
  have "distinct (map in_name ?tw)"
    using assms(1) by (metis distinct_take takeWhile_eq_take take_map)
  then have dist: "distinct (acquired ctx config is)"
    by (simp add: acquired_def distinct_map inj_on_def)
  have "in_name i \<in> set (acquired ctx config is) \<longleftrightarrow> i \<in> set ?tw"
  proof
    assume "in_name i \<in> set (acquired ctx config is)"
    then obtain j where j: "j \<in> set ?tw" "in_name j = in_name i" by (auto simp: acquired_def)
    then have "j = i"
      using assms(1,2) set_takeWhileD [of j "prepared_ok ctx config" "is"]
      by (auto simp: distinct_map dest: inj_onD)
    with j show "i \<in> set ?tw" by simp
  next
    assume tw: "i \<in> set ?tw"
    then have "has_cleanup ctx config i" using assms(3) by (auto dest: set_takeWhileD)
    with tw show "in_name i \<in> set (acquired ctx config is)" by (auto simp: acquired_def)
  qed
  with dist show ?thesis by (simp add: count_list_distinct)
qed

lemma reached_iff:
  assumes "distinct (map f (before @ x # after))"
  shows "x \<in> set (takeWhile P (before @ x # after)) \<longleftrightarrow> list_all P before \<and> P x"
proof (cases "list_all P before")
  case True
  then have "\<And>y. y \<in> set before \<Longrightarrow> P y" by (simp add: list_all_iff)
  then have "takeWhile P (before @ x # after) = before @ takeWhile P (x # after)"
    by (rule takeWhile_append2)
  moreover have "x \<notin> set before" using assms by auto
  ultimately show ?thesis using True by (cases "P x") simp_all
next
  case False
  then obtain y where "y \<in> set before" "\<not> P y" by (auto simp: list_all_iff)
  then have "takeWhile P (before @ x # after) = takeWhile P before" by (rule takeWhile_append1)
  moreover have "x \<notin> set before" using assms by auto
  ultimately show ?thesis using False by (auto dest: set_takeWhileD)
qed

section \<open>Properties\<close>

text \<open>
  C38: in a run with the ownership integration that returns after its configuration was
  loaded, the lock is taken exactly if all integrations selected before were prepared,
  the requirement names an absolute path in an existing directory and the lock was free
  in time.  The cleanups of the run then close that lock exactly once, and otherwise never;
  an error of closing it is found in the error of the run; and if the integration was
  selected first, its cleanup is the last.
\<close>

theorem ownership_lock_released_once:
  assumes "Run env spec opts = Some ro" and "resolveSettings spec opts = Inr st"
    and "the (sp_load spec) (startup_context env (st_timeouts st)) = Inr config"
    and "st_integrations st = before @ ownership_integration lenv build # after"
  shows "count_list (cleaned (ro_log ro)) ''ownership''
         = (if list_all (prepared_ok (startup_context env (st_timeouts st)) config) before
               \<and> lock_taken lenv build (startup_context env (st_timeouts st)) config then 1 else 0)
       \<and> (if before = [] \<and> lock_taken lenv build (startup_context env (st_timeouts st)) config
          then last (cleaned (ro_log ro)) = ''ownership'' else True)
       \<and> (\<forall>b r. build = Some b \<longrightarrow> b config = Inr r \<longrightarrow>
            (if list_all (prepared_ok (startup_context env (st_timeouts st)) config) before
                \<and> lock_taken lenv build (startup_context env (st_timeouts st)) config
             then lock_calls lenv r (ro_log ro) = [LClose (rq_lock_path r)]
                \<and> (\<forall>e t. le_close lenv (rq_lock_path r) = Some e \<longrightarrow> errors_is e t \<longrightarrow> error_is (ro_err ro) t)
             else lock_calls lenv r (ro_log ro) = []))"
proof -
  let ?ctx = "startup_context env (st_timeouts st)"
  let ?tw = "takeWhile (prepared_ok ?ctx config) (st_integrations st)"
  let ?all = "list_all (prepared_ok ?ctx config) before \<and> lock_taken lenv build ?ctx config"
  obtain own where own: "st_integrations st = before @ own # after" and def: "own = ownership_integration lenv build"
    using assms(4) by blast
  have cleaned: "cleaned (ro_log ro) = rev (acquired ?ctx config (st_integrations st))"
    using Run_cleaned [OF assms(1-3)] .
  have name: "in_name own = ''ownership''" by (simp add: def ownership_integration_def)
  have taken: "prepared_ok ?ctx config own \<longleftrightarrow> lock_taken lenv build ?ctx config"
    "has_cleanup ?ctx config own \<longleftrightarrow> lock_taken lenv build ?ctx config"
    by (simp_all add: def ownership_integration_facts)
  have dist: "distinct (map in_name (st_integrations st))" using settings_names_distinct [OF assms(2)] .
  have reached: "own \<in> set ?tw \<longleftrightarrow> ?all"
    using reached_iff [where f = in_name and x = own and P = "prepared_ok ?ctx config"] dist own taken by simp
  have "own \<in> set (st_integrations st)" by (simp add: own)
  from count_in_acquired [OF dist this, of ?ctx config] reached taken name
  have count: "count_list (cleaned (ro_log ro)) ''ownership'' = (if ?all then 1 else 0)"
    by (simp add: cleaned)
  have last: "last (cleaned (ro_log ro)) = ''ownership''" if "before = []" "lock_taken lenv build ?ctx config"
    using that own taken name by (simp add: cleaned acquired_def)
  have "error_is (ro_err ro) t"
    if b: "build = Some b" "b config = Inr r" and all: ?all and e: "le_close lenv (rq_lock_path r) = Some e" "errors_is e t"
    for b r e t
  proof -
    obtain p where p: "in_prepare own ?ctx config = Inr p"
      using all taken(1) by (auto simp: prepared_ok_def split: sum.splits)
    have "''ownership'' \<in> set (cleaned (ro_log ro))" using count all by (metis count_notin one_neq_zero)
    then obtain c where c: "EvCleanup (in_name own) c \<in> set (ro_log ro)" by (auto simp: cleaned_member name)
    have "Ownership_Prepare lenv (Some b) ?ctx config = Inr p" using p b by (simp add: def ownership_integration_def)
    then have f: "pp_cleanup p = Some (\<lambda>c. snd (lock_cleanup lenv (retry_default r) c))"
      using b(2) by (rule Ownership_Prepare_registers)
    have failed: "snd (lock_cleanup lenv (retry_default r) c) = Some (err_wrap ''release ownership lock: %w'' e)"
      using e by (simp add: lock_cleanup_def)
    have "errors_is (err_wrap ''release ownership lock: %w'' e) t" using e by simp
    with Run_cleanup_error [OF assms(1-3) reached [THEN iffD2, OF all] p f c failed] show ?thesis .
  qed
  with count last show ?thesis by (simp add: lock_calls_cleaned)
qed

section \<open>The property at a concrete run\<close>

definition ex_lock_env :: lock_env where
  "ex_lock_env = \<lparr>le_stat = (\<lambda>_. Inr True), le_try_lock = (\<lambda>_ _ _. Inr True), le_close = (\<lambda>_. Some (err_new ''busy''))\<rparr>"

definition ex_requirement :: "nat \<Rightarrow> goerr + requirement" where
  "ex_requirement c = Inr \<lparr>rq_lock_path = ''/var/lib/app/lock'', rq_retry_interval = 0\<rparr>"

definition ex_owned_spec :: "(nat, nat) spec" where
  "ex_owned_spec = \<lparr>sp_name = ''app'', sp_load = Some (\<lambda>_. Inr 1), sp_modules = Some (\<lambda>_. ReturnsNil)\<rparr>"

definition ex_owned :: "(nat, nat) integration" where
  "ex_owned = ownership_integration ex_lock_env (Some ex_requirement)"

definition ex_owned_settings :: "(nat, nat) run_settings" where
  "ex_owned_settings = (default_settings ''app'')\<lparr>st_integrations := [ex_owned]\<rparr>"

lemma ex_lock_taken: "lock_taken ex_lock_env (Some ex_requirement) ctx 1"
  by (simp add: lock_taken_def ex_lock_env_def ex_requirement_def IsAbs_def has_prefix_def)

lemma ex_owned_resolve: "resolveSettings ex_owned_spec [WithIntegration (Some ex_owned)] = Inr ex_owned_settings"
  by (simp add: resolveSettings_def ex_owned_spec_def apply_option_def default_settings_def
      ex_owned_settings_def ex_owned_def ownership_integration_def name_error_def)

theorem ownership_lock_released_once_witness:
  "\<exists>ro. Run (ex_env None) ex_owned_spec [WithIntegration (Some ex_owned)] = Some ro
     \<and> count_list (cleaned (ro_log ro)) ''ownership'' = 1 \<and> last (cleaned (ro_log ro)) = ''ownership''
     \<and> lock_calls ex_lock_env \<lparr>rq_lock_path = ''/var/lib/app/lock'', rq_retry_interval = 0\<rparr> (ro_log ro)
         = [LClose ''/var/lib/app/lock''] \<and> error_is (ro_err ro) (err_new ''busy'')"
proof -
  have "buildModules (the (sp_modules ex_owned_spec)) c = Inl (err_new ''module factory returned nil'')"
    "the (sp_load ex_owned_spec) ctx = Inr 1" for c ctx
    by (simp_all add: buildModules_def ex_owned_spec_def)
  then have "\<exists>ro. Run (ex_env None) ex_owned_spec [WithIntegration (Some ex_owned)] = Some ro"
    by (simp add: Run_def ex_owned_resolve Let_def split: prod.split option.split)
  then obtain ro where run: "Run (ex_env None) ex_owned_spec [WithIntegration (Some ex_owned)] = Some ro" by blast
  have load: "the (sp_load ex_owned_spec) (startup_context (ex_env None) (st_timeouts ex_owned_settings)) = Inr 1"
    by (simp add: ex_owned_spec_def)
  have split: "st_integrations ex_owned_settings = [] @ ownership_integration ex_lock_env (Some ex_requirement) # []"
    by (simp add: ex_owned_settings_def ex_owned_def)
  have "le_close ex_lock_env ''/var/lib/app/lock'' = Some (err_new ''busy'')" by (simp add: ex_lock_env_def)
  with ownership_lock_released_once [OF run ex_owned_resolve load split] run ex_lock_taken show ?thesis
    by (simp add: ex_requirement_def)
qed

end
