(* ===== verification/Database.thy ===== *)
theory Database
  imports Health
begin

text \<open>
  The SQL lifecycle, \<^verbatim>\<open>src/database/database.go\<close>, and the data source name of
  \<^verbatim>\<open>database/sqlite/sqlite.go\<close>: construction of the pool, the startup ping that closes the
  pool when it fails, the pool closed once, and the readiness check.  GORM and
  \<^verbatim>\<open>database/sql\<close> are parameters; the calls made to the pool are logged.
\<close>

section \<open>Construction\<close>

record pool_config =
  pc_max_open :: int
  pc_max_idle :: int
  pc_max_lifetime :: int
  pc_max_idle_time :: int

record 'd db_config =
  dc_dialector :: "'d option"
  dc_pool :: pool_config
  dc_ping_timeout :: int
  dc_health_timeout :: int
  dc_health_name :: string

record db_runtime =
  db_name :: string
  db_ping_timeout :: int
  db_health_timeout :: int
  db_closed :: bool
  db_close_err :: error

datatype pool_call =
    PoolMaxOpen int
  | PoolMaxIdle int
  | PoolMaxLifetime int
  | PoolMaxIdleTime int
  | PoolPing context_deadline
  | PoolClose

definition pool_setup :: "pool_config \<Rightarrow> pool_call list" where
  "pool_setup p =
     (if 0 < pc_max_open p then [PoolMaxOpen (pc_max_open p)] else [])
     @ (if 0 < pc_max_idle p then [PoolMaxIdle (pc_max_idle p)] else [])
     @ (if 0 < pc_max_lifetime p then [PoolMaxLifetime (pc_max_lifetime p)] else [])
     @ (if 0 < pc_max_idle_time p then [PoolMaxIdleTime (pc_max_idle_time p)] else [])"

text \<open>\<open>opened\<close> is the answer of \<^verbatim>\<open>gorm.Open\<close> for a dialector, \<open>pool\<close> that of \<^verbatim>\<open>db.DB()\<close>.\<close>

definition db_newRuntime ::
    "('d \<Rightarrow> error) \<Rightarrow> error \<Rightarrow> 'd db_config \<Rightarrow> pool_call list \<times> (goerr + db_runtime)" where
  "db_newRuntime opened pool config =
     (case dc_dialector config of
        None \<Rightarrow> ([], Inl (err_new ''database dialector is required''))
      | Some d \<Rightarrow>
          (case opened d of
             Some e \<Rightarrow> ([], Inl (err_wrap ''open database: %w'' e))
           | None \<Rightarrow>
               (case pool of
                  Some e \<Rightarrow> ([], Inl (err_wrap ''get database/sql pool: %w'' e))
                | None \<Rightarrow>
                    (pool_setup (dc_pool config),
                     Inr \<lparr>db_name = (if dc_health_name config = '''' then ''database'' else dc_health_name config),
                          db_ping_timeout = dc_ping_timeout config, db_health_timeout = dc_health_timeout config,
                          db_closed = False, db_close_err = None\<rparr>))))"

section \<open>Lifecycle\<close>

text \<open>
  \<open>answer\<close> is what the pool would answer now: to a ping under a context, and to a close.
\<close>

record pool_answer =
  pa_ping :: "context_deadline \<Rightarrow> error"
  pa_close :: error

definition db_close :: "error \<Rightarrow> db_runtime \<Rightarrow> db_runtime \<times> pool_call list \<times> error" where
  "db_close close_err db =
     (if db_closed db then (db, [], db_close_err db)
      else (db\<lparr>db_closed := True, db_close_err := close_err\<rparr>, [PoolClose], close_err))"

definition bounded :: "int \<Rightarrow> context_deadline \<Rightarrow> int \<Rightarrow> context_deadline" where
  "bounded now ctx timeout = (if 0 < timeout then with_timeout now ctx timeout else ctx)"

definition db_start ::
    "pool_answer \<Rightarrow> int \<Rightarrow> context_deadline \<Rightarrow> db_runtime \<Rightarrow> db_runtime \<times> pool_call list \<times> error" where
  "db_start answer now ctx db =
     (let ctx' = bounded now ctx (db_ping_timeout db)
      in case pa_ping answer ctx' of
           None \<Rightarrow> (db, [PoolPing ctx'], None)
         | Some e \<Rightarrow>
             (let (db', log, close_err) = db_close (pa_close answer) db
              in (db', PoolPing ctx' # log, errors_join [Some (err_wrap ''database ping: %w'' e), close_err])))"

definition db_stop :: "pool_answer \<Rightarrow> db_runtime \<Rightarrow> db_runtime \<times> pool_call list \<times> error" where
  "db_stop answer db = db_close (pa_close answer) db"

definition db_check ::
    "pool_answer \<Rightarrow> int \<Rightarrow> context_deadline \<Rightarrow> db_runtime \<Rightarrow> pool_call list \<times> result" where
  "db_check answer now ctx db =
     (let ctx' = bounded now ctx (db_health_timeout db)
      in ([PoolPing ctx'],
          case pa_ping answer ctx' of
            Some e \<Rightarrow> \<lparr>hr_status = StatusFail, hr_detail = ''database ping failed'', hr_err = Some e\<rparr>
          | None \<Rightarrow> \<lparr>hr_status = StatusPass, hr_detail = ''database is reachable'', hr_err = None\<rparr>))"

definition db_health :: "pool_answer \<Rightarrow> int \<Rightarrow> db_runtime \<Rightarrow> check" where
  "db_health answer now db =
     \<lparr>hc_name = db_name db, hc_kind = Readiness, hc_timeout = db_health_timeout db,
      hc_run = Some (\<lambda>ctx. CheckReturned (snd (db_check answer now ctx db)))\<rparr>"

section \<open>The SQLite data source name\<close>

record sqlite_config =
  sq_dsn :: string
  sq_wal :: bool
  sq_busy_timeout :: int
  sq_foreign_keys :: bool
  sq_pool :: pool_config
  sq_ping_timeout :: int
  sq_health_timeout :: int
  sq_health_name :: string

text \<open>
  The pragmas added to the query, in order; the busy timeout (nanoseconds) is printed in
  milliseconds.
\<close>

definition sqlite_pragmas :: "sqlite_config \<Rightarrow> string list" where
  "sqlite_pragmas c =
     (if sq_wal c then [''journal_mode(WAL)''] else [])
     @ (if 0 < sq_busy_timeout c then [''busy_timeout('' @ dec (nat (sq_busy_timeout c div 1000000)) @ '')''] else [])
     @ (if sq_foreign_keys c then [''foreign_keys(1)''] else [])"

text \<open>
  \<open>rewrite\<close> is the URL library: parsing the name (\<open>None\<close>: an error), and printing it with
  the values added to the query under \<^verbatim>\<open>_pragma\<close>.
\<close>

definition sqlite_dsn :: "(string \<Rightarrow> (string list \<Rightarrow> string) option) \<Rightarrow> sqlite_config \<Rightarrow> string" where
  "sqlite_dsn rewrite c =
     (if sq_dsn c = '''' then sq_dsn c
      else (case rewrite (sq_dsn c) of None \<Rightarrow> sq_dsn c | Some print_with \<Rightarrow> print_with (sqlite_pragmas c)))"

section \<open>The pool is closed once\<close>

definition close_result :: "db_runtime \<Rightarrow> error option" where
  "close_result db = (if db_closed db then Some (db_close_err db) else None)"

interpretation pool_cell: write_once "\<lambda>e db. fst (db_close e db)" close_result id "\<lambda>_. True"
  by unfold_locales (auto simp: db_close_def close_result_def split: if_splits)

text \<open>A sequence of lifecycle calls and checks, each at its time, under its context.\<close>

datatype db_op = OpStart pool_answer int context_deadline | OpStop pool_answer | OpCheck pool_answer int context_deadline

fun db_op_step :: "db_op \<Rightarrow> db_runtime \<Rightarrow> db_runtime \<times> pool_call list \<times> error" where
  "db_op_step (OpStart a now ctx) db = db_start a now ctx db"
| "db_op_step (OpStop a) db = db_stop a db"
| "db_op_step (OpCheck a now ctx) db = (db, fst (db_check a now ctx db), None)"

fun db_ops :: "db_op list \<Rightarrow> db_runtime \<Rightarrow> db_runtime \<times> pool_call list" where
  "db_ops [] db = (db, [])"
| "db_ops (op # ops) db =
     (let (db1, log, _) = db_op_step op db; (db2, log') = db_ops ops db1 in (db2, log @ log'))"

text \<open>Whether a call closes an open pool, and with which result.\<close>

fun closes_with :: "db_op \<Rightarrow> db_runtime \<Rightarrow> error option" where
  "closes_with (OpStart a now ctx) db =
     (if pa_ping a (bounded now ctx (db_ping_timeout db)) = None then None else Some (pa_close a))"
| "closes_with (OpStop a) db = Some (pa_close a)"
| "closes_with (OpCheck a now ctx) db = None"

lemma db_op_step_closed:
  "db_closed db \<Longrightarrow> fst (db_op_step op db) = db \<and> PoolClose \<notin> set (fst (snd (db_op_step op db)))"
  by (cases op) (auto simp: db_start_def db_stop_def db_close_def db_check_def Let_def split: option.splits)

lemma db_ops_closed:
  "db_closed db \<Longrightarrow> fst (db_ops ops db) = db \<and> PoolClose \<notin> set (snd (db_ops ops db))"
proof (induction ops)
  case (Cons op ops)
  have "fst (db_op_step op db) = db" "PoolClose \<notin> set (fst (snd (db_op_step op db)))"
    using db_op_step_closed [OF Cons.prems] by auto
  then show ?case using Cons by (auto simp: Let_def case_prod_beta)
qed simp

lemma db_op_step_open:
  "\<not> db_closed db \<Longrightarrow>
   (case closes_with op db of
      None \<Rightarrow> fst (db_op_step op db) = db \<and> count_list (fst (snd (db_op_step op db))) PoolClose = 0
    | Some e \<Rightarrow> fst (db_op_step op db) = db\<lparr>db_closed := True, db_close_err := e\<rparr>
        \<and> count_list (fst (snd (db_op_step op db))) PoolClose = 1)"
  by (cases op) (auto simp: db_start_def db_stop_def db_close_def db_check_def Let_def split: option.splits)

fun first_close :: "db_op list \<Rightarrow> db_runtime \<Rightarrow> error option" where
  "first_close [] db = None"
| "first_close (op # ops) db = (case closes_with op db of Some e \<Rightarrow> Some e | None \<Rightarrow> first_close ops db)"

lemma db_ops_open:
  "\<not> db_closed db \<Longrightarrow>
   (case first_close ops db of
      None \<Rightarrow> fst (db_ops ops db) = db \<and> count_list (snd (db_ops ops db)) PoolClose = 0
    | Some e \<Rightarrow> fst (db_ops ops db) = db\<lparr>db_closed := True, db_close_err := e\<rparr>
        \<and> count_list (snd (db_ops ops db)) PoolClose = 1)"
proof (induction ops)
  case (Cons op ops)
  show ?case
  proof (cases "closes_with op db")
    case None
    with db_op_step_open [OF Cons.prems, of op] Cons show ?thesis
      by (auto simp: Let_def case_prod_beta split: option.splits)
  next
    case (Some e)
    let ?db = "db\<lparr>db_closed := True, db_close_err := e\<rparr>"
    have "fst (db_ops ops ?db) = ?db" "PoolClose \<notin> set (snd (db_ops ops ?db))"
      using db_ops_closed [of ?db ops] by simp_all
    with Some db_op_step_open [OF Cons.prems, of op] show ?thesis
      by (auto simp: Let_def case_prod_beta count_list_0_iff)
  qed
qed simp

section \<open>Properties\<close>

text \<open>
  whatever sequence of starts, stops and checks a new runtime goes through, its pool is
  closed at most once, by the first stop or failing startup ping; from then on every stop
  answers what that close answered and a failing start still reports its ping, with that
  answer.
\<close>

theorem database_pool_closed_once:
  assumes "db_newRuntime opened pool config = (made, Inr db)" and "db_ops ops db = (db', log)"
  shows "count_list log PoolClose = (if first_close ops db = None then 0 else 1)
       \<and> (case first_close ops db of
            None \<Rightarrow> db' = db
          | Some e \<Rightarrow> db_stop answer db' = (db', [], e)
              \<and> (\<forall>err. pa_ping answer (bounded now ctx (db_ping_timeout db')) = Some err \<longrightarrow>
                    db_start answer now ctx db'
                      = (db', [PoolPing (bounded now ctx (db_ping_timeout db'))],
                         errors_join [Some (err_wrap ''database ping: %w'' err), e])))"
proof -
  have "\<not> db_closed db"
    using assms(1) by (auto simp: db_newRuntime_def split: option.splits)
  from db_ops_open [OF this, of ops] assms(2) show ?thesis
    by (auto simp: db_stop_def db_start_def db_close_def Let_def split: option.splits)
qed

definition ex_db_config :: "unit db_config" where
  "ex_db_config = \<lparr>dc_dialector = Some (), dc_pool = \<lparr>pc_max_open = 1, pc_max_idle = 0, pc_max_lifetime = 0,
     pc_max_idle_time = 0\<rparr>, dc_ping_timeout = 5, dc_health_timeout = 0, dc_health_name = ''''\<rparr>"

definition ex_dead_pool :: pool_answer where
  "ex_dead_pool = \<lparr>pa_ping = (\<lambda>_. Some (err_new ''refused'')), pa_close = Some (err_new ''busy'')\<rparr>"

theorem database_pool_closed_once_witness:
  "\<exists>db. snd (db_newRuntime (\<lambda>_. None) None ex_db_config) = Inr db
     \<and> count_list (snd (db_ops [OpStart ex_dead_pool 0 None, OpStop ex_dead_pool] db)) PoolClose = 1"
proof -
  obtain made db where new: "db_newRuntime (\<lambda>_. None) None ex_db_config = (made, Inr db)"
    by (simp add: db_newRuntime_def ex_db_config_def)
  obtain db' log where ops: "db_ops [OpStart ex_dead_pool 0 None, OpStop ex_dead_pool] db = (db', log)"
    by fastforce
  from database_pool_closed_once [OF new ops] new ops show ?thesis
    by (auto simp: ex_dead_pool_def)
qed

end
