(* ===== verification/Observability.thy ===== *)
theory Observability
  imports Prelude
begin

text \<open>
  Telemetry providers, \<^verbatim>\<open>src/observability/observability.go\<close>: the tracer provider that
  can be exchanged while it is in use, the construction of exporters and providers with
  its clean-up, and start, stop and shutdown.  The OpenTelemetry SDK is a parameter; the
  effects on it and on the process-wide providers are logged.
\<close>

section \<open>Configuration\<close>

record otel_config =
  oc_enabled :: bool
  oc_service_name :: string
  oc_service_version :: string
  oc_environment :: string
  oc_endpoint :: string
  oc_insecure :: bool
  oc_export_timeout :: int
  oc_metric_interval :: int

definition otel_validateConfig :: "otel_config \<Rightarrow> error" where
  "otel_validateConfig c =
     (if \<not> oc_enabled c then Some (err_new ''observability module selected with telemetry disabled'')
      else if oc_service_name c = '''' then Some (err_new ''telemetry service name is empty'')
      else None)"

definition otel_defaults :: "otel_config \<Rightarrow> otel_config" where
  "otel_defaults c =
     (let c1 = (if oc_export_timeout c \<le> 0 then c\<lparr>oc_export_timeout := 5 * 1000000000\<rparr> else c)
      in if oc_metric_interval c1 \<le> 0 then c1\<lparr>oc_metric_interval := 30 * 1000000000\<rparr> else c1)"

section \<open>Providers\<close>

text \<open>A provider of the SDK, by a handle.  A nil pointer is \<open>None\<close>.\<close>

record providers =
  pr_tracer :: "nat option"
  pr_meter :: "nat option"

definition no_providers :: providers where
  "no_providers = \<lparr>pr_tracer = None, pr_meter = None\<rparr>"

text \<open>The exporter options that depend on the configuration.\<close>

datatype exporter_option = WithExportTimeout int | WithEndpoint string | WithInsecure

definition exporter_options :: "otel_config \<Rightarrow> exporter_option list" where
  "exporter_options c =
     [WithExportTimeout (oc_export_timeout c)]
     @ (if oc_endpoint c \<noteq> '''' then [WithEndpoint (oc_endpoint c)] else [])
     @ (if oc_insecure c then [WithInsecure] else [])"

datatype otel_event =
    NewResource string string string
  | NewTraceExporter "exporter_option list"
  | NewMetricExporter "exporter_option list"
  | ShutdownTraceExporter
  | NewTracerProvider nat
  | NewMeterProvider nat int
  | SetGlobalTracer nat
  | SetGlobalMeter nat
  | SetPropagator
  | FlushMeter nat
  | ShutdownMeter nat
  | FlushTracer nat
  | ShutdownTracer nat

record otel_env =
  oe_resource :: error
  oe_trace_exporter :: error
  oe_metric_exporter :: error
  oe_tracer :: nat
  oe_meter :: nat
  oe_flush_meter :: error
  oe_shutdown_meter :: error
  oe_flush_tracer :: error
  oe_shutdown_tracer :: error

definition otel_New :: "otel_env \<Rightarrow> otel_config \<Rightarrow> otel_event list \<times> (goerr + providers)" where
  "otel_New env config =
     (case otel_validateConfig config of
        Some e \<Rightarrow> ([], Inl e)
      | None \<Rightarrow>
          (let c = otel_defaults config;
               res = NewResource (oc_service_name c) (oc_service_version c) (oc_environment c);
               opts = exporter_options c
           in case oe_resource env of
                Some e \<Rightarrow> ([res], Inl (err_wrap ''create telemetry resource: %w'' e))
              | None \<Rightarrow>
                  (case oe_trace_exporter env of
                     Some e \<Rightarrow> ([res, NewTraceExporter opts], Inl (err_wrap ''create trace exporter: %w'' e))
                   | None \<Rightarrow>
                       (case oe_metric_exporter env of
                          Some e \<Rightarrow> ([res, NewTraceExporter opts, NewMetricExporter opts, ShutdownTraceExporter],
                                    Inl (err_wrap ''create metric exporter: %w'' e))
                        | None \<Rightarrow>
                            ([res, NewTraceExporter opts, NewMetricExporter opts, NewTracerProvider (oe_tracer env),
                              NewMeterProvider (oe_meter env) (oc_metric_interval c), SetGlobalTracer (oe_tracer env),
                              SetGlobalMeter (oe_meter env), SetPropagator],
                             Inr \<lparr>pr_tracer = Some (oe_tracer env), pr_meter = Some (oe_meter env)\<rparr>)))))"

text \<open>\<^verbatim>\<open>Providers.Shutdown\<close>: the meter provider first, every step whatever failed before.\<close>

definition Providers_Shutdown :: "otel_env \<Rightarrow> providers \<Rightarrow> otel_event list \<times> error" where
  "Providers_Shutdown env p =
     (let (mlog, merr) = (case pr_meter p of
            None \<Rightarrow> ([], None)
          | Some m \<Rightarrow> ([FlushMeter m, ShutdownMeter m],
                       errors_join [None, oe_flush_meter env, oe_shutdown_meter env]))
      in case pr_tracer p of
           None \<Rightarrow> (mlog, merr)
         | Some t \<Rightarrow> (mlog @ [FlushTracer t, ShutdownTracer t],
                      errors_join [merr, oe_flush_tracer env, oe_shutdown_tracer env]))"

section \<open>The dynamic tracer provider and the module's runtime\<close>

datatype tracer_provider = Noop | Sdk nat

record runtime_providers =
  rp_config :: otel_config
  rp_current :: tracer_provider
  rp_active :: providers

definition dynamic_set :: "tracer_provider \<Rightarrow> runtime_providers \<Rightarrow> runtime_providers" where
  "dynamic_set t rt = rt\<lparr>rp_current := t\<rparr>"

text \<open>The provider that makes the next tracer.\<close>

definition dynamic_Tracer :: "runtime_providers \<Rightarrow> tracer_provider" where
  "dynamic_Tracer rt = rp_current rt"

definition otel_runtime :: "otel_config \<Rightarrow> goerr + runtime_providers" where
  "otel_runtime config =
     (case otel_validateConfig config of
        Some e \<Rightarrow> Inl e
      | None \<Rightarrow> Inr \<lparr>rp_config = config, rp_current = Noop, rp_active = no_providers\<rparr>)"

definition otel_Start :: "otel_env \<Rightarrow> runtime_providers \<Rightarrow> runtime_providers \<times> otel_event list \<times> error" where
  "otel_Start env rt =
     (case otel_New env (rp_config rt) of
        (log, Inl e) \<Rightarrow> (rt, log, Some e)
      | (log, Inr p) \<Rightarrow>
          (dynamic_set (case pr_tracer p of None \<Rightarrow> Noop | Some t \<Rightarrow> Sdk t) (rt\<lparr>rp_active := p\<rparr>), log, None))"

definition otel_Stop :: "otel_env \<Rightarrow> runtime_providers \<Rightarrow> runtime_providers \<times> otel_event list \<times> error" where
  "otel_Stop env rt =
     (let (log, err) = Providers_Shutdown env (rp_active rt) in (dynamic_set Noop rt, log, err))"

section \<open>Properties\<close>

text \<open>
  a start of a runtime the module made either fails, with no process-wide provider set,
  the trace exporter shut down if it had been created without the metric one, and
  tracers still discarded; or sets both process-wide providers and serves tracers of the
  new one.  A stop after it flushes and shuts down both providers, whatever fails, keeps
  every error, and discards tracers again.
\<close>

theorem telemetry_start_stop:
  assumes "otel_runtime config = Inr rt" and "otel_Start env rt = (rt', log, err)"
  shows "(err = None \<longleftrightarrow> oe_resource env = None \<and> oe_trace_exporter env = None \<and> oe_metric_exporter env = None)
     \<and> (if err = None then
          SetGlobalTracer (oe_tracer env) \<in> set log \<and> SetGlobalMeter (oe_meter env) \<in> set log
          \<and> dynamic_Tracer rt' = Sdk (oe_tracer env)
          \<and> (case otel_Stop env' rt' of (rt'', log', err') \<Rightarrow>
               log' = [FlushMeter (oe_meter env), ShutdownMeter (oe_meter env),
                       FlushTracer (oe_tracer env), ShutdownTracer (oe_tracer env)]
               \<and> dynamic_Tracer rt'' = Noop
               \<and> (err' = None \<longleftrightarrow> oe_flush_meter env' = None \<and> oe_shutdown_meter env' = None
                     \<and> oe_flush_tracer env' = None \<and> oe_shutdown_tracer env' = None)
               \<and> (\<forall>t. error_is (oe_flush_meter env') t \<or> error_is (oe_shutdown_meter env') t
                     \<or> error_is (oe_flush_tracer env') t \<or> error_is (oe_shutdown_tracer env') t \<longrightarrow> error_is err' t))
        else rt' = rt \<and> dynamic_Tracer rt' = Noop
          \<and> (\<forall>n. SetGlobalTracer n \<notin> set log \<and> SetGlobalMeter n \<notin> set log)
          \<and> (ShutdownTraceExporter \<in> set log
               \<longleftrightarrow> oe_resource env = None \<and> oe_trace_exporter env = None))"
proof -
  have rt: "otel_validateConfig (rp_config rt) = None" "rp_current rt = Noop"
    using assms(1) by (auto simp: otel_runtime_def split: option.splits)
  show ?thesis
  proof (cases "oe_resource env = None \<and> oe_trace_exporter env = None \<and> oe_metric_exporter env = None")
    case True
    let ?p = "\<lparr>pr_tracer = Some (oe_tracer env), pr_meter = Some (oe_meter env)\<rparr>"
    have started: "err = None" "rt' = rt\<lparr>rp_active := ?p, rp_current := Sdk (oe_tracer env)\<rparr>"
      "SetGlobalTracer (oe_tracer env) \<in> set log" "SetGlobalMeter (oe_meter env) \<in> set log"
      using assms(2) rt True by (auto simp: otel_Start_def otel_New_def dynamic_set_def Let_def)
    define merr where "merr = errors_join [None, oe_flush_meter env', oe_shutdown_meter env']"
    have stop: "otel_Stop env' rt' = (rt'\<lparr>rp_current := Noop\<rparr>,
        [FlushMeter (oe_meter env), ShutdownMeter (oe_meter env), FlushTracer (oe_tracer env), ShutdownTracer (oe_tracer env)],
        errors_join [merr, oe_flush_tracer env', oe_shutdown_tracer env'])"
      using started by (simp add: otel_Stop_def Providers_Shutdown_def dynamic_set_def merr_def)
    have keeps: "error_is (errors_join [merr, oe_flush_tracer env', oe_shutdown_tracer env']) t"
      if "error_is (oe_flush_meter env') t \<or> error_is (oe_shutdown_meter env') t
            \<or> error_is (oe_flush_tracer env') t \<or> error_is (oe_shutdown_tracer env') t" for t
    proof -
      have "error_is (oe_flush_meter env') t \<or> error_is (oe_shutdown_meter env') t \<Longrightarrow> error_is merr t"
        unfolding merr_def by (elim disjE) (rule errors_join_is, auto)+
      then have "error_is merr t \<or> error_is (oe_flush_tracer env') t \<or> error_is (oe_shutdown_tracer env') t"
        using that by blast
      then show ?thesis by (elim disjE) (rule errors_join_is, auto)+
    qed
    have "merr = None \<longleftrightarrow> oe_flush_meter env' = None \<and> oe_shutdown_meter env' = None"
      by (simp add: merr_def errors_join_None)
    then show ?thesis using True started stop keeps
      by (auto simp: dynamic_Tracer_def errors_join_None)
  next
    case False
    then show ?thesis
      using assms(2) rt
      by (auto simp: otel_Start_def otel_New_def dynamic_Tracer_def Let_def split: option.splits)
  qed
qed

definition ex_otel_config :: otel_config where
  "ex_otel_config = \<lparr>oc_enabled = True, oc_service_name = ''app'', oc_service_version = '''', oc_environment = '''',
     oc_endpoint = ''localhost:4317'', oc_insecure = True, oc_export_timeout = 0, oc_metric_interval = 0\<rparr>"

definition ex_otel_env :: otel_env where
  "ex_otel_env = \<lparr>oe_resource = None, oe_trace_exporter = None, oe_metric_exporter = Some (err_new ''refused''),
     oe_tracer = 1, oe_meter = 2, oe_flush_meter = None, oe_shutdown_meter = None, oe_flush_tracer = None,
     oe_shutdown_tracer = None\<rparr>"

theorem telemetry_start_stop_witness:
  "\<exists>rt. otel_runtime ex_otel_config = Inr rt \<and> fst (otel_Start ex_otel_env rt) = rt
     \<and> ShutdownTraceExporter \<in> set (fst (snd (otel_Start ex_otel_env rt)))"
proof -
  obtain rt where rt: "otel_runtime ex_otel_config = Inr rt"
    by (simp add: otel_runtime_def otel_validateConfig_def ex_otel_config_def)
  obtain rt' log err where start: "otel_Start ex_otel_env rt = (rt', log, err)"
    by (cases "otel_Start ex_otel_env rt")
  from telemetry_start_stop [OF rt start, of ex_otel_env] rt start show ?thesis
    by (auto simp: ex_otel_env_def split: if_splits)
qed

end
