(* ===== verification/Web.thy ===== *)
theory Web
  imports Health
begin

text \<open>
  The web layer: the Gin middleware preset and health routes of \<^verbatim>\<open>src/gin/gin.go\<close> and the
  API prefix of \<^verbatim>\<open>src/api/api.go\<close>.  Gin and Huma are parameters: a handler maps a request
  and the response so far to a response.
\<close>

section \<open>Requests and responses\<close>

text \<open>
  \<open>wr_header\<close> is \<^verbatim>\<open>GetHeader\<close> (empty when absent); a context keeps the response header, the
  values set by \<^verbatim>\<open>ctx.Set\<close> and the status; the log lists the fields of \<open>accessLog\<close>.
\<close>

record web_request =
  wr_method :: string
  wr_route :: string
  wr_header :: "string \<Rightarrow> string"

record web_context =
  wc_header :: "string \<Rightarrow> string option"
  wc_values :: "string \<Rightarrow> string option"
  wc_status :: int

datatype web_event =
    RecoveryEntered
  | TraceEntered string
  | Handled
  | AccessLogged string string string int

text \<open>A handler: the events it causes and the context it leaves.\<close>

type_synonym web_handler = "web_request \<Rightarrow> web_context \<Rightarrow> web_event list \<times> web_context"

text \<open>A middleware runs the rest of the chain where it calls \<^verbatim>\<open>ctx.Next()\<close>.\<close>

type_synonym middleware = "web_handler \<Rightarrow> web_handler"

definition set_header :: "string \<Rightarrow> string \<Rightarrow> web_context \<Rightarrow> web_context" where
  "set_header k v c = c\<lparr>wc_header := (wc_header c)(k \<mapsto> v)\<rparr>"

definition set_value :: "string \<Rightarrow> string \<Rightarrow> web_context \<Rightarrow> web_context" where
  "set_value k v c = c\<lparr>wc_values := (wc_values c)(k \<mapsto> v)\<rparr>"

text \<open>\<^verbatim>\<open>ctx.GetString\<close>\<close>

definition get_string :: "string \<Rightarrow> web_context \<Rightarrow> string" where
  "get_string k c = (case wc_values c k of None \<Rightarrow> '''' | Some v \<Rightarrow> v)"

section \<open>The middleware\<close>

text \<open>\<open>random\<close>: the sixteen bytes of \<^verbatim>\<open>crypto/rand\<close>, or an error (\<open>None\<close>).\<close>

definition request_id :: "string option \<Rightarrow> web_request \<Rightarrow> string" where
  "request_id random req =
     (if wr_header req ''X-Request-ID'' = ''''
      then (case random of None \<Rightarrow> '''' | Some bytes \<Rightarrow> hex_encode bytes)
      else wr_header req ''X-Request-ID'')"

definition requestIdentity :: "string option \<Rightarrow> middleware" where
  "requestIdentity random next req c =
     (let i = request_id random req
      in next req (if i \<noteq> '''' then set_value ''request_id'' i (set_header ''X-Request-ID'' i c) else c))"

definition accessLog :: middleware where
  "accessLog next req c =
     (let (log, c') = next req c
      in (log @ [AccessLogged (get_string ''request_id'' c') (wr_route req) (wr_method req) (wc_status c')], c'))"

definition securityHeaders :: middleware where
  "securityHeaders next req c =
     next req (set_header ''Referrer-Policy'' ''no-referrer''
       (set_header ''X-Frame-Options'' ''DENY'' (set_header ''X-Content-Type-Options'' ''nosniff'' c)))"

text \<open>
  The middleware of the libraries, for the log only: recovery from panics (the handlers of
  the model do not panic) and the tracing of \<^verbatim>\<open>otelgin\<close>.
\<close>

definition Recovery :: middleware where
  "Recovery next req c = (let (log, c') = next req c in (RecoveryEntered # log, c'))"

definition otelgin_Middleware :: "string \<Rightarrow> middleware" where
  "otelgin_Middleware service next req c = (let (log, c') = next req c in (TraceEntered service # log, c'))"

record preset_config =
  ps_service_name :: string
  ps_tracer :: bool
  ps_security_headers :: bool

definition MiddlewarePreset :: "string option \<Rightarrow> preset_config \<Rightarrow> middleware list" where
  "MiddlewarePreset random config =
     [Recovery, requestIdentity random]
     @ (if ps_tracer config then [otelgin_Middleware (ps_service_name config)] else [])
     @ [accessLog]
     @ (if ps_security_headers config then [securityHeaders] else [])"

text \<open>The chain Gin builds: the first middleware is the outermost.\<close>

definition chain :: "middleware list \<Rightarrow> web_handler \<Rightarrow> web_handler" where
  "chain ms h = foldr (\<lambda>m next. m next) ms h"

text \<open>
  The engine the module provides: the preset (with the tracer provider and the logger of
  the application, not those of the configuration) before the configured middleware.
\<close>

definition engine_middleware ::
    "string option \<Rightarrow> bool \<Rightarrow> preset_config option \<Rightarrow> middleware list \<Rightarrow> middleware list" where
  "engine_middleware random tracer_provided preset extra =
     (case preset of
        None \<Rightarrow> extra
      | Some p \<Rightarrow>
          MiddlewarePreset random \<lparr>ps_service_name = ps_service_name p, ps_tracer = tracer_provided,
             ps_security_headers = ps_security_headers p\<rparr> @ extra)"

text \<open>The two routes of \<^verbatim>\<open>MountHealth\<close>, each with its kind and without details.\<close>

definition MountHealth :: "(string \<times> kind \<times> bool) list" where
  "MountHealth = [(''/health/live'', Liveness, False), (''/health/ready'', Readiness, False)]"

section \<open>The API prefix\<close>

text \<open>\<^verbatim>\<open>strings.TrimSpace\<close> on ASCII text.\<close>

definition TrimSpace :: "string \<Rightarrow> string" where
  "TrimSpace s = trim_both s [CHR 0x09, CHR 0x0A, CHR 0x0B, CHR 0x0C, CHR 0x0D, CHR 0x20]"

definition normalizePrefix :: "string \<Rightarrow> string" where
  "normalizePrefix prefix0 =
     (let prefix = TrimSpace prefix0
      in if prefix = '''' \<or> prefix = ''/'' then ''''
         else trim_right (if hd prefix \<noteq> CHR ''/'' then ''/'' @ prefix else prefix) ''/'')"

text \<open>\<^verbatim>\<open>New\<close>: the router group the API is mounted on, \<open>None\<close> for the engine itself.\<close>

definition api_group :: "string \<Rightarrow> string option" where
  "api_group prefix0 = (let prefix = normalizePrefix prefix0 in if prefix \<noteq> '''' then Some prefix else None)"

section \<open>Properties\<close>

text \<open>
  behind the preset, a handler that leaves the recorded values alone sees the identity
  of the request, which is the caller's own if there is one and sixteen random bytes in
  hexadecimal otherwise; the response carries the same identity and, if selected, the
  security headers the handler does not set; and one access-log entry with that identity and the final
  status follows everything the handler did.
\<close>

theorem preset_identifies_requests:
  assumes "\<And>c'. h req c' = (hlog, c'\<lparr>wc_status := status\<rparr>)"
    and "wr_header req ''X-Request-ID'' \<noteq> '''' \<or> random = Some bytes \<and> bytes \<noteq> ''''"
    and "chain (MiddlewarePreset random config) h req c = (log, c')"
  shows "wc_header c' ''X-Request-ID'' = Some (request_id random req)
     \<and> get_string ''request_id'' c' = request_id random req
     \<and> request_id random req = (if wr_header req ''X-Request-ID'' = '''' then hex_encode bytes
                                else wr_header req ''X-Request-ID'')
     \<and> wc_status c' = status
     \<and> (if ps_security_headers config then
          wc_header c' ''X-Content-Type-Options'' = Some ''nosniff''
          \<and> wc_header c' ''X-Frame-Options'' = Some ''DENY'' \<and> wc_header c' ''Referrer-Policy'' = Some ''no-referrer''
        else True)
     \<and> log = [RecoveryEntered] @ (if ps_tracer config then [TraceEntered (ps_service_name config)] else [])
             @ hlog @ [AccessLogged (request_id random req) (wr_route req) (wr_method req) status]"
proof -
  have i: "request_id random req \<noteq> ''''"
    using assms(2) by (auto simp: request_id_def hex_encode_nonempty)
  show ?thesis
    using assms(3) i assms(2)
    by (auto simp: MiddlewarePreset_def chain_def Recovery_def requestIdentity_def otelgin_Middleware_def
        accessLog_def securityHeaders_def Let_def assms(1) set_header_def set_value_def get_string_def request_id_def
        split: if_splits)
qed

text \<open>
  the prefix the API is mounted under is absent or starts with a slash and does not end
  with one; a prefix of this form, without spaces around it, is used as it is.
\<close>

theorem api_prefix_normal:
  "case api_group prefix of
     None \<Rightarrow> set (TrimSpace prefix) \<subseteq> {CHR ''/''}
   | Some g \<Rightarrow> hd g = CHR ''/'' \<and> last g \<noteq> CHR ''/'' \<and> g \<noteq> ''''
       \<and> (if TrimSpace g = g then api_group g = Some g else True)"
proof -
  let ?s = "TrimSpace prefix"
  define p where "p = (if hd ?s \<noteq> CHR ''/'' then ''/'' @ ?s else ?s)"
  have last: "trim_right q ''/'' = [] \<or> last (trim_right q ''/'') \<noteq> CHR ''/''" for q
    using trim_right_last [of q "''/''"] by simp
  have only: "set q \<subseteq> {CHR ''/''}" if "trim_right q ''/'' = []" for q
    using that by (auto simp: trim_right_def dropWhile_eq_Nil_conv)
  have head: "hd (trim_right q ''/'') = hd q" if "trim_right q ''/'' \<noteq> []" for q
  proof -
    obtain r where "q = trim_right q ''/'' @ r"
      by (metis rev_append rev_rev_ident takeWhile_dropWhile_id trim_right_def)
    with that show ?thesis by (metis hd_append2)
  qed
  show ?thesis
  proof (cases "api_group prefix")
    case None
    then have "?s = '''' \<or> ?s = ''/'' \<or> trim_right p ''/'' = []"
      by (auto simp: api_group_def normalizePrefix_def p_def Let_def split: if_splits)
    moreover have "set ?s \<subseteq> {CHR ''/''}" if "trim_right p ''/'' = []"
      using only [OF that] by (auto simp: p_def split: if_splits)
    ultimately show ?thesis using None by auto
  next
    case (Some g)
    then have g: "g = trim_right p ''/''" "g \<noteq> []" "?s \<noteq> ''''"
      by (auto simp: api_group_def normalizePrefix_def p_def Let_def split: if_splits)
    have hdp: "hd p = CHR ''/''" using g(3) by (simp add: p_def)
    have hl: "hd g = CHR ''/''" "last g \<noteq> CHR ''/''"
      using g head [of p] last [of p] hdp by auto
    have "api_group g = Some g" if "TrimSpace g = g"
    proof -
      have "trim_right g ''/'' = g" using hl(2) by (intro trim_right_id) simp
      moreover have "g \<noteq> ''/''" using hl(2) by auto
      ultimately show ?thesis
        using that g(2) hl(1) by (simp add: api_group_def normalizePrefix_def Let_def)
    qed
    then show ?thesis using Some hl g(2) by auto
  qed
qed

definition ex_web_request :: web_request where
  "ex_web_request = \<lparr>wr_method = ''GET'', wr_route = ''/v1/greeting'', wr_header = (\<lambda>_. '''')\<rparr>"

theorem preset_identifies_requests_witness:
  "wc_header (snd (chain (MiddlewarePreset (Some ''k'') \<lparr>ps_service_name = ''app'', ps_tracer = True, ps_security_headers = True\<rparr>)
       (\<lambda>req c. ([Handled], c\<lparr>wc_status := 200\<rparr>)) ex_web_request
       \<lparr>wc_header = (\<lambda>_. None), wc_values = (\<lambda>_. None), wc_status = 0\<rparr>)) ''X-Request-ID'' = Some ''6b''"
proof -
  let ?h = "\<lambda>(req :: web_request) c. ([Handled], c\<lparr>wc_status := 200\<rparr>)"
  let ?config = "\<lparr>ps_service_name = ''app'', ps_tracer = True, ps_security_headers = True\<rparr>"
  let ?c = "\<lparr>wc_header = (\<lambda>_. None), wc_values = (\<lambda>_. None), wc_status = 0\<rparr>"
  obtain log c' where run: "chain (MiddlewarePreset (Some ''k'') ?config) ?h ex_web_request ?c = (log, c')"
    by (cases "chain (MiddlewarePreset (Some ''k'') ?config) ?h ex_web_request ?c")
  have hex: "[hex_digit 6, hex_digit 11] = ''6b''" by code_simp
  have "wc_header c' ''X-Request-ID'' = Some (request_id (Some ''k'') ex_web_request)"
    using preset_identifies_requests [OF _ _ run, of "[Handled]" 200 "''k''"] by simp
  then show ?thesis unfolding run using hex by (simp add: request_id_def ex_web_request_def)
qed

end
