(* ===== verification/Cli.thy ===== *)
theory Cli
  imports Prelude
begin

text \<open>
  The command line boundary, \<^verbatim>\<open>src/cli/cli.go\<close>: one parse and, when a command was
  selected, its execution, without ever leaving the process.  Kong is a parameter.
\<close>

section \<open>Results\<close>

text \<open>A parser and a context are handles; \<open>None\<close> is nil.\<close>

record cli_result =
  cl_kong :: "nat option"
  cl_context :: "nat option"
  cl_command :: string
  cl_error :: error

text \<open>
  Kong: building a parser for the grammar and the options, and parsing: the context or nil,
  the error, the context a \<^verbatim>\<open>*kong.ParseError\<close> in it carries (\<open>Some\<close> when \<^verbatim>\<open>errors.As\<close>
  finds one), and the last code passed to \<^verbatim>\<open>Exit\<close> meanwhile; the command of a context and
  running it.
\<close>

datatype kong_option = CallerOption nat | Writers nat nat | ExitRecorder

record parse_answer =
  pn_context :: "nat option"
  pn_error :: error
  pn_parse_error :: "nat option option"
  pn_exit :: "int option"

record kong_env =
  ke_new :: "kong_option list \<Rightarrow> goerr + nat"
  ke_parse :: "nat \<Rightarrow> string list \<Rightarrow> parse_answer"
  ke_command :: "nat \<Rightarrow> string"
  ke_run :: "nat \<Rightarrow> error"

datatype cli_event = ParsedArgs "string list" | PrintedError goerr | RanCommand nat

text \<open>Writer 0 is \<^verbatim>\<open>io.Discard\<close>; \<open>stdout\<close> and \<open>stderr\<close> may be nil.\<close>

definition parser_options :: "kong_option list \<Rightarrow> nat option \<Rightarrow> nat option \<Rightarrow> kong_option list" where
  "parser_options options stdout stderr =
     options @ [Writers (case stdout of None \<Rightarrow> 0 | Some w \<Rightarrow> w) (case stderr of None \<Rightarrow> 0 | Some w \<Rightarrow> w), ExitRecorder]"

definition exit_code :: "parse_answer \<Rightarrow> int" where
  "exit_code pn = (case pn_exit pn of None \<Rightarrow> -1 | Some c \<Rightarrow> c)"

definition parse_context :: "parse_answer \<Rightarrow> nat option" where
  "parse_context pn =
     (case pn_context pn of
        Some c \<Rightarrow> Some c
      | None \<Rightarrow> (case pn_parse_error pn of None \<Rightarrow> None | Some c \<Rightarrow> c))"

definition Cli_Run ::
    "kong_env \<Rightarrow> string list \<Rightarrow> nat option \<Rightarrow> nat option \<Rightarrow> kong_option list \<Rightarrow> cli_event list \<times> cli_result" where
  "Cli_Run env args stdout stderr options =
     (case ke_new env (parser_options options stdout stderr) of
        Inl e \<Rightarrow> ([], \<lparr>cl_kong = None, cl_context = None, cl_command = '''', cl_error = Some e\<rparr>)
      | Inr parser \<Rightarrow>
          (let pn = ke_parse env parser args;
               ctx = parse_context pn;
               result = \<lparr>cl_kong = Some parser, cl_context = ctx,
                         cl_command = (case ctx of None \<Rightarrow> '''' | Some c \<Rightarrow> ke_command env c),
                         cl_error = pn_error pn\<rparr>
           in if exit_code pn = 0 then ([ParsedArgs args], result\<lparr>cl_error := None\<rparr>)
              else (case pn_error pn of
                      Some e \<Rightarrow> ([ParsedArgs args, PrintedError e], result)
                    | None \<Rightarrow>
                        (case ctx of
                           None \<Rightarrow> ([ParsedArgs args], result\<lparr>cl_error :=
                                     Some (err_new ''invalid memory address or nil pointer dereference'')\<rparr>)
                         | Some c \<Rightarrow> ([ParsedArgs args, RanCommand c], result\<lparr>cl_error := ke_run env c\<rparr>)))))"

text \<open>\<^verbatim>\<open>DefaultArgs\<close>: the arguments after the program's name, nil when there are none.\<close>

definition DefaultArgs :: "string list \<Rightarrow> string list option" where
  "DefaultArgs os_args = (if length os_args < 2 then None else Some (drop 1 os_args))"

section \<open>Properties\<close>

text \<open>
  where a parse without an error yields a context, the command runs exactly if a parser
  could be built, nothing asked to leave with status zero (as help does) and parsing gave
  no error; the error of the result is then the command's own, and otherwise nil after
  help and the library's unchanged error in every other case, printed when it is a parse
  error.  The exit recorder is the last option, after the caller's.
\<close>

theorem cli_runs_command_exactly:
  assumes "Cli_Run env args stdout stderr options = (log, result)"
    and "\<And>parser. pn_error (ke_parse env parser args) = None \<Longrightarrow> pn_context (ke_parse env parser args) \<noteq> None"
  shows "(case ke_new env (parser_options options stdout stderr) of
            Inl e \<Rightarrow> log = [] \<and> cl_error result = Some e
          | Inr parser \<Rightarrow>
              (let pn = ke_parse env parser args
               in if exit_code pn = 0 then log = [ParsedArgs args] \<and> cl_error result = None
                  else if pn_error pn \<noteq> None then
                    log = [ParsedArgs args, PrintedError (the (pn_error pn))] \<and> cl_error result = pn_error pn
                  else log = [ParsedArgs args, RanCommand (the (pn_context pn))]
                    \<and> cl_error result = ke_run env (the (pn_context pn))
                    \<and> cl_command result = ke_command env (the (pn_context pn))))
       \<and> last (parser_options options stdout stderr) = ExitRecorder"
proof (cases "ke_new env (parser_options options stdout stderr)")
  case (Inl e)
  then show ?thesis using assms(1) by (auto simp: Cli_Run_def parser_options_def)
next
  case (Inr parser)
  let ?pn = "ke_parse env parser args"
  have last: "last (parser_options options stdout stderr) = ExitRecorder" by (simp add: parser_options_def)
  show ?thesis
  proof (cases "exit_code ?pn = 0 \<or> pn_error ?pn \<noteq> None")
    case True
    then show ?thesis using assms(1) Inr last by (auto simp: Cli_Run_def Let_def)
  next
    case False
    then obtain c where "pn_context ?pn = Some c" using assms(2) by blast
    with False show ?thesis
      using assms(1) Inr last by (auto simp: Cli_Run_def Let_def parse_context_def)
  qed
qed

definition ex_kong :: kong_env where
  "ex_kong = \<lparr>ke_new = (\<lambda>_. Inr 1),
     ke_parse = (\<lambda>_ _. \<lparr>pn_context = Some 2, pn_error = None, pn_parse_error = None, pn_exit = None\<rparr>),
     ke_command = (\<lambda>_. ''serve''), ke_run = (\<lambda>_. Some (err_new ''port''))\<rparr>"

theorem cli_runs_command_exactly_witness:
  "cl_error (snd (Cli_Run ex_kong [''serve''] None None [])) = Some (err_new ''port'')"
proof -
  obtain log result where run: "Cli_Run ex_kong [''serve''] None None [] = (log, result)"
    by (cases "Cli_Run ex_kong [''serve''] None None []")
  have "pn_context (ke_parse ex_kong parser [''serve'']) \<noteq> None" for parser by (simp add: ex_kong_def)
  from cli_runs_command_exactly [OF run this] run show ?thesis
    by (simp add: ex_kong_def exit_code_def)
qed

end
