(* ===== verification/Worker.thy ===== *)
theory Worker
  imports Process
begin

text \<open>
  The background worker of \<^verbatim>\<open>src/starters/worker/cmd/worker/main.go\<close>: its goroutine waits for
  admission, waits the configured delay and asks the process to stop, while the rest of the
  application opens and closes admission, requests stops and calls the lifecycle hooks.  The
  interleavings are a step relation; its invariant says what the worker may have done.
\<close>

section \<open>State\<close>

text \<open>
  Where the goroutine is: not started, at the head of the polling loop, in the \<^verbatim>\<open>select\<close> of
  the loop or of the delay (with the time its timer fires), between the log record and the stop
  request, returned.
\<close>

datatype routine = RNew | RLoop | RPoll int | RDelay int | RLogged | RReturned

datatype stop_call = NotCalled | Waiting | Answered error

text \<open>What the worker did, with the time at which it did it.\<close>

datatype work_event = SawAdmission int | WorkCompleted int | AskedToStop bool

record worker =
  wk_delay :: int
  wk_admission :: admission
  wk_controller :: controller
  wk_has_cancel :: bool
  wk_cancelled :: bool
  wk_done :: bool
  wk_once :: bool
  wk_routine :: routine
  wk_stop :: stop_call
  wk_now :: int
  wk_was_open :: bool
  wk_log :: "work_event list"

definition newWorker :: "int \<Rightarrow> admission \<Rightarrow> controller \<Rightarrow> int \<Rightarrow> worker" where
  "newWorker delay adm ctl now =
     \<lparr>wk_delay = delay, wk_admission = adm, wk_controller = ctl, wk_has_cancel = False,
      wk_cancelled = False, wk_done = False, wk_once = False, wk_routine = RNew,
      wk_stop = NotCalled, wk_now = now, wk_was_open = Admission_IsOpen adm, wk_log = []\<rparr>"

definition worker_Validate :: "int \<Rightarrow> error" where
  "worker_Validate delay = (if delay \<le> 0 then Some (err_new ''work delay must be positive'') else None)"

section \<open>Operations\<close>

definition record_work :: "work_event \<Rightarrow> worker \<Rightarrow> worker" where
  "record_work e w = w\<lparr>wk_log := wk_log w @ [e]\<rparr>"

definition Worker_Start :: "worker \<Rightarrow> worker" where
  "Worker_Start w = w\<lparr>wk_has_cancel := True, wk_routine := RLoop\<rparr>"

definition run_returns :: "worker \<Rightarrow> worker" where
  "run_returns w = w\<lparr>wk_routine := RReturned, wk_done := True\<rparr>"

definition millisecond :: int where "millisecond = 1000000"

text \<open>The loop head: the condition of the loop and the timer of the next \<^verbatim>\<open>select\<close>.\<close>

definition run_loop :: "worker \<Rightarrow> worker" where
  "run_loop w =
     (if \<not> Admission_IsOpen (wk_admission w)
        then w\<lparr>wk_routine := RPoll (wk_now w + 10 * millisecond)\<rparr>
      else record_work (SawAdmission (wk_now w)) (w\<lparr>wk_routine := RDelay (wk_now w + wk_delay w)\<rparr>))"

definition run_completed :: "worker \<Rightarrow> worker" where
  "run_completed w = record_work (WorkCompleted (wk_now w)) (w\<lparr>wk_routine := RLogged\<rparr>)"

definition run_asks :: "worker \<Rightarrow> worker" where
  "run_asks w =
     (let (ctl, accepted) = RequestStop (wk_controller w)
            \<lparr>rq_reason = StopReasonRequested, rq_err = None, rq_restart = False\<rparr>
      in run_returns (record_work (AskedToStop accepted) (w\<lparr>wk_controller := ctl\<rparr>)))"

text \<open>\<^verbatim>\<open>Stop\<close> up to its \<^verbatim>\<open>select\<close>, which then waits for the goroutine or for its context.\<close>

definition Worker_Stop :: "worker \<Rightarrow> worker" where
  "Worker_Stop w =
     (if wk_once w then w
      else w\<lparr>wk_once := True, wk_cancelled := (wk_has_cancel w \<or> wk_cancelled w)\<rparr>)
     \<lparr>wk_stop := Waiting\<rparr>"

section \<open>Interleavings\<close>

text \<open>
  A \<^verbatim>\<open>select\<close> may take any case that is ready, and a timer is ready from its time on.  Fx
  calls \<^verbatim>\<open>OnStop\<close> only for hooks whose \<^verbatim>\<open>OnStart\<close> has returned, and \<^verbatim>\<open>OnStart\<close> once.
\<close>

inductive work_step :: "worker \<Rightarrow> worker \<Rightarrow> bool" where
  starts: "wk_routine w = RNew \<Longrightarrow> work_step w (Worker_Start w)"
| loops: "wk_routine w = RLoop \<Longrightarrow> work_step w (run_loop w)"
| poll_cancelled: "wk_routine w = RPoll t \<Longrightarrow> wk_cancelled w \<Longrightarrow> work_step w (run_returns w)"
| poll_fires: "wk_routine w = RPoll t \<Longrightarrow> t \<le> wk_now w \<Longrightarrow> work_step w (w\<lparr>wk_routine := RLoop\<rparr>)"
| delay_cancelled: "wk_routine w = RDelay t \<Longrightarrow> wk_cancelled w \<Longrightarrow> work_step w (run_returns w)"
| delay_fires: "wk_routine w = RDelay t \<Longrightarrow> t \<le> wk_now w \<Longrightarrow> work_step w (run_completed w)"
| asks: "wk_routine w = RLogged \<Longrightarrow> work_step w (run_asks w)"
| stop_called: "wk_has_cancel w \<Longrightarrow> wk_stop w \<noteq> Waiting \<Longrightarrow> work_step w (Worker_Stop w)"
| stop_joins: "wk_stop w = Waiting \<Longrightarrow> wk_done w \<Longrightarrow> work_step w (w\<lparr>wk_stop := Answered None\<rparr>)"
| stop_gives_up: "wk_stop w = Waiting \<Longrightarrow> work_step w (w\<lparr>wk_stop := Answered (Some e)\<rparr>)"
| time_passes: "0 < d \<Longrightarrow> work_step w (w\<lparr>wk_now := wk_now w + d\<rparr>)"
| admission_opens: "work_step w (w\<lparr>wk_admission := Admission_Open (wk_admission w), wk_was_open := True\<rparr>)"
| admission_closes: "work_step w (w\<lparr>wk_admission := Admission_Close (wk_admission w)\<rparr>)"
| others_ask: "work_step w (w\<lparr>wk_controller := fst (RequestStop (wk_controller w) r)\<rparr>)"

inductive work_reach :: "worker \<Rightarrow> bool" where
  fresh: "worker_Validate delay = None \<Longrightarrow> controller_ok ctl \<Longrightarrow> work_reach (newWorker delay adm ctl now)"
| step: "work_reach v \<Longrightarrow> work_step v w \<Longrightarrow> work_reach w"

inductive_cases work_step_elim: "work_step v w"

lemmas worker_defs = newWorker_def record_work_def Worker_Start_def run_returns_def run_loop_def
  run_completed_def run_asks_def Worker_Stop_def

section \<open>The invariant\<close>

text \<open>What may be in the log at each point of the goroutine.\<close>

definition done_work :: "worker \<Rightarrow> work_event list \<Rightarrow> bool" where
  "done_work w log \<longleftrightarrow> (\<exists>t u. log = [SawAdmission t, WorkCompleted u] \<and> t + wk_delay w \<le> u \<and> u \<le> wk_now w)"

fun log_ok :: "worker \<Rightarrow> routine \<Rightarrow> bool" where
  "log_ok w (RDelay d) \<longleftrightarrow> (\<exists>t. wk_log w = [SawAdmission t] \<and> d = t + wk_delay w)"
| "log_ok w RLogged \<longleftrightarrow> done_work w (wk_log w)"
| "log_ok w RReturned \<longleftrightarrow> wk_log w = [] \<or> (\<exists>t. wk_log w = [SawAdmission t])
     \<or> (\<exists>log a. done_work w log \<and> wk_log w = log @ [AskedToStop a] \<and> stop_seen (wk_controller w) \<noteq> None)"
| "log_ok w r \<longleftrightarrow> wk_log w = []"

definition flags_ok :: "worker \<Rightarrow> bool" where
  "flags_ok w \<longleftrightarrow> 0 < wk_delay w \<and> controller_ok (wk_controller w)
     \<and> (wk_log w \<noteq> [] \<longrightarrow> wk_was_open w) \<and> (Admission_IsOpen (wk_admission w) \<longrightarrow> wk_was_open w)
     \<and> (wk_routine w = RNew \<longleftrightarrow> \<not> wk_has_cancel w) \<and> (wk_done w \<longleftrightarrow> wk_routine w = RReturned)
     \<and> (wk_once w \<longleftrightarrow> wk_stop w \<noteq> NotCalled) \<and> (wk_once w \<longleftrightarrow> wk_cancelled w)
     \<and> (wk_once w \<longrightarrow> wk_has_cancel w) \<and> (wk_stop w = Answered None \<longrightarrow> wk_done w)"

definition worker_inv :: "worker \<Rightarrow> bool" where
  "worker_inv w \<longleftrightarrow> log_ok w (wk_routine w) \<and> flags_ok w"

lemma log_ok_later:
  assumes "log_ok v r" and "wk_log w = wk_log v" and "wk_delay w = wk_delay v"
    and "wk_now v \<le> wk_now w" and "stop_seen (wk_controller v) \<noteq> None \<longrightarrow> stop_seen (wk_controller w) \<noteq> None"
  shows "log_ok w r"
  using assms by (cases r) (fastforce simp: done_work_def)+

lemma RequestStop_seen:
  "controller_ok c \<Longrightarrow> stop_seen (fst (RequestStop c r)) \<noteq> None"
  "stop_seen c \<noteq> None \<Longrightarrow> stop_seen (fst (RequestStop c r)) \<noteq> None"
  by (auto simp: controller_ok_def stop_seen_def RequestStop_def Controller_Done_def split: if_splits)

text \<open>Steps that leave the goroutine where it is.\<close>

lemma inv_elsewhere:
  assumes "worker_inv v" and "wk_routine w = wk_routine v" and "wk_log w = wk_log v"
    and "wk_delay w = wk_delay v" and "wk_now v \<le> wk_now w"
    and "stop_seen (wk_controller v) \<noteq> None \<longrightarrow> stop_seen (wk_controller w) \<noteq> None" and "flags_ok w"
  shows "worker_inv w"
  using assms log_ok_later [of v "wk_routine v" w] by (simp add: worker_inv_def)

lemma inv_asks:
  assumes "worker_inv w" and "wk_routine w = RLogged"
  shows "worker_inv (run_asks w)"
proof -
  let ?r = "\<lparr>rq_reason = StopReasonRequested, rq_err = None, rq_restart = False\<rparr>"
  obtain ctl a where r: "RequestStop (wk_controller w) ?r = (ctl, a)" by fastforce
  then have "controller_ok ctl" and "stop_seen ctl \<noteq> None"
    using assms(1) RequestStop_ok [of "wk_controller w" ?r] RequestStop_seen(1) [of "wk_controller w" ?r]
    by (simp_all add: worker_inv_def flags_ok_def)
  with assms r show ?thesis
    by (auto simp: worker_inv_def flags_ok_def run_asks_def run_returns_def record_work_def done_work_def)
qed

lemma worker_inv_step: "work_step v w \<Longrightarrow> worker_inv v \<Longrightarrow> worker_inv w"
proof (induction rule: work_step.induct)
  case (asks w)
  then show ?case by (intro inv_asks)
next
  case (others_ask w r)
  show ?case
    by (rule inv_elsewhere [OF others_ask]) (use others_ask in \<open>auto simp: worker_inv_def flags_ok_def RequestStop_ok RequestStop_seen\<close>)
next
  case (time_passes d w)
  show ?case
    by (rule inv_elsewhere [OF time_passes(2)]) (use time_passes in \<open>auto simp: worker_inv_def flags_ok_def\<close>)
next
  case (stop_called w)
  show ?case
    by (rule inv_elsewhere [OF stop_called(3)]) (use stop_called in \<open>auto simp: worker_inv_def flags_ok_def Worker_Stop_def\<close>)
next
  case (stop_joins w)
  show ?case
    by (rule inv_elsewhere [OF stop_joins(3)]) (use stop_joins in \<open>auto simp: worker_inv_def flags_ok_def\<close>)
next
  case (stop_gives_up w e)
  show ?case
    by (rule inv_elsewhere [OF stop_gives_up(2)]) (use stop_gives_up in \<open>auto simp: worker_inv_def flags_ok_def\<close>)
next
  case (admission_opens w)
  show ?case
    by (rule inv_elsewhere [OF admission_opens]) (use admission_opens in \<open>auto simp: worker_inv_def flags_ok_def\<close>)
next
  case (admission_closes w)
  show ?case
    by (rule inv_elsewhere [OF admission_closes]) (use admission_closes in \<open>auto simp: worker_inv_def flags_ok_def\<close>)
qed (auto simp: worker_inv_def flags_ok_def worker_defs done_work_def)

lemma worker_inv_reach: "work_reach w \<Longrightarrow> worker_inv w"
proof (induction rule: work_reach.induct)
  case (fresh delay ctl adm now)
  then show ?case by (simp add: worker_inv_def flags_ok_def newWorker_def worker_Validate_def split: if_splits)
next
  case (step v w)
  then show ?case by (blast intro: worker_inv_step)
qed

section \<open>The goroutine always can finish\<close>

text \<open>Once cancelled, the goroutine needs no help from the rest of the application.\<close>

lemma routine_finishes:
  assumes "worker_inv w" and "wk_cancelled w"
  shows "\<exists>v. work_step\<^sup>*\<^sup>* w v \<and> wk_done v \<and> wk_stop v = wk_stop w
           \<and> wk_now v = wk_now w \<and> wk_admission v = wk_admission w"
proof -
  have ret: ?thesis if "wk_routine w = RPoll t \<or> wk_routine w = RDelay t" for t
    using that assms(2) poll_cancelled [of w t] delay_cancelled [of w t]
    by (intro exI [of _ "run_returns w"]) (auto simp: run_returns_def)
  show ?thesis
  proof (cases "wk_routine w")
    case RLoop
    let ?v = "run_loop w"
    have "wk_routine ?v = RPoll (wk_now w + 10 * millisecond) \<or> wk_routine ?v = RDelay (wk_now w + wk_delay w)"
      and keeps: "wk_cancelled ?v" "wk_stop ?v = wk_stop w" "wk_now ?v = wk_now w" "wk_admission ?v = wk_admission w"
      using assms(2) by (auto simp: run_loop_def record_work_def)
    then have "work_step ?v (run_returns ?v)" by (auto intro: poll_cancelled delay_cancelled)
    with loops [OF RLoop] have "work_step\<^sup>*\<^sup>* w (run_returns ?v)" by auto
    with keeps show ?thesis by (intro exI [of _ "run_returns ?v"]) (auto simp: run_returns_def)
  next
    case RLogged
    then show ?thesis using asks [of w]
      by (intro exI [of _ "run_asks w"]) (auto simp: run_asks_def run_returns_def record_work_def split: prod.splits)
  next
    case RReturned
    then show ?thesis using assms(1) by (intro exI [of _ w]) (auto simp: worker_inv_def flags_ok_def)
  next
    case RNew
    then show ?thesis using assms by (auto simp: worker_inv_def flags_ok_def)
  qed (use ret in blast)+
qed

section \<open>Properties\<close>

text \<open>
  C39: However admission, the clock, other stop requests and the lifecycle hooks interleave with it,
  the worker asks the process to stop only as the last of exactly three actions: it has seen
  admission open (which somebody had opened), has completed its work no earlier than the
  configured delay after that, and then its request finds the process stopping from then on.
\<close>

theorem worker_asks_after_work:
  assumes "work_reach w" and "AskedToStop a \<in> set (wk_log w)"
  shows "wk_was_open w \<and> wk_done w \<and> stop_seen (wk_controller w) \<noteq> None
    \<and> (\<exists>t u. wk_log w = [SawAdmission t, WorkCompleted u, AskedToStop a] \<and> t + wk_delay w \<le> u \<and> u \<le> wk_now w)"
  using worker_inv_reach [OF assms(1)] assms(2)
  by (cases "wk_routine w") (auto simp: worker_inv_def flags_ok_def done_work_def)

text \<open>
  The stop hook of the worker: while it waits, the goroutine is cancelled and can finish by
  its own steps, without the clock or admission moving, so that the hook can return without
  an error; and it has returned without an error only if the goroutine is gone.
\<close>

theorem worker_stop_joins_routine:
  assumes "work_reach w"
  shows "(wk_stop w = Waiting \<longrightarrow> wk_cancelled w \<and>
            (\<exists>v. work_step\<^sup>*\<^sup>* w v \<and> wk_stop v = Answered None \<and> wk_now v = wk_now w
               \<and> wk_admission v = wk_admission w))
       \<and> (wk_stop w = Answered None \<longrightarrow> wk_routine w = RReturned)"
proof -
  have inv: "worker_inv w" using assms by (rule worker_inv_reach)
  have "\<exists>v. work_step\<^sup>*\<^sup>* w v \<and> wk_stop v = Answered None \<and> wk_now v = wk_now w
          \<and> wk_admission v = wk_admission w" if wait: "wk_stop w = Waiting" and canc: "wk_cancelled w"
  proof -
    obtain u where u: "work_step\<^sup>*\<^sup>* w u" "wk_done u" "wk_stop u = Waiting" "wk_now u = wk_now w"
      "wk_admission u = wk_admission w"
      using routine_finishes [OF inv canc] wait by auto
    have "work_step\<^sup>*\<^sup>* w (u\<lparr>wk_stop := Answered None\<rparr>)"
      by (intro rtranclp.rtrancl_into_rtrancl [OF u(1) stop_joins [OF u(3,2)]])
    with u show ?thesis by (intro exI [of _ "u\<lparr>wk_stop := Answered None\<rparr>"]) simp
  qed
  with inv show ?thesis by (auto simp: worker_inv_def flags_ok_def)
qed

section \<open>A run\<close>

definition ex_worker :: worker where
  "ex_worker = newWorker 250000000 (Admission_Open NewAdmission) NewController 0"

definition ex_worked :: worker where
  "ex_worked = run_asks (run_completed ((run_loop (Worker_Start ex_worker))\<lparr>wk_now := 250000000\<rparr>))"

lemma ex_started: "work_reach (Worker_Start ex_worker)"
  unfolding ex_worker_def
  by (rule work_reach.step [OF work_reach.fresh starts]) (simp_all add: worker_Validate_def newWorker_def)

lemma ex_delaying: "work_reach ((run_loop (Worker_Start ex_worker))\<lparr>wk_now := 250000000\<rparr>)"
proof -
  let ?w = "run_loop (Worker_Start ex_worker)"
  have "work_reach ?w"
    by (rule work_reach.step [OF ex_started loops]) (simp add: Worker_Start_def)
  moreover have "wk_now ?w = 0" by (simp add: worker_defs ex_worker_def)
  ultimately show ?thesis using work_reach.step [OF _ time_passes [of 250000000 ?w]] by simp
qed

lemma ex_worked_reach: "work_reach ex_worked"
proof -
  let ?w = "(run_loop (Worker_Start ex_worker))\<lparr>wk_now := 250000000\<rparr>"
  have "wk_routine ?w = RDelay 250000000" and "wk_now ?w = 250000000"
    by (simp_all add: worker_defs ex_worker_def)
  then have "work_step ?w (run_completed ?w)" by (intro delay_fires) auto
  then have "work_reach (run_completed ?w)" by (rule work_reach.step [OF ex_delaying])
  then show ?thesis
    unfolding ex_worked_def by (rule work_reach.step [OF _ asks]) (simp add: run_completed_def record_work_def)
qed

lemma ex_worked_log: "wk_log ex_worked = [SawAdmission 0, WorkCompleted 250000000, AskedToStop True]"
  by (simp add: worker_defs ex_worked_def ex_worker_def RequestStop_def NewController_def)

lemma worker_asks_after_work_witness:
  "wk_was_open ex_worked \<and> stop_seen (wk_controller ex_worked) \<noteq> None"
  using worker_asks_after_work [OF ex_worked_reach, of True] by (simp add: ex_worked_log)

lemma ex_stopping: "work_reach (Worker_Stop (Worker_Start ex_worker))"
  by (rule work_reach.step [OF ex_started stop_called]) (simp_all add: worker_defs ex_worker_def)

lemma worker_stop_joins_routine_witness:
  "\<exists>v. work_step\<^sup>*\<^sup>* (Worker_Stop (Worker_Start ex_worker)) v \<and> wk_stop v = Answered None \<and> wk_now v = 0"
  using worker_stop_joins_routine [OF ex_stopping] by (auto simp: worker_defs ex_worker_def)

end
