(* ===== verification/Logging.thy ===== *)
theory Logging
  imports Prelude
begin

text \<open>
  The application logger, \<^verbatim>\<open>src/log/log.go\<close>: the defaults, the handler with its options,
  the rewriting of the record time to UTC and the attributes every record carries.  Of
  \<^verbatim>\<open>log/slog\<close> the development models the contract of its handlers: records below the level are
  dropped, attributes that are not groups pass through \<^verbatim>\<open>ReplaceAttr\<close>, zero attributes and
  groups without attributes are ignored, groups without a name are inlined, a zero record
  time is left out.  The text in which the attributes are printed is not modelled.
\<close>

section \<open>Attributes\<close>

text \<open>
  A time is its instant, counted from the zero time of Go, and the offset of its zone.
\<close>

record go_time =
  tm_instant :: int
  tm_offset :: int

definition IsZero :: "go_time \<Rightarrow> bool" where
  "IsZero t \<longleftrightarrow> tm_instant t = 0"

definition UTC :: "go_time \<Rightarrow> go_time" where
  "UTC t = t\<lparr>tm_offset := 0\<rparr>"

text \<open>
  Values after \<^verbatim>\<open>Value.Resolve\<close>, which the handler calls before it looks at one; \<open>NilValue\<close> is the
  zero value, a source is a function, a file and a line.
\<close>

datatype slog_attr = Attr (at_key: string) (at_value: slog_value)
  and slog_value = NilValue | TimeValue go_time | StringValue string | LevelValue int
    | SourceValue string string int | OtherValue nat | GroupValue "slog_attr list"

definition TimeKey :: string where "TimeKey = ''time''"
definition LevelInfo :: int where "LevelInfo = 0"
definition LevelDebug :: int where "LevelDebug = - 4"

text \<open>\<^verbatim>\<open>Value.Time()\<close> panics for a value of another kind: \<open>None\<close>.\<close>

definition ReplaceAttr :: "string list \<Rightarrow> slog_attr \<Rightarrow> slog_attr option" where
  "ReplaceAttr groups a =
     (if length groups = 0 \<and> at_key a = TimeKey
      then (case at_value a of TimeValue t \<Rightarrow> Some (Attr TimeKey (TimeValue (UTC t))) | _ \<Rightarrow> None)
      else Some a)"

text \<open>
  What the handler of \<^verbatim>\<open>slog\<close> writes for one attribute: it calls \<^verbatim>\<open>ReplaceAttr\<close> on every attribute
  that is not a group, its own and those of the caller, with the names of the enclosing
  groups; it writes nothing for a zero attribute, an empty source or a group of which nothing is
  written, and inlines a group without a name.
\<close>

definition unwritten :: "slog_attr \<Rightarrow> bool" where
  "unwritten a \<longleftrightarrow> a = Attr '''' NilValue \<or> at_value a = SourceValue '''' '''' 0"

definition append_replaced :: "string list \<Rightarrow> slog_attr \<Rightarrow> slog_attr list option" where
  "append_replaced groups a = map_option (\<lambda>b. if unwritten b then [] else [b]) (ReplaceAttr groups a)"

fun append_attr :: "string list \<Rightarrow> slog_attr \<Rightarrow> slog_attr list option"
  and append_attrs :: "string list \<Rightarrow> slog_attr list \<Rightarrow> slog_attr list option" where
  "append_attr groups (Attr k (GroupValue as)) =
     map_option (\<lambda>out. if out = [] \<or> k = '''' then out else [Attr k (GroupValue out)])
       (append_attrs (if k = '''' then groups else groups @ [k]) as)"
| "append_attr groups (Attr k v) = append_replaced groups (Attr k v)"
| "append_attrs groups [] = Some []"
| "append_attrs groups (a # as) =
     (case append_attr groups a of
        None \<Rightarrow> None
      | Some out \<Rightarrow> map_option (\<lambda>outs. out @ outs) (append_attrs groups as))"

section \<open>The logger\<close>

datatype handler_kind = TextHandler | JSONHandler

text \<open>Writers are handles.\<close>

record log_config =
  lg_service_name :: string
  lg_development :: bool
  lg_add_source :: bool
  lg_level :: "int option"
  lg_writer :: "nat option"
  lg_attributes :: "slog_attr list"

record slog_logger =
  sl_kind :: handler_kind
  sl_writer :: nat
  sl_add_source :: bool
  sl_level :: int
  sl_with :: "slog_attr list"

definition stderr :: nat where "stderr = 2"

text \<open>
  \<^verbatim>\<open>Logger.With\<close> formats the attributes at once, so it panics where the handler does;
  \<open>sl_with\<close> is what it keeps to be written with every record.
\<close>

definition logger_With :: "slog_attr list \<Rightarrow> slog_logger \<Rightarrow> slog_logger option" where
  "logger_With as l = map_option (\<lambda>as'. l\<lparr>sl_with := sl_with l @ as'\<rparr>) (append_attrs [] as)"

definition log_attributes :: "log_config \<Rightarrow> slog_attr list" where
  "log_attributes c =
     (if lg_service_name c \<noteq> '''' then [Attr ''service.name'' (StringValue (lg_service_name c))] else [])
     @ lg_attributes c"

definition log_New :: "log_config \<Rightarrow> slog_logger option" where
  "log_New c =
     (let writer = (case lg_writer c of None \<Rightarrow> stderr | Some w \<Rightarrow> w);
          level = (case lg_level c of None \<Rightarrow> LevelInfo | Some l \<Rightarrow> l);
          logger = \<lparr>sl_kind = (if lg_development c then TextHandler else JSONHandler), sl_writer = writer,
                    sl_add_source = lg_add_source c, sl_level = level, sl_with = []\<rparr>;
          attributes = log_attributes c
      in if length attributes > 0 then logger_With attributes logger else Some logger)"

text \<open>
  A call that logs a record: nothing happens below the handler's level; otherwise the time
  (unless it is the zero time), the level, the source if asked for, and the message pass
  through the handler like the attributes of the record, or the caller panics.
\<close>

datatype log_outcome = NotEnabled | LogPanics | Written nat "slog_attr list"

definition slog_enabled :: "slog_logger \<Rightarrow> int \<Rightarrow> bool" where
  "slog_enabled l level \<longleftrightarrow> sl_level l \<le> level"

definition built_in :: "slog_logger \<Rightarrow> go_time \<Rightarrow> int \<Rightarrow> slog_value \<Rightarrow> string \<Rightarrow> slog_attr list" where
  "built_in l t level source msg =
     (if IsZero t then [] else [Attr TimeKey (TimeValue t)]) @ [Attr ''level'' (LevelValue level)]
     @ (if sl_add_source l then [Attr ''source'' source] else []) @ [Attr ''msg'' (StringValue msg)]"

definition log_record ::
    "slog_logger \<Rightarrow> go_time \<Rightarrow> int \<Rightarrow> slog_value \<Rightarrow> string \<Rightarrow> slog_attr list \<Rightarrow> log_outcome" where
  "log_record l t level source msg as =
     (if \<not> slog_enabled l level then NotEnabled
      else (case append_attrs [] (built_in l t level source msg) of
              None \<Rightarrow> LogPanics
            | Some first \<Rightarrow>
                (case append_attrs [] as of
                   None \<Rightarrow> LogPanics
                 | Some own \<Rightarrow> Written (sl_writer l) (first @ sl_with l @ own))))"

text \<open>The Fx event logger logs at debug level.\<close>

record fx_logger =
  fl_logger :: slog_logger
  fl_level :: int

definition FxEventLogger :: "slog_logger \<Rightarrow> fx_logger" where
  "FxEventLogger l = \<lparr>fl_logger = l, fl_level = LevelDebug\<rparr>"

section \<open>What is written\<close>

text \<open>
  What remains of an attribute, stated apart from the handler: without zero attributes, empty
  sources and groups in which nothing remains, and with groups without a name inlined.
\<close>

fun elide :: "slog_attr \<Rightarrow> slog_attr list" where
  "elide (Attr k (GroupValue as)) =
     (let rest = concat (map elide as)
      in if rest = [] then [] else if k = '''' then rest else [Attr k (GroupValue rest)])"
| "elide (Attr k NilValue) = (if k = '''' then [] else [Attr k NilValue])"
| "elide (Attr k (SourceValue f p n)) = (if f = '''' \<and> p = '''' \<and> n = 0 then [] else [Attr k (SourceValue f p n)])"
| "elide (Attr k v) = [Attr k v]"

definition remaining :: "slog_attr list \<Rightarrow> slog_attr list" where
  "remaining as = concat (map elide as)"

text \<open>The time attributes among the outermost ones, in UTC.\<close>

definition in_utc :: "slog_attr \<Rightarrow> slog_attr" where
  "in_utc a =
     (case at_value a of
        TimeValue t \<Rightarrow> if at_key a = ''time'' then Attr ''time'' (TimeValue (UTC t)) else a
      | _ \<Rightarrow> a)"

text \<open>The attributes a handler meets outside every named group, and those of them it cannot print.\<close>

fun top_level :: "slog_attr \<Rightarrow> slog_attr list" where
  "top_level (Attr k (GroupValue as)) = (if k = '''' then concat (map top_level as) else [])"
| "top_level (Attr k v) = [Attr k v]"

definition misused_time :: "slog_attr \<Rightarrow> bool" where
  "misused_time a \<longleftrightarrow> at_key a = ''time'' \<and> (case at_value a of TimeValue _ \<Rightarrow> False | _ \<Rightarrow> True)"

definition misuses_time :: "slog_attr list \<Rightarrow> bool" where
  "misuses_time as \<longleftrightarrow> list_ex misused_time (concat (map top_level as))"

lemma in_utc_simps [simp]:
  "in_utc (Attr k (GroupValue as)) = Attr k (GroupValue as)"
  "in_utc (Attr k NilValue) = Attr k NilValue"
  "in_utc (Attr k (SourceValue f p n)) = Attr k (SourceValue f p n)"
  by (simp_all add: in_utc_def)

lemma append_replaced_eq:
  "(\<And>as. v \<noteq> GroupValue as) \<Longrightarrow>
   append_replaced groups (Attr k v) =
     (if groups = [] \<and> misused_time (Attr k v) then None
      else Some (map (if groups = [] then in_utc else id) (elide (Attr k v))))"
  by (cases v) (auto simp: append_replaced_def ReplaceAttr_def misused_time_def TimeKey_def in_utc_def unwritten_def)

lemma append_exact:
  "append_attr groups a =
     (if groups = [] \<and> list_ex misused_time (top_level a) then None
      else Some (map (if groups = [] then in_utc else id) (elide a)))"
  "append_attrs groups as =
     (if groups = [] \<and> misuses_time as then None
      else Some (map (if groups = [] then in_utc else id) (remaining as)))"
proof (induction groups a and groups as rule: append_attr_append_attrs.induct)
  case (1 groups k as)
  then show ?case by (auto simp: misuses_time_def remaining_def Let_def)
qed (auto simp: append_replaced_eq misuses_time_def remaining_def)

lemma logger_With_exact:
  "logger_With as l = (if misuses_time as then None else Some (l\<lparr>sl_with := sl_with l @ map in_utc (remaining as)\<rparr>))"
  by (simp add: logger_With_def append_exact(2))

lemma log_attributes_misused: "misuses_time (log_attributes c) \<longleftrightarrow> misuses_time (lg_attributes c)"
  by (simp add: log_attributes_def misuses_time_def misused_time_def)

lemma log_New_exact:
  "log_New c =
     (if misuses_time (lg_attributes c) then None
      else Some \<lparr>sl_kind = (if lg_development c then TextHandler else JSONHandler),
                 sl_writer = (case lg_writer c of None \<Rightarrow> stderr | Some w \<Rightarrow> w), sl_add_source = lg_add_source c,
                 sl_level = (case lg_level c of None \<Rightarrow> LevelInfo | Some v \<Rightarrow> v),
                 sl_with = map in_utc (remaining (log_attributes c))\<rparr>)"
proof (cases "log_attributes c = []")
  case True
  then have "lg_attributes c = []" by (simp add: log_attributes_def)
  then show ?thesis using True by (simp add: log_New_def misuses_time_def remaining_def)
next
  case False
  then show ?thesis by (simp add: log_New_def Let_def logger_With_exact log_attributes_misused)
qed

section \<open>Properties\<close>

text \<open>
  C40: A logger is constructed exactly if none of the configured attributes outside the named
  groups is called "time" without being a time.  It then writes nothing for a record below the
  configured level (Info if none is configured).  For any other record the call panics if one
  of the record's own attributes is such a misused one, and otherwise writes, to the configured
  writer or the standard error stream, exactly: the time of the record in UTC unless it is the
  zero time, the level, the source if one is configured and known, the message, the service
  name, the configured attributes and those of the record, in this order, with their values,
  outermost time attributes in UTC, nothing for zero attributes and empty groups, and nameless groups
  inlined.
\<close>

theorem logging_rewrites_times_or_panics:
  "(log_New c = None \<longleftrightarrow> misuses_time (lg_attributes c))
   \<and> (log_New c = Some l \<longrightarrow>
        sl_kind l = (if lg_development c then TextHandler else JSONHandler)
        \<and> log_record l t level (SourceValue f p n) msg as =
            (if level < (case lg_level c of None \<Rightarrow> LevelInfo | Some v \<Rightarrow> v) then NotEnabled
             else if misuses_time as then LogPanics
             else Written (case lg_writer c of None \<Rightarrow> stderr | Some w \<Rightarrow> w)
               ((if tm_instant t = 0 then [] else [Attr ''time'' (TimeValue \<lparr>tm_instant = tm_instant t, tm_offset = 0\<rparr>)])
                @ [Attr ''level'' (LevelValue level)]
                @ (if lg_add_source c \<and> (f \<noteq> '''' \<or> p \<noteq> '''' \<or> n \<noteq> 0) then [Attr ''source'' (SourceValue f p n)] else [])
                @ [Attr ''msg'' (StringValue msg)]
                @ (if lg_service_name c = '''' then []
                   else [Attr ''service.name'' (StringValue (lg_service_name c))])
                @ map in_utc (remaining (lg_attributes c)) @ map in_utc (remaining as))))"
  (is "?constructs \<and> (log_New c = Some l \<longrightarrow> ?kind \<and> ?written)")
proof (intro conjI impI)
  show ?constructs by (simp add: log_New_exact)
next
  assume "log_New c = Some l"
  then have l: "l = \<lparr>sl_kind = (if lg_development c then TextHandler else JSONHandler),
                 sl_writer = (case lg_writer c of None \<Rightarrow> stderr | Some w \<Rightarrow> w), sl_add_source = lg_add_source c,
                 sl_level = (case lg_level c of None \<Rightarrow> LevelInfo | Some v \<Rightarrow> v),
                 sl_with = map in_utc (remaining (log_attributes c))\<rparr>"
    by (simp add: log_New_exact split: if_splits)
  show ?kind by (simp add: l)
  have first: "append_attrs [] (built_in l t level (SourceValue f p n) msg) =
      Some ((if tm_instant t = 0 then [] else [Attr ''time'' (TimeValue \<lparr>tm_instant = tm_instant t, tm_offset = 0\<rparr>)])
        @ [Attr ''level'' (LevelValue level)]
        @ (if sl_add_source l \<and> (f \<noteq> '''' \<or> p \<noteq> '''' \<or> n \<noteq> 0) then [Attr ''source'' (SourceValue f p n)] else [])
        @ [Attr ''msg'' (StringValue msg)])"
    by (simp add: append_exact(2) built_in_def misuses_time_def misused_time_def remaining_def in_utc_def
        TimeKey_def IsZero_def UTC_def)
  have "map in_utc (remaining (log_attributes c)) =
      (if lg_service_name c = '''' then [] else [Attr ''service.name'' (StringValue (lg_service_name c))])
        @ map in_utc (remaining (lg_attributes c))"
    by (simp add: log_attributes_def remaining_def in_utc_def)
  then have "sl_with l = (if lg_service_name c = '''' then []
      else [Attr ''service.name'' (StringValue (lg_service_name c))]) @ map in_utc (remaining (lg_attributes c))"
    by (simp only: l slog_logger.simps)
  moreover have "sl_writer l = (case lg_writer c of None \<Rightarrow> stderr | Some w \<Rightarrow> w)"
    and "sl_level l = (case lg_level c of None \<Rightarrow> LevelInfo | Some v \<Rightarrow> v)" and "sl_add_source l = lg_add_source c"
    by (simp_all add: l)
  moreover have "append_attrs [] as = (if misuses_time as then None else Some (map in_utc (remaining as)))"
    by (simp add: append_exact(2))
  ultimately show ?written
    unfolding log_record_def slog_enabled_def first by (simp add: not_le)
qed

definition ex_log :: log_config where
  "ex_log = \<lparr>lg_service_name = ''api'', lg_development = False, lg_add_source = False, lg_level = None,
     lg_writer = None, lg_attributes = []\<rparr>"

definition ex_logger :: slog_logger where
  "ex_logger = \<lparr>sl_kind = JSONHandler, sl_writer = stderr, sl_add_source = False, sl_level = LevelInfo,
     sl_with = [Attr ''service.name'' (StringValue ''api'')]\<rparr>"

lemma ex_log_New: "log_New ex_log = Some ex_logger"
  by (simp add: log_New_exact ex_log_def ex_logger_def log_attributes_def misuses_time_def remaining_def in_utc_def)

text \<open>
  A misused attribute in an enabled and in a disabled record, and a record with a zero time, an
  empty group and a nameless group.
\<close>

lemma logging_rewrites_times_or_panics_witness:
  "log_New ex_log = Some ex_logger
   \<and> log_record ex_logger \<lparr>tm_instant = 5, tm_offset = 3600\<rparr> 0 (SourceValue '''' '''' 0) ''m'' [Attr ''time'' (StringValue ''5s'')]
       = LogPanics
   \<and> log_record ex_logger \<lparr>tm_instant = 5, tm_offset = 3600\<rparr> (- 4) (SourceValue '''' '''' 0) ''m'' [Attr ''time'' (StringValue ''5s'')]
       = NotEnabled
   \<and> log_record ex_logger \<lparr>tm_instant = 0, tm_offset = 0\<rparr> 0 (SourceValue '''' '''' 0) ''m''
       [Attr ''g'' (GroupValue [Attr '''' NilValue]), Attr '''' (GroupValue [Attr ''id'' (OtherValue 1)])]
       = Written 2 [Attr ''level'' (LevelValue 0), Attr ''msg'' (StringValue ''m''),
           Attr ''service.name'' (StringValue ''api''), Attr ''id'' (OtherValue 1)]"
  using ex_log_New
    logging_rewrites_times_or_panics [of ex_log ex_logger "\<lparr>tm_instant = 5, tm_offset = 3600\<rparr>" 0 "''''" "''''" 0 "''m''" "[Attr ''time'' (StringValue ''5s'')]"]
    logging_rewrites_times_or_panics [of ex_log ex_logger "\<lparr>tm_instant = 5, tm_offset = 3600\<rparr>" "- 4" "''''" "''''" 0 "''m''" "[Attr ''time'' (StringValue ''5s'')]"]
    logging_rewrites_times_or_panics [of ex_log ex_logger "\<lparr>tm_instant = 0, tm_offset = 0\<rparr>" 0 "''''" "''''" 0 "''m''"
      "[Attr ''g'' (GroupValue [Attr '''' NilValue]), Attr '''' (GroupValue [Attr ''id'' (OtherValue 1)])]"]
  by (simp add: misuses_time_def misused_time_def remaining_def in_utc_def ex_log_def LevelInfo_def stderr_def)

end
