(* ===== verification/Dialects.thy ===== *)
theory Dialects
  imports Database
begin

text \<open>
  The three dialect packages, \<^verbatim>\<open>src/database/sqlite/sqlite.go\<close>,
  \<^verbatim>\<open>src/database/mysql/mysql.go\<close> and \<^verbatim>\<open>src/database/postgres/postgres.go\<close>: each turns
  its configuration into the one of its GORM driver and hands the pool, the timeouts and the
  name of the health check on to the SQL lifecycle.  A driver is what it was opened with.
\<close>

section \<open>Drivers\<close>

record mysql_driver =
  md_dsn :: string
  md_default_string_size :: "64 word"
  md_disable_datetime_precision :: bool
  md_dont_support_rename_index :: bool
  md_dont_support_rename_column :: bool
  md_skip_initialize_with_version :: bool

record postgres_driver =
  pd_dsn :: string
  pd_prefer_simple_protocol :: bool
  pd_driver_name :: string

datatype dialector = OpenSqlite string | OpenMysql mysql_driver | OpenPostgres postgres_driver

section \<open>SQLite\<close>

definition sqlite_Dialector :: "(string \<Rightarrow> (string list \<Rightarrow> string) option) \<Rightarrow> sqlite_config \<Rightarrow> dialector" where
  "sqlite_Dialector rewrite c = OpenSqlite (sqlite_dsn rewrite c)"

definition sqlite_Module ::
    "(string \<Rightarrow> (string list \<Rightarrow> string) option) \<Rightarrow> sqlite_config \<Rightarrow> dialector db_config" where
  "sqlite_Module rewrite c =
     \<lparr>dc_dialector = Some (sqlite_Dialector rewrite c), dc_pool = sq_pool c,
      dc_ping_timeout = sq_ping_timeout c, dc_health_timeout = sq_health_timeout c,
      dc_health_name = sq_health_name c\<rparr>"

section \<open>MySQL\<close>

record mysql_config =
  my_dsn :: string
  my_default_string_size :: "64 word"
  my_disable_datetime_precision :: bool
  my_dont_support_rename_index :: bool
  my_dont_support_rename_column :: bool
  my_skip_initialize_with_version :: bool
  my_pool :: pool_config
  my_ping_timeout :: int
  my_health_timeout :: int
  my_health_name :: string

definition mysql_Dialector :: "mysql_config \<Rightarrow> dialector" where
  "mysql_Dialector c = OpenMysql
     \<lparr>md_dsn = my_dsn c, md_default_string_size = my_default_string_size c,
      md_disable_datetime_precision = my_disable_datetime_precision c,
      md_dont_support_rename_index = my_dont_support_rename_index c,
      md_dont_support_rename_column = my_dont_support_rename_column c,
      md_skip_initialize_with_version = my_skip_initialize_with_version c\<rparr>"

definition mysql_Module :: "mysql_config \<Rightarrow> dialector db_config" where
  "mysql_Module c =
     \<lparr>dc_dialector = Some (mysql_Dialector c), dc_pool = my_pool c,
      dc_ping_timeout = my_ping_timeout c, dc_health_timeout = my_health_timeout c,
      dc_health_name = my_health_name c\<rparr>"

section \<open>PostgreSQL\<close>

record postgres_config =
  pg_dsn :: string
  pg_prefer_simple_protocol :: bool
  pg_driver_name :: string
  pg_pool :: pool_config
  pg_ping_timeout :: int
  pg_health_timeout :: int
  pg_health_name :: string

definition postgres_Dialector :: "postgres_config \<Rightarrow> dialector" where
  "postgres_Dialector c = OpenPostgres
     \<lparr>pd_dsn = pg_dsn c, pd_prefer_simple_protocol = pg_prefer_simple_protocol c,
      pd_driver_name = pg_driver_name c\<rparr>"

definition postgres_Module :: "postgres_config \<Rightarrow> dialector db_config" where
  "postgres_Module c =
     \<lparr>dc_dialector = Some (postgres_Dialector c), dc_pool = pg_pool c,
      dc_ping_timeout = pg_ping_timeout c, dc_health_timeout = pg_health_timeout c,
      dc_health_name = pg_health_name c\<rparr>"

section \<open>Construction always has a dialector\<close>

text \<open>
  The one error of \<^verbatim>\<open>newRuntime\<close> that is not the driver's cannot occur behind a dialect
  module; the pool is set up only when the driver opened.
\<close>

lemma dialect_construction:
  assumes "config = sqlite_Module rewrite sq \<or> config = mysql_Module my \<or> config = postgres_Module pg"
  shows "\<exists>d. dc_dialector config = Some d \<and>
    db_newRuntime opened pool config =
      (case opened d of
         Some e \<Rightarrow> ([], Inl (err_wrap ''open database: %w'' e))
       | None \<Rightarrow> (case pool of
           Some e \<Rightarrow> ([], Inl (err_wrap ''get database/sql pool: %w'' e))
         | None \<Rightarrow> (pool_setup (dc_pool config),
             Inr \<lparr>db_name = (if dc_health_name config = '''' then ''database'' else dc_health_name config),
                  db_ping_timeout = dc_ping_timeout config, db_health_timeout = dc_health_timeout config,
                  db_closed = False, db_close_err = None\<rparr>)))"
  using assms by (auto simp: db_newRuntime_def sqlite_Module_def mysql_Module_def postgres_Module_def split: option.splits)

end
