(* ===== verification/Applications.thy ===== *)
theory Applications
  imports Dialects Migration Scheduler Observability Web Config Server_Config Runner Cli
begin

text \<open>
  The two applications assembled from the modules: the API starter
  (\<^verbatim>\<open>src/starters/api/cmd/server/main.go\<close>) and the platform starter
  (\<^verbatim>\<open>src/starters/platform/app\<close> and \<^verbatim>\<open>cmd/app/main.go\<close>): their configuration types with
  defaults and validation, the modules they select, the heartbeat job, the notes and the
  migration commands.
\<close>

section \<open>Configuration\<close>

record http_settings =
  hs_address :: string
  hs_read_header_timeout :: int
  hs_idle_timeout :: int
  hs_max_header_bytes :: int

record api_config =
  ap_http :: http_settings
  ap_enabled :: bool
  ap_endpoint :: string
  ap_insecure :: bool
  ap_export_timeout :: int
  ap_metric_interval :: int

record platform_config =
  pf_http :: http_settings
  pf_dsn :: string
  pf_wal :: bool
  pf_policy :: string
  pf_interval :: int

text \<open>The server configuration both applications write out field by field.\<close>

definition server_of :: "http_settings \<Rightarrow> server_config" where
  "server_of h = zero_config\<lparr>sc_address := hs_address h, sc_read_header_timeout := hs_read_header_timeout h,
     sc_idle_timeout := hs_idle_timeout h, sc_max_header_bytes := hs_max_header_bytes h\<rparr>"

definition api_Validate :: "api_config \<Rightarrow> error" where
  "api_Validate cfg =
     (case ServerConfig_Validate (server_of (ap_http cfg)) of
        Some e \<Rightarrow> Some e
      | None \<Rightarrow>
          (if ap_enabled cfg \<and> ap_endpoint cfg = ''''
           then Some (err_new ''OTel endpoint is required when telemetry is enabled'') else None))"

definition platform_Validate :: "platform_config \<Rightarrow> error" where
  "platform_Validate cfg =
     (case ServerConfig_Validate (server_of (pf_http cfg)) of
        Some e \<Rightarrow> Some e
      | None \<Rightarrow>
          (if pf_dsn cfg = '''' then Some (err_new ''database dsn is empty'')
           else if pf_policy cfg \<noteq> ''migrate-before-start'' \<and> pf_policy cfg \<noteq> ''validate-only''
               \<and> pf_policy cfg \<noteq> ''disabled''
             then Some (Errorf ''unknown migration policy %q'' [AStr (pf_policy cfg)])
           else if pf_interval cfg \<le> 0 then Some (err_new ''scheduler interval must be positive'')
           else None))"

definition MigrationPolicy :: "string \<Rightarrow> migration_policy" where
  "MigrationPolicy value =
     (if value = ''disabled'' then Disabled else if value = ''validate-only'' then ValidateOnly
      else MigrateBeforeStart)"

text \<open>The structure types, with their tags; a field that is not a structure is \<open>GOther\<close>.\<close>

definition tagged :: "string \<Rightarrow> string \<Rightarrow> gotype \<Rightarrow> field" where
  "tagged name tag t = \<lparr>fl_name = name, fl_exported = True, fl_anonymous = False,
     fl_tag = (\<lambda>key. if key = ''mapstructure'' then tag else ''''), fl_type = t\<rparr>"

definition http_fields :: "field list" where
  "http_fields = [tagged ''Address'' ''address'' GOther, tagged ''ReadHeaderTimeout'' ''read_header_timeout'' GOther,
     tagged ''IdleTimeout'' ''idle_timeout'' GOther, tagged ''MaxHeaderBytes'' ''max_header_bytes'' GOther]"

definition api_types :: types where
  "api_types n =
     (if n = ''applicationConfig'' then [tagged ''HTTP'' ''http'' (GStruct ''HTTP''), tagged ''OTel'' ''otel'' (GStruct ''OTel'')]
      else if n = ''HTTP'' then http_fields
      else if n = ''OTel'' then [tagged ''Enabled'' ''enabled'' GOther, tagged ''Endpoint'' ''endpoint'' GOther,
        tagged ''Insecure'' ''insecure'' GOther, tagged ''ExportTimeout'' ''export_timeout'' GOther,
        tagged ''MetricInterval'' ''metric_interval'' GOther]
      else [])"

definition platform_types :: types where
  "platform_types n =
     (if n = ''Config'' then [tagged ''HTTP'' ''http'' (GStruct ''HTTP''), tagged ''Database'' ''database'' (GStruct ''Database''),
        tagged ''Migration'' ''migration'' (GStruct ''Migration''), tagged ''Scheduler'' ''scheduler'' (GStruct ''Scheduler'')]
      else if n = ''HTTP'' then http_fields
      else if n = ''Database'' then [tagged ''DSN'' ''dsn'' GOther, tagged ''WAL'' ''wal'' GOther]
      else if n = ''Migration'' then [tagged ''Policy'' ''policy'' GOther]
      else if n = ''Scheduler'' then [tagged ''Interval'' ''interval'' GOther]
      else [])"

text \<open>Default values as text.\<close>

definition api_defaults :: "(string \<times> string) list" where
  "api_defaults = [(''http.address'', ''127.0.0.1:8080''), (''http.read_header_timeout'', ''5s''),
     (''http.idle_timeout'', ''60s''), (''http.max_header_bytes'', ''1048576''), (''otel.enabled'', ''false''),
     (''otel.export_timeout'', ''5s''), (''otel.metric_interval'', ''30s'')]"

definition platform_defaults :: "(string \<times> string) list" where
  "platform_defaults = [(''http.address'', ''127.0.0.1:8080''), (''http.read_header_timeout'', ''5s''),
     (''http.idle_timeout'', ''60s''), (''http.max_header_bytes'', ''1048576''), (''database.dsn'', ''file:platform.db''),
     (''database.wal'', ''true''), (''migration.policy'', ''migrate-before-start''), (''scheduler.interval'', ''1h'')]"

text \<open>The sources; \<open>file\<close> is the value of the environment variable that names the file.\<close>

definition api_loadConfig ::
    "error \<Rightarrow> api_config loader \<Rightarrow> string \<Rightarrow> load_event list \<times> api_config \<times> error" where
  "api_loadConfig ctx_err lo file =
     Load ctx_err (the (structKeys 2 api_types (GStruct ''applicationConfig'') '''')) lo
       \<lparr>so_file = file, so_env_prefix = ''HANAMI_API'', so_defaults = api_defaults, so_overrides = [],
        so_allow_unused = False\<rparr>"

definition platform_LoadConfigFile ::
    "error \<Rightarrow> platform_config loader \<Rightarrow> string \<Rightarrow> load_event list \<times> platform_config \<times> error" where
  "platform_LoadConfigFile ctx_err lo file =
     Load ctx_err (the (structKeys 2 platform_types (GStruct ''Config'') '''')) lo
       \<lparr>so_file = file, so_env_prefix = ''HANAMI_PLATFORM'', so_defaults = platform_defaults, so_overrides = [],
        so_allow_unused = False\<rparr>"

definition platform_LoadConfig ::
    "error \<Rightarrow> platform_config loader \<Rightarrow> load_event list \<times> platform_config \<times> error" where
  "platform_LoadConfig ctx_err lo = platform_LoadConfigFile ctx_err lo ''''"

section \<open>Modules\<close>

text \<open>The options handed to Fx, in order; the functions among them appear by name.\<close>

datatype app_module =
    HealthModule
  | SqliteModule sqlite_config
  | MigrationModule migration_policy
  | GinModule "preset_config option"
  | ApiModule string
  | SchedulerModule scheduler_config
  | HTTPModule server_config
  | ObservabilityModule otel_config
  | ProvideNotes
  | ProvideJob int
  | InvokeRoutes

definition app_preset :: "string \<Rightarrow> preset_config" where
  "app_preset name = \<lparr>ps_service_name = name, ps_tracer = False, ps_security_headers = True\<rparr>"

definition api_otel :: "api_config \<Rightarrow> otel_config" where
  "api_otel cfg = \<lparr>oc_enabled = True, oc_service_name = ''hanami-api-starter'', oc_service_version = '''',
     oc_environment = '''', oc_endpoint = ap_endpoint cfg, oc_insecure = ap_insecure cfg,
     oc_export_timeout = ap_export_timeout cfg, oc_metric_interval = ap_metric_interval cfg\<rparr>"

definition api_Modules :: "api_config \<Rightarrow> app_module list" where
  "api_Modules cfg =
     [HealthModule, GinModule (Some (app_preset ''hanami-api-starter'')), HTTPModule (server_of (ap_http cfg)), InvokeRoutes]
     @ (if ap_enabled cfg then [ObservabilityModule (api_otel cfg)] else [])"

definition platform_sqlite :: "platform_config \<Rightarrow> sqlite_config" where
  "platform_sqlite cfg = \<lparr>sq_dsn = pf_dsn cfg, sq_wal = pf_wal cfg, sq_busy_timeout = 0, sq_foreign_keys = True,
     sq_pool = \<lparr>pc_max_open = 1, pc_max_idle = 0, pc_max_lifetime = 0, pc_max_idle_time = 0\<rparr>,
     sq_ping_timeout = 5 * second, sq_health_timeout = 2 * second, sq_health_name = ''database''\<rparr>"

definition platform_Modules :: "platform_config \<Rightarrow> app_module list" where
  "platform_Modules cfg =
     [HealthModule, SqliteModule (platform_sqlite cfg), MigrationModule (MigrationPolicy (pf_policy cfg)),
      GinModule (Some (app_preset ''hanami-platform'')), ApiModule ''/v1'',
      SchedulerModule \<lparr>sc_shutdown_timeout = 5 * second, sc_health_timeout = 2 * second, sc_health_name = ''scheduler''\<rparr>,
      HTTPModule (server_of (pf_http cfg)), ProvideNotes, ProvideJob (pf_interval cfg), InvokeRoutes]"

section \<open>The heartbeat job\<close>

text \<open>\<open>new_job\<close> answers \<^verbatim>\<open>NewJob\<close> on the native scheduler with the interval of the job.\<close>

definition heartbeatJob :: "(native \<Rightarrow> int \<Rightarrow> error) \<Rightarrow> int \<Rightarrow> scheduler_job" where
  "heartbeatJob new_job interval =
     \<lparr>jb_name = ''platform-heartbeat'', jb_register = Some (\<lambda>n. new_job n interval)\<rparr>"

section \<open>Notes\<close>

record Note =
  nt_id :: nat
  nt_title :: string
  nt_content :: string
  nt_created_at :: int

definition empty_note :: Note where
  "empty_note = \<lparr>nt_id = 0, nt_title = '''', nt_content = '''', nt_created_at = 0\<rparr>"

text \<open>
  The repository is GORM on a database \<open>'db\<close>: creating fills in what the database decides and
  leaves the given record changed even when it fails; listing orders by the identifier.
\<close>

record 'db repository =
  rp_create :: "Note \<Rightarrow> 'db \<Rightarrow> 'db \<times> Note \<times> error"
  rp_list :: "'db \<Rightarrow> Note list \<times> error"

definition NoteService_Create :: "'db repository \<Rightarrow> string \<Rightarrow> string \<Rightarrow> 'db \<Rightarrow> 'db \<times> Note \<times> error" where
  "NoteService_Create r title content db =
     (case rp_create r (empty_note\<lparr>nt_title := title, nt_content := content\<rparr>) db of
        (db', n, Some e) \<Rightarrow> (db', empty_note, Some e)
      | (db', n, None) \<Rightarrow> (db', n, None))"

definition NoteService_List :: "'db repository \<Rightarrow> 'db \<Rightarrow> Note list \<times> error" where
  "NoteService_List r db = rp_list r db"

text \<open>The two handlers: a Huma error with its status, or the body of the answer.\<close>

datatype 'b answer = HumaError nat string goerr | Body 'b

definition create_note :: "'db repository \<Rightarrow> string \<Rightarrow> string \<Rightarrow> 'db \<Rightarrow> 'db \<times> Note answer" where
  "create_note r title content db =
     (case NoteService_Create r title content db of
        (db', n, Some e) \<Rightarrow> (db', HumaError 500 ''create note failed'' e)
      | (db', n, None) \<Rightarrow> (db', Body n))"

definition list_notes :: "'db repository \<Rightarrow> 'db \<Rightarrow> Note list answer" where
  "list_notes r db =
     (case NoteService_List r db of
        (ns, Some e) \<Rightarrow> HumaError 500 ''list notes failed'' e
      | (ns, None) \<Rightarrow> Body ns)"

section \<open>Routes\<close>

text \<open>
  An operation as it is registered with Huma: its identity, method, path under the prefix of
  the API, and the status of a success (0: Huma's default).
\<close>

record operation =
  op_id :: string
  op_method :: string
  op_path :: string
  op_default_status :: nat

definition platform_operations :: "operation list" where
  "platform_operations =
     [\<lparr>op_id = ''create-note'', op_method = ''POST'', op_path = ''/notes'', op_default_status = 201\<rparr>,
      \<lparr>op_id = ''list-notes'', op_method = ''GET'', op_path = ''/notes'', op_default_status = 0\<rparr>]"

text \<open>Method and path of every route on the engine; the router panics when two are the same.\<close>

definition health_routes :: "(string \<times> string) list" where
  "health_routes = map (\<lambda>(path, _). (''GET'', path)) MountHealth"

definition platform_registerRoutes :: "(string \<times> string) list" where
  "platform_registerRoutes = health_routes
     @ map (\<lambda>op. (op_method op, (case api_group ''/v1'' of None \<Rightarrow> '''' | Some g \<Rightarrow> g) @ op_path op)) platform_operations"

definition api_registerRoutes :: "(string \<times> string) list" where
  "api_registerRoutes = health_routes @ [(''GET'', ''/v1/greeting'')]"

lemma routes_distinct: "distinct platform_registerRoutes" "distinct api_registerRoutes"
  by code_simp+

lemma platform_routes_eval:
  "platform_registerRoutes = [(''GET'', ''/health/live''), (''GET'', ''/health/ready''), (''POST'', ''/v1/notes''), (''GET'', ''/v1/notes'')]"
  by code_simp

section \<open>The migration commands\<close>

datatype migrate_event = OpenedDatabase string | ProviderCall migration_call | PrintedStatus string | ClosedDatabase

text \<open>The loop that prints the states; \<open>write\<close> is the answer of the writer to a line.\<close>

fun print_statuses :: "('s \<Rightarrow> string) \<Rightarrow> (string \<Rightarrow> error) \<Rightarrow> 's list \<Rightarrow> migrate_event list \<times> error" where
  "print_statuses line write [] = ([], None)"
| "print_statuses line write (s # ss) =
     (case write (line s) of
        Some e \<Rightarrow> ([PrintedStatus (line s)], Some e)
      | None \<Rightarrow> (let (log, err) = print_statuses line write ss in (PrintedStatus (line s) # log, err)))"

text \<open>
  \<open>loaded\<close> is the result of \<^verbatim>\<open>LoadConfig\<close>, \<open>open_sql\<close> that of \<^verbatim>\<open>sql.Open\<close> with the
  configured name, \<open>made\<close> that of \<^verbatim>\<open>goose.NewProvider\<close>; the handle is closed on every
  return after it was opened.
\<close>

definition migrate_opened ::
    "goerr + ('db, 's, 'r) provider \<Rightarrow> ('s \<Rightarrow> string) \<Rightarrow> (string \<Rightarrow> error) \<Rightarrow> bool \<Rightarrow> nat \<Rightarrow> 'db
     \<Rightarrow> 'db \<times> migrate_event list \<times> error" where
  "migrate_opened made line write up handle db =
     (case migration_New MigrateBeforeStart made (Some handle) of
        Inl e \<Rightarrow> (db, [], Some e)
      | Inr manager \<Rightarrow>
          (if up then
             (case Migrate (Some manager) db of
                (db', calls, Inl e) \<Rightarrow> (db', map ProviderCall calls, Some e)
              | (db', calls, Inr _) \<Rightarrow> (db', map ProviderCall calls, None))
           else
             (case Migration_Status (Some manager) db of
                (calls, Inl e) \<Rightarrow> (db, map ProviderCall calls, Some e)
              | (calls, Inr statuses) \<Rightarrow>
                  (case print_statuses line write statuses of
                     (log, err) \<Rightarrow> (db, map ProviderCall calls @ log, err)))))"

definition runMigration ::
    "goerr + platform_config \<Rightarrow> (string \<Rightarrow> goerr + nat) \<Rightarrow> goerr + ('db, 's, 'r) provider
     \<Rightarrow> ('s \<Rightarrow> string) \<Rightarrow> (string \<Rightarrow> error) \<Rightarrow> bool \<Rightarrow> 'db \<Rightarrow> 'db \<times> migrate_event list \<times> error" where
  "runMigration loaded open_sql made line write up db =
     (case loaded of
        Inl e \<Rightarrow> (db, [], Some e)
      | Inr cfg \<Rightarrow>
          (case open_sql (pf_dsn cfg) of
             Inl e \<Rightarrow> (db, [], Some e)
           | Inr handle \<Rightarrow>
               (case migrate_opened made line write up handle db of
                  (db', log, err) \<Rightarrow> (db', OpenedDatabase (pf_dsn cfg) # log @ [ClosedDatabase], err))))"

section \<open>The command line of the platform\<close>

text \<open>
  \<^verbatim>\<open>serve\<close> keeps the error of the run and drops its result; the process ends with status 1 for
  any error of a command or of the parse.
\<close>

definition ServeCommand_Run ::
    "('v, 'm) run_env \<Rightarrow> (platform_config, 'm) spec \<Rightarrow> (platform_config, 'v) run_option list \<Rightarrow> error option" where
  "ServeCommand_Run env spec opts = map_option ro_err (Run env spec opts)"

definition MigrateUpCommand_Run where
  "MigrateUpCommand_Run loaded open_sql made line write db = runMigration loaded open_sql made line write True db"

definition MigrateStatusCommand_Run where
  "MigrateStatusCommand_Run loaded open_sql made line write db = runMigration loaded open_sql made line write False db"

definition platform_exit :: "cli_result \<Rightarrow> nat" where
  "platform_exit result = (if cl_error result \<noteq> None then 1 else 0)"

definition platform_main :: "kong_env \<Rightarrow> string list \<Rightarrow> nat" where
  "platform_main env os_args =
     platform_exit (snd (Cli_Run env (case DefaultArgs os_args of None \<Rightarrow> [] | Some a \<Rightarrow> a) (Some 1) (Some 2) []))"

section \<open>Lemmas\<close>

text \<open>
  Where the command line serves, its exit status agrees with that of \<^verbatim>\<open>hanami.Main\<close> except
  that a failed startup is 1 and not 2, and a restart requested without an error is 0 and not 1.
\<close>

lemma serve_exit_status:
  assumes "Run env spec opts = Some ro" and "cl_error result = the (ServeCommand_Run env spec opts)"
  shows "Main env spec opts = Some (exitCode (ro_result ro) (ro_err ro))"
    and "platform_exit result = (if ro_err ro = None then 0 else 1)"
    and "(rr_restart (ro_result ro) \<longrightarrow> ro_err ro \<noteq> None) \<Longrightarrow> rr_reason (ro_result ro) \<noteq> StopReasonStartupFailure \<Longrightarrow>
      exitCode (ro_result ro) (ro_err ro) = platform_exit result"
  using assms by (auto simp: Main_def ServeCommand_Run_def platform_exit_def exitCode_def)

lemma tagged_simps [simp]:
  "fl_exported (tagged name tag t)" "fl_type (tagged name tag t) = t"
  by (simp_all add: tagged_def)

lemma tagged_name: "tag \<noteq> '''' \<Longrightarrow> split_comma tag = [tag] \<Longrightarrow> tag \<noteq> ''-'' \<Longrightarrow> fieldName (tagged name tag t) = Named tag False"
  by (simp add: fieldName_def tag_keys_def tagged_def)

lemmas key_simps = tagged_name field_keys_def field_prefix_def structKeys_def http_fields_def

lemma platform_keys: "structKeys 2 platform_types (GStruct ''Config'') '''' = Some (map fst platform_defaults)"
  by (simp add: key_simps platform_types_def platform_defaults_def numeral_2_eq_2)

lemma api_keys:
  "structKeys 2 api_types (GStruct ''applicationConfig'') '''' =
     Some ([''http.address'', ''http.read_header_timeout'', ''http.idle_timeout'', ''http.max_header_bytes'',
       ''otel.enabled'', ''otel.endpoint'', ''otel.insecure'', ''otel.export_timeout'', ''otel.metric_interval''])"
  by (simp add: key_simps api_types_def numeral_2_eq_2)

lemma platform_Validate_None:
  "platform_Validate cfg = None \<longleftrightarrow> ServerConfig_Validate (server_of (pf_http cfg)) = None \<and> pf_dsn cfg \<noteq> ''''
     \<and> pf_policy cfg \<in> {''migrate-before-start'', ''validate-only'', ''disabled''} \<and> 0 < pf_interval cfg"
  by (auto simp: platform_Validate_def split: option.splits)

lemma api_Validate_None:
  "api_Validate cfg = None \<longleftrightarrow> ServerConfig_Validate (server_of (ap_http cfg)) = None
     \<and> (ap_enabled cfg \<longrightarrow> ap_endpoint cfg \<noteq> '''')"
  by (auto simp: api_Validate_def split: option.splits)

lemma MigrationPolicy_known: "MigrationPolicy v \<le> MigrateBeforeStart"
  by (simp add: MigrationPolicy_def migration_policy_defs)

lemma MigrationPolicy_manager:
  "migration_module_manager (MigrationPolicy v) made db = Inl e \<Longrightarrow>
     \<exists>c. made = Inl c \<and> e = err_wrap ''create goose provider: %w'' c"
  using MigrationPolicy_known [of v]
  by (auto simp: migration_module_manager_def migration_New_def Let_def split: if_splits sum.splits)

lemma platform_pool:
  assumes "opened (OpenSqlite (sqlite_dsn rewrite (platform_sqlite cfg))) = None"
  shows "db_newRuntime opened None (sqlite_Module rewrite (platform_sqlite cfg)) =
    ([PoolMaxOpen 1], Inr \<lparr>db_name = ''database'', db_ping_timeout = 5 * second, db_health_timeout = 2 * second,
        db_closed = False, db_close_err = None\<rparr>)"
  using assms by (simp add: db_newRuntime_def sqlite_Module_def sqlite_Dialector_def platform_sqlite_def pool_setup_def)

section \<open>Properties\<close>

text \<open>
  Every default of the two applications names a key of its configuration type, so that exact
  decoding never fails over a default; the platform has a default for every key, and the API
  application for every key except the endpoint and the security of the telemetry exporter.
\<close>

theorem application_defaults_name_keys:
  "structKeys 2 platform_types (GStruct ''Config'') '''' = Some (map fst platform_defaults)
   \<and> (case structKeys 2 api_types (GStruct ''applicationConfig'') '''' of
        None \<Rightarrow> False
      | Some ks \<Rightarrow> set ks = set (map fst api_defaults) \<union> {''otel.endpoint'', ''otel.insecure''} \<and> distinct ks)"
  unfolding platform_keys api_keys by (auto simp: api_defaults_def)

text \<open>
  A platform configuration that was loaded without an error (the decoder calls its
  \<^verbatim>\<open>Validate\<close>) names one of the three migration policies and makes modules that construct:
  the HTTP server configuration is valid, only Goose can refuse the migration manager, the SQL
  runtime limits the pool to one connection and checks it under the name "database", and the
  scheduler runtime exists with its heartbeat job registered at a positive interval.
\<close>

theorem loaded_platform_constructs:
  assumes "platform_LoadConfigFile ctx_err lo file = (log, cfg, None)"
    and "lo_validate_pointer lo = Some platform_Validate"
    and "opened (OpenSqlite (sqlite_dsn rewrite (platform_sqlite cfg))) = None"
  shows "HTTPModule (server_of (pf_http cfg)) \<in> set (platform_Modules cfg)
    \<and> ServerConfig_Validate (server_of (pf_http cfg)) = None
    \<and> pf_policy cfg \<in> {''migrate-before-start'', ''validate-only'', ''disabled''}
    \<and> (\<forall>made db e. migration_module_manager (MigrationPolicy (pf_policy cfg)) made db = Inl e \<longrightarrow>
          (\<exists>c. made = Inl c \<and> e = err_wrap ''create goose provider: %w'' c))
    \<and> db_newRuntime opened None (sqlite_Module rewrite (platform_sqlite cfg)) =
        ([PoolMaxOpen 1], Inr \<lparr>db_name = ''database'', db_ping_timeout = 5 * second,
           db_health_timeout = 2 * second, db_closed = False, db_close_err = None\<rparr>)
    \<and> SchedulerModule \<lparr>sc_shutdown_timeout = 5 * second, sc_health_timeout = 2 * second,
          sc_health_name = ''scheduler''\<rparr> \<in> set (platform_Modules cfg)
    \<and> 0 < pf_interval cfg \<and> ProvideJob (pf_interval cfg) \<in> set (platform_Modules cfg)"
proof -
  have "platform_Validate cfg = None"
    using assms(1,2) load_succeeds_exactly [where ctx_err = ctx_err and lo = lo
        and keys = "the (structKeys 2 platform_types (GStruct ''Config'') '''')"
        and src = "\<lparr>so_file = file, so_env_prefix = ''HANAMI_PLATFORM'', so_defaults = platform_defaults,
          so_overrides = [], so_allow_unused = False\<rparr>"]
    by (auto simp: platform_LoadConfigFile_def split: prod.splits)
  then have ok: "ServerConfig_Validate (server_of (pf_http cfg)) = None" "0 < pf_interval cfg"
    "pf_policy cfg \<in> {''migrate-before-start'', ''validate-only'', ''disabled''}"
    by (simp_all add: platform_Validate_None)
  show ?thesis
    using ok MigrationPolicy_manager platform_pool [of opened rewrite cfg, OF assms(3)] by (auto simp: platform_Modules_def)
qed

lemma print_statuses_log: "fst (print_statuses line write ss) \<noteq> [] \<longleftrightarrow> ss \<noteq> []"
  "\<exists>n. fst (print_statuses line write ss) = map (PrintedStatus \<circ> line) (take n ss)"
proof -
  show "fst (print_statuses line write ss) \<noteq> [] \<longleftrightarrow> ss \<noteq> []"
    by (cases ss) (auto simp: Let_def split: option.splits prod.splits)
  show "\<exists>n. fst (print_statuses line write ss) = map (PrintedStatus \<circ> line) (take n ss)"
  proof (induction ss)
    case (Cons s ss)
    then obtain n where n: "fst (print_statuses line write ss) = map (PrintedStatus \<circ> line) (take n ss)" by blast
    show ?case
    proof (cases "write (line s)")
      case None
      with n show ?thesis by (intro exI [of _ "Suc n"]) (simp add: Let_def case_prod_beta)
    next
      case (Some e)
      then show ?thesis by (intro exI [of _ 1]) simp
    qed
  qed simp
qed

lemma print_statuses_done:
  "snd (print_statuses line write ss) = None \<Longrightarrow>
     fst (print_statuses line write ss) = map (PrintedStatus \<circ> line) ss"
  by (induction ss) (auto simp: Let_def split: option.splits prod.splits)

text \<open>The manager of the commands has the provider and the policy to migrate, whatever is configured.\<close>

lemma command_manager:
  "migration_New MigrateBeforeStart made (Some handle) =
     (case made of Inl e \<Rightarrow> Inl (err_wrap ''create goose provider: %w'' e)
      | Inr pv \<Rightarrow> Inr \<lparr>mm_policy = MigrateBeforeStart, mm_db = Some handle, mm_provider = Some pv\<rparr>)"
  by (cases made) (simp_all add: migration_New_def migration_policy_defs Let_def)

lemma migrate_opened_cases:
  "migrate_opened made line write up handle db =
     (case made of
        Inl e \<Rightarrow> (db, [], Some (err_wrap ''create goose provider: %w'' e))
      | Inr pv \<Rightarrow>
          (if up then
             (case pv_up pv db of
                (db', Inl e) \<Rightarrow> (db', [ProviderCall CallUp], Some (err_wrap ''apply migrations: %w'' e))
              | (db', Inr _) \<Rightarrow> (db', [ProviderCall CallUp], None))
           else (case pv_status pv db of
                Inl e \<Rightarrow> (db, [ProviderCall CallStatus], Some e)
              | Inr ss \<Rightarrow> (db, ProviderCall CallStatus # fst (print_statuses line write ss),
                           snd (print_statuses line write ss)))))"
proof (cases made)
  case (Inl e)
  then show ?thesis by (simp add: migrate_opened_def command_manager)
next
  case (Inr pv)
  have on: "MigrateBeforeStart \<noteq> Disabled" by (simp add: migration_policy_defs)
  show ?thesis
  proof (cases up)
    case True
    with Inr on show ?thesis
      by (simp add: migrate_opened_def command_manager Migrate_def is_disabled_def Manager_Provider_def
          split: sum.splits prod.splits)
  next
    case False
    with Inr on show ?thesis
      by (simp add: migrate_opened_def command_manager Migration_Status_def is_disabled_def
          Manager_Provider_def with_provider_def split: sum.splits prod.splits)
  qed
qed

text \<open>
  The migration commands, which ignore the configured policy: the handle that was opened is
  closed, once and last, on every path; the status command never changes the database and
  prints, when it succeeds, every state in order; the up command succeeds exactly if the
  provider applied the migrations, and leaves the database as the provider left it.
\<close>

theorem migration_commands:
  assumes "runMigration (Inr cfg) open_sql made line write up db = (db', log, err)"
  shows "(case open_sql (pf_dsn cfg) of
      Inl e \<Rightarrow> err = Some e \<and> db' = db \<and> log = []
    | Inr handle \<Rightarrow>
        hd log = OpenedDatabase (pf_dsn cfg) \<and> last log = ClosedDatabase \<and> count_list log ClosedDatabase = 1
        \<and> (\<not> up \<longrightarrow> db' = db)
        \<and> (\<not> up \<and> err = None \<longrightarrow> (\<exists>pv ss. made = Inr pv \<and> pv_status pv db = Inr ss \<and>
              log = OpenedDatabase (pf_dsn cfg) # ProviderCall CallStatus # map (PrintedStatus \<circ> line) ss @ [ClosedDatabase]))
        \<and> (up \<longrightarrow> (err = None \<longleftrightarrow> (\<exists>pv rs. made = Inr pv \<and> pv_up pv db = (db', Inr rs)))))"
proof (cases "open_sql (pf_dsn cfg)")
  case (Inl e)
  with assms show ?thesis by (simp add: runMigration_def)
next
  case (Inr handle)
  obtain body where b: "migrate_opened made line write up handle db = (db', body, err)"
    and log: "log = OpenedDatabase (pf_dsn cfg) # body @ [ClosedDatabase]"
    using assms Inr by (auto simp: runMigration_def split: prod.splits)
  have "ClosedDatabase \<notin> set (fst (print_statuses line write ss))" for ss
    using print_statuses_log(2) [of line "write" ss] by auto
  then have "ClosedDatabase \<notin> set body"
    using b by (auto simp: migrate_opened_cases split: sum.splits prod.splits if_splits)
  then show ?thesis
    using b unfolding Inr log
    by (auto simp: migrate_opened_cases count_list_0_iff print_statuses_done split: sum.splits prod.splits if_splits)
qed

text \<open>
  The heartbeat job is required of the monitor under the name "platform-heartbeat", but its
  registration gives the native job no name: a failure reported under any other name, such
  as the one the native scheduler makes up, leaves the health of the scheduler as it was.
\<close>

theorem heartbeat_failures_unmonitored:
  assumes "constructAndRegister (Inr n) (rt\<lparr>sr_jobs := [heartbeatJob new_job i], sr_monitor := new_monitor\<rparr>)
             = (rt', log, None)"
    and "name \<noteq> ''platform-heartbeat''"
  shows "JobFailed name e (sr_monitor rt') = sr_monitor rt'
    \<and> failureError (JobFailed ''platform-heartbeat'' e (sr_monitor rt')) = Some (err_job ''platform-heartbeat'' e)"
proof -
  have "sr_monitor rt' = setRequired ''platform-heartbeat'' True new_monitor"
    using assms(1) by (auto simp: constructAndRegister_def heartbeatJob_def Let_def ref_set_def split: option.splits)
  with assms(2) show ?thesis
    by (simp add: JobFailed_def setRequired_def new_monitor_def monitor_fail_def failureError_def)
qed

section \<open>The properties at concrete applications\<close>

definition ex_platform :: platform_config where
  "ex_platform = \<lparr>pf_http = \<lparr>hs_address = '':8080'', hs_read_header_timeout = 5, hs_idle_timeout = 60,
       hs_max_header_bytes = 1048576\<rparr>,
     pf_dsn = ''file:platform.db'', pf_wal = True, pf_policy = ''disabled'', pf_interval = 3600\<rparr>"

definition ex_loader :: "platform_config loader" where
  "ex_loader = \<lparr>lo_zero = ex_platform, lo_read = (\<lambda>_. None), lo_bind = (\<lambda>_. None),
     lo_unmarshal = (ex_platform, None), lo_unmarshal_exact = (ex_platform, None),
     lo_validate_pointer = Some platform_Validate, lo_validate_value = None\<rparr>"

lemma ex_platform_valid: "platform_Validate ex_platform = None"
  by code_simp

lemma ex_platform_loads: "\<exists>log. platform_LoadConfigFile None ex_loader '''' = (log, ex_platform, None)"
proof -
  have binds: "bind_keys (\<lambda>_. None) ks = (map LBindEnv ks, None)" for ks
    by (induction ks) simp_all
  show ?thesis
    by (simp add: platform_LoadConfigFile_def Load_def ex_loader_def load_decode_def load_validate_def
        binds ex_platform_valid Let_def)
qed

theorem loaded_platform_constructs_witness:
  "ServerConfig_Validate (server_of (pf_http ex_platform)) = None
   \<and> HTTPModule (server_of (pf_http ex_platform)) \<in> set (platform_Modules ex_platform)"
proof -
  obtain log where "platform_LoadConfigFile None ex_loader '''' = (log, ex_platform, None)"
    using ex_platform_loads by blast
  moreover have "lo_validate_pointer ex_loader = Some platform_Validate" by (simp add: ex_loader_def)
  ultimately show ?thesis
    using loaded_platform_constructs [of None ex_loader "''''" log ex_platform "\<lambda>_. None" "\<lambda>_. None"] by blast
qed

text \<open>A database that counts its migrations, with two known ones.\<close>

definition ex_goose :: "(nat, nat, nat) provider" where
  "ex_goose = \<lparr>pv_has_pending = (\<lambda>db. Inr (db < 2)), pv_status = (\<lambda>db. Inr [0, 1]), pv_up = (\<lambda>db. (2, Inr [db]))\<rparr>"

lemma ex_run_migration:
  "runMigration (Inr ex_platform) (\<lambda>_. Inr 7) (Inr ex_goose) dec (\<lambda>_. None) True 0 =
     (2, [OpenedDatabase ''file:platform.db'', ProviderCall CallUp, ClosedDatabase], None)"
  by (simp add: runMigration_def migrate_opened_cases ex_platform_def ex_goose_def)

theorem migration_commands_witness:
  "count_list [OpenedDatabase ''file:platform.db'', ProviderCall CallUp, ClosedDatabase] ClosedDatabase = 1
   \<and> pf_policy ex_platform = ''disabled''"
  using migration_commands [OF ex_run_migration] by (simp add: ex_platform_def)

definition ex_heartbeat_runtime :: sched_runtime where
  "ex_heartbeat_runtime = \<lparr>sr_config = \<lparr>sc_shutdown_timeout = 5, sc_health_timeout = 2, sc_health_name = ''scheduler''\<rparr>,
     sr_jobs = [heartbeatJob (\<lambda>_ _. None) 3600], sr_health_name = ''scheduler'', sr_health_time = 2,
     sr_monitor = setRequired ''platform-heartbeat'' True new_monitor, sr_native = Some 1, sr_started = False,
     sr_stopping = False, sr_stop_once = False\<rparr>"

lemma ex_heartbeat_registers:
  "constructAndRegister (Inr 1) (ex_heartbeat_runtime\<lparr>sr_jobs := [heartbeatJob (\<lambda>_ _. None) 3600], sr_monitor := new_monitor\<rparr>)
     = (ex_heartbeat_runtime, [SConstruct 1, SRegister ''platform-heartbeat''], None)"
  by (simp add: constructAndRegister_def heartbeatJob_def ref_set_def ex_heartbeat_runtime_def)

theorem heartbeat_failures_unmonitored_witness:
  "JobFailed ''app.heartbeatJob.func1.1'' err_stopped (sr_monitor ex_heartbeat_runtime) = sr_monitor ex_heartbeat_runtime"
  using heartbeat_failures_unmonitored [OF ex_heartbeat_registers, of "''app.heartbeatJob.func1.1''"] by simp

end
