(* ===== verification/Secured_App.thy ===== *)
theory Secured_App
  imports Enforcement_Witness Process
begin

text \<open>
  The secured starter, \<^verbatim>\<open>src/starters/secured/cmd/service/main.go\<close>: the directory it loads,
  the policy it builds, and what that policy becomes in validation, in the Landlock ruleset
  and in the seccomp filter.
\<close>

section \<open>The program\<close>

text \<open>The configuration is the allowed directory.\<close>

record secured_config =
  sf_directory :: string

text \<open>
  \<open>env_dir\<close> is the value of the environment variable, \<open>temp\<close> that of \<^verbatim>\<open>os.TempDir\<close>;
  \<open>stat\<close> answers whether a path is a directory.
\<close>

definition secured_loadConfig :: "string \<Rightarrow> string \<Rightarrow> (string \<Rightarrow> goerr + bool) \<Rightarrow> goerr + secured_config" where
  "secured_loadConfig env_dir temp stat =
     (let path = (if env_dir = '''' then temp else env_dir)
      in case stat path of
           Inl e \<Rightarrow> Inl (err_wrap ''inspect allowed directory: %w'' e)
         | Inr is_dir \<Rightarrow>
             (if \<not> is_dir then Inl (Errorf ''allowed path is not a directory: %s'' [AStr path])
              else Inr \<lparr>sf_directory = path\<rparr>))"

definition directory_rights :: rights where
  "directory_rights = RightReadFile OR RightReadDirectory OR RightWriteFile OR RightMakeDirectory
     OR RightMakeRegular OR RightRemoveDirectory OR RightRemoveFile OR RightTruncate OR RightRefer"

text \<open>\<open>exe\<close> is the answer of \<^verbatim>\<open>os.Executable\<close>.\<close>

definition buildPolicy :: "goerr + string \<Rightarrow> secured_config \<Rightarrow> goerr + policy" where
  "buildPolicy exe config =
     (let grants = [Grant (sf_directory config) directory_rights]
            @ (case exe of Inr e \<Rightarrow> [Grant (Clean e) (RightReadFile OR RightExecute)] | Inl _ \<Rightarrow> [])
      in Inr \<lparr>po_mode = ModePreferred, po_read_only = [], po_writable = [], po_executable = [],
              po_grants = grants, po_except_exec = False, po_deny = [''ptrace'', ''mount'', ''bpf''],
              po_landlock = True, po_seccomp = True\<rparr>)"

text \<open>What the module logs of the status; then it asks the process to stop.\<close>

definition secured_Modules :: "sec_status \<Rightarrow> controller \<Rightarrow> (bool \<times> bool \<times> bool \<times> string) \<times> controller" where
  "secured_Modules st ctl =
     ((su_enforced st, ly_verified (su_landlock st), ly_verified (su_seccomp st), su_arch st),
      fst (RequestStop ctl \<lparr>rq_reason = StopReasonRequested, rq_err = None, rq_restart = False\<rparr>))"

section \<open>Lemmas\<close>

lemma buildPolicy_fields:
  assumes "buildPolicy exe config = Inr p"
  shows "po_mode p = ModePreferred" "wantsLandlock p" "wantsSeccomp p" "po_deny p = [''ptrace'', ''mount'', ''bpf'']"
    "po_read_only p = []" "po_writable p = []" "po_executable p = []" "\<not> po_except_exec p"
    "Grant (sf_directory config) directory_rights \<in> set (po_grants p)"
  using assms by (auto simp: buildPolicy_def Let_def wantsLandlock_def wantsSeccomp_def)

lemma directory_rights_nonzero: "directory_rights \<noteq> 0" "RightReadFile OR RightExecute \<noteq> 0"
  by (simp_all add: directory_rights_def right_defs)

lemma buildPolicy_ok:
  assumes "buildPolicy exe config = Inr p"
  shows "policy_ok p \<longleftrightarrow> absolute (sf_directory config)
           \<and> (case exe of Inr e \<Rightarrow> absolute (Clean e) | Inl _ \<Rightarrow> True)"
  using assms directory_rights_nonzero
  by (auto simp: buildPolicy_def Let_def policy_ok_def split: sum.splits)

text \<open>Truncation needs the third version of the Landlock interface.\<close>

lemma directory_rights_unsupported:
  assumes "abi < (3 :: 32 word)"
  shows "directory_rights AND NOT (supportedFilesystemRights abi) \<noteq> 0"
proof -
  have "unat abi < 3" using assms by (simp add: word_less_nat_alt)
  then have "abi = 0 \<or> abi = 1 \<or> abi = 2" by (auto simp: word_unat_eq_iff)
  then show ?thesis
    by (auto simp: directory_rights_def supportedFilesystemRights_def Let_def right_defs word_le_nat_alt)
qed

lemma directory_rights_supported:
  assumes "(3 :: 32 word) \<le> abi"
  shows "directory_rights AND NOT (supportedFilesystemRights abi) = 0"
    "(RightReadFile OR RightExecute) AND NOT (supportedFilesystemRights abi) = 0"
proof -
  have two: "2 \<le> abi" using assms by (rule order_trans [rotated]) simp
  show "directory_rights AND NOT (supportedFilesystemRights abi) = 0"
    "(RightReadFile OR RightExecute) AND NOT (supportedFilesystemRights abi) = 0"
    using assms two
    by (simp_all add: directory_rights_def supportedFilesystemRights_def Let_def right_defs)
qed


text \<open>A ruleset with a refused step is never built, so the thread is never restricted.\<close>

lemma refused_never_runs:
  assumes "Refuse e \<in> set steps"
  shows "\<exists>e. snd (run_rules env handled steps) = Some e"
  using assms run_rules_no_refusal [of env handled steps]
  by (cases "run_rules env handled steps") (metis option.exhaust snd_conv)

lemma run_rules_unrestricted: "PRestrict fd \<notin> set (fst (run_rules env handled steps))"
  by (induction env handled steps rule: run_rules.induct) (auto split: option.splits prod.splits)

lemma buildLandlock_refused:
  assumes "Refuse e \<in> set (rule_steps env p (handled_rights p abi))" and "pe_abi env = Inr abi"
  obtains log f where "buildLandlock env p = (log, Inl f)" "\<And>fd. PRestrict fd \<notin> set log"
proof -
  let ?steps = "rule_steps env p (handled_rights p abi)"
  obtain rules g where run: "run_rules env (handled_rights p abi) ?steps = (rules, Some g)"
    using refused_never_runs [OF assms(1), of env "handled_rights p abi"] by (metis prod.collapse)
  then have quiet: "PRestrict fd \<notin> set rules" for fd
    using run_rules_unrestricted [of fd env "handled_rights p abi" ?steps] by simp
  show thesis
  proof (cases "pe_create env (handled_rights p abi)")
    case (Inl f)
    then show thesis using assms(2) by (intro that [of "[]" f]) (simp_all add: buildLandlock_def)
  next
    case (Inr fd)
    then show thesis
      using assms(2) run quiet
      by (intro that [of "PCreate (handled_rights p abi) # rules @ [PClose fd]" g]) (simp_all add: buildLandlock_def)
  qed
qed

lemma ReexecForPolicy_refused:
  assumes "Refuse e \<in> set (rule_steps env p (handled_rights p abi))" and "pe_abi env = Inr abi"
  obtains log f where "ReexecForPolicy env p = (log, Failed f)" "\<And>fd. PRestrict fd \<notin> set log"
proof -
  obtain blog f where b: "buildLandlock env p = (blog, Inl f)" and quiet: "\<And>fd. PRestrict fd \<notin> set blog"
    using buildLandlock_refused [OF assms] by blast
  have "reexec_locked env p probe argv0 = (blog, Failed (err_wrap ''build landlock ruleset: %w'' f))" for probe argv0
    using b by (simp add: reexec_locked_def)
  then have "fst (ReexecForPolicy env p) = [] \<or> fst (ReexecForPolicy env p) = PLockThread # blog @ [PUnlockThread]"
    and "\<exists>f. snd (ReexecForPolicy env p) = Failed f"
    by (simp_all add: ReexecForPolicy_def split: option.splits sum.splits)
  moreover from this(1) quiet have "PRestrict fd \<notin> set (fst (ReexecForPolicy env p))" for fd by auto
  ultimately show thesis by (metis prod.collapse that)
qed

lemma secured_refused:
  assumes "buildPolicy exe config = Inr p" and "abi < 3"
  shows "\<exists>e. Refuse e \<in> set (rule_steps env p (handled_rights p abi))"
proof -
  let ?g = "Grant (sf_directory config) directory_rights"
  let ?step = "\<lambda>h g. if gr_access g AND NOT h \<noteq> 0
    then Refuse (Errorf ''unsupported Landlock rights for %s'' [AStr (gr_path g)]) else AddRule (gr_path g) (gr_access g)"
  have h: "handled_rights p abi = supportedFilesystemRights abi"
    using buildPolicy_fields(8) [OF assms(1)] by (simp add: handled_rights_def)
  have "?step (supportedFilesystemRights abi) ?g
      = Refuse (Errorf ''unsupported Landlock rights for %s'' [AStr (sf_directory config)])"
    using directory_rights_unsupported [OF assms(2)] by simp
  moreover have "?step h ?g \<in> set (rule_steps env p h)" for h
    using imageI [OF buildPolicy_fields(9) [OF assms(1)], of "?step h"]
    unfolding rule_steps_def set_append set_map by blast
  ultimately show ?thesis unfolding h by metis
qed

section \<open>Properties\<close>

text \<open>
  The policy of the secured starter validates exactly if the loaded directory (and the cleaned
  path of the executable, when it is known) is absolute; a relative directory that exists passes
  \<^verbatim>\<open>loadConfig\<close>, and then the security integration fails the start although the mode is
  "preferred".
\<close>

theorem secured_policy_accepted_exactly:
  assumes "map_order (pe_order env)" and "secured_loadConfig env_dir temp stat = Inr config"
    and "buildPolicy exe config = Inr p"
  shows "po_mode p = ModePreferred
    \<and> (Policy_Validate (pe_order env) p = None \<longleftrightarrow>
         absolute (if env_dir = '''' then temp else env_dir) \<and> (case exe of Inr e \<Rightarrow> absolute (Clean e) | Inl _ \<Rightarrow> True))
    \<and> (\<not> absolute (if env_dir = '''' then temp else env_dir) \<longrightarrow>
         (\<exists>e. Security_Prepare env None (buildPolicy exe) config = ([], Some (Inl e))))"
proof -
  have dir: "sf_directory config = (if env_dir = '''' then temp else env_dir)"
    using assms(2) by (auto simp: secured_loadConfig_def Let_def split: sum.splits if_splits)
  have valid: "Policy_Validate (pe_order env) p = None \<longleftrightarrow>
      absolute (sf_directory config) \<and> (case exe of Inr e \<Rightarrow> absolute (Clean e) | Inl _ \<Rightarrow> True)"
    using Policy_Validate_None [OF assms(1)] buildPolicy_ok [OF assms(3)] by simp
  have "\<exists>e. Security_Prepare env None (buildPolicy exe) config = ([], Some (Inl e))"
    if "\<not> absolute (sf_directory config)"
    using that valid assms(3) by (auto simp: Security_Prepare_def applyPlatform_def split: option.splits)
  with valid dir buildPolicy_fields(1) [OF assms(3)] show ?thesis by simp
qed

text \<open>
  C34: On a kernel whose Landlock interface is older than version 3 the ruleset of the secured starter
  is refused, because its grant always asks for truncation (and for version 1 also for
  renaming across directories): no thread is ever restricted, Landlock is reported as missing
  and, the mode being "preferred", the application starts without it.
\<close>

theorem secured_starter_needs_landlock_3:
  assumes "buildPolicy exe config = Inr p" and "Policy_Validate (pe_order env) p = None"
    and "pe_abi env = Inr abi" and "abi < 3" and "pe_handoff env = ''''"
    and "pe_arch env = ''amd64'' \<or> pe_arch env = ''arm64''"
  shows "\<exists>log st. Apply env p = (log, Some (st, None)) \<and> ''landlock-reexec'' \<in> set (su_missing st)
     \<and> ''landlock-reexec'' \<in> set (su_warnings st) \<and> \<not> su_enforced st \<and> \<not> ly_applied (su_landlock st)
     \<and> (\<forall>fd. PRestrict fd \<notin> set log)"
proof -
  note fields = buildPolicy_fields [OF assms(1)]
  obtain e where "Refuse e \<in> set (rule_steps env p (handled_rights p abi))"
    using secured_refused [OF assms(1,4)] by blast
  then obtain rlog f where r: "ReexecForPolicy env p = (rlog, Failed f)" and quiet: "\<And>fd. PRestrict fd \<notin> set rlog"
    using ReexecForPolicy_refused [OF _ assms(3)] by blast
  let ?st = "new_status (po_mode p) (pe_arch env)"
  let ?st1 = "landlock_layer ?st (no_layer\<lparr>ly_available := True, ly_error := Some f\<rparr>) [''landlock-reexec'']"
  have ll: "apply_landlock env p ?st = (rlog, Some ?st1)"
    using assms(3,5) fields(2) r by (simp add: apply_landlock_def Let_def)
  obtain slog st2 where sc: "apply_seccomp_layer env p ?st1 = (slog, st2)" by fastforce
  have st2: "\<exists>more. su_missing st2 = ''landlock-reexec'' # more" "su_mode st2 = ModePreferred"
    "ly_applied (su_landlock st2) = False" "su_warnings st2 = []" and sq: "\<And>fd. PRestrict fd \<notin> set slog"
    using sc fields(1)
    by (auto simp: apply_seccomp_layer_def applySeccomp_def landlock_layer_def seccomp_layer_def new_status_def
        no_layer_def Let_def split: if_splits sum.splits prod.splits option.splits)
  have mode: "po_mode p \<noteq> ModeOff" using fields(1) by (simp add: mode_defs)
  have pref: "ModePreferred \<noteq> ModeRequired" by (simp add: mode_defs)
  obtain flog st where fin: "finishPlatform p st2 = (flog, Some (st, None))"
    and st: "su_missing st = su_missing st2" "su_warnings st = su_missing st2" "\<not> su_enforced st"
      "su_landlock st = su_landlock st2" and fq: "\<And>fd. PRestrict fd \<notin> set flog"
    using st2 pref by (auto simp: finishPlatform_def Let_def setPlatformStatus_def)
  have "Apply env p = (rlog @ slog @ flog, Some (st, None))"
    using assms(2,6) mode ll sc fin by (auto simp: Apply_def applyPlatform_def Let_def)
  with st st2 quiet sq fq show ?thesis by auto
qed

section \<open>The properties at a concrete machine\<close>

definition ex_secured_policy :: "string \<Rightarrow> policy" where
  "ex_secured_policy dir = \<lparr>po_mode = ModePreferred, po_read_only = [], po_writable = [], po_executable = [],
     po_grants = [Grant dir directory_rights, Grant ''/usr/bin/app'' (RightReadFile OR RightExecute)],
     po_except_exec = False, po_deny = [''ptrace'', ''mount'', ''bpf''], po_landlock = True, po_seccomp = True\<rparr>"

lemma ex_secured_built: "buildPolicy (pe_executable ex_machine) \<lparr>sf_directory = dir\<rparr> = Inr (ex_secured_policy dir)"
proof -
  have "Clean ''/usr/bin/app'' = ''/usr/bin/app''" by code_simp
  then show ?thesis by (simp add: buildPolicy_def ex_secured_policy_def)
qed

lemma ex_secured_loaded: "secured_loadConfig dir ''/tmp'' (\<lambda>_. Inr True) = Inr \<lparr>sf_directory = (if dir = '''' then ''/tmp'' else dir)\<rparr>"
  by (simp add: secured_loadConfig_def)

text \<open>The directory "data" is loaded and then fails the start.\<close>

theorem secured_policy_accepted_exactly_witness:
  "secured_loadConfig ''data'' ''/tmp'' (\<lambda>_. Inr True) = Inr \<lparr>sf_directory = ''data''\<rparr>
   \<and> (\<exists>e. Security_Prepare ex_machine None (buildPolicy (pe_executable ex_machine)) \<lparr>sf_directory = ''data''\<rparr>
          = ([], Some (Inl e)))"
proof -
  have "map_order (pe_order ex_machine)" by (simp add: ex_order)
  moreover have load: "secured_loadConfig ''data'' ''/tmp'' (\<lambda>_. Inr True) = Inr \<lparr>sf_directory = ''data''\<rparr>"
    by (simp add: ex_secured_loaded)
  moreover have "\<not> absolute ''data''" by (simp add: absolute_def has_prefix_def)
  ultimately show ?thesis using secured_policy_accepted_exactly [OF _ _ ex_secured_built] by simp
qed

definition ex_old_kernel :: platform_env where
  "ex_old_kernel = ex_machine\<lparr>pe_abi := Inr 1\<rparr>"

theorem secured_starter_needs_landlock_3_witness:
  "\<exists>log st. Apply ex_old_kernel (ex_secured_policy ''/srv'') = (log, Some (st, None))
     \<and> ''landlock-reexec'' \<in> set (su_warnings st) \<and> \<not> ly_applied (su_landlock st)"
proof -
  have "policy_ok (ex_secured_policy ''/srv'')"
    using directory_rights_nonzero
    by (simp add: policy_ok_def ex_secured_policy_def absolute_def has_prefix_def)
  then have "Policy_Validate (pe_order ex_old_kernel) (ex_secured_policy ''/srv'') = None"
    using Policy_Validate_None [OF ex_order] by (simp add: ex_old_kernel_def)
  moreover have "pe_abi ex_old_kernel = Inr 1" "pe_handoff ex_old_kernel = ''''" "pe_arch ex_old_kernel = ''amd64''"
    by (simp_all add: ex_old_kernel_def)
  moreover have "(1 :: 32 word) < 3" by simp
  ultimately show ?thesis
    using secured_starter_needs_landlock_3 [OF ex_secured_built, of ex_old_kernel "''/srv''" 1] by blast
qed

end
