(* ===== verification/Reconfigurable_App.thy ===== *)
theory Reconfigurable_App
  imports Manager_Witness
begin

text \<open>
  The reconfigurable starter, \<^verbatim>\<open>src/starters/reconfigurable/cmd/service/main.go\<close>: the server
  configuration it selects and the goroutine that waits for admission and then replaces the
  running generation, composed with the generation manager and the stop controller.
\<close>

section \<open>Configuration\<close>

definition starter_identity :: string where
  "starter_identity = ''hanami-reconfigurable-starter''"

text \<open>The value of the environment variable; the configuration is the address.\<close>

definition reconf_loadConfig :: "string \<Rightarrow> goerr + string" where
  "reconf_loadConfig env_address =
     (let address = (if env_address = '''' then ''127.0.0.1:8082'' else env_address)
      in case ServerConfig_Validate (zero_config\<lparr>sc_address := address\<rparr>) of
           Some e \<Rightarrow> Inl e
         | None \<Rightarrow> Inr address)"

text \<open>The two configurations the program writes out; they differ in the address and the handler.\<close>

definition managed_config :: "string \<Rightarrow> handler \<Rightarrow> server_config" where
  "managed_config address h =
     zero_config\<lparr>sc_address := address, sc_protocol := ProtocolHTTP, sc_handler := Some h,
       sc_probe_path := ''/.hanami/ready'', sc_probe_identity := starter_identity,
       sc_probe_timeout := 3 * second, sc_drain_timeout := 10 * second, sc_max_draining := 2\<rparr>"

definition NoContentHandler :: handler where
  "NoContentHandler r = \<lparr>hs_status = 204, hs_header = (\<lambda>_. ''''), hs_body = ''''\<rparr>"

definition replacement_request :: "string \<Rightarrow> replace_request" where
  "replacement_request addr = \<lparr>rp_server = managed_config addr NoContentHandler, rp_config = zero_config, rp_handler = None\<rparr>"

section \<open>The replacement goroutine\<close>

text \<open>
  Its outcome: still polling, blocked in \<^verbatim>\<open>Replace\<close>, or ended with the manager it leaves,
  the state it logged and the error, if it called \<^verbatim>\<open>Replace\<close>.
\<close>

datatype goroutine =
    Polling
  | Blocked
  | Ended manager "(string \<times> error) option"

text \<open>
  \<open>samples\<close> are the values of the admission flag the loop reads, ten milliseconds apart;
  \<open>m\<close> is the manager at the time of the call, \<open>addr\<close> the second environment variable.
  The stop request of a failed replacement goes to the controller the manager shares.
\<close>

definition after_admission :: "mgr_env \<Rightarrow> manager \<Rightarrow> string \<Rightarrow> goroutine" where
  "after_admission env m addr =
     (if addr = '''' then Ended m None
      else (case Replace env m (replacement_request addr) of
              None \<Rightarrow> Blocked
            | Some (m', res, None) \<Rightarrow> Ended m' (Some (rs_state res, None))
            | Some (m', res, Some e) \<Rightarrow>
                Ended (other_stop \<lparr>rq_reason = StopReasonRuntimeFailure, rq_err = Some e, rq_restart = False\<rparr> m')
                  (Some (rs_state res, Some e))))"

fun replacement_goroutine :: "mgr_env \<Rightarrow> manager \<Rightarrow> string \<Rightarrow> bool list \<Rightarrow> goroutine" where
  "replacement_goroutine env m addr [] = Polling"
| "replacement_goroutine env m addr (is_open # samples) =
     (if \<not> is_open then replacement_goroutine env m addr samples else after_admission env m addr)"

section \<open>Lemmas\<close>

lemma managed_config_valid:
  "ServerConfig_Validate (managed_config a h) = None \<longleftrightarrow> ServerConfig_Validate (zero_config\<lparr>sc_address := a\<rparr>) = None"
  by (auto simp: ServerConfig_Validate_def validateBasicServerConfig_def managed_config_def zero_config_def
      effective_protocol_def protocol_defs has_prefix_def contains_any_def pem_empty_def second_def
      split: option.splits sum.splits)

lemma managed_config_normalized:
  assumes "ServerConfig_normalized x509 (managed_config a h) = Inr cfg"
  shows "sc_address cfg = a \<and> sc_handler cfg = Some h \<and> sc_factory cfg = None"
  using assms
  by (auto simp: ServerConfig_normalized_def load_pem_def with_defaults_def managed_config_def zero_config_def
      split: option.splits if_splits)

lemma replacement_config:
  assumes "a \<noteq> ''''" and "configFor env m (replacement_request a) = Inr cfg"
  shows "sc_address cfg = a \<and> sc_handler cfg = Some NoContentHandler \<and> sc_factory cfg = None"
proof -
  have "sc_address (managed_config a NoContentHandler) = a"
    and "sc_handler (managed_config a NoContentHandler) = Some NoContentHandler"
    by (simp_all add: managed_config_def)
  then have "ServerConfig_normalized (en_x509 env) (managed_config a NoContentHandler) = Inr cfg"
    using assms by (simp add: configFor_def replacement_request_def)
  then show ?thesis by (rule managed_config_normalized)
qed

lemma replace_decide_shared: "mg_shared (fst (replace_decide env m p cfg)) = mg_shared m"
proof -
  obtain m1 r where "probe env m p = (m1, r)" by fastforce
  then show ?thesis
    using probe_fields [of env m p m1 r]
    by (auto simp: replace_decide_def replace_commit_def split: option.splits)
qed

lemma replace_locked_shared: "mg_shared (fst (replace_locked env m req)) = mg_shared m"
proof -
  obtain m1 r where admit: "replace_admit env m req = (m1, r)" by fastforce
  then show ?thesis
  proof (cases rule: replace_admit_cases)
    case (unprepared cfg e)
    then show ?thesis
      using admit prepareGeneration_failed [of env m cfg m1 e] by (simp add: replace_locked_def unchanged_def)
  next
    case (started cfg m2 p)
    then have "mg_shared m1 = mg_shared m" by (auto elim: prepareGeneration_prepared)
    then show ?thesis using admit started(8) by (simp add: replace_locked_def replace_decide_shared)
  qed (use admit in \<open>simp_all add: replace_locked_def\<close>)
qed

lemma Replace_shared: "Replace env m req = Some (m', res, err) \<Longrightarrow> mg_shared m' = mg_shared m"
  using replace_locked_shared [of env m req]
  by (auto simp: Replace_def dest: generation_close_fields drainGeneration_fields
      split: prod.splits locked.splits option.splits)

lemma goroutine_polls: "replacement_goroutine env m a samples =
    (if True \<in> set samples then after_admission env m a else Polling)"
  by (induction samples) auto

lemma after_admission_not_polling: "after_admission env m a \<noteq> Polling"
  by (auto simp: after_admission_def split: option.splits prod.splits)

text \<open>What a finished \<^verbatim>\<open>Replace\<close> of the starter has done.\<close>

lemma replacement_rejected_or_switched:
  assumes "reachable (m, Free)" and "a \<noteq> ''''" and "Replace env m (replacement_request a) = Some (m', res, err)"
  shows "case err of
      None \<Rightarrow> rs_state res = ReplaceApplied \<and> (m' = m \<or> (\<exists>p h. mg_gens m p = None \<and> mg_active m' = Some p
        \<and> mg_gens m' p = Some h \<and> sc_address (gn_config h) = a \<and> gn_handler h = mg_handler m
        \<and> mg_handler m' = Some NoContentHandler))
    | Some e \<Rightarrow> rs_state res = ReplaceRejected \<and> unchanged m m'
        \<or> rs_state res = ReplaceAppliedWithDrainFailure \<and> (\<exists>p. mg_gens m p = None \<and> mg_active m' = Some p)"
  using reachable_inv [OF assms(1)] assms(3)
proof (cases rule: Replace_cases)
  case (switched cfg m1 p g h ma mb)
  have cfg: "sc_address cfg = a \<and> sc_handler cfg = Some NoContentHandler \<and> sc_factory cfg = None"
    using replacement_config [OF assms(2) switched(2)] .
  have "gn_config g = cfg \<and> gn_handler g = mg_handler m"
    using switched(3,4) cfg by (elim prepareGeneration_prepared) (auto simp: candidate_generation_def)
  with switched cfg show ?thesis by (auto split: option.splits)
qed (auto simp: Manager.rejected_def)

lemma reconfigurable_config_valid:
  assumes "reconf_loadConfig env_address = Inr a"
  shows "\<exists>cfg. ServerConfig_normalized x509 (managed_config a h) = Inr cfg"
proof -
  have "ServerConfig_Validate (zero_config\<lparr>sc_address := a\<rparr>) = None"
    using assms by (auto simp: reconf_loadConfig_def Let_def split: option.splits)
  then have "ServerConfig_Validate (with_defaults (managed_config a h)) = None"
    by (auto simp: ServerConfig_Validate_def validateBasicServerConfig_def managed_config_def zero_config_def
        with_defaults_def effective_protocol_def protocol_defs has_prefix_def contains_any_def pem_empty_def
        second_def starter_identity_def split: option.splits sum.splits if_splits)
  then show ?thesis
    by (auto simp: ServerConfig_normalized_def load_pem_def with_defaults_def managed_config_def
        zero_config_def protocol_defs)
qed

section \<open>Properties\<close>

text \<open>
  The address the reconfigurable starter accepts is one for which the full server
  configuration of its module normalises: nothing the module adds can make the manager refuse
  it, and the handler of the application is kept.
\<close>

theorem reconfigurable_config_accepted:
  assumes "reconf_loadConfig env_address = Inr a"
  shows "\<exists>cfg m. ServerConfig_normalized x509 (managed_config a h) = Inr cfg \<and> sc_address cfg = a
    \<and> sc_handler cfg = Some h \<and> NewManager x509 (Inr token) (managed_config a h) adm ctl = Inr m
    \<and> mg_config m = cfg \<and> mg_handler m = Some h"
proof -
  obtain cfg where norm: "ServerConfig_normalized x509 (managed_config a h) = Inr cfg"
    using reconfigurable_config_valid [OF assms] by blast
  note keeps = managed_config_normalized [OF norm]
  have same: "(managed_config a h)\<lparr>sc_handler := Some h\<rparr> = managed_config a h" "sc_handler (managed_config a h) = Some h"
    by (simp_all add: managed_config_def)
  have "\<exists>m. NewManager x509 (Inr token) (managed_config a h) adm ctl = Inr m \<and> mg_config m = cfg \<and> mg_handler m = Some h"
    by (simp add: NewManager_def same norm keeps)
  with norm keeps show ?thesis by blast
qed

text \<open>
  C22: The replacement goroutine polls as long as it never reads an open admission flag, whatever
  else happens: nothing cancels it.  When it has ended after a replacement, either there was an error,
  the process has been asked to stop, and the old generation is still active and unchanged (a
  rejection) or a new one is (a failed drain); or there was none, no stop was requested, and
  unless nothing changed a new generation is active at the new address, serving not the
  handler of the request but the one the manager had before.
\<close>

theorem replacement_goroutine_outcome:
  assumes "reachable (m, Free)" and "controller_ok (sh_controller (mg_shared m))" and "a \<noteq> ''''"
  shows "(replacement_goroutine env m a samples = Polling \<longleftrightarrow> True \<notin> set samples)
    \<and> (replacement_goroutine env m a samples = Ended m' (Some (state, err)) \<longrightarrow>
        (case err of
           None \<Rightarrow> state = ReplaceApplied \<and> mg_shared m' = mg_shared m \<and>
             (m' = m \<or> (\<exists>p h. mg_active m' = Some p \<and> mg_gens m p = None \<and> mg_gens m' p = Some h
                \<and> sc_address (gn_config h) = a \<and> gn_handler h = mg_handler m
                \<and> mg_handler m' = Some NoContentHandler))
         | Some e \<Rightarrow> stop_seen (sh_controller (mg_shared m')) \<noteq> None \<and>
             (state = ReplaceRejected \<and> mg_active m' = mg_active m \<and> mg_config m' = mg_config m
              \<or> state = ReplaceAppliedWithDrainFailure \<and> (\<exists>p. mg_active m' = Some p \<and> mg_gens m p = None))))"
proof -
  have polls: "replacement_goroutine env m a samples = Polling \<longleftrightarrow> True \<notin> set samples"
    by (simp add: goroutine_polls after_admission_not_polling)
  have "?thesis" if ended: "replacement_goroutine env m a samples = Ended m' (Some (state, err))"
  proof -
    from ended have "after_admission env m a = Ended m' (Some (state, err))"
      by (simp add: goroutine_polls split: if_splits)
    then obtain n res where rep: "Replace env m (replacement_request a) = Some (n, res, err)"
      and out: "state = rs_state res"
        "m' = (case err of None \<Rightarrow> n | Some e \<Rightarrow>
           other_stop \<lparr>rq_reason = StopReasonRuntimeFailure, rq_err = Some e, rq_restart = False\<rparr> n)"
      using assms(3) by (auto simp: after_admission_def split: option.splits prod.splits)
    note result = replacement_rejected_or_switched [OF assms(1,3) rep]
    show ?thesis
    proof (cases err)
      case None
      with result out polls Replace_shared [OF rep] show ?thesis by auto
    next
      case (Some e)
      have "stop_seen (sh_controller (mg_shared m')) \<noteq> None"
        using assms(2) Replace_shared [OF rep] Some
        by (auto simp: out other_stop_def RequestStop_def stop_seen_def Controller_Done_def controller_ok_def)
      with Some result out polls show ?thesis by (auto simp: other_stop_def unchanged_def)
    qed
  qed
  with polls show ?thesis by blast
qed

section \<open>The properties at concrete inputs\<close>

lemma ex_reconf_loaded: "reconf_loadConfig '''' = Inr ''127.0.0.1:8082''"
  by (simp add: reconf_loadConfig_def ServerConfig_Validate_def validateBasicServerConfig_def zero_config_def
      ex_address2 effective_protocol_def protocol_defs pem_empty_def)

theorem reconfigurable_config_accepted_witness:
  "\<exists>m. NewManager (\<lambda>_ _. Inl (err_new ''no pem'')) (Inr ''token'') (managed_config ''127.0.0.1:8082'' NotFoundHandler) None None
         = Inr m \<and> mg_handler m = Some NotFoundHandler"
  using reconfigurable_config_accepted [OF ex_reconf_loaded] by blast

text \<open>The next address cannot be listened on; admission opens after one sample.\<close>

definition ex_deaf :: mgr_env where
  "ex_deaf = ex_menv\<lparr>en_listen := (\<lambda>_. Inl (err_new ''address already in use''))\<rparr>"

lemma ex_deaf_rejects: "\<exists>m' e. Replace ex_deaf ex_m1 (replacement_request ''127.0.0.1:8082'') = Some (m', rejected, Some e)"
proof -
  have "reconf_loadConfig ''127.0.0.1:8082'' = Inr ''127.0.0.1:8082''"
    using ex_reconf_loaded by (simp add: reconf_loadConfig_def)
  then obtain cfg where cfg: "ServerConfig_normalized (en_x509 ex_deaf) (managed_config ''127.0.0.1:8082'' NoContentHandler) = Inr cfg"
    using reconfigurable_config_valid by blast
  have req: "sc_address (managed_config ''127.0.0.1:8082'' NoContentHandler) = ''127.0.0.1:8082''"
    "sc_handler (managed_config ''127.0.0.1:8082'' NoContentHandler) = Some NoContentHandler"
    by (simp_all add: managed_config_def)
  then have for_m: "configFor ex_deaf ex_m1 (replacement_request ''127.0.0.1:8082'') = Inr cfg"
    using cfg by (simp add: configFor_def replacement_request_def)
  have "sc_address cfg = ''127.0.0.1:8082''" using managed_config_normalized [OF cfg] by simp
  then have "\<not> equivalentConfig (gn_config (gen ex_m1 0)) cfg"
    by (simp add: equivalentConfig_def ex_m1_fields ex_gen_def ex_cfg_eq)
  then show ?thesis
    using for_m configFor_limits [OF for_m]
    by (simp add: Replace_def replace_locked_def replace_admit_def ex_m1_fields prepareGeneration_def ex_deaf_def ex_menv_def)
qed

theorem replacement_goroutine_outcome_witness:
  "\<exists>m' e. replacement_goroutine ex_deaf ex_m1 ''127.0.0.1:8082'' [False, True] = Ended m' (Some (ReplaceRejected, Some e))
     \<and> stop_seen (sh_controller (mg_shared m')) \<noteq> None \<and> mg_active m' = Some 0"
proof -
  have ok: "controller_ok (sh_controller (mg_shared ex_m1))" by (simp add: ex_m1_fields ex_m0_def)
  obtain n e where "Replace ex_deaf ex_m1 (replacement_request ''127.0.0.1:8082'') = Some (n, rejected, Some e)"
    using ex_deaf_rejects by blast
  then obtain m' where "replacement_goroutine ex_deaf ex_m1 ''127.0.0.1:8082'' [False, True]
      = Ended m' (Some (ReplaceRejected, Some e))"
    by (auto simp: after_admission_def Manager.rejected_def)
  with replacement_goroutine_outcome [OF ex_reach1 ok, of "''127.0.0.1:8082''" ex_deaf "[False, True]" m' ReplaceRejected "Some e"]
  show ?thesis by (auto simp: ex_m1_fields replace_state_defs)
qed

end
