(* ===== verification/Wiring.thy ===== *)
theory Wiring
  imports Migration
begin

text \<open>
  The options the modules hand to Fx (\<^verbatim>\<open>src/hanami.go\<close> and the \<^verbatim>\<open>Module\<close> functions of the
  packages): which constructors they provide, what each needs and gives, which value groups they
  contribute to, which lifecycle hooks are appended.  Fx itself is a parameter: a run of an
  application is the sequence of constructors and invocations it executed, and \<open>fx_run\<close> states
  the documented contract such a sequence meets.
\<close>

section \<open>Options\<close>

text \<open>The types that are injected, the value groups, and the lifecycle hooks.\<close>

datatype fx_type =
    TContext | TConfig | TAdmission | TController | TLogger | TStatus | TCoordinator
  | TRegistry | TDatabase | TGorm | TSqlDB | TMigrationManager | TGooseProvider
  | TEngine | THandler | TAPI | TScheduler | TGocron | TFixedServer | TServer
  | THTTPManager | TServerState | TTelemetry | TTracerProvider
  | TNoteRepository | TNoteService | TWorker

datatype fx_group = StartupConditions | HealthChecks | SchedulerJobs

datatype fx_hook =
    DatabaseHook | SchedulerHook | TelemetryHook | HTTPHook | ManagedHook | WorkerHook | ReplacementHook

datatype fx_need = Needs fx_type | Optional fx_type | Members fx_group

record fx_ctor =
  ct_needs :: "fx_need list"
  ct_gives :: "fx_type list"
  ct_group :: "fx_group option"
  ct_hook :: "fx_hook option"

definition constructs :: "fx_need list \<Rightarrow> fx_type \<Rightarrow> fx_ctor" where
  "constructs needs t = \<lparr>ct_needs = needs, ct_gives = [t], ct_group = None, ct_hook = None\<rparr>"

definition hooked :: "fx_hook \<Rightarrow> fx_ctor \<Rightarrow> fx_ctor" where
  "hooked h c = c\<lparr>ct_hook := Some h\<rparr>"

definition contributes :: "fx_need list \<Rightarrow> fx_group \<Rightarrow> fx_ctor" where
  "contributes needs g = \<lparr>ct_needs = needs, ct_gives = [], ct_group = Some g, ct_hook = None\<rparr>"

datatype fx_option =
    FxProvide fx_ctor
  | FxSupply "fx_type list"
  | FxInvoke "fx_need list" "fx_hook option"
  | FxModule string "fx_option list"

text \<open>What the options contain, in the order they are written.\<close>

primrec option_ctors :: "fx_option \<Rightarrow> fx_ctor list" where
  "option_ctors (FxProvide c) = [c]"
| "option_ctors (FxSupply ts) = []"
| "option_ctors (FxInvoke needs h) = []"
| "option_ctors (FxModule name opts) = concat (map option_ctors opts)"

primrec option_supplies :: "fx_option \<Rightarrow> fx_type list" where
  "option_supplies (FxProvide c) = []"
| "option_supplies (FxSupply ts) = ts"
| "option_supplies (FxInvoke needs h) = []"
| "option_supplies (FxModule name opts) = concat (map option_supplies opts)"

primrec option_invokes :: "fx_option \<Rightarrow> (fx_need list \<times> fx_hook option) list" where
  "option_invokes (FxProvide c) = []"
| "option_invokes (FxSupply ts) = []"
| "option_invokes (FxInvoke needs h) = [(needs, h)]"
| "option_invokes (FxModule name opts) = concat (map option_invokes opts)"

text \<open>The graph of an application.\<close>

record fx_graph =
  gr_ctors :: "fx_ctor list"
  gr_supplied :: "fx_type list"
  gr_invokes :: "(fx_need list \<times> fx_hook option) list"

definition graph_of :: "fx_option list \<Rightarrow> fx_graph" where
  "graph_of opts = \<lparr>gr_ctors = concat (map option_ctors opts), gr_supplied = concat (map option_supplies opts),
     gr_invokes = concat (map option_invokes opts)\<rparr>"

section \<open>What Fx does with a graph\<close>

definition serves :: "fx_need \<Rightarrow> fx_ctor \<Rightarrow> bool" where
  "serves n c = (case n of Needs t \<Rightarrow> t \<in> set (ct_gives c) | Optional t \<Rightarrow> t \<in> set (ct_gives c)
     | Members g \<Rightarrow> ct_group c = Some g)"

definition fx_providers :: "fx_graph \<Rightarrow> fx_need \<Rightarrow> nat list" where
  "fx_providers g n = filter (\<lambda>i. serves n (gr_ctors g ! i)) [0..<length (gr_ctors g)]"

text \<open>The constructors the needs lead to, at most \<open>k\<close> steps away.\<close>

fun demands :: "nat \<Rightarrow> fx_graph \<Rightarrow> fx_need list \<Rightarrow> nat list" where
  "demands 0 g needs = []"
| "demands (Suc k) g needs =
     concat (map (\<lambda>i. i # demands k g (ct_needs (gr_ctors g ! i))) (concat (map (fx_providers g) needs)))"

definition demanded :: "fx_graph \<Rightarrow> nat \<Rightarrow> nat list" where
  "demanded g i = demands (length (gr_ctors g)) g (fst (gr_invokes g ! i))"

text \<open>
  Whether everything needed is there: a value that is supplied or was built, every
  member of a group, and an optional value if anything provides it.
\<close>

definition available :: "fx_graph \<Rightarrow> nat set \<Rightarrow> fx_need \<Rightarrow> bool" where
  "available g built n \<longleftrightarrow>
     set (fx_providers g n) \<subseteq> built \<and>
     (case n of Needs t \<Rightarrow> t \<in> set (gr_supplied g) \<or> fx_providers g n \<noteq> [] | _ \<Rightarrow> True)"

datatype fx_event = Built nat | Invoked nat

text \<open>
  The contract: the invocations run in order, each once; a constructor runs at most once,
  after everything it needs, and only on demand of the invocation that is next.
\<close>

fun fx_steps :: "fx_graph \<Rightarrow> nat set \<Rightarrow> nat \<Rightarrow> fx_event list \<Rightarrow> bool" where
  "fx_steps g built i [] \<longleftrightarrow> i = length (gr_invokes g)"
| "fx_steps g built i (Built c # es) \<longleftrightarrow>
     i < length (gr_invokes g) \<and> c < length (gr_ctors g) \<and> c \<notin> built \<and> c \<in> set (demanded g i)
     \<and> list_all (available g built) (ct_needs (gr_ctors g ! c)) \<and> fx_steps g (insert c built) i es"
| "fx_steps g built i (Invoked j # es) \<longleftrightarrow>
     j = i \<and> i < length (gr_invokes g) \<and> list_all (available g built) (fst (gr_invokes g ! i))
     \<and> fx_steps g built (Suc i) es"

text \<open>Fx refuses two constructors (or values) of one type.\<close>

definition one_source :: "fx_graph \<Rightarrow> bool" where
  "one_source g \<longleftrightarrow> distinct (gr_supplied g @ concat (map ct_gives (gr_ctors g)))"

definition fx_run :: "fx_graph \<Rightarrow> fx_event list \<Rightarrow> bool" where
  "fx_run g es \<longleftrightarrow> one_source g \<and> fx_steps g {} 0 es"

text \<open>The hooks in the order they were appended: the order of the starts, reversed that of the stops.\<close>

definition event_hook :: "fx_graph \<Rightarrow> fx_event \<Rightarrow> fx_hook option" where
  "event_hook g e = (case e of Built c \<Rightarrow> ct_hook (gr_ctors g ! c) | Invoked i \<Rightarrow> snd (gr_invokes g ! i))"

definition start_order :: "fx_graph \<Rightarrow> fx_event list \<Rightarrow> fx_hook list" where
  "start_order g es = List.map_filter (event_hook g) es"

definition stop_order :: "fx_graph \<Rightarrow> fx_event list \<Rightarrow> fx_hook list" where
  "stop_order g es = rev (start_order g es)"

section \<open>The modules\<close>

definition bootstrap_Module :: fx_option where
  "bootstrap_Module = FxModule ''hanami-bootstrap'' [FxProvide (constructs [Members StartupConditions] TCoordinator)]"

definition health_Module :: fx_option where
  "health_Module = FxModule ''hanami-health'' [FxProvide (constructs [Members HealthChecks, Needs TAdmission] TRegistry)]"

definition database_Module :: fx_option where
  "database_Module = FxModule ''hanami-database''
     [FxProvide (hooked DatabaseHook (constructs [] TDatabase)),
      FxProvide (constructs [Needs TDatabase] TGorm),
      FxProvide (constructs [Needs TDatabase] TSqlDB),
      FxProvide (contributes [Needs TDatabase] HealthChecks)]"

definition migration_Module :: "migration_policy \<Rightarrow> fx_option" where
  "migration_Module policy = FxModule ''hanami-migration''
     [FxProvide (constructs (if policy = Disabled then [] else [Needs TSqlDB]) TMigrationManager),
      FxProvide (contributes [Needs TMigrationManager] StartupConditions),
      FxProvide (constructs [Needs TMigrationManager] TGooseProvider)]"

definition gin_Module :: fx_option where
  "gin_Module = FxModule ''hanami-gin''
     [FxProvide (constructs [Needs TLogger, Optional TTracerProvider] TEngine),
      FxProvide (constructs [Needs TEngine] THandler)]"

definition api_Module :: fx_option where
  "api_Module = FxModule ''hanami-api'' [FxProvide (constructs [Needs TEngine] TAPI)]"

definition scheduler_Module :: fx_option where
  "scheduler_Module = FxModule ''hanami-scheduler''
     [FxProvide (hooked SchedulerHook (constructs [Members SchedulerJobs, Optional TLogger] TScheduler)),
      FxProvide (constructs [Needs TScheduler] TGocron),
      FxProvide (contributes [Needs TScheduler] StartupConditions),
      FxProvide (contributes [Needs TScheduler] HealthChecks)]"

definition observability_Module :: fx_option where
  "observability_Module = FxModule ''hanami-observability''
     [FxProvide (hooked TelemetryHook (constructs [] TTelemetry)),
      FxProvide (constructs [Needs TTelemetry] TTracerProvider)]"

definition http_Module :: fx_option where
  "http_Module = FxModule ''hanami-http''
     [FxProvide (constructs [Needs THandler, Needs TAdmission, Needs TController] TFixedServer),
      FxProvide (constructs [Needs TFixedServer] TServer),
      FxInvoke [Needs TFixedServer] (Some HTTPHook)]"

definition ManagedModule :: fx_option where
  "ManagedModule = FxModule ''hanami-http-managed''
     [FxProvide (constructs [Needs TAdmission, Needs TController] THTTPManager),
      FxProvide (constructs [Needs THTTPManager] TServerState),
      FxInvoke [Needs THTTPManager] (Some ManagedHook)]"

text \<open>The options \<^verbatim>\<open>Run\<close> builds the application from; the last one is \<^verbatim>\<open>fx.Populate(&coordinator)\<close>.\<close>

definition run_options :: "fx_type list \<Rightarrow> fx_option list \<Rightarrow> fx_option list" where
  "run_options values modules =
     [FxSupply [TConfig, TAdmission, TController, TLogger], FxProvide (constructs [] TContext),
      FxSupply values, bootstrap_Module] @ modules @ [FxInvoke [Needs TCoordinator] None]"

lemmas fx_modules = bootstrap_Module_def health_Module_def database_Module_def migration_Module_def
  gin_Module_def api_Module_def scheduler_Module_def observability_Module_def http_Module_def ManagedModule_def

lemmas fx_ctors = constructs_def contributes_def hooked_def

lemmas fx_eval = graph_of_def run_options_def fx_modules fx_ctors demanded_def fx_providers_def serves_def
  available_def upt_rec

section \<open>Lemmas\<close>

lemma fx_steps_until:
  assumes "fx_steps g built i es" and "i < length (gr_invokes g)"
  shows "\<exists>cs es'. es = map Built cs @ Invoked i # es' \<and> set cs \<subseteq> set (demanded g i)
    \<and> list_all (available g (built \<union> set cs)) (fst (gr_invokes g ! i)) \<and> fx_steps g (built \<union> set cs) (Suc i) es'"
  using assms
proof (induction es arbitrary: built)
  case (Cons e es)
  show ?case
  proof (cases e)
    case (Built c)
    with Cons.prems have "fx_steps g (insert c built) i es" and c: "c \<in> set (demanded g i)" by simp_all
    from Cons.IH [OF this(1) Cons.prems(2)] obtain cs es' where es: "es = map Built cs @ Invoked i # es'"
        "set cs \<subseteq> set (demanded g i)" "list_all (available g (insert c built \<union> set cs)) (fst (gr_invokes g ! i))"
        "fx_steps g (insert c built \<union> set cs) (Suc i) es'" by blast
    then show ?thesis
      using Built c by (intro exI [of _ "c # cs"] exI [of _ es']) simp
  next
    case (Invoked j)
    with Cons.prems show ?thesis by (intro exI [of _ "[]"] exI [of _ es]) simp
  qed
qed simp

text \<open>What the graph has, whether or not a run executes it.\<close>

definition all_events :: "fx_graph \<Rightarrow> fx_event list" where
  "all_events g = map Built [0..<length (gr_ctors g)] @ map Invoked [0..<length (gr_invokes g)]"

lemma fx_steps_distinct:
  "fx_steps g built i es \<Longrightarrow> distinct es \<and> set es \<subseteq> set (all_events g)
     \<and> (\<forall>c. Built c \<in> set es \<longrightarrow> c \<notin> built) \<and> (\<forall>j. Invoked j \<in> set es \<longrightarrow> i \<le> j)"
proof (induction g built i es rule: fx_steps.induct)
  case (2 g built i c es)
  then show ?case by (auto simp: all_events_def)
next
  case (3 g built i j es)
  then have IH: "distinct es \<and> set es \<subseteq> set (all_events g)
     \<and> (\<forall>c. Built c \<in> set es \<longrightarrow> c \<notin> built) \<and> (\<forall>j. Invoked j \<in> set es \<longrightarrow> Suc i \<le> j)" by simp
  have "Invoked i \<notin> set es" using IH by fastforce
  with IH 3(2) show ?case by (auto simp: all_events_def dest: Suc_leD)
qed simp

definition graph_hooks :: "fx_graph \<Rightarrow> fx_hook list" where
  "graph_hooks g = List.map_filter (event_hook g) (all_events g)"

lemma distinct_mset_subset: "distinct xs \<Longrightarrow> set xs \<subseteq> set ys \<Longrightarrow> mset xs \<subseteq># mset ys"
  by (rule mset_subset_eqI) (auto simp: distinct_count_atmost_1)

lemma distinct_sub_multiset:
  assumes "mset xs \<subseteq># mset ys" and "distinct ys"
  shows "distinct xs"
proof -
  obtain zs where "mset ys = mset (xs @ zs)"
    using assms(1) by (metis ex_mset mset_append subset_mset.le_iff_add)
  from mset_eq_imp_distinct_iff [OF this] assms(2) show ?thesis by simp
qed

lemma map_filter_mset:
  "mset xs \<subseteq># mset ys \<Longrightarrow> mset (List.map_filter f xs) \<subseteq># mset (List.map_filter f ys)"
  by (simp add: List.map_filter_def image_mset_subseteq_mono multiset_filter_mono)

lemma start_order_hooks:
  assumes "fx_run g es" and "distinct (graph_hooks g)"
  shows "distinct (start_order g es)" and "set (start_order g es) \<subseteq> set (graph_hooks g)"
proof -
  have "fx_steps g {} 0 es" using assms(1) by (simp add: fx_run_def)
  from fx_steps_distinct [OF this] have sub: "mset (start_order g es) \<subseteq># mset (graph_hooks g)"
    unfolding start_order_def graph_hooks_def by (intro map_filter_mset distinct_mset_subset) auto
  show "set (start_order g es) \<subseteq> set (graph_hooks g)"
    using set_mset_mono [OF sub] by simp
  show "distinct (start_order g es)"
    using distinct_sub_multiset [OF sub assms(2)] .
qed

text \<open>Every constructor a step needs was built before it, and earlier invocations have run.\<close>

definition event_needs :: "fx_graph \<Rightarrow> fx_event \<Rightarrow> fx_need list" where
  "event_needs g e = (case e of Built c \<Rightarrow> ct_needs (gr_ctors g ! c) | Invoked i \<Rightarrow> fst (gr_invokes g ! i))"

definition dependency :: "fx_graph \<Rightarrow> (fx_event \<times> fx_event) set" where
  "dependency g = {(d, e). (\<exists>p n. d = Built p \<and> n \<in> set (event_needs g e) \<and> p \<in> set (fx_providers g n))
     \<or> (\<exists>i j. d = Invoked i \<and> e = Invoked j \<and> i < j)}"

lemma available_built: "available g built n \<Longrightarrow> p \<in> set (fx_providers g n) \<Longrightarrow> p \<in> built"
  by (auto simp: available_def)

lemma needs_before:
  assumes "fx_steps g built i (xs @ e # ys)" and "(d, e) \<in> dependency g"
  shows "d \<in> set xs \<or> (case d of Built p \<Rightarrow> p \<in> built | Invoked j \<Rightarrow> j < i)"
  using assms
proof (induction xs arbitrary: built i)
  case Nil
  then show ?case
    by (cases e) (auto simp: dependency_def event_needs_def list_all_iff, (metis available_built)+)
next
  case (Cons x xs)
  show ?case
  proof (cases x)
    case (Built c)
    with Cons show ?thesis by (fastforce split: fx_event.splits)
  next
    case (Invoked j)
    with Cons show ?thesis by (fastforce split: fx_event.splits)
  qed
qed

lemma dependency_before:
  assumes "(d, e) \<in> (dependency g)\<^sup>+" and "fx_steps g {} 0 es" and "es = xs @ e # ys"
  shows "d \<in> set xs"
  using assms
proof (induction arbitrary: xs ys rule: trancl_induct)
  case (base e)
  then show ?case using needs_before [of g "{}" 0 xs e ys d] by (simp split: fx_event.splits)
next
  case (step e f)
  then have "e \<in> set xs" using needs_before [of g "{}" 0 xs f ys e] by (simp split: fx_event.splits)
  then obtain us vs where xs: "xs = us @ e # vs" by (meson split_list)
  have "d \<in> set us"
    using step.IH [of us "vs @ f # ys"] step.prems xs by simp
  with xs show ?case by simp
qed

lemma all_invoked:
  "fx_steps g built i es \<Longrightarrow> i \<le> j \<Longrightarrow> j < length (gr_invokes g) \<Longrightarrow> Invoked j \<in> set es"
proof (induction g built i es rule: fx_steps.induct)
  case (3 g built i k es)
  then show ?case by (cases "j = i") auto
qed auto

lemma dependency_iff:
  "(Built p, e) \<in> dependency g \<longleftrightarrow> list_ex (\<lambda>n. p \<in> set (fx_providers g n)) (event_needs g e)"
  by (auto simp: dependency_def list_ex_iff)

lemma invoked_in_order: "i < j \<Longrightarrow> (Invoked i, Invoked j) \<in> dependency g"
  by (simp add: dependency_def)

text \<open>What an invocation needs, directly or through constructors, has run.\<close>

lemma needed_runs:
  assumes "fx_run g es" and "i < length (gr_invokes g)" and "(d, Invoked i) \<in> (dependency g)\<^sup>+"
  shows "d \<in> set es"
proof -
  have run: "fx_steps g {} 0 es" using assms(1) by (simp add: fx_run_def)
  from all_invoked [OF run _ assms(2)] obtain xs ys where "es = xs @ Invoked i # ys" by (meson split_list zero_le)
  with dependency_before [OF assms(3) run] show ?thesis by auto
qed

lemma hook_started: "e \<in> set es \<Longrightarrow> event_hook g e = Some h \<Longrightarrow> h \<in> set (start_order g es)"
  by (force simp: start_order_def List.map_filter_def)

lemma start_order_split:
  assumes "fx_steps g {} 0 es" and "(d, e) \<in> (dependency g)\<^sup>+" and "e \<in> set es"
    and "event_hook g d = Some h" and "event_hook g e = Some k"
  shows "\<exists>as bs cs. start_order g es = as @ h # bs @ k # cs"
proof -
  obtain xs ys where es: "es = xs @ e # ys" using assms(3) by (meson split_list)
  then have "d \<in> set xs" using dependency_before [OF assms(2,1)] by blast
  then obtain us vs where "xs = us @ d # vs" by (meson split_list)
  with es assms(4,5) show ?thesis
    by (auto simp: start_order_def List.map_filter_def)
qed

section \<open>Properties\<close>

text \<open>
  In every run of every application, whatever it selects: a hook appended by a constructor that
  something else needs, directly or through other constructors, is started before the hook of
  what needs it and stopped after it; the same holds for a hook of an earlier invocation.
\<close>

theorem hooks_follow_dependencies:
  assumes "fx_run g es" and "(d, e) \<in> (dependency g)\<^sup>+" and "e \<in> set es"
    and "event_hook g d = Some h" and "event_hook g e = Some k"
  shows "(\<exists>as bs cs. start_order g es = as @ h # bs @ k # cs) \<and> (\<exists>as bs cs. stop_order g es = as @ k # bs @ h # cs)"
proof -
  obtain as bs cs where "start_order g es = as @ h # bs @ k # cs"
    using start_order_split [OF _ assms(2-5)] assms(1) by (auto simp: fx_run_def)
  moreover from this have "stop_order g es = rev cs @ k # rev bs @ h # rev as"
    by (simp add: stop_order_def)
  ultimately show ?thesis by blast
qed

end
