(* ===== verification/Starters.thy ===== *)
theory Starters
  imports Wiring Applications
begin

text \<open>
  The starters as Fx applications: the module lists of
  \<^verbatim>\<open>src/starters/*\<close> turned into options, the graphs they make, and
  what every run of those graphs starts and stops in which order.
\<close>

section \<open>The graphs\<close>

text \<open>What the functions named \<^verbatim>\<open>registerRoutes\<close> take.\<close>

definition api_routes :: "fx_need list" where
  "api_routes = [Needs TEngine, Needs TRegistry, Needs TLogger]"

definition platform_routes :: "fx_need list" where
  "platform_routes = [Needs TEngine, Needs TRegistry, Needs TAPI, Needs TNoteService, Needs TLogger]"

fun module_options :: "fx_need list \<Rightarrow> app_module \<Rightarrow> fx_option list" where
  "module_options routes HealthModule = [health_Module]"
| "module_options routes (SqliteModule c) = [database_Module]"
| "module_options routes (MigrationModule policy) = [migration_Module policy]"
| "module_options routes (GinModule preset) = [gin_Module]"
| "module_options routes (ApiModule prefix) = [api_Module]"
| "module_options routes (SchedulerModule c) = [scheduler_Module]"
| "module_options routes (HTTPModule c) = [http_Module]"
| "module_options routes (ObservabilityModule c) = [observability_Module]"
| "module_options routes ProvideNotes =
     [FxProvide (constructs [Needs TGorm] TNoteRepository), FxProvide (constructs [Needs TNoteRepository] TNoteService)]"
| "module_options routes (ProvideJob interval) = [FxProvide (contributes [Needs TLogger, Needs TConfig] SchedulerJobs)]"
| "module_options routes InvokeRoutes = [FxInvoke routes None]"

definition api_graph :: "api_config \<Rightarrow> fx_graph" where
  "api_graph cfg = graph_of (run_options [] (concat (map (module_options api_routes) (api_Modules cfg))))"

definition platform_graph :: "platform_config \<Rightarrow> fx_graph" where
  "platform_graph cfg =
     graph_of (run_options [] (concat (map (module_options platform_routes) (platform_Modules cfg))))"

definition worker_applicationModules :: "fx_option list" where
  "worker_applicationModules = [FxModule ''worker''
     [FxProvide (constructs [Needs TConfig, Needs TAdmission, Needs TController, Needs TLogger] TWorker),
      FxInvoke [Needs TWorker] (Some WorkerHook)]]"

definition reconf_applicationModules :: "fx_option list" where
  "reconf_applicationModules =
     [ManagedModule,
      FxInvoke [Needs THTTPManager, Needs TAdmission, Needs TController, Needs TLogger] (Some ReplacementHook)]"

definition secured_applicationModules :: "fx_option list" where
  "secured_applicationModules = [FxInvoke [Needs TStatus, Needs TLogger, Needs TController] None]"

text \<open>The security integration supplies its status.\<close>

definition worker_graph :: fx_graph where "worker_graph = graph_of (run_options [] worker_applicationModules)"
definition reconf_graph :: fx_graph where "reconf_graph = graph_of (run_options [] reconf_applicationModules)"
definition secured_graph :: fx_graph where "secured_graph = graph_of (run_options [TStatus] secured_applicationModules)"

section \<open>Two graphs for the platform, two for the API starter\<close>

definition platform_shape :: "bool \<Rightarrow> fx_graph" where
  "platform_shape migrates = graph_of (run_options []
     ([health_Module, database_Module, migration_Module (if migrates then ValidateOnly else Disabled), gin_Module, api_Module,
       scheduler_Module, http_Module]
      @ concat (map (module_options platform_routes) [ProvideNotes, ProvideJob 1, InvokeRoutes])))"

lemma platform_graph_shape: "platform_graph cfg = platform_shape (MigrationPolicy (pf_policy cfg) \<noteq> Disabled)"
  by (simp add: platform_graph_def platform_shape_def platform_Modules_def migration_Module_def migration_policy_defs)

definition api_shape :: "bool \<Rightarrow> fx_graph" where
  "api_shape telemetry = graph_of (run_options []
     ([health_Module, gin_Module, http_Module, FxInvoke api_routes None] @ (if telemetry then [observability_Module] else [])))"

lemma api_graph_shape: "api_graph cfg = api_shape (ap_enabled cfg)"
  by (simp add: api_graph_def api_shape_def api_Modules_def)

lemma platform_http_first:
  "set (demanded (platform_shape b) 0) \<subseteq> {10, 11, 17}"
  "list_all (\<lambda>c. ct_hook (gr_ctors (platform_shape b) ! c) = None) [10, 11, 17]"
  by (cases b; code_simp)+

lemma platform_invokes:
  "gr_invokes (platform_shape b) = [([Needs TFixedServer], Some HTTPHook), (platform_routes, None), ([Needs TCoordinator], None)]"
  by (cases b; code_simp)

lemma platform_hooks: "graph_hooks (platform_shape b) = [DatabaseHook, SchedulerHook, HTTPHook]"
  by (cases b; code_simp)

lemma platform_dependencies:
  "(Built 3, Built 6) \<in> dependency (platform_shape b)" "(Built 6, Built 2) \<in> dependency (platform_shape b)"
  "(Built 13, Built 16) \<in> dependency (platform_shape b)" "(Built 16, Built 2) \<in> dependency (platform_shape b)"
  "(Built 2, Invoked 1) \<in> dependency (platform_shape b)"
  unfolding dependency_iff by (cases b; code_simp)+

lemma platform_event_hooks:
  "event_hook (platform_shape b) (Built 3) = Some DatabaseHook"
  "event_hook (platform_shape b) (Built 13) = Some SchedulerHook"
  "event_hook (platform_shape b) (Invoked 0) = Some HTTPHook"
  by (cases b; code_simp)+

lemma no_hooks: "list_all (\<lambda>c. ct_hook (gr_ctors g ! c) = None) cs \<Longrightarrow> start_order g (map Built cs @ es) = start_order g es"
  by (induction cs) (simp_all add: start_order_def event_hook_def List.map_filter_simps)

lemma platform_start_order:
  assumes "fx_run (platform_graph cfg) es"
  shows "\<exists>hs. start_order (platform_graph cfg) es = HTTPHook # hs \<and> set hs = {DatabaseHook, SchedulerHook} \<and> distinct hs"
proof -
  obtain b where g: "platform_graph cfg = platform_shape b" by (simp add: platform_graph_shape)
  have run: "fx_run (platform_shape b) es" using assms g by simp
  then have steps: "fx_steps (platform_shape b) {} 0 es" by (simp add: fx_run_def)
  from fx_steps_until [OF steps] obtain cs es' where es: "es = map Built cs @ Invoked 0 # es'"
    and cs: "set cs \<subseteq> {10, 11, 17}" using platform_http_first(1) [of b] by (auto simp: platform_invokes)
  have "list_all (\<lambda>c. ct_hook (gr_ctors (platform_shape b) ! c) = None) cs"
    using platform_http_first(2) [of b] cs by (auto simp: list_all_iff)
  then have start: "start_order (platform_shape b) es = HTTPHook # start_order (platform_shape b) es'" (is "_ = _ # ?hs")
    by (simp add: es no_hooks) (simp add: start_order_def List.map_filter_simps platform_event_hooks)
  have "(Built 3, Invoked 1) \<in> (dependency (platform_shape b))\<^sup>+" "(Built 13, Invoked 1) \<in> (dependency (platform_shape b))\<^sup>+"
    using platform_dependencies [of b] by (meson r_into_trancl trancl_into_trancl)+
  then have "Built 3 \<in> set es" "Built 13 \<in> set es"
    using needed_runs [OF run, of 1] by (simp_all add: platform_invokes)
  then have "DatabaseHook \<in> set (HTTPHook # ?hs)" "SchedulerHook \<in> set (HTTPHook # ?hs)"
    using platform_event_hooks(1,2) hook_started unfolding start [symmetric] by blast+
  moreover have "distinct (HTTPHook # ?hs)" "set (HTTPHook # ?hs) \<subseteq> {DatabaseHook, SchedulerHook, HTTPHook}"
    using start_order_hooks [OF run] unfolding start platform_hooks by auto
  ultimately show ?thesis by (auto simp: g start)
qed

lemma two_in_order: "xs = as @ a # bs @ b # cs \<Longrightarrow> distinct xs \<Longrightarrow> set xs \<subseteq> {a, b} \<Longrightarrow> xs = [a, b]"
  by (cases as; cases bs; cases cs) auto

lemma api_dependencies:
  "(Built 7, Built 8) \<in> dependency (api_shape True)" "(Built 8, Built 3) \<in> dependency (api_shape True)"
  "(Built 3, Built 4) \<in> dependency (api_shape True)" "(Built 4, Built 5) \<in> dependency (api_shape True)"
  "(Built 5, Invoked 0) \<in> dependency (api_shape True)"
  unfolding dependency_iff by code_simp+

lemma shape_hooks:
  "graph_hooks (api_shape True) = [TelemetryHook, HTTPHook]" "graph_hooks (api_shape False) = [HTTPHook]"
  "graph_hooks worker_graph = [WorkerHook]" "graph_hooks reconf_graph = [ManagedHook, ReplacementHook]"
  "graph_hooks secured_graph = []"
  by code_simp+

lemma shape_event_hooks:
  "event_hook (api_shape True) (Built 7) = Some TelemetryHook"
  "event_hook (api_shape True) (Invoked 0) = Some HTTPHook" "event_hook (api_shape False) (Invoked 0) = Some HTTPHook"
  "event_hook worker_graph (Invoked 0) = Some WorkerHook"
  "event_hook reconf_graph (Invoked 0) = Some ManagedHook" "event_hook reconf_graph (Invoked 1) = Some ReplacementHook"
  by code_simp+

lemma shape_invokes:
  "length (gr_invokes (api_shape True)) = 3" "length (gr_invokes (api_shape False)) = 3"
  "length (gr_invokes worker_graph) = 2" "length (gr_invokes reconf_graph) = 3"
  by code_simp+

text \<open>A graph with one hook, appended by its first invocation, or none.\<close>

lemma single_hook:
  assumes "fx_run g es" and "graph_hooks g = [h]" and "event_hook g (Invoked 0) = Some h" and "gr_invokes g \<noteq> []"
  shows "start_order g es = [h]"
proof -
  have "Invoked 0 \<in> set es" using assms(1,4) by (auto simp: fx_run_def dest: all_invoked [of _ _ 0 _ 0])
  from hook_started [OF this assms(3)] have "h \<in> set (start_order g es)" .
  with start_order_hooks [OF assms(1)] assms(2) show ?thesis
    by (cases "start_order g es"; cases "tl (start_order g es)") auto
qed

lemma two_hooks:
  assumes "fx_run g es" and "graph_hooks g = [h, k]" and "h \<noteq> k" and "(d, Invoked i) \<in> (dependency g)\<^sup>+"
    and "i < length (gr_invokes g)" and "event_hook g d = Some h" and "event_hook g (Invoked i) = Some k"
  shows "start_order g es = [h, k]"
proof -
  have steps: "fx_steps g {} 0 es" using assms(1) by (simp add: fx_run_def)
  have "Invoked i \<in> set es" using all_invoked [OF steps _ assms(5)] by simp
  from start_order_split [OF steps assms(4) this assms(6,7)]
  obtain as bs cs where "start_order g es = as @ h # bs @ k # cs" by blast
  from two_in_order [OF this] start_order_hooks [OF assms(1)] assms(2,3) show ?thesis by simp
qed

lemma api_start_order:
  assumes "fx_run (api_shape b) es"
  shows "start_order (api_shape b) es = (if b then [TelemetryHook, HTTPHook] else [HTTPHook])"
proof (cases b)
  case True
  have "(Built 7, Invoked 0) \<in> (dependency (api_shape True))\<^sup>+"
    using api_dependencies by (meson r_into_trancl trancl_into_trancl)
  from two_hooks [OF _ shape_hooks(1) _ this _ shape_event_hooks(1,2)] shape_invokes(1) True assms
  show ?thesis by simp
next
  case False
  with assms single_hook [OF _ shape_hooks(2) shape_event_hooks(3)] shape_invokes(2) show ?thesis by fastforce
qed

lemma reconf_start_order:
  assumes "fx_run reconf_graph es"
  shows "start_order reconf_graph es = [ManagedHook, ReplacementHook]"
proof -
  have "(Invoked 0, Invoked 1) \<in> (dependency reconf_graph)\<^sup>+" using invoked_in_order [of 0 1] by (intro r_into_trancl) simp
  from two_hooks [OF assms shape_hooks(4) _ this _ shape_event_hooks(5,6)] shape_invokes(4) show ?thesis by simp
qed

lemma worker_start_order: "fx_run worker_graph es \<Longrightarrow> start_order worker_graph es = [WorkerHook]"
  using single_hook [OF _ shape_hooks(3) shape_event_hooks(4)] shape_invokes(3) by fastforce

lemma secured_start_order: "fx_run secured_graph es \<Longrightarrow> start_order secured_graph es = []"
  using start_order_hooks(2) [of secured_graph es] by (simp add: shape_hooks)

section \<open>Runs\<close>

definition ex_platform_run :: "bool \<Rightarrow> fx_event list" where
  "ex_platform_run migrates = map Built [10, 11, 17] @ Invoked 0 # map Built [3, 6, 21, 13, 16, 2, 12, 4, 19, 20] @ Invoked 1
     # map Built ((if migrates then [5] else []) @ [7, 8, 15, 1]) @ [Invoked 2]"

definition ex_api_run :: "bool \<Rightarrow> fx_event list" where
  "ex_api_run telemetry = map Built ((if telemetry then [7, 8] else []) @ [3, 4, 5]) @ [Invoked 0, Built 2, Invoked 1, Built 1, Invoked 2]"

lemma ex_platform_runs: "fx_run (platform_shape True) (ex_platform_run True)" "fx_run (platform_shape False) (ex_platform_run False)"
  by code_simp+

lemma ex_api_runs: "fx_run (api_shape True) (ex_api_run True)" "fx_run (api_shape False) (ex_api_run False)"
  by code_simp+

lemma ex_small_runs:
  "fx_run worker_graph [Built 2, Invoked 0, Built 1, Invoked 1]"
  "fx_run reconf_graph [Built 2, Invoked 0, Invoked 1, Built 1, Invoked 2]"
  "fx_run secured_graph [Invoked 0, Built 1, Invoked 1]"
  by code_simp+

text \<open>The migration module alone, under the runner.\<close>

definition migrations_alone :: "migration_policy \<Rightarrow> fx_graph" where
  "migrations_alone policy = graph_of (run_options [] [migration_Module policy])"

lemma ex_migrations_run: "fx_run (migrations_alone Disabled) [Built 2, Built 3, Built 1, Invoked 0]"
  by code_simp

lemma no_provider_no_run:
  assumes "fx_run g es" and "(d, Invoked i) \<in> (dependency g)\<^sup>+" and "i < length (gr_invokes g)"
    and "Needs t \<in> set (event_needs g d)"
  shows "t \<in> set (gr_supplied g) \<or> fx_providers g (Needs t) \<noteq> []"
proof -
  have ready: "fx_steps g built k es \<Longrightarrow> e \<in> set es \<Longrightarrow> \<forall>n \<in> set (event_needs g e). \<exists>b. available g b n" for built k e
    by (induction g built k es rule: fx_steps.induct) (auto simp: event_needs_def list_all_iff)
  have "d \<in> set es" by (rule needed_runs [OF assms(1,3,2)])
  with ready [of "{}" 0 d] assms(1,4) show ?thesis by (fastforce simp: fx_run_def available_def)
qed

lemma migrations_dependencies:
  "(Built 2, Built 3) \<in> dependency (migrations_alone ValidateOnly)" "(Built 3, Built 1) \<in> dependency (migrations_alone ValidateOnly)"
  "(Built 1, Invoked 0) \<in> dependency (migrations_alone ValidateOnly)"
  unfolding dependency_iff by code_simp+

lemma migrations_alone_facts:
  "gr_invokes (migrations_alone ValidateOnly) = [([Needs TCoordinator], None)]"
  "event_needs (migrations_alone ValidateOnly) (Built 2) = [Needs TSqlDB]"
  "fx_providers (migrations_alone ValidateOnly) (Needs TSqlDB) = []"
  "List.member (gr_supplied (migrations_alone ValidateOnly)) TSqlDB = False"
  by code_simp+

lemma migrations_need_database: "\<not> fx_run (migrations_alone ValidateOnly) es"
proof
  assume run: "fx_run (migrations_alone ValidateOnly) es"
  have "(Built 2, Invoked 0) \<in> (dependency (migrations_alone ValidateOnly))\<^sup>+"
    using migrations_dependencies by (meson r_into_trancl trancl_into_trancl)
  from no_provider_no_run [OF run this, of TSqlDB] show False
    using migrations_alone_facts by (simp add: List.member_iff)
qed

lemma migrations_alone_shape: "migrations_alone policy = migrations_alone (if policy = Disabled then Disabled else ValidateOnly)"
  by (simp add: migrations_alone_def migration_Module_def migration_policy_defs)

section \<open>Properties\<close>

text \<open>
  C13: The five starters compose, whatever they are configured with: every type has one source, and
  there is an order in which everything the invocations need, the startup coordinator included, can
  be constructed.  The migration module composes without a database exactly if migrations are
  disabled.
\<close>

theorem starters_compose:
  "(\<exists>es. fx_run (api_graph acfg) es) \<and> (\<exists>es. fx_run (platform_graph pcfg) es)
   \<and> (\<exists>es. fx_run worker_graph es) \<and> (\<exists>es. fx_run reconf_graph es) \<and> (\<exists>es. fx_run secured_graph es)
   \<and> ((\<exists>es. fx_run (migrations_alone policy) es) \<longleftrightarrow> policy = Disabled)"
proof -
  have "\<exists>es. fx_run (api_shape b) es" for b by (cases b) (auto intro: ex_api_runs)
  moreover have "\<exists>es. fx_run (platform_shape b) es" for b by (cases b) (auto intro: ex_platform_runs)
  moreover have "(\<exists>es. fx_run (migrations_alone policy) es) \<longleftrightarrow> policy = Disabled"
    using ex_migrations_run migrations_need_database by (subst migrations_alone_shape) auto
  ultimately show ?thesis
    using ex_small_runs unfolding api_graph_shape platform_graph_shape by blast
qed

text \<open>
  C12: The lifecycle of each starter, in every run Fx may make: telemetry, when enabled, is started before
  the HTTP server of the API starter and stopped after it; the reconfigurable starter starts its
  manager before the goroutine that uses it; the worker has its one hook and the secured starter none.
  The HTTP server of the platform, whatever its configuration, is the first to start and the last to
  stop: its database and its scheduler, in an order Fx chooses, are stopped before it.
\<close>

theorem starter_lifecycles:
  "(fx_run (api_graph cfg) es \<longrightarrow>
      start_order (api_graph cfg) es = (if ap_enabled cfg then [TelemetryHook, HTTPHook] else [HTTPHook])
      \<and> stop_order (api_graph cfg) es = (if ap_enabled cfg then [HTTPHook, TelemetryHook] else [HTTPHook]))
   \<and> (fx_run reconf_graph es \<longrightarrow> start_order reconf_graph es = [ManagedHook, ReplacementHook])
   \<and> (fx_run worker_graph es \<longrightarrow> start_order worker_graph es = [WorkerHook])
   \<and> (fx_run secured_graph es \<longrightarrow> start_order secured_graph es = [])
   \<and> (fx_run (platform_graph pcfg) es \<longrightarrow>
      (\<exists>hs. start_order (platform_graph pcfg) es = HTTPHook # hs \<and> stop_order (platform_graph pcfg) es = rev hs @ [HTTPHook]
        \<and> set hs = {DatabaseHook, SchedulerHook} \<and> distinct hs))"
  using api_start_order [of "ap_enabled cfg" es] reconf_start_order [of es] worker_start_order [of es]
    secured_start_order [of es] platform_start_order [of pcfg es]
  by (auto simp: api_graph_shape stop_order_def)

theorem starter_lifecycles_witness:
  "stop_order (api_shape True) (ex_api_run True) = [HTTPHook, TelemetryHook]"
proof -
  define cfg :: api_config where "cfg = \<lparr>ap_http = pf_http ex_platform, ap_enabled = True, ap_endpoint = ''collector'',
    ap_insecure = False, ap_export_timeout = 0, ap_metric_interval = 0\<rparr>"
  have "api_graph cfg = api_shape True" and "ap_enabled cfg" by (simp_all add: api_graph_shape cfg_def)
  with starter_lifecycles [of cfg "ex_api_run True"] ex_api_runs(1) show ?thesis by simp
qed

theorem hooks_follow_dependencies_witness:
  "(\<exists>as bs cs. start_order (api_shape True) (ex_api_run True) = as @ TelemetryHook # bs @ HTTPHook # cs)
   \<and> (\<exists>as bs cs. stop_order (api_shape True) (ex_api_run True) = as @ HTTPHook # bs @ TelemetryHook # cs)"
proof (rule hooks_follow_dependencies [OF ex_api_runs(1)])
  show "(Built 7, Invoked 0) \<in> (dependency (api_shape True))\<^sup>+"
    using api_dependencies by (meson r_into_trancl trancl_into_trancl)
  show "Invoked 0 \<in> set (ex_api_run True)" by (simp add: ex_api_run_def)
qed (fact shape_event_hooks)+

end
