(* ===== verification/Platform_App.thy ===== *)
theory Platform_App
  imports Starters Scheduler_Props Fixed_Server
begin

text \<open>
  The platform starter as a whole (\<^verbatim>\<open>src/starters/platform/app/app.go\<close> over the modules it
  selects): the startup conditions and health checks its modules contribute, run by the
  coordinator and the registry, and the stop of its lifecycle hooks in the order Fx gives them.
\<close>

section \<open>Contributions\<close>

definition platform_scheduler :: scheduler_config where
  "platform_scheduler = \<lparr>sc_shutdown_timeout = 5 * second, sc_health_timeout = 2 * second, sc_health_name = ''scheduler''\<rparr>"

lemma platform_selects_scheduler: "SchedulerModule platform_scheduler \<in> set (platform_Modules cfg)"
  by (simp add: platform_Modules_def platform_scheduler_def)

text \<open>The members of the two value groups; a group comes in any order.\<close>

definition platform_checks :: "pool_answer \<Rightarrow> int \<Rightarrow> db_runtime \<Rightarrow> sched_runtime \<Rightarrow> check list" where
  "platform_checks answer now db rt = [db_health answer now db, scheduler_health rt]"

definition platform_conditions ::
    "(context_deadline \<Rightarrow> error) \<Rightarrow> (context_deadline \<Rightarrow> error) \<Rightarrow> ('db, 's, 'r) migration_manager option \<Rightarrow> 'db
     \<Rightarrow> goerr + native \<Rightarrow> sched_runtime \<Rightarrow> condition list" where
  "platform_conditions mexp sexp m s made rt = [migration_condition mexp m s, scheduler_condition sexp made rt]"

text \<open>
  What the goroutines of the launched conditions do to the migration provider and to the
  native scheduler, listed condition by condition; the goroutines may interleave.
\<close>

datatype startup_effect = MigrationCall migration_call | SchedulerCall sched_event

definition condition_effects ::
    "migration_call list \<Rightarrow> sched_event list \<Rightarrow> condition \<Rightarrow> startup_effect list" where
  "condition_effects mlog slog c =
     (if cd_name c = ''migrations'' then map MigrationCall mlog
      else if cd_name c = ''scheduler'' then map SchedulerCall slog
      else [])"

definition startup_effects ::
    "migration_call list \<Rightarrow> sched_event list \<Rightarrow> coordinator \<Rightarrow> startup_effect list" where
  "startup_effects mlog slog co = concat (map (condition_effects mlog slog) (launched co))"

section \<open>Stopping\<close>

text \<open>
  The state the stop hooks work on, and what they do: calls on the pool, calls on the native
  scheduler, and the shutdown of the native HTTP server, which lets the requests in progress end.
\<close>

record platform_state =
  pl_db :: db_runtime
  pl_sched :: sched_runtime
  pl_http :: fixed_server
  pl_shared :: shared

datatype app_event = AppPool pool_call | AppScheduler sched_event | AppDrain

text \<open>
  What the hooks meet: the answers of the pool and of the native scheduler, those of the native
  server's \<^verbatim>\<open>Shutdown\<close> and \<^verbatim>\<open>Close\<close>, the error of the context if it has ended, and the
  choice of the \<^verbatim>\<open>select\<close>.
\<close>

record stop_env =
  se_pool :: pool_answer
  se_sched :: "native \<Rightarrow> context_deadline \<Rightarrow> error"
  se_shutdown :: error
  se_close :: error
  se_ctx_err :: error
  se_pick_ctx :: bool
  se_now :: int
  se_ctx :: context_deadline

fun stop_hook :: "stop_env \<Rightarrow> fx_hook \<Rightarrow> platform_state \<Rightarrow> app_event list \<times> (platform_state \<times> error) option" where
  "stop_hook env DatabaseHook st =
     (let (db, calls, err) = db_stop (se_pool env) (pl_db st)
      in (map AppPool calls, Some (st\<lparr>pl_db := db\<rparr>, err)))"
| "stop_hook env SchedulerHook st =
     (let (rt, calls, err) = sched_stop (se_sched env) (se_now env) (se_ctx env) (pl_sched st)
      in (map AppScheduler calls, Some (st\<lparr>pl_sched := rt\<rparr>, err)))"
| "stop_hook env HTTPHook st =
     ([AppDrain],
      map_option (\<lambda>(s, sh, err). (st\<lparr>pl_http := s, pl_shared := sh\<rparr>, err))
        (FixedServer_Stop (se_shutdown env) (se_close env) (se_ctx_err env) (se_pick_ctx env) (pl_http st) (pl_shared st)))"
| "stop_hook env h st = ([], Some (st, None))"

text \<open>The hooks one after the other; an error does not keep the later ones from running, waiting does.\<close>

fun stop_hooks :: "stop_env \<Rightarrow> fx_hook list \<Rightarrow> platform_state \<Rightarrow> app_event list \<times> (platform_state \<times> error list) option" where
  "stop_hooks env [] st = ([], Some (st, []))"
| "stop_hooks env (h # hs) st =
     (case stop_hook env h st of
        (log, None) \<Rightarrow> (log, None)
      | (log, Some (st', e)) \<Rightarrow>
          (case stop_hooks env hs st' of
             (log', None) \<Rightarrow> (log @ log', None)
           | (log', Some (st'', es)) \<Rightarrow> (log @ log', Some (st'', e # es))))"

section \<open>Lemmas\<close>

lemma stop_database:
  "\<not> db_closed (pl_db st) \<Longrightarrow> \<exists>st' e. stop_hook env DatabaseHook st = ([AppPool PoolClose], Some (st', e))
     \<and> db_closed (pl_db st') \<and> pl_http st' = pl_http st \<and> pl_shared st' = pl_shared st"
  by (simp add: db_stop_def db_close_def)

lemma stop_scheduler:
  "\<exists>log st' e. stop_hook env SchedulerHook st = (map AppScheduler log, Some (st', e))
     \<and> pl_db st' = pl_db st \<and> pl_http st' = pl_http st \<and> pl_shared st' = pl_shared st"
proof -
  obtain rt calls err where "sched_stop (se_sched env) (se_now env) (se_ctx env) (pl_sched st) = (rt, calls, err)"
    by (metis prod_cases3)
  then show ?thesis by (intro exI [of _ calls]) simp
qed

lemma two_elements:
  assumes "set xs = {a, b}" and "distinct xs" and "a \<noteq> b"
  shows "xs = [a, b] \<or> xs = [b, a]"
proof -
  have "length xs = card {a, b}" using assms(1,2) by (metis distinct_card)
  then have "length xs = Suc (Suc 0)" using assms(3) by simp
  then obtain c d where xs: "xs = [c, d]" by (metis length_0_conv length_Suc_conv)
  then have "{c, d} = {a, b}" using assms(1) by simp
  with xs show ?thesis by (auto simp: doubleton_eq_iff)
qed

text \<open>Both hooks that come before the HTTP server's, in either order.\<close>

lemma stop_before_http:
  assumes "set hs = {DatabaseHook, SchedulerHook}" and "distinct hs" and "\<not> db_closed (pl_db st)"
  shows "\<exists>log st' errs. stop_hooks env hs st = (log, Some (st', errs)) \<and> AppPool PoolClose \<in> set log
    \<and> AppDrain \<notin> set log \<and> db_closed (pl_db st') \<and> pl_http st' = pl_http st \<and> pl_shared st' = pl_shared st"
proof -
  have "hs = [DatabaseHook, SchedulerHook] \<or> hs = [SchedulerHook, DatabaseHook]"
    using two_elements [OF assms(1,2)] by simp
  then show ?thesis
  proof
    assume hs: "hs = [DatabaseHook, SchedulerHook]"
    obtain st1 e where "stop_hook env DatabaseHook st = ([AppPool PoolClose], Some (st1, e))"
        "db_closed (pl_db st1)" "pl_http st1 = pl_http st" "pl_shared st1 = pl_shared st"
      using stop_database [OF assms(3)] by blast
    moreover obtain log st2 e' where "stop_hook env SchedulerHook st1 = (map AppScheduler log, Some (st2, e'))"
        "pl_db st2 = pl_db st1" "pl_http st2 = pl_http st1" "pl_shared st2 = pl_shared st1"
      using stop_scheduler by blast
    ultimately show ?thesis by (auto simp: hs simp del: stop_hook.simps)
  next
    assume hs: "hs = [SchedulerHook, DatabaseHook]"
    obtain log st1 e where 1: "stop_hook env SchedulerHook st = (map AppScheduler log, Some (st1, e))"
        "pl_db st1 = pl_db st" "pl_http st1 = pl_http st" "pl_shared st1 = pl_shared st"
      using stop_scheduler by blast
    then have "\<not> db_closed (pl_db st1)" using assms(3) by simp
    from stop_database [OF this] obtain st2 e' where "stop_hook env DatabaseHook st1 = ([AppPool PoolClose], Some (st2, e'))"
        "db_closed (pl_db st2)" "pl_http st2 = pl_http st1" "pl_shared st2 = pl_shared st1"
      by blast
    with 1 show ?thesis by (auto simp: hs simp del: stop_hook.simps)
  qed
qed

lemma stop_hooks_append:
  "stop_hooks env hs st = (log, Some (st', errs)) \<Longrightarrow>
     fst (stop_hooks env (hs @ ks) st) = log @ fst (stop_hooks env ks st')"
  by (induction hs arbitrary: st log st' errs) (fastforce split: prod.splits option.splits simp del: stop_hook.simps)+

text \<open>What the platform contributes, and what becomes of it.\<close>

lemma platform_scheduler_new:
  "scheduler_newRuntime platform_scheduler jobs = Inr rt \<longleftrightarrow>
     rt = \<lparr>sr_config = platform_scheduler, sr_jobs = jobs, sr_health_name = ''scheduler'', sr_health_time = 2 * second,
           sr_monitor = new_monitor, sr_native = None, sr_started = False, sr_stopping = False, sr_stop_once = False\<rparr>"
  by (auto simp: scheduler_newRuntime_def platform_scheduler_def second_def)

lemma platform_initialized:
  assumes "scheduler_newRuntime platform_scheduler [heartbeatJob new_job i] = Inr rt0"
    and "sched_initialize (Inr n) rt0 = (rt1, log, None)"
  shows "sr_started rt1 \<and> \<not> sr_stopping rt1 \<and> sr_health_name rt1 = ''scheduler'' \<and> sr_health_time rt1 = 2 * second
    \<and> sr_monitor rt1 = \<lparr>mo_required = [''platform-heartbeat'' \<mapsto> True], mo_failure = None, mo_intentional = False\<rparr>"
  using assms(2) unfolding assms(1) [unfolded platform_scheduler_new]
  by (auto simp: sched_initialize_def constructAndRegister_def heartbeatJob_def ref_start_def ref_get_def ref_set_def
      on_monitor_def monitor_defs new_monitor_def Let_def split: option.splits)

lemma platform_database:
  assumes "db_newRuntime opened pool (sqlite_Module rewrite (platform_sqlite cfg)) = (setup, Inr db)"
  shows "db_name db = ''database'' \<and> db_health_timeout db = 2 * second \<and> \<not> db_closed db"
  using assms
  by (auto simp: db_newRuntime_def sqlite_Module_def platform_sqlite_def split: option.splits)

lemma sched_check_passes:
  "effective_status (sched_check rt) \<in> {StatusPass, StatusWarn} \<longleftrightarrow>
     failureError (sr_monitor rt) = None \<and> sr_started rt \<and> \<not> sr_stopping rt"
  by (simp add: sched_check_def effective_status_def status_defs split: option.splits)

lemma db_check_passes:
  "effective_status (snd (db_check answer now ctx db)) \<in> {StatusPass, StatusWarn} \<longleftrightarrow>
     pa_ping answer (bounded now ctx (db_health_timeout db)) = None"
  by (simp add: db_check_def effective_status_def status_defs Let_def split: option.splits)

section \<open>Properties\<close>

text \<open>
  C9: The stop of the platform, in every run of its graph: the pool is closed and all its hooks but the
  HTTP server's have returned when the shutdown of the native server begins to wait for the
  requests in progress.  As \<^verbatim>\<open>database/sql\<close> fails every operation on a closed pool, each of those
  requests that creates a note from then on answers 500.
\<close>

theorem platform_closes_database_before_drain:
  assumes "fx_run (platform_graph cfg) es" and "\<not> db_closed (pl_db st)"
    and "\<And>d n s. db_closed d \<Longrightarrow> \<exists>e. snd (snd (rp_create (repo d) n s)) = Some e"
  shows "\<exists>hs log st' errs. stop_order (platform_graph cfg) es = hs @ [HTTPHook]
      \<and> stop_hooks env hs st = (log, Some (st', errs)) \<and> AppPool PoolClose \<in> set log
      \<and> fst (stop_hooks env (stop_order (platform_graph cfg) es) st) = log @ [AppDrain]
      \<and> pl_http st' = pl_http st
      \<and> (\<forall>title content s. \<exists>e s'. create_note (repo (pl_db st')) title content s
            = (s', HumaError 500 ''create note failed'' e))"
proof -
  obtain hs where order: "stop_order (platform_graph cfg) es = rev hs @ [HTTPHook]"
    and hs: "set (rev hs) = {DatabaseHook, SchedulerHook}" "distinct (rev hs)"
    using platform_start_order [OF assms(1)] by (auto simp: stop_order_def)
  from stop_before_http [OF hs assms(2)] obtain log st' errs where
    pre: "stop_hooks env (rev hs) st = (log, Some (st', errs))" "AppPool PoolClose \<in> set log"
    and st': "db_closed (pl_db st')" "pl_http st' = pl_http st" by blast
  have "fst (stop_hooks env [HTTPHook] st') = [AppDrain]" by (simp split: option.splits)
  then have "fst (stop_hooks env (rev hs @ [HTTPHook]) st) = log @ [AppDrain]"
    using stop_hooks_append [OF pre(1), of "[HTTPHook]"] by simp
  moreover have "\<exists>e s'. create_note (repo (pl_db st')) title content s = (s', HumaError 500 ''create note failed'' e)"
    for title content s
    using assms(3) [OF st'(1), of "empty_note\<lparr>nt_title := title, nt_content := content\<rparr>" s]
    by (auto simp: create_note_def NoteService_Create_def split: prod.splits)
  ultimately show ?thesis
    using order pre st'(2) by metis
qed

lemma startup_effects_perm:
  assumes "mset (launched co) = mset (platform_conditions mexp sexp m s made rt)"
  shows "mset (startup_effects mlog slog co) = mset (map MigrationCall mlog) + mset (map SchedulerCall slog)"
proof -
  have "mset (startup_effects mlog slog co) = \<Sum>\<^sub># (image_mset (mset \<circ> condition_effects mlog slog) (mset (launched co)))"
    by (simp add: startup_effects_def mset_concat flip: sum_mset_sum_list)
  then show ?thesis
    by (simp add: assms platform_conditions_def condition_effects_def migration_condition_def scheduler_condition_def)
qed

text \<open>
  C11: The startup of the platform: the coordinator accepts the conditions its modules contribute,
  in whatever order the group comes; it lets the application be admitted exactly if the
  migrations and the scheduler both report success before the startup context ends, and the
  error of whichever did not is found in the result.  The conditions do not wait for one
  another: every call of both happens exactly once, so the scheduler is started also when the
  migrations fail or do not end in time; a second initialisation does nothing.
\<close>

theorem platform_startup_exactly:
  assumes "mset cs = mset (platform_conditions mexp sexp m s (Inr n) rt)"
    and "migration_run m s = (s', mlog, merr)" and "sched_initialize (Inr n) rt = (rt', slog, serr)"
  shows "\<exists>co. newCoordinator cs = Inr co \<and>
      mset (startup_effects mlog slog co) = mset (map MigrationCall mlog) + mset (map SchedulerCall slog)
      \<and> (serr = None \<longrightarrow> SchedulerCall (SStart n) \<in> set (startup_effects mlog slog co) \<and> sr_started rt')
      \<and> (\<forall>arrivals. arrivals_of now ctx co arrivals \<longrightarrow>
         (snd (Initialize arrivals co) = None \<longleftrightarrow>
            mexp ctx = None \<and> merr = None \<and> sexp ctx = None \<and> serr = None)
         \<and> (\<forall>e t. (mexp ctx = Some e \<or> mexp ctx = None \<and> merr = Some e
                   \<or> sexp ctx = Some e \<or> sexp ctx = None \<and> serr = Some e) \<longrightarrow>
               errors_is e t \<longrightarrow> error_is (snd (Initialize arrivals co)) t)
         \<and> startup_effects mlog slog (fst (Initialize arrivals co)) = [])"
proof -
  let ?cs = "platform_conditions mexp sexp m s (Inr n) rt"
  let ?co = "\<lparr>co_conditions = sort_key cd_name cs, co_initialized = False, co_result = None\<rparr>"
  let ?out = "\<lambda>expired err. case expired ctx of Some e \<Rightarrow> Some e | None \<Rightarrow> err"
  note conds = platform_conditions_def migration_condition_def scheduler_condition_def
  have set: "set cs = set ?cs" using assms(1) by (rule mset_eq_setD)
  have "mset (map cd_name cs) = mset (map cd_name ?cs)" using assms(1) by simp
  then have "distinct (map cd_name cs)"
    by (rule mset_eq_imp_distinct_iff [THEN iffD2]) (simp add: conds)
  then have co: "newCoordinator cs = Inr ?co"
    using set by (auto simp: newCoordinator_Inr condition_error_None conds)
  have "mset (launched ?co) = mset ?cs" using assms(1) by (simp add: launched_def)
  note effects = startup_effects_perm [OF this, of mlog slog]
  have started: "SchedulerCall (SStart n) \<in> set (startup_effects mlog slog ?co) \<and> sr_started rt'" if "serr = None"
    using scheduler_started [OF assms(3)] that mset_eq_setD [OF effects [folded mset_append]] by auto
  have outs: "set arrivals = {(''migrations'', ?out mexp merr), (''scheduler'', ?out sexp serr)}"
    if "arrivals_of now ctx ?co arrivals" for arrivals
  proof -
    have "set arrivals = condition_outcome now ctx ` set cs"
      using mset_eq_setD [OF that [unfolded arrivals_of_def]] by simp
    moreover have "condition_outcome now ctx (migration_condition mexp m s) = (''migrations'', ?out mexp merr)"
      and "condition_outcome now ctx (scheduler_condition sexp (Inr n) rt) = (''scheduler'', ?out sexp serr)"
      using assms(2,3)
      by (simp_all add: migration_condition_def scheduler_condition_def condition_outcome_def condition_context_def
          run_race_def split: option.split)
    ultimately show ?thesis using set by (simp add: platform_conditions_def)
  qed
  have result: "snd (Initialize arrivals ?co) = collect None arrivals"
    and again: "launched (fst (Initialize arrivals ?co)) = []" for arrivals
    by (simp_all add: Initialize_def launched_def Let_def)
  have admits: "snd (Initialize arrivals ?co) = None \<longleftrightarrow>
      mexp ctx = None \<and> merr = None \<and> sexp ctx = None \<and> serr = None"
    if "arrivals_of now ctx ?co arrivals" for arrivals
    unfolding result collect_None outs [OF that] by (auto split: option.splits)
  have "error_is (snd (Initialize arrivals ?co)) t"
    if arr: "arrivals_of now ctx ?co arrivals"
      and "mexp ctx = Some e \<or> mexp ctx = None \<and> merr = Some e \<or> sexp ctx = Some e \<or> sexp ctx = None \<and> serr = Some e"
      and t: "errors_is e t" for arrivals e t
  proof -
    from that(2) have "?out mexp merr = Some e \<or> ?out sexp serr = Some e" by auto
    then obtain out where "out \<in> set arrivals" and "snd out = Some e"
      using outs [OF arr] by fastforce
    then show ?thesis unfolding result using t by (rule collect_has_failure)
  qed
  with co effects started admits show ?thesis
    by (intro exI [of _ ?co]) (simp add: startup_effects_def again)
qed

text \<open>
  C10: Readiness of the platform, once its scheduler initialised: the registry accepts the two
  checks in whatever order the group comes, and \<^verbatim>\<open>/health/ready\<close> answers 200 exactly while the
  application is admitted, the pool answers a ping within the health timeout, and since the start
  neither the heartbeat job was reported as failed nor the scheduler stopped unannounced.
\<close>

theorem platform_ready_exactly:
  assumes "mset cs = mset (platform_checks answer now db rt)"
    and "db_newRuntime opened pool (sqlite_Module rewrite (platform_sqlite cfg)) = (setup, Inr db)"
    and "scheduler_newRuntime platform_scheduler [heartbeatJob new_job (pf_interval cfg)] = Inr rt0"
    and "sched_initialize (Inr n) rt0 = (rt1, log, None)"
    and "rt = on_monitor (fold monitor_step events) rt1"
  shows "(''/health/ready'', Readiness, False) \<in> set MountHealth
    \<and> (\<exists>reg. health_New cs adm = Inr reg \<and>
        (\<forall>arrivals. check_arrivals now ctx reg Readiness arrivals \<longrightarrow>
           fst (health_Handler etext reg Readiness False arrivals) =
             (if Admission_IsOpen adm
                 \<and> pa_ping answer (bounded now (with_timeout now ctx (2 * second)) (2 * second)) = None
                 \<and> first_failure (\<lambda>name. name = ''platform-heartbeat'') False events = None
              then 200 else 503)))"
proof -
  let ?reg = "\<lparr>rg_checks = sort_key check_order cs, rg_admission = adm\<rparr>"
  have set: "set cs = set (platform_checks answer now db rt)" using assms(1) by (rule mset_eq_setD)
  note db = platform_database [OF assms(2)] and init = platform_initialized [OF assms(3,4)]
  have rt: "sr_health_name rt = ''scheduler''" "sr_health_time rt = 2 * second" "sr_started rt" "\<not> sr_stopping rt"
    using init by (simp_all add: assms(5) on_monitor_def)
  have "failureError (sr_monitor rt) = first_failure (\<lambda>name. name = ''platform-heartbeat'') False events"
    using init monitor_first_failure [of "sr_monitor rt1" events]
    by (simp add: assms(5) on_monitor_def failureError_def)
  with rt have sched: "effective_status (sched_check rt) \<in> {StatusPass, StatusWarn} \<longleftrightarrow>
      first_failure (\<lambda>name. name = ''platform-heartbeat'') False events = None"
    unfolding sched_check_passes by simp
  have "mset (map check_order cs) = mset (map check_order (platform_checks answer now db rt))" using assms(1) by simp
  then have "distinct (map check_order cs)"
    by (rule mset_eq_imp_distinct_iff [THEN iffD2])
       (use db rt in \<open>simp add: platform_checks_def db_health_def scheduler_health_def check_order_def\<close>)
  then have "registry_build cs = Inr (sort_key check_order cs)"
    using set db rt
    by (auto simp: registry_build_eq scan_empty_None check_keys_distinct check_error_None platform_checks_def db_health_def
        scheduler_health_def kind_defs second_def)
  then have reg: "health_New cs adm = Inr ?reg" by (simp add: health_New_build)
  have "fst (health_Handler etext ?reg Readiness False arrivals) =
      (if Admission_IsOpen adm \<and> (\<forall>c \<in> set cs. effective_status (check_outcome now ctx c) \<in> {StatusPass, StatusWarn})
       then 200 else 503)" if "check_arrivals now ctx ?reg Readiness arrivals" for arrivals
    using health_status [OF that] set
    by (auto simp: platform_checks_def db_health_def scheduler_health_def)
  moreover have "(\<forall>c \<in> set cs. effective_status (check_outcome now ctx c) \<in> {StatusPass, StatusWarn}) \<longleftrightarrow>
      pa_ping answer (bounded now (with_timeout now ctx (2 * second)) (2 * second)) = None
      \<and> first_failure (\<lambda>name. name = ''platform-heartbeat'') False events = None"
    using sched db_check_passes [of answer now "with_timeout now ctx (2 * second)" db] db rt
    by (simp add: set platform_checks_def db_health_def scheduler_health_def check_outcome_def check_timeout_def second_def)
  ultimately show ?thesis using reg by (auto simp: MountHealth_def)
qed

section \<open>The properties at a concrete platform\<close>

definition ex_state :: platform_state where
  "ex_state = \<lparr>pl_db = \<lparr>db_name = ''database'', db_ping_timeout = 0, db_health_timeout = 0, db_closed = False, db_close_err = None\<rparr>,
     pl_sched = ex_heartbeat_runtime, pl_http = ex_fixed, pl_shared = ex_shared\<rparr>"

definition ex_stop_env :: stop_env where
  "ex_stop_env = \<lparr>se_pool = \<lparr>pa_ping = (\<lambda>_. None), pa_close = None\<rparr>, se_sched = (\<lambda>_ _. None), se_shutdown = None,
     se_close = None, se_ctx_err = None, se_pick_ctx = False, se_now = 0, se_ctx = Some 30\<rparr>"

text \<open>A repository of titles that a closed pool refuses.\<close>

definition ex_repository :: "db_runtime \<Rightarrow> string list repository" where
  "ex_repository db = \<lparr>rp_create = (\<lambda>n s. if db_closed db then (s, n, Some (err_new ''sql: database is closed''))
       else (nt_title n # s, n, None)),
     rp_list = (\<lambda>s. ([], None))\<rparr>"

theorem platform_closes_database_before_drain_witness:
  "\<exists>hs log st' errs. stop_order (platform_graph ex_platform) (ex_platform_run False) = hs @ [HTTPHook]
     \<and> stop_hooks ex_stop_env hs ex_state = (log, Some (st', errs)) \<and> AppPool PoolClose \<in> set log
     \<and> (\<exists>e s'. create_note (ex_repository (pl_db st')) ''t'' ''c'' [] = (s', HumaError 500 ''create note failed'' e))"
proof -
  have "platform_graph ex_platform = platform_shape False"
    by (simp add: platform_graph_shape ex_platform_def MigrationPolicy_def)
  then have run: "fx_run (platform_graph ex_platform) (ex_platform_run False)" using ex_platform_runs(2) by simp
  have "\<not> db_closed (pl_db ex_state)" by (simp add: ex_state_def)
  moreover have "\<exists>e. snd (snd (rp_create (ex_repository d) n s)) = Some e" if "db_closed d" for d n s
    using that by (simp add: ex_repository_def)
  ultimately show ?thesis
    using platform_closes_database_before_drain [OF run, of ex_state ex_repository ex_stop_env] by blast
qed

definition ex_platform_sched :: sched_runtime where
  "ex_platform_sched = \<lparr>sr_config = platform_scheduler, sr_jobs = [heartbeatJob (\<lambda>_ _. None) 3600], sr_health_name = ''scheduler'',
     sr_health_time = 2 * second, sr_monitor = new_monitor, sr_native = None, sr_started = False, sr_stopping = False,
     sr_stop_once = False\<rparr>"

definition ex_platform_started :: sched_runtime where
  "ex_platform_started = ex_platform_sched\<lparr>sr_native := Some 1, sr_started := True,
     sr_monitor := setRequired ''platform-heartbeat'' True new_monitor\<rparr>"

lemma ex_platform_initializes:
  "sched_initialize (Inr 1) ex_platform_sched =
     (ex_platform_started, [SConstruct 1, SRegister ''platform-heartbeat'', SStart 1], None)"
  by (simp add: sched_initialize_def constructAndRegister_def heartbeatJob_def ref_start_def ref_get_def ref_set_def
      on_monitor_def monitor_defs new_monitor_def ex_platform_sched_def ex_platform_started_def)

definition ex_late :: goerr where
  "ex_late = err_new ''context deadline exceeded''"

text \<open>The migrations do not end before the startup context does; the scheduler is started.\<close>

theorem platform_startup_exactly_witness:
  "\<exists>co. newCoordinator (rev (platform_conditions (\<lambda>_. Some ex_late) (\<lambda>_. None)
        (Some \<lparr>mm_policy = MigrateBeforeStart, mm_db = Some (1::nat), mm_provider = Some ex_goose\<rparr>) 0
        (Inr 1) ex_platform_sched)) = Inr co
     \<and> SchedulerCall (SStart 1) \<in> set (startup_effects [CallUp]
          [SConstruct 1, SRegister ''platform-heartbeat'', SStart 1] co)
     \<and> error_is (snd (Initialize [(''scheduler'', None), (''migrations'', Some ex_late)] co)) ex_late"
proof -
  let ?m = "Some \<lparr>mm_policy = MigrateBeforeStart, mm_db = Some (1::nat), mm_provider = Some ex_goose\<rparr>"
  let ?cs = "platform_conditions (\<lambda>_. Some ex_late) (\<lambda>_. None) ?m 0 (Inr 1) ex_platform_sched"
  let ?arr = "[(''scheduler'', None), (''migrations'', Some ex_late)]"
  have perm: "mset (rev ?cs) = mset ?cs" by simp
  obtain s' mlog merr where run: "migration_run ?m 0 = (s', mlog, merr)" by (metis prod_cases3)
  then have mlog: "mlog = [CallUp]"
    by (auto simp: migration_run_def Manager_Policy_def Migrate_def is_disabled_def Manager_Provider_def Let_def
        split: prod.splits sum.splits)
  from platform_startup_exactly [OF perm run ex_platform_initializes, where now = 0 and ctx = None]
  obtain co where co: "newCoordinator (rev ?cs) = Inr co"
    and start: "SchedulerCall (SStart 1) \<in> set (startup_effects mlog
          [SConstruct 1, SRegister ''platform-heartbeat'', SStart 1] co)"
    and found: "arrivals_of 0 None co ?arr \<Longrightarrow> error_is (snd (Initialize ?arr co)) ex_late"
    using errors_is_refl by blast
  have "co_conditions co = ?cs"
    using co by (simp add: newCoordinator_Inr platform_conditions_def migration_condition_def scheduler_condition_def)
  then have "arrivals_of 0 None co ?arr"
    by (simp add: arrivals_of_def platform_conditions_def migration_condition_def scheduler_condition_def
        condition_outcome_def run_race_def ex_platform_initializes [simplified])
  with co start found mlog show ?thesis by blast
qed

definition ex_pool :: pool_answer where
  "ex_pool = \<lparr>pa_ping = (\<lambda>_. None), pa_close = None\<rparr>"

definition ex_platform_db :: db_runtime where
  "ex_platform_db = \<lparr>db_name = ''database'', db_ping_timeout = 5 * second, db_health_timeout = 2 * second,
     db_closed = False, db_close_err = None\<rparr>"

definition ex_events :: "monitor_event list" where
  "ex_events = [EvJobFailed ''app.heartbeatJob.func1.1'' err_stopped, EvJobFailed ''platform-heartbeat'' err_stopped]"

theorem platform_ready_exactly_witness:
  "\<exists>reg. health_New (platform_checks ex_pool 0 ex_platform_db (on_monitor (fold monitor_step ex_events) ex_platform_started))
        (Admission_Open NewAdmission) = Inr reg
     \<and> (\<exists>arrivals. check_arrivals 0 None reg Readiness arrivals
          \<and> fst (health_Handler (\<lambda>_. '''') reg Readiness False arrivals) = 503)"
proof -
  let ?rt = "on_monitor (fold monitor_step ex_events) ex_platform_started"
  let ?cs = "platform_checks ex_pool 0 ex_platform_db ?rt"
  have db: "db_newRuntime (\<lambda>_. None) None (sqlite_Module (\<lambda>_. None) (platform_sqlite ex_platform)) = ([PoolMaxOpen 1], Inr ex_platform_db)"
    unfolding ex_platform_db_def by (rule platform_pool) simp
  have rt0: "scheduler_newRuntime platform_scheduler [heartbeatJob (\<lambda>_ _. None) (pf_interval ex_platform)] = Inr ex_platform_sched"
    by (simp add: platform_scheduler_new ex_platform_sched_def ex_platform_def)
  have failed: "first_failure (\<lambda>name. name = ''platform-heartbeat'') False ex_events \<noteq> None"
    by (simp add: ex_events_def)
  from platform_ready_exactly [where answer = ex_pool and now = 0 and events = ex_events and adm = "Admission_Open NewAdmission"
      and ctx = None and etext = "\<lambda>_. ''''", OF refl db rt0 ex_platform_initializes refl] failed
  obtain reg where reg: "health_New ?cs (Admission_Open NewAdmission) = Inr reg"
    and status: "\<And>arrivals. check_arrivals 0 None reg Readiness arrivals \<Longrightarrow>
      fst (health_Handler (\<lambda>_. '''') reg Readiness False arrivals) = 503" by auto
  have "check_arrivals 0 None reg Readiness (enumerate 0 (map (check_outcome 0 None) (selected_checks reg Readiness)))"
    by (simp add: check_arrivals_def)
  with reg status show ?thesis by blast
qed

end
