(* ===== verification/Entry_Points.thy ===== *)
theory Entry_Points
  imports Starters Secured_App Reconfigurable_App Worker Ownership
begin

text \<open>
  The entry points: the options that select the two integrations (\<^verbatim>\<open>src/security/linux/security.go\<close>,
  \<^verbatim>\<open>src/ownership/ownership.go\<close>), the configuration of the worker starter, and what the
  \<^verbatim>\<open>main\<close> functions of \<^verbatim>\<open>src/starters\<close> hand to \<^verbatim>\<open>hanami.Main\<close> and \<^verbatim>\<open>hanami.Run\<close>;
  and what the runner and the security integration guarantee together.
\<close>

section \<open>The integrations as options\<close>

text \<open>
  \<open>cerr\<close> is \<^verbatim>\<open>ctx.Err()\<close>.  Where enforcement replaces the process image, the preparation never
  returns; \<open>err_replaced\<close> only fills its place in the result type, and \<open>Run_in_process\<close> below
  makes such a run one that does not return, without any later effect of this process.
\<close>

definition err_replaced :: goerr where
  "err_replaced = err_new ''process image replaced''"

definition security_integration ::
    "platform_env \<Rightarrow> (context_deadline \<Rightarrow> error) \<Rightarrow> ('c \<Rightarrow> goerr + policy) \<Rightarrow> ('c, sec_status) integration" where
  "security_integration env cerr build =
     \<lparr>in_name = ''security/linux'',
      in_prepare = (\<lambda>ctx config.
        case snd (Security_Prepare env (cerr ctx) build config) of
          None \<Rightarrow> Inl err_replaced
        | Some (Inl e) \<Rightarrow> Inl e
        | Some (Inr st) \<Rightarrow> Inr \<lparr>pp_cleanup = None, pp_values = [st]\<rparr>)\<rparr>"

definition WithPolicy ::
    "platform_env \<Rightarrow> (context_deadline \<Rightarrow> error) \<Rightarrow> ('c \<Rightarrow> goerr + policy) \<Rightarrow> ('c, sec_status) run_option" where
  "WithPolicy env cerr build = WithIntegration (Some (security_integration env cerr build))"

text \<open>
  Whether the preparation a run ends its integrations with is the one that replaces the image,
  and the run as the process sees it: \<open>None\<close>, never returning, in that case too.
\<close>

definition image_replaced ::
    "platform_env \<Rightarrow> (context_deadline \<Rightarrow> error) \<Rightarrow> ('c \<Rightarrow> goerr + policy) \<Rightarrow> ('v, 'm) run_env \<Rightarrow> ('c, 'm) spec
     \<Rightarrow> ('c, 'v) run_settings \<Rightarrow> bool" where
  "image_replaced penv cerr build env spec st =
     (let ctx = startup_context env (st_timeouts st) in
      case the (sp_load spec) ctx of
        Inl e \<Rightarrow> False
      | Inr config \<Rightarrow>
          (case dropWhile (prepared_ok ctx config) (st_integrations st) of
             [] \<Rightarrow> False
           | i # is \<Rightarrow> in_name i = ''security/linux'' \<and> snd (Security_Prepare penv (cerr ctx) build config) = None))"

definition Run_in_process ::
    "platform_env \<Rightarrow> (context_deadline \<Rightarrow> error) \<Rightarrow> ('c \<Rightarrow> goerr + policy) \<Rightarrow> ('v, 'm) run_env \<Rightarrow> ('c, 'm) spec
     \<Rightarrow> ('c, 'v) run_option list \<Rightarrow> run_outcome option" where
  "Run_in_process penv cerr build env spec opts =
     (case resolveSettings spec opts of
        Inl e \<Rightarrow> Run env spec opts
      | Inr st \<Rightarrow> if image_replaced penv cerr build env spec st then None else Run env spec opts)"

definition WithRequirement :: "lock_env \<Rightarrow> ('c \<Rightarrow> goerr + requirement) option \<Rightarrow> ('c, 'v) run_option" where
  "WithRequirement env build = WithIntegration (Some (ownership_integration env build))"

section \<open>The worker's configuration\<close>

definition worker_types :: types where
  "worker_types n =
     (if n = ''applicationConfig'' then [tagged ''Work'' ''work'' (GStruct ''Work'')]
      else if n = ''Work'' then [tagged ''Delay'' ''delay'' GOther]
      else [])"

definition worker_defaults :: "(string \<times> string) list" where
  "worker_defaults = [(''work.delay'', ''250ms'')]"

definition worker_loadConfig :: "error \<Rightarrow> int loader \<Rightarrow> string \<Rightarrow> load_event list \<times> int \<times> error" where
  "worker_loadConfig ctx_err lo file =
     Load ctx_err (the (structKeys 2 worker_types (GStruct ''applicationConfig'') '''')) lo
       \<lparr>so_file = file, so_env_prefix = ''HANAMI_WORKER'', so_defaults = worker_defaults, so_overrides = [],
        so_allow_unused = False\<rparr>"

section \<open>What the starters run\<close>

text \<open>The result of a loader as Go returns it: the error, or else the configuration.\<close>

definition returned :: "load_event list \<times> 'c \<times> error \<Rightarrow> goerr + 'c" where
  "returned r = (case r of (_, config, err) \<Rightarrow> (case err of Some e \<Rightarrow> Inl e | None \<Rightarrow> Inr config))"

definition budgets :: "int \<Rightarrow> int \<Rightarrow> ('c, 'v) run_option" where
  "budgets startup shutdown = WithTimeouts \<lparr>to_startup = startup * second, to_shutdown = shutdown * second\<rparr>"

definition api_spec :: "(context_deadline \<Rightarrow> error) \<Rightarrow> api_config loader \<Rightarrow> string \<Rightarrow> (api_config, app_module list) spec" where
  "api_spec cerr lo file = \<lparr>sp_name = ''hanami-api-starter'',
     sp_load = Some (\<lambda>ctx. returned (api_loadConfig (cerr ctx) lo file)),
     sp_modules = Some (\<lambda>c. Returns (api_Modules c))\<rparr>"

definition api_main where
  "api_main env cerr lo file = Main env (api_spec cerr lo file) [budgets 15 30]"

definition platform_spec :: "(context_deadline \<Rightarrow> error) \<Rightarrow> platform_config loader \<Rightarrow> (platform_config, app_module list) spec" where
  "platform_spec cerr lo = \<lparr>sp_name = ''hanami-platform'',
     sp_load = Some (\<lambda>ctx. returned (platform_LoadConfig (cerr ctx) lo)),
     sp_modules = Some (\<lambda>c. Returns (platform_Modules c))\<rparr>"

definition platform_serve where
  "platform_serve env cerr lo = ServeCommand_Run env (platform_spec cerr lo) [budgets 15 30]"

definition worker_spec :: "(context_deadline \<Rightarrow> error) \<Rightarrow> int loader \<Rightarrow> string \<Rightarrow> (int, fx_option list) spec" where
  "worker_spec cerr lo file = \<lparr>sp_name = ''hanami-worker-starter'',
     sp_load = Some (\<lambda>ctx. returned (worker_loadConfig (cerr ctx) lo file)),
     sp_modules = Some (\<lambda>_. Returns worker_applicationModules)\<rparr>"

definition worker_main where
  "worker_main env cerr lo file = Main env (worker_spec cerr lo file) [budgets 10 10]"

definition reconf_spec :: "string \<Rightarrow> (string, fx_option list) spec" where
  "reconf_spec env_address = \<lparr>sp_name = starter_identity, sp_load = Some (\<lambda>_. reconf_loadConfig env_address),
     sp_modules = Some (\<lambda>_. Returns reconf_applicationModules)\<rparr>"

definition reconf_main where
  "reconf_main env env_address = Main env (reconf_spec env_address) [budgets 15 10]"

definition secured_spec :: "string \<Rightarrow> string \<Rightarrow> (string \<Rightarrow> goerr + bool) \<Rightarrow> (secured_config, fx_option list) spec" where
  "secured_spec env_dir temp stat = \<lparr>sp_name = ''hanami-secured-starter'',
     sp_load = Some (\<lambda>_. secured_loadConfig env_dir temp stat),
     sp_modules = Some (\<lambda>_. Returns secured_applicationModules)\<rparr>"

definition secured_main where
  "secured_main env penv cerr exe env_dir temp stat =
     map_option (\<lambda>ro. exitCode (ro_result ro) (ro_err ro))
       (Run_in_process penv cerr (buildPolicy exe) env (secured_spec env_dir temp stat)
          [WithPolicy penv cerr (buildPolicy exe), budgets 15 10])"

section \<open>Lemmas\<close>

lemma worker_keys: "structKeys 2 worker_types (GStruct ''applicationConfig'') '''' = Some (map fst worker_defaults)"
  by (simp add: key_simps worker_types_def worker_defaults_def numeral_2_eq_2)

lemma worker_Validate_None: "worker_Validate delay = None \<longleftrightarrow> 0 < delay"
  by (simp add: worker_Validate_def)

lemma worker_delay_positive:
  assumes "worker_loadConfig ctx_err lo file = (log, delay, None)" and "lo_validate_pointer lo = Some worker_Validate"
  shows "0 < delay"
  using assms load_succeeds_exactly [where ctx_err = ctx_err and lo = lo
      and keys = "the (structKeys 2 worker_types (GStruct ''applicationConfig'') '''')"
      and src = "\<lparr>so_file = file, so_env_prefix = ''HANAMI_WORKER'', so_defaults = worker_defaults,
        so_overrides = [], so_allow_unused = False\<rparr>"]
  by (auto simp: worker_loadConfig_def worker_Validate_None split: prod.splits)

text \<open>The options of every starter are accepted, so that its run begins by loading the configuration.\<close>

lemma starter_settings:
  "resolveSettings (api_spec cerr alo file) [budgets 15 30] = Inr \<lparr>st_integrations = [],
     st_timeouts = \<lparr>to_startup = 15 * second, to_shutdown = 30 * second\<rparr>, st_logger = ServiceLogger ''hanami-api-starter''\<rparr>"
  "resolveSettings (platform_spec cerr plo) [budgets 15 30] = Inr \<lparr>st_integrations = [],
     st_timeouts = \<lparr>to_startup = 15 * second, to_shutdown = 30 * second\<rparr>, st_logger = ServiceLogger ''hanami-platform''\<rparr>"
  "resolveSettings (worker_spec cerr wlo file) [budgets 10 10] = Inr \<lparr>st_integrations = [],
     st_timeouts = \<lparr>to_startup = 10 * second, to_shutdown = 10 * second\<rparr>, st_logger = ServiceLogger ''hanami-worker-starter''\<rparr>"
  "resolveSettings (reconf_spec address) [budgets 15 10] = Inr \<lparr>st_integrations = [],
     st_timeouts = \<lparr>to_startup = 15 * second, to_shutdown = 10 * second\<rparr>, st_logger = ServiceLogger starter_identity\<rparr>"
  "resolveSettings (secured_spec dir temp stat) [WithPolicy penv cerr build, budgets 15 10] =
     Inr \<lparr>st_integrations = [security_integration penv cerr build],
     st_timeouts = \<lparr>to_startup = 15 * second, to_shutdown = 10 * second\<rparr>, st_logger = ServiceLogger ''hanami-secured-starter''\<rparr>"
  by (simp_all add: resolveSettings_def api_spec_def platform_spec_def worker_spec_def reconf_spec_def secured_spec_def
      budgets_def WithPolicy_def apply_option_def default_settings_def second_def starter_identity_def name_error_def
      security_integration_def)

lemma security_prepared:
  assumes "prepared_ok ctx config (security_integration env cerr build)"
  obtains log st p where "Security_Prepare env (cerr ctx) build config = (log, Some (Inr st))"
    and "build config = Inr p" and "applyPlatform env p = (log, Some (st, None))" and "Policy_Validate (pe_order env) p = None"
proof -
  obtain log st where prep: "Security_Prepare env (cerr ctx) build config = (log, Some (Inr st))"
    using assms
    by (cases "Security_Prepare env (cerr ctx) build config")
       (auto simp: prepared_ok_def security_integration_def split: option.splits sum.splits)
  then obtain p where p: "build config = Inr p" "applyPlatform env p = (log, Some (st, None))"
    by (auto simp: Security_Prepare_def split: option.splits sum.splits prod.splits)
  moreover from this(2) have "Policy_Validate (pe_order env) p = None"
    by (auto simp: applyPlatform_def split: option.splits)
  ultimately show thesis using that prep by blast
qed

text \<open>A run that returns in the process is the runner's, and its preparations all came back.\<close>

lemma Run_in_process_returns:
  assumes "Run_in_process penv cerr build env spec opts = Some ro"
  shows "Run env spec opts = Some ro"
    and "resolveSettings spec opts = Inr st \<Longrightarrow> \<not> image_replaced penv cerr build env spec st"
  using assms by (auto simp: Run_in_process_def split: sum.splits if_splits)

section \<open>Properties\<close>

text \<open>
  C26: An application that selects the security integration with a policy it requires: where the runner
  calls the module factory (and so before anything is composed, started or admitted), the
  process runs under that policy, with a verified handoff for the Landlock it wants and the
  seccomp filter it wants seen installed by the kernel.
\<close>

theorem required_security_precedes_modules:
  assumes "Run env spec opts = Some ro" and "EvModules \<in> set (ro_log ro)"
    and "resolveSettings spec opts = Inr st" and "security_integration penv cerr build \<in> set (st_integrations st)"
    and "\<And>config p. build config = Inr p \<Longrightarrow> po_mode p = ModeRequired"
  shows "\<exists>config p status log. the (sp_load spec) (startup_context env (st_timeouts st)) = Inr config
    \<and> build config = Inr p \<and> applyPlatform penv p = (log, Some (status, None)) \<and> su_enforced status
    \<and> (pe_arch penv = ''amd64'' \<or> pe_arch penv = ''arm64'')
    \<and> (wantsLandlock p \<longrightarrow> landlock_proved penv p) \<and> (wantsSeccomp p \<longrightarrow> seccomp_installed penv p)"
proof -
  let ?ctx = "startup_context env (st_timeouts st)"
  obtain config where load: "the (sp_load spec) ?ctx = Inr config"
    and ok: "prepared_ok ?ctx config (security_integration penv cerr build)"
    using Run_modules [OF assms(1,2)] assms(3,4) by (metis sum.inject(2))
  from ok obtain log status p where p: "build config = Inr p" "applyPlatform penv p = (log, Some (status, None))"
      "Policy_Validate (pe_order penv) p = None"
    by (rule security_prepared)
  have required: "po_mode p = ModeRequired" "po_mode p \<noteq> ModeOff"
    using assms(5) [OF p(1)] by (simp_all add: mode_defs)
  note decides = required_mode_decides [OF p(3,2) required(2), of "[]"]
  then have "su_enforced status" using required(1) by (metis (no_types))
  with decides p load show ?thesis by blast
qed

text \<open>
  The worker's configuration has one key, which its default names; a configuration that was loaded
  without an error has a positive delay, so the worker constructed from it is an initial state of
  the worker's machine, and what that machine keeps holds of it.
\<close>

theorem loaded_worker_starts:
  assumes "worker_loadConfig ctx_err lo file = (log, delay, None)" and "lo_validate_pointer lo = Some worker_Validate"
    and "controller_ok ctl"
  shows "structKeys 2 worker_types (GStruct ''applicationConfig'') '''' = Some (map fst worker_defaults)
    \<and> 0 < delay \<and> work_reach (newWorker delay adm ctl now)"
  using worker_keys worker_delay_positive [OF assms(1,2)] work_reach.fresh [OF _ assms(3)] worker_Validate_None by blast

section \<open>The properties at concrete applications\<close>

definition ex_worker_loader :: "int loader" where
  "ex_worker_loader = \<lparr>lo_zero = 0, lo_read = (\<lambda>_. None), lo_bind = (\<lambda>_. None), lo_unmarshal = (5, None),
     lo_unmarshal_exact = (5, None), lo_validate_pointer = Some worker_Validate, lo_validate_value = None\<rparr>"

lemma ex_worker_loads: "\<exists>log. worker_loadConfig None ex_worker_loader '''' = (log, 5, None)"
proof -
  have binds: "bind_keys (\<lambda>_. None) ks = (map LBindEnv ks, None)" for ks
    by (induction ks) simp_all
  show ?thesis
    by (simp add: worker_loadConfig_def Load_def ex_worker_loader_def load_decode_def load_validate_def binds
        worker_Validate_def Let_def)
qed

theorem loaded_worker_starts_witness: "work_reach (newWorker 5 NewAdmission NewController 0)"
proof -
  obtain log where load: "worker_loadConfig None ex_worker_loader '''' = (log, 5, None)" using ex_worker_loads by blast
  have "lo_validate_pointer ex_worker_loader = Some worker_Validate" by (simp add: ex_worker_loader_def)
  from loaded_worker_starts [OF load this, of NewController NewAdmission 0] show ?thesis by simp
qed

text \<open>The image after its re-execution, whose composition fails: the run returns after the module factory.\<close>

definition ex_required_spec :: "(nat, nat) spec" where
  "ex_required_spec = \<lparr>sp_name = ''service'', sp_load = Some (\<lambda>_. Inr 1), sp_modules = Some (\<lambda>c. Returns c)\<rparr>"

definition ex_required_options :: "(nat, sec_status) run_option list" where
  "ex_required_options = [WithPolicy ex_image (\<lambda>_. None) (\<lambda>_. Inr ex_policy)]"

definition ex_required_env :: "(sec_status, nat) run_env" where
  "ex_required_env = \<lparr>ev_ctx = None, ev_now_start = 0, ev_now_stop = 0, ev_now_cleanup = 0,
     ev_compose = (\<lambda>_ _. Some (err_new ''missing type'')), ev_start = (\<lambda>_. None), ev_stop = (\<lambda>_. None),
     ev_coordinator = \<lparr>co_conditions = [], co_initialized = False, co_result = None\<rparr>, ev_arrivals = [],
     ev_requests = [], ev_cancelled = False\<rparr>"

theorem required_security_precedes_modules_witness:
  "\<exists>ro. Run ex_required_env ex_required_spec ex_required_options = Some ro \<and> EvModules \<in> set (ro_log ro)
     \<and> landlock_proved ex_image ex_policy"
proof -
  let ?i = "security_integration ex_image (\<lambda>_. None) (\<lambda>_ :: nat. Inr ex_policy)"
  let ?st = "\<lparr>st_integrations = [?i], st_timeouts = \<lparr>to_startup = 15 * 1000000000, to_shutdown = 30 * 1000000000\<rparr>,
      st_logger = ServiceLogger ''service''\<rparr>"
  have st: "resolveSettings ex_required_spec ex_required_options = Inr ?st"
    by (simp add: resolveSettings_def ex_required_spec_def ex_required_options_def WithPolicy_def apply_option_def
        default_settings_def name_error_def security_integration_def)
  obtain log status where "applyPlatform ex_image ex_policy = (log, Some (status, None))" using ex_image_applies by blast
  then have prep: "in_prepare ?i ctx c = Inr \<lparr>pp_cleanup = None, pp_values = [status]\<rparr>" for ctx c
    by (simp add: security_integration_def Security_Prepare_def)
  have load: "the (sp_load ex_required_spec) ctx = Inr 1" "the (sp_modules ex_required_spec) c = Returns c" for ctx c
    by (simp_all add: ex_required_spec_def)
  obtain ro where run: "Run ex_required_env ex_required_spec ex_required_options = Some ro" "EvModules \<in> set (ro_log ro)"
    by (simp add: Run_def st load prep Let_def runCleanups_def runCleanupsWithContext_def buildModules_def
        ex_required_env_def startup_error_def split: prod.splits)
  have "po_mode p = ModeRequired" if "(\<lambda>_. Inr ex_policy) c = Inr p" for p and c :: nat
    using that by (auto simp: ex_policy_def)
  from required_security_precedes_modules [OF run st _ this] have "wantsLandlock ex_policy \<longrightarrow> landlock_proved ex_image ex_policy"
    by auto
  with run ex_wants(1) show ?thesis by blast
qed

end
