(* ===== verification/Spec2Isabelle.thy ===== *)
theory Spec2Isabelle
  imports Health Manager_Witness Enforcement_Witness Scheduler_Props Migration Config Ownership
    Database Observability Web Cli Worker Logging Applications Secured_App Reconfigurable_App
    Wiring Starters Platform_App Entry_Points
begin

text \<open>
  \<^bold>\<open>Hanami, a Go framework for services, and its verification.\<close>

  An application is started by \<^verbatim>\<open>hanami.Run\<close> (\<^verbatim>\<open>src/hanami.go\<close>) with a specification and
  options.  A run loads the configuration, prepares the selected integrations (ownership
  lock, process security) in order, builds the modules, composes and starts the Fx
  application, runs the startup conditions (migrations, scheduler) concurrently, opens the
  admission flag, waits for a cancellation or a stop request, closes admission, stops the
  application and runs the integrations' cleanups, newest first.  The modules communicate
  through two process-wide cells, the admission flag and the stop controller, which Fx
  hands to the HTTP servers, the health registry and the application.

  \<^bold>\<open>Theories.\<close>  Each component has a theory with its records, operations and basic lemmas;
  where these grew long, a second one, with the suffix \<open>_Props\<close>, \<open>_Machine\<close> or \<open>_Witness\<close>, holds
  the properties, the state machine or the concrete instances.

  \<^item> \<open>Prelude\<close>: Go's errors with \<^verbatim>\<open>errors.Is\<close> and \<^verbatim>\<open>errors.Join\<close>, the validation loop with
    a seen-set (\<open>scan\<close>), byte strings, sorting by a key, deadlines of contexts, and the
    interfaces \<open>write_once\<close> (a cell that keeps the first value put into it) and
    \<open>sorted_registry\<close> (a constructor that validates and sorts an unordered group).
    \<open>Paths\<close>: \<^verbatim>\<open>path/filepath\<close>.
  \<^item> \<open>Process\<close>: \<^verbatim>\<open>bootstrap/admission.go\<close> and \<^verbatim>\<open>process/process.go\<close>; the stop controller is
    an interpretation of \<open>write_once\<close>.
  \<^item> \<open>Conditions\<close>: \<^verbatim>\<open>bootstrap/condition.go\<close>; the coordinator interprets \<open>sorted_registry\<close>.
    The outcomes arrive in any order, which is a parameter.
  \<^item> \<open>Health\<close>: \<^verbatim>\<open>health/health.go\<close>; the registry interprets \<open>sorted_registry\<close>, the report is
    shown not to depend on the order in which concurrent checks finish.
  \<^item> \<open>Runner\<close>, \<open>Runner_Props\<close>: \<^verbatim>\<open>hanami.go\<close>, every path of \<^verbatim>\<open>Run\<close> as a function of its
    environment that returns the log of its effects; \<open>None\<close> is a run that never returns.  What a
    startup should do is stated apart from it, as a plan of phases with the error each gives
    (\<open>startup_plan\<close>), and what can go wrong in a run as \<open>run_cause\<close>.
  \<^item> \<open>Server_Config\<close>, \<open>Fixed_Server\<close>: configuration of HTTP servers and the server with one
    listener, \<^verbatim>\<open>http/server.go\<close> and parts of \<^verbatim>\<open>http/manager.go\<close>.
  \<^item> \<open>Manager\<close>, \<open>Manager_Machine\<close>, \<open>Manager_Props\<close>, \<open>Manager_Witness\<close>: the generations of
    \<^verbatim>\<open>http/manager.go\<close>.  \<open>Manager\<close> has \<^verbatim>\<open>Replace\<close> in the phases in which it holds its lock,
    probe, promotion, drain, certificate rotation and shutdown, with the calls on listeners and
    runtimes in its log; \<open>Manager_Machine\<close> the step relation in which they interleave with the
    serving goroutines, and its invariant.
  \<^item> \<open>Policy\<close>, \<open>Policy_Props\<close>, \<open>Handoff\<close>, \<open>Seccomp\<close>, \<open>Platform\<close>, \<open>Enforcement\<close>,
    \<open>Enforcement_Props\<close>, \<open>Enforcement_Witness\<close>: \<^verbatim>\<open>security/linux\<close>.  Policies are validated
    for every iteration order of a Go map, grants are a \<open>linorder\<close> instance in the order of
    the normal form; the handoff has its base64 form; the seccomp program is run by any
    machine that satisfies the interface \<open>bpf_machine\<close>, of which an interpreter of the four
    instructions is an instance; the ruleset, the re-execution and the decision of the
    mode are functions of the kernel's answers (\<open>platform_env\<close>) with logged effects.
  \<^item> \<open>Scheduler\<close>, \<open>Scheduler_Props\<close>: \<^verbatim>\<open>scheduler/scheduler.go\<close>; the kept failure interprets
    \<open>write_once\<close>; initialisation and stop are also split into their shared accesses, which
    interleave in \<open>sched_reach\<close>.
  \<^item> \<open>Migration\<close> (\<^verbatim>\<open>migration/migration.go\<close>), \<open>Config\<close> (\<^verbatim>\<open>config/config.go\<close>), \<open>Ownership\<close>
    (\<^verbatim>\<open>ownership/ownership.go\<close>, composed with the runner), \<open>Database\<close> (\<^verbatim>\<open>database\<close>; closing
    the pool interprets \<open>write_once\<close>), \<open>Observability\<close> (\<^verbatim>\<open>observability/observability.go\<close>),
    \<open>Dialects\<close> (\<^verbatim>\<open>database/sqlite\<close>, \<^verbatim>\<open>mysql\<close>, \<^verbatim>\<open>postgres\<close>), \<open>Web\<close> (\<^verbatim>\<open>gin/gin.go\<close>,
    \<^verbatim>\<open>api/api.go\<close>), \<open>Cli\<close> (\<^verbatim>\<open>cli/cli.go\<close>), \<open>Logging\<close> (\<^verbatim>\<open>log/log.go\<close>, with what the
    handlers of \<^verbatim>\<open>slog\<close> write of a record's attributes).
  \<^item> The applications of \<^verbatim>\<open>starters\<close>, composed with the components they use: \<open>Worker\<close>, a
    goroutine whose steps interleave with admission, the clock, stop requests and its hooks in
    \<open>work_step\<close>; \<open>Applications\<close>, the API and the platform starter with their configuration keys,
    defaults, validation, modules, heartbeat job and migration commands; \<open>Secured_App\<close>, the
    policy of the secured starter under validation and enforcement; \<open>Reconfigurable_App\<close>, the
    replacement goroutine on the generation manager.
  \<^item> The composition.  \<open>Wiring\<close>: the options every \<^verbatim>\<open>Module\<close> function hands to Fx, as constructors
    with what they need and give, value groups and lifecycle hooks, and the contract of a run of Fx
    (\<open>fx_run\<close>: a sequence of constructor calls and invocations).  \<open>Starters\<close>: the graphs of the five
    starters, a run of each, and the order in which every run starts and stops its hooks.
    \<open>Platform_App\<close>: the platform as a whole, its startup conditions under the coordinator, its
    readiness under the registry, and its stop hooks on the database, the scheduler and the HTTP
    server.  \<open>Entry_Points\<close>: the integrations as options of the runner, the \<^verbatim>\<open>main\<close> functions, and
    the runner with the security integration, where a run that replaces the process image does not
    return (\<open>Run_in_process\<close>).

  \<^bold>\<open>Correspondence.\<close>  A struct is a record with the fields the code reads or writes, a
  defined integer type is a word of its width, a string a list of bytes, a pointer that may
  be nil an option, a Go error a value of \<open>goerr\<close> whose format and arguments are kept while
  its text is not, and a function that may fail returns a sum, with the error on the left,
  or a pair with an \<open>error\<close>.  Shared state is a record passed along.  A mutex is the
  atomicity of the operation that holds it; where an operation gives it up, or where
  atomics are read and written without it, the operation is split into steps and the
  interleavings are reachable states.  Time is the readings of a clock that are
  parameters, a context is its deadline; what a \<^verbatim>\<open>select\<close> or an unordered map decides is
  a parameter too.  Sentinel errors are compared by their value, so two sentinels with the
  same text would be confused; the repository has none within one package.

  \<^bold>\<open>Parameters.\<close>  Of Fx the development assumes that invocations run once and in order, that
  a constructor runs at most once, on demand of the next invocation and after what it needs, that
  start hooks run in the order they were appended and stop hooks in the reverse one; a run that
  meets this is exhibited for every starter.  Fx, net/http, TLS and X.509, Viper, GORM, database/sql, Goose, gocron,
  OpenTelemetry, Gin, Huma, Kong, flock, JSON, SHA-256 and the kernel are arguments of the
  definitions that call them.  What a property needs of them is among its assumptions.

  \<^bold>\<open>Fuel.\<close>  Only \<open>structKeys\<close> has fuel, the depth of nested structures; more than the rank of
  the type is enough (\<open>Config.config_keys_exact\<close>), and no fuel is for a recursive type.  All
  other recursion is on data or has a measure.

  \<^bold>\<open>What the properties show.\<close>  The runner goes through exactly the phases up to the first that
  fails, runs each cleanup once and loses no root cause; the managed server has at most one
  admitting generation, changes nothing when it rejects, drains what it replaces and shuts down
  every runtime it owns; a required security mode fails
  closed and the process image is replaced only under restriction; the scheduler is
  started and shut down at most once; and several theorems establish behaviour that the
  code does not seem to intend: a replaced handler that serves only after the next
  replacement, a serve failure lost before the promotion, a stop that misses a scheduler being
  started, a restricted thread given back after a failed re-execution, a
  configuration type on which loading does not end, a log attribute called "time" that
  panics, a secured starter that older Landlock kernels leave unrestricted, a platform that closes
  its database before the requests in progress are drained, and a scheduler started although the
  migrations failed or did not end in time.  The worker asks the process to stop only after it has seen admission and done
  its work.  The starters compose for every configuration, and a required security policy is in
  force before any module is built.

  \<^bold>\<open>Not modelled.\<close>  What Fx does beyond its contract (decorators, timeouts of single hooks, an
  optional value whose own dependencies are missing); the text of log messages and what the drivers and the telemetry and web
  libraries do with what they are given; the bodies of routes that answer a constant;
  hijacked connections beyond the list a generation closes.
\<close>

end
